(* ===== verification/Prelude.thy ===== *)
theory Prelude
  imports Main "HOL-Library.Word" "HOL-Library.Sublist"
begin

text \<open>
  The shared vocabulary of the development: the types every component uses (UUIDs, instants,
  durations, the widths of Go's integers), the monad in which effectful Go code is written
  (a state is passed explicitly and a call returns a value or an error), and the calculus of
  weakest preconditions and preserved invariants with which the components are reasoned about.
\<close>

named_theorems wp_rules \<open>weakest-precondition equations of the operations of the model\<close>
named_theorems pres_intros \<open>introduction rules for preserved invariants\<close>
named_theorems go_run \<open>equations that run a monadic program on a given state\<close>

section \<open>Types shared by every component\<close>

text \<open>
  \<open>uuid.UUID\<close> is sixteen bytes. An instant of Go's \<open>time.Time\<close> is a number of nanoseconds since
  the Unix epoch, and \<open>time.Duration\<close> a number of nanoseconds.
\<close>

type_synonym uuid = "128 word"
type_synonym gotime = int
type_synonym duration = int

abbreviation (input) nil_uuid :: uuid where
  "nil_uuid \<equiv> 0"

definition Second :: duration where "Second = 1000000000"
definition Minute :: duration where "Minute = 60 * Second"
definition Hour :: duration where "Hour = 60 * Minute"

text \<open>\<open>t.Unix()\<close>: whole seconds, rounded towards minus infinity.\<close>

definition Unix :: "gotime \<Rightarrow> int" where
  "Unix t = t div Second"

text \<open>The zero \<open>time.Time{}\<close> is the first of January of the year 1.\<close>

definition zero_time :: gotime where
  "zero_time = - 62135596800 * Second"

lemma Unix_mono: "s \<le> t \<Longrightarrow> Unix s \<le> Unix t"
  by (simp add: Unix_def Second_def zdiv_mono1)

lemma Unix_minus_second: "Unix (t - Second) = Unix t - 1"
proof -
  have "(t - Second) div Second = (t + (- 1) * Second) div Second" by simp
  also have "\<dots> = - 1 + t div Second"
    using div_mult_self1 [of Second t "- 1"] by (simp add: Second_def)
  finally show ?thesis by (simp add: Unix_def)
qed

text \<open>
  Conversions to Go's fixed-width signed integers keep the low bits: \<open>int32(x)\<close> is the value of
  \<open>x\<close> reduced into \<open>[-2^31, 2^31)\<close>. Go's \<open>int\<close> is 64 bits wide on the supported platforms.
\<close>

definition int16 :: "int \<Rightarrow> int" where "int16 x = signed_take_bit 15 x"
definition int32 :: "int \<Rightarrow> int" where "int32 x = signed_take_bit 31 x"
definition int64 :: "int \<Rightarrow> int" where "int64 x = signed_take_bit 63 x"

lemma int32_id: "- (2 ^ 31) \<le> x \<Longrightarrow> x < 2 ^ 31 \<Longrightarrow> int32 x = x"
  by (simp add: int32_def signed_take_bit_int_eq_self)

lemma int64_id: "- (2 ^ 63) \<le> x \<Longrightarrow> x < 2 ^ 63 \<Longrightarrow> int64 x = x"
  by (simp add: int64_def signed_take_bit_int_eq_self)

lemma int16_id: "- (2 ^ 15) \<le> x \<Longrightarrow> x < 2 ^ 15 \<Longrightarrow> int16 x = x"
  by (simp add: int16_def signed_take_bit_int_eq_self)

lemma int32_range: "- (2 ^ 31) \<le> int32 x" "int32 x < 2 ^ 31"
  using signed_take_bit_int_greater_eq_minus_exp [of 31 x] signed_take_bit_int_less_exp [of 31 x]
  by (simp_all add: int32_def)

lemma int64_range: "- (2 ^ 63) \<le> int64 x" "int64 x < 2 ^ 63"
  using signed_take_bit_int_greater_eq_minus_exp [of 63 x] signed_take_bit_int_less_exp [of 63 x]
  by (simp_all add: int64_def)

section \<open>Effectful Go code\<close>

text \<open>
  A Go function that has effects and returns \<open>(T, error)\<close> is a function from the state to a
  value or an error and the state afterwards. The state survives an error, as it does in Go.
  \<open>attempt m h k\<close> is \<open>x, err := m(); if err != nil { h(err) }; k(x)\<close>: the error branch is the
  code's own, so an error that is wrapped, replaced or ignored is modelled as such.
\<close>

type_synonym ('s, 'e, 'a) go = "'s \<Rightarrow> ('e + 'a) \<times> 's"

definition ret :: "'a \<Rightarrow> ('s, 'e, 'a) go" where
  "ret a s = (Inr a, s)"

definition fail :: "'e \<Rightarrow> ('s, 'e, 'a) go" where
  "fail e s = (Inl e, s)"

definition attempt ::
    "('s, 'e, 'a) go \<Rightarrow> ('e \<Rightarrow> ('s, 'f, 'b) go) \<Rightarrow> ('a \<Rightarrow> ('s, 'f, 'b) go) \<Rightarrow> ('s, 'f, 'b) go" where
  "attempt m h k s = (case m s of (Inl e, s') \<Rightarrow> h e s' | (Inr a, s') \<Rightarrow> k a s')"

definition gets :: "('s \<Rightarrow> 'a) \<Rightarrow> ('s, 'e, 'a) go" where
  "gets f s = (Inr (f s), s)"

definition modify :: "('s \<Rightarrow> 's) \<Rightarrow> ('s, 'e, unit) go" where
  "modify f s = (Inr (), f s)"

text \<open>Run a computation for its effect only: \<open>_ = f()\<close>.\<close>

definition ignore :: "('s, 'e, 'a) go \<Rightarrow> ('s, 'f, 'b) go \<Rightarrow> ('s, 'f, 'b) go" where
  "ignore m k = attempt m (\<lambda>_. k) (\<lambda>_. k)"

lemmas go_defs = ret_def fail_def attempt_def gets_def modify_def ignore_def

lemma ret_run [go_run]: "ret a s = (Inr a, s)"
  by (simp add: ret_def)

lemma fail_run [go_run]: "fail e s = (Inl e, s)"
  by (simp add: fail_def)

lemma gets_run [go_run]: "gets f s = (Inr (f s), s)"
  by (simp add: gets_def)

lemma modify_run [go_run]: "modify f s = (Inr (), f s)"
  by (simp add: modify_def)

lemma attempt_run_err: "m s = (Inl e, s') \<Longrightarrow> attempt m h k s = h e s'"
  by (simp add: attempt_def)

lemma attempt_run_ok: "m s = (Inr a, s') \<Longrightarrow> attempt m h k s = k a s'"
  by (simp add: attempt_def)

text \<open>How a call that returned a value got there.\<close>

lemma attempt_InrE:
  assumes "attempt m h k s = (Inr b, s')"
  obtains (err) e s1 where "m s = (Inl e, s1)" and "h e s1 = (Inr b, s')"
  | (ok) a s1 where "m s = (Inr a, s1)" and "k a s1 = (Inr b, s')"
  using assms by (auto simp: attempt_def split: prod.splits sum.splits)

lemma attempt_fail_InrE:
  assumes "attempt m (\<lambda>e. fail (f e)) k s = (Inr b, s')"
  obtains a s1 where "m s = (Inr a, s1)" and "k a s1 = (Inr b, s')"
  using assms by (auto simp: attempt_def fail_def split: prod.splits sum.splits)

lemma ignore_run: "ignore m k s = k (snd (m s))"
  by (auto simp: ignore_def attempt_def split: prod.splits sum.splits)

section \<open>Weakest preconditions\<close>

text \<open>\<open>wp m Q R s\<close>: run from \<open>s\<close>, the program returns a value with \<open>Q\<close> or an error with \<open>R\<close>.\<close>

definition wp ::
    "('s, 'e, 'a) go \<Rightarrow> ('a \<Rightarrow> 's \<Rightarrow> bool) \<Rightarrow> ('e \<Rightarrow> 's \<Rightarrow> bool) \<Rightarrow> 's \<Rightarrow> bool" where
  "wp m Q R s = (case m s of (Inl e, s') \<Rightarrow> R e s' | (Inr a, s') \<Rightarrow> Q a s')"

lemma wp_ret [wp_rules]: "wp (ret a) Q R s = Q a s"
  by (simp add: wp_def ret_def)

lemma wp_fail [wp_rules]: "wp (fail e) Q R s = R e s"
  by (simp add: wp_def fail_def)

lemma wp_gets [wp_rules]: "wp (gets f) Q R s = Q (f s) s"
  by (simp add: wp_def gets_def)

lemma wp_modify [wp_rules]: "wp (modify f) Q R s = Q () (f s)"
  by (simp add: wp_def modify_def)

lemma wp_attempt [wp_rules]:
  "wp (attempt m h k) Q R s = wp m (\<lambda>a. wp (k a) Q R) (\<lambda>e. wp (h e) Q R) s"
  by (auto simp: wp_def attempt_def split: prod.splits sum.splits)

lemma wp_ignore [wp_rules]:
  "wp (ignore m k) Q R s = wp m (\<lambda>_. wp k Q R) (\<lambda>_. wp k Q R) s"
  by (simp add: ignore_def wp_attempt)

lemma wp_if [wp_rules]:
  "wp (if b then m else n) Q R s = (if b then wp m Q R s else wp n Q R s)"
  by simp

lemma wp_Let [wp_rules]: "wp (Let x f) Q R s = wp (f x) Q R s"
  by simp

lemma wp_case_option [wp_rules]:
  "wp (case x of None \<Rightarrow> m | Some a \<Rightarrow> f a) Q R s =
     (case x of None \<Rightarrow> wp m Q R s | Some a \<Rightarrow> wp (f a) Q R s)"
  by (simp split: option.split)

lemma wp_mono:
  assumes "wp m Q R s"
    and "\<And>a t. Q a t \<Longrightarrow> Q' a t" and "\<And>e t. R e t \<Longrightarrow> R' e t"
  shows "wp m Q' R' s"
  using assms by (auto simp: wp_def split: prod.splits sum.splits)

lemma wpI_ok: "m s = (Inr a, s') \<Longrightarrow> Q a s' \<Longrightarrow> wp m Q R s"
  by (simp add: wp_def)

lemma wpD_ok: "wp m Q R s \<Longrightarrow> m s = (Inr a, s') \<Longrightarrow> Q a s'"
  by (simp add: wp_def)

lemma wpD_err: "wp m Q R s \<Longrightarrow> m s = (Inl e, s') \<Longrightarrow> R e s'"
  by (simp add: wp_def)

section \<open>Preserved invariants\<close>

text \<open>\<open>pres I m\<close>: whatever \<open>m\<close> returns, it keeps \<open>I\<close>.\<close>

definition pres :: "('s \<Rightarrow> bool) \<Rightarrow> ('s, 'e, 'a) go \<Rightarrow> bool" where
  "pres I m \<longleftrightarrow> (\<forall>s. I s \<longrightarrow> I (snd (m s)))"

lemma presI: "(\<And>s. I s \<Longrightarrow> I (snd (m s))) \<Longrightarrow> pres I m"
  by (simp add: pres_def)

lemma presD: "pres I m \<Longrightarrow> I s \<Longrightarrow> I (snd (m s))"
  by (simp add: pres_def)

lemma pres_run: "pres I m \<Longrightarrow> I s \<Longrightarrow> m s = (r, s') \<Longrightarrow> I s'"
  by (metis presD snd_conv)

lemma pres_ret [pres_intros]: "pres I (ret a)"
  by (simp add: pres_def ret_def)

lemma pres_fail [pres_intros]: "pres I (fail e)"
  by (simp add: pres_def fail_def)

lemma pres_gets [pres_intros]: "pres I (gets f)"
  by (simp add: pres_def gets_def)

lemma pres_attempt [pres_intros]:
  assumes "pres I m" and "\<And>e. pres I (h e)" and "\<And>a. pres I (k a)"
  shows "pres I (attempt m h k)"
  using assms by (force simp: pres_def attempt_def split: prod.splits sum.splits)

lemma pres_ignore [pres_intros]: "pres I m \<Longrightarrow> pres I k \<Longrightarrow> pres I (ignore m k)"
  by (simp add: ignore_def pres_attempt)

lemma pres_if [pres_intros]: "(b \<Longrightarrow> pres I m) \<Longrightarrow> (\<not> b \<Longrightarrow> pres I n) \<Longrightarrow> pres I (if b then m else n)"
  by simp

lemma pres_Let [pres_intros]: "(\<And>x. x = a \<Longrightarrow> pres I (f x)) \<Longrightarrow> pres I (Let a f)"
  by simp

lemma pres_option [pres_intros]:
  "pres I m \<Longrightarrow> (\<And>a. x = Some a \<Longrightarrow> pres I (f a)) \<Longrightarrow>
   pres I (case x of None \<Rightarrow> m | Some a \<Rightarrow> f a)"
  by (cases x) simp_all

lemma pres_sum [pres_intros]:
  "(\<And>a. x = Inl a \<Longrightarrow> pres I (f a)) \<Longrightarrow> (\<And>b. x = Inr b \<Longrightarrow> pres I (g b)) \<Longrightarrow>
   pres I (case x of Inl a \<Rightarrow> f a | Inr b \<Rightarrow> g b)"
  by (cases x) simp_all

lemma pres_prod [pres_intros]:
  "(\<And>a b. x = (a, b) \<Longrightarrow> pres I (f a b)) \<Longrightarrow> pres I (case x of (a, b) \<Rightarrow> f a b)"
  by (cases x) simp

section \<open>Lists and options\<close>

lemma find_map_same:
  assumes "\<And>x. P (f x) = P x"
  shows "find P (map f xs) = map_option f (find P xs)"
  by (induction xs) (simp_all add: assms)

lemma find_append: "find P (xs @ ys) = (case find P xs of None \<Rightarrow> find P ys | Some x \<Rightarrow> Some x)"
  by (induction xs) auto

lemma find_None_filter: "find P xs = None \<longleftrightarrow> filter P xs = []"
  by (induction xs) auto

lemma find_SomeD: "find P xs = Some x \<Longrightarrow> x \<in> set xs \<and> P x"
  by (auto simp: find_Some_iff)

lemma find_distinct_key:
  assumes "distinct (map key xs)" and "x \<in> set xs"
  shows "find (\<lambda>y. key y = key x) xs = Some x"
  using assms
proof (induction xs)
  case Nil
  then show ?case by simp
next
  case (Cons y ys)
  show ?case
  proof (cases "y = x")
    case True
    then show ?thesis by simp
  next
    case False
    with Cons.prems have "x \<in> set ys" and "key y \<noteq> key x" by (auto simp: image_iff)
    with Cons show ?thesis by simp
  qed
qed

end
