(* ===== verification/Float64.thy ===== *)
theory Float64
  imports Complex_Main "HOL-Library.Log_Nat" Prelude
begin

text \<open>
  Go's \<open>float64\<close> as far as the program uses it: conversions from integers, quotients and products
  of values whose magnitude stays between \<open>2^-1000\<close> and \<open>2^1000\<close>, so that neither overflow nor
  subnormal numbers occur. Such a value is a rational number with a 53-bit significand, and \<open>fl\<close>
  rounds a rational number to the nearest one, ties to the even significand.
\<close>

definition round_half_even :: "rat \<Rightarrow> int" where
  "round_half_even x =
     (let f = \<lfloor>x\<rfloor>; r = x - of_int f in
        if r < 1 / 2 then f else if 1 / 2 < r then f + 1 else if even f then f else f + 1)"

definition exp2 :: "int \<Rightarrow> rat" where
  "exp2 e = (if 0 \<le> e then 2 ^ nat e else 1 / 2 ^ nat (- e))"

text \<open>The exponent that leaves a significand of 53 bits in front of the binary point.\<close>

definition fl_exp :: "rat \<Rightarrow> int" where
  "fl_exp x =
     (case quotient_of x of (n, d) \<Rightarrow>
        let e = bitlen n - bitlen d - 53 in if x / exp2 e < 2 ^ 53 then e else e + 1)"

definition fl :: "rat \<Rightarrow> rat" where
  "fl x =
     (if x = 0 then 0
      else let y = \<bar>x\<bar>; e = fl_exp y in sgn x * (of_int (round_half_even (y / exp2 e)) * exp2 e))"

definition float_of_int :: "int \<Rightarrow> rat" where
  "float_of_int n = fl (of_int n)"

definition fdiv :: "rat \<Rightarrow> rat \<Rightarrow> rat" where
  "fdiv x y = fl (x / y)"

definition fmul :: "rat \<Rightarrow> rat \<Rightarrow> rat" where
  "fmul x y = fl (x * y)"

section \<open>Rounding\<close>

lemma round_half_even_of_int [simp]: "round_half_even (of_int n) = n"
  by (simp add: round_half_even_def)

lemma round_half_even_error: "\<bar>of_int (round_half_even x) - x\<bar> \<le> 1 / 2"
proof -
  have "of_int \<lfloor>x\<rfloor> \<le> x" and "x < of_int \<lfloor>x\<rfloor> + 1" by linarith+
  then show ?thesis
    by (auto simp: round_half_even_def Let_def abs_le_iff)
qed

lemma exp2_pos: "0 < exp2 e"
  by (simp add: exp2_def)

lemma exp2_Suc: "exp2 (e + 1) = 2 * exp2 e"
proof (cases "0 \<le> e")
  case True
  then have "nat (e + 1) = Suc (nat e)" by simp
  with True show ?thesis by (simp add: exp2_def)
next
  case False
  show ?thesis
  proof (cases "e = - 1")
    case True
    then show ?thesis by (simp add: exp2_def)
  next
    case neq: False
    with \<open>\<not> 0 \<le> e\<close> have "nat (- e) = Suc (nat (- (e + 1)))" by simp
    with \<open>\<not> 0 \<le> e\<close> neq show ?thesis by (simp add: exp2_def)
  qed
qed

lemma exp2_add_nat: "exp2 (e + int k) = 2 ^ k * exp2 e"
proof (induction k)
  case 0
  then show ?case by simp
next
  case (Suc k)
  have "exp2 (e + int (Suc k)) = exp2 ((e + int k) + 1)" by (simp add: algebra_simps)
  with Suc show ?case by (simp add: exp2_Suc)
qed

lemma bitlen_pos_bounds:
  assumes "0 < n"
  shows "exp2 (bitlen n - 1) \<le> of_int n" and "of_int n < exp2 (bitlen n)"
proof -
  have b: "2 ^ nat (bitlen n - 1) \<le> n \<and> n < 2 ^ nat (bitlen n)"
    using assms by (rule bitlen_bounds)
  have pos: "0 < bitlen n"
  proof (rule ccontr)
    assume "\<not> 0 < bitlen n"
    with b have "n < 1" by simp
    with assms show False by simp
  qed
  have "(of_int (2 ^ nat (bitlen n - 1)) :: rat) \<le> of_int n"
    using b by (simp only: of_int_le_iff)
  then show "exp2 (bitlen n - 1) \<le> of_int n" using pos by (simp add: exp2_def)
  have "(of_int n :: rat) < of_int (2 ^ nat (bitlen n))"
    using b by (simp only: of_int_less_iff)
  then show "of_int n < exp2 (bitlen n)" using pos by (simp add: exp2_def)
qed

text \<open>The significand before rounding is at least \<open>2^52\<close>.\<close>

lemma fl_exp_lower:
  assumes "0 < x"
  shows "2 ^ 52 * exp2 (fl_exp x) \<le> x"
proof -
  obtain n d where q: "quotient_of x = (n, d)" by (cases "quotient_of x")
  have d: "0 < d" using quotient_of_denom_pos [OF q] .
  have x: "x = of_int n / of_int d" using quotient_of_div [OF q] .
  have n: "0 < n" using assms d x by (simp add: zero_less_divide_iff)
  define e where "e = bitlen n - bitlen d - 53"
  have num: "exp2 (bitlen n - 1) \<le> of_int n" by (rule bitlen_pos_bounds(1) [OF n])
  have den: "of_int d < exp2 (bitlen d)" by (rule bitlen_pos_bounds(2) [OF d])
  have bd: "0 \<le> bitlen d" by (simp add: bitlen_nonneg)
  have eq: "exp2 (bitlen n - 1) = 2 ^ 52 * exp2 e * exp2 (bitlen d)"
  proof -
    have "exp2 (bitlen n - 1) = exp2 ((e + int 52) + int (nat (bitlen d)))"
      using bd by (simp add: e_def)
    also have "\<dots> = 2 ^ nat (bitlen d) * (2 ^ 52 * exp2 e)" by (simp only: exp2_add_nat)
    also have "2 ^ nat (bitlen d) = exp2 (bitlen d)" using bd by (simp add: exp2_def)
    finally show ?thesis by (simp add: algebra_simps)
  qed
  have "2 ^ 52 * exp2 e * of_int d \<le> 2 ^ 52 * exp2 e * exp2 (bitlen d)"
    using den exp2_pos [of e] by (intro mult_left_mono) simp_all
  also have "\<dots> \<le> of_int n" using num eq by simp
  finally have lower: "2 ^ 52 * exp2 e \<le> x" using d x by (simp add: pos_le_divide_eq)
  show ?thesis
  proof (cases "x / exp2 e < 2 ^ 53")
    case True
    with q lower show ?thesis by (simp add: fl_exp_def e_def Let_def)
  next
    case False
    then have "2 ^ 53 * exp2 e \<le> x" using exp2_pos [of e] by (simp add: not_less pos_le_divide_eq)
    then have "2 ^ 52 * exp2 (e + 1) \<le> x" by (simp add: exp2_Suc)
    with q False show ?thesis by (simp add: fl_exp_def e_def Let_def)
  qed
qed

text \<open>Half an ulp is at most \<open>2^-53\<close> of the value.\<close>

lemma fl_error:
  assumes "0 < x"
  shows "\<bar>fl x - x\<bar> \<le> x / 2 ^ 53"
proof -
  define e where "e = fl_exp x"
  define m where "m = round_half_even (x / exp2 e)"
  have fl: "fl x = of_int m * exp2 e" using assms by (simp add: fl_def m_def e_def Let_def)
  have pos: "0 < exp2 e" by (rule exp2_pos)
  have "fl x - x = (of_int m - x / exp2 e) * exp2 e"
    using pos fl by (simp add: left_diff_distrib)
  then have "\<bar>fl x - x\<bar> = \<bar>of_int m - x / exp2 e\<bar> * exp2 e"
    using pos by (simp add: abs_mult)
  also have "\<dots> \<le> 1 / 2 * exp2 e"
    using round_half_even_error [of "x / exp2 e"] pos unfolding m_def
    by (intro mult_right_mono) simp_all
  also have "\<dots> \<le> x / 2 ^ 53"
    using fl_exp_lower [OF assms] by (simp add: e_def)
  finally show ?thesis .
qed

lemma bitlen_le:
  assumes "0 < n" and "n < 2 ^ k"
  shows "bitlen n \<le> int k"
proof (rule ccontr)
  assume "\<not> bitlen n \<le> int k"
  then have "k \<le> nat (bitlen n - 1)" by simp
  then have "(2 :: int) ^ k \<le> 2 ^ nat (bitlen n - 1)" by (rule power_increasing) simp
  also have "\<dots> \<le> n" using bitlen_bounds [OF assms(1)] by simp
  finally show False using assms(2) by simp
qed

text \<open>Integers of up to 53 bits are represented exactly.\<close>

lemma fl_of_int_exact:
  assumes "0 \<le> n" and "n < 2 ^ 53"
  shows "fl (of_int n) = of_int n"
proof (cases "n = 0")
  case True
  then show ?thesis by (simp add: fl_def)
next
  case False
  with assms have n: "0 < n" by simp
  have q: "quotient_of (of_int n) = (n, 1)" by (simp add: quotient_of_int)
  have one: "bitlen 1 = 1" by (simp add: bitlen_def floorlog_def)
  have "bitlen n \<le> 53" using bitlen_le [OF n assms(2)] by simp
  then have e: "fl_exp (of_int n) \<le> 0" by (simp add: fl_exp_def q one Let_def)
  define k where "k = nat (- fl_exp (of_int n))"
  have ex: "exp2 (fl_exp (of_int n)) = 1 / 2 ^ k" using e by (simp add: exp2_def k_def)
  have "(of_int n :: rat) / exp2 (fl_exp (of_int n)) = of_int (n * 2 ^ k)" by (simp add: ex)
  then have "round_half_even (of_int n / exp2 (fl_exp (of_int n))) = n * 2 ^ k"
    by (simp only: round_half_even_of_int)
  with n show ?thesis by (simp add: fl_def Let_def) (simp add: ex)
qed

text \<open>
  The rounded quotient of two such integers has the same ceiling as the exact one: the distance
  of an inexact quotient from the next integer exceeds the rounding error.
\<close>

lemma ceiling_fdiv:
  assumes "0 \<le> a" and "a < 2 ^ 53" and "0 < b" and "b < 2 ^ 53"
  shows "\<lceil>fdiv (float_of_int a) (float_of_int b)\<rceil> = \<lceil>(of_int a :: rat) / of_int b\<rceil>"
proof -
  define q :: rat where "q = of_int a / of_int b"
  have f: "fdiv (float_of_int a) (float_of_int b) = fl q"
    using assms by (simp add: fdiv_def float_of_int_def fl_of_int_exact q_def)
  show ?thesis
  proof (cases "b dvd a")
    case True
    then obtain k where k: "a = b * k" by (elim dvdE)
    with assms have k0: "0 \<le> k" by (simp add: zero_le_mult_iff)
    moreover have "k \<le> a" using k k0 assms mult_right_mono [of 1 b k] by simp
    moreover have "q = of_int k" using assms k by (simp add: q_def)
    ultimately show ?thesis using assms f by (simp add: fl_of_int_exact q_def [symmetric])
  next
    case False
    with assms have a: "0 < a" by (cases "a = 0") auto
    define m where "m = a div b"
    define r where "r = a mod b"
    have r: "0 < r" "r < b" using False assms
      by (auto simp: r_def dvd_eq_mod_eq_0 order.not_eq_order_implies_strict)
    have a_eq: "a = b * m + r" by (simp add: m_def r_def)
    have q: "q = of_int m + of_int r / of_int b"
      using assms unfolding q_def a_eq by (simp add: add_divide_distrib)
    have "\<bar>fl q - q\<bar> \<le> q / 2 ^ 53" using a assms by (intro fl_error) (simp add: q_def)
    also have "\<dots> < 1 / of_int b"
    proof -
      have "(of_int a :: rat) < of_int (2 ^ 53)" using assms(2) by (simp only: of_int_less_iff)
      then show ?thesis using assms by (simp add: q_def field_simps)
    qed
    finally have err: "\<bar>fl q - q\<bar> < 1 / of_int b" .
    have "1 / of_int b \<le> (of_int r :: rat) / of_int b"
      using r assms by (intro divide_right_mono) simp_all
    moreover have "(of_int r :: rat) / of_int b \<le> of_int (b - 1) / of_int b"
      using r assms by (intro divide_right_mono) simp_all
    moreover have "(of_int (b - 1) :: rat) / of_int b = 1 - 1 / of_int b"
      using assms by (simp add: diff_divide_distrib)
    ultimately have "of_int m < fl q" "fl q < of_int m + 1" "of_int m < q" "q < of_int m + 1"
      using err q r assms by (auto simp: abs_less_iff)
    then have "\<lceil>fl q\<rceil> = m + 1" and "\<lceil>q\<rceil> = m + 1"
      by (simp_all add: ceiling_eq_iff)
    with f show ?thesis by (simp add: q_def)
  qed
qed

lemma ceiling_quotient:
  assumes "0 < b"
  shows "\<lceil>(of_int a :: rat) / of_int b\<rceil> = (a + b - 1) div b"
proof -
  define m where "m = (a + b - 1) div b"
  define r where "r = (a + b - 1) mod b"
  have "a + b - 1 = b * m + r" and "0 \<le> r" and "r < b"
    using assms by (simp_all add: m_def r_def)
  then have "b * (m - 1) < a" and "a \<le> b * m"
    by (simp_all add: right_diff_distrib)
  then have "(of_int (b * (m - 1)) :: rat) < of_int a" and "(of_int a :: rat) \<le> of_int (b * m)"
    by (simp_all only: of_int_less_iff of_int_le_iff)
  with assms have "of_int m - 1 < (of_int a :: rat) / of_int b"
    and "(of_int a :: rat) / of_int b \<le> of_int m"
    by (simp_all add: field_simps)
  then have "\<lceil>(of_int a :: rat) / of_int b\<rceil> = m" by (simp add: ceiling_eq_iff)
  then show ?thesis by (simp add: m_def)
qed

end
