(* ===== verification/GoStrings.thy ===== *)
theory GoStrings
  imports Prelude "HOL-Library.Char_ord"
begin

text \<open>
  The parts of Go's standard library the program computes with: \<open>strings\<close>, \<open>path\<close>, \<open>strconv\<close>,
  \<open>encoding/hex\<close>, \<open>encoding/base64\<close> and \<open>net/url\<close>. A Go string is a sequence of bytes, so it is a
  list of 8-bit characters here, and \<open>len\<close> is its length. The only thing that is not computed is the
  Unicode case table: \<open>ToLower\<close> takes the mapping it applies to strings with bytes above 127 as
  an argument.
\<close>

abbreviation byte :: "char \<Rightarrow> nat" where
  "byte c \<equiv> of_char c"

section \<open>White space\<close>

text \<open>
  \<open>strings.TrimSpace\<close> removes the runes of \<open>unicode.IsSpace\<close>: six ASCII characters, U+0085 and
  U+00A0 (two bytes in UTF-8), and U+1680, U+2000 to U+200A, U+2028, U+2029, U+202F, U+205F and
  U+3000 (three bytes).
\<close>

definition ascii_space :: "char \<Rightarrow> bool" where
  "ascii_space c \<longleftrightarrow> byte c \<in> {9, 10, 11, 12, 13, 32}"

definition space2 :: "char \<Rightarrow> char \<Rightarrow> bool" where
  "space2 a b \<longleftrightarrow> byte a = 194 \<and> (byte b = 133 \<or> byte b = 160)"

definition space3 :: "char \<Rightarrow> char \<Rightarrow> char \<Rightarrow> bool" where
  "space3 a b c \<longleftrightarrow>
     byte a = 225 \<and> byte b = 154 \<and> byte c = 128 \<or>
     byte a = 226 \<and> byte b = 128 \<and>
       (128 \<le> byte c \<and> byte c \<le> 138 \<or> byte c = 168 \<or> byte c = 169 \<or> byte c = 175) \<or>
     byte a = 226 \<and> byte b = 129 \<and> byte c = 159 \<or>
     byte a = 227 \<and> byte b = 128 \<and> byte c = 128"

fun trim_left :: "string \<Rightarrow> string" where
  "trim_left [] = []"
| "trim_left [a] = (if ascii_space a then [] else [a])"
| "trim_left [a, b] =
     (if ascii_space a then trim_left [b] else if space2 a b then [] else [a, b])"
| "trim_left (a # b # c # s) =
     (if ascii_space a then trim_left (b # c # s)
      else if space2 a b then trim_left (c # s)
      else if space3 a b c then trim_left s
      else a # b # c # s)"

text \<open>The same on the reversed string, whose runes are read backwards.\<close>

fun trim_right_rev :: "string \<Rightarrow> string" where
  "trim_right_rev [] = []"
| "trim_right_rev [a] = (if ascii_space a then [] else [a])"
| "trim_right_rev [b, a] =
     (if ascii_space b then trim_right_rev [a] else if space2 a b then [] else [b, a])"
| "trim_right_rev (c # b # a # s) =
     (if ascii_space c then trim_right_rev (b # a # s)
      else if space2 b c then trim_right_rev (a # s)
      else if space3 a b c then trim_right_rev s
      else c # b # a # s)"

definition TrimSpace :: "string \<Rightarrow> string" where
  "TrimSpace s = rev (trim_right_rev (rev (trim_left s)))"

section \<open>Case\<close>

definition ascii_lower :: "char \<Rightarrow> char" where
  "ascii_lower c = (if 65 \<le> byte c \<and> byte c \<le> 90 then char_of (byte c + 32) else c)"

definition is_ascii :: "string \<Rightarrow> bool" where
  "is_ascii s \<longleftrightarrow> (\<forall>c \<in> set s. byte c < 128)"

definition ToLower :: "(string \<Rightarrow> string) \<Rightarrow> string \<Rightarrow> string" where
  "ToLower uni s = (if is_ascii s then map ascii_lower s else uni s)"

text \<open>
  \<open>strings.EqualFold\<close> against a pattern of ASCII letters without \<open>k\<close> and \<open>s\<close> (which have
  further folds outside ASCII).
\<close>

definition EqualFoldAscii :: "string \<Rightarrow> string \<Rightarrow> bool" where
  "EqualFoldAscii s t \<longleftrightarrow> map ascii_lower s = map ascii_lower t"

lemma ascii_lower_idem [simp]: "ascii_lower (ascii_lower c) = ascii_lower c"
  by (simp add: ascii_lower_def)

lemma byte_ascii_lower: "byte (ascii_lower c) < (128 :: nat) \<longleftrightarrow> byte c < (128 :: nat)"
  by (simp add: ascii_lower_def)

section \<open>Prefixes, suffixes and cutsets\<close>

definition HasPrefix :: "string \<Rightarrow> string \<Rightarrow> bool" where
  "HasPrefix s p = prefix p s"

definition TrimPrefix :: "string \<Rightarrow> string \<Rightarrow> string" where
  "TrimPrefix s p = (if prefix p s then drop (length p) s else s)"

definition Contains :: "string \<Rightarrow> string \<Rightarrow> bool" where
  "Contains s sub = sublist sub s"

text \<open>The cutsets of the program are single ASCII characters.\<close>

definition TrimLeft :: "string \<Rightarrow> char \<Rightarrow> string" where
  "TrimLeft s c = dropWhile (\<lambda>x. x = c) s"

definition TrimRight :: "string \<Rightarrow> char \<Rightarrow> string" where
  "TrimRight s c = rev (dropWhile (\<lambda>x. x = c) (rev s))"

definition Trim :: "string \<Rightarrow> char \<Rightarrow> string" where
  "Trim s c = TrimRight (TrimLeft s c) c"

text \<open>\<open>strings.Split\<close> on a one-byte separator; a string without it is one piece.\<close>

fun Split :: "string \<Rightarrow> char \<Rightarrow> string list" where
  "Split [] sep = [[]]"
| "Split (c # s) sep =
     (if c = sep then [] # Split s sep
      else (case Split s sep of [] \<Rightarrow> [[c]] | p # ps \<Rightarrow> (c # p) # ps))"

text \<open>\<open>strings.SplitN(s, sep, 2)[0]\<close>: what stands before the first separator.\<close>

definition SplitN2_0 :: "string \<Rightarrow> char \<Rightarrow> string" where
  "SplitN2_0 s sep = takeWhile (\<lambda>c. c \<noteq> sep) s"

fun Join :: "string list \<Rightarrow> string \<Rightarrow> string" where
  "Join [] sep = []"
| "Join [x] sep = x"
| "Join (x # y # xs) sep = x @ sep @ Join (y # xs) sep"

text \<open>\<open>strings.ReplaceAll\<close> of a one-byte pattern.\<close>

definition ReplaceAll :: "string \<Rightarrow> char \<Rightarrow> string \<Rightarrow> string" where
  "ReplaceAll s old new = concat (map (\<lambda>c. if c = old then new else [c]) s)"

lemma Split_nonempty: "Split s sep \<noteq> []"
  by (induction s) (auto split: list.splits)

lemma Split_no_sep: "p \<in> set (Split s sep) \<Longrightarrow> sep \<notin> set p"
  by (induction s arbitrary: p) (auto split: if_splits list.splits)

lemma Split_no_occurrence: "sep \<notin> set s \<Longrightarrow> Split s sep = [s]"
  by (induction s) auto

lemma Join_Split: "Join (Split s sep) [sep] = s"
proof (induction s)
  case Nil
  then show ?case by simp
next
  case (Cons c s)
  then show ?case
    using Split_nonempty [of s sep]
    by (cases "Split s sep"; cases "tl (Split s sep)") auto
qed

lemma set_Split: "p \<in> set (Split s sep) \<Longrightarrow> set p \<subseteq> set s"
proof (induction s arbitrary: p)
  case Nil
  then show ?case by simp
next
  case (Cons c s)
  obtain q qs where q: "Split s sep = q # qs"
    using Split_nonempty [of s sep] by (cases "Split s sep") auto
  from Cons.prems q have "p = [] \<or> p = c # q \<or> p \<in> set (Split s sep)"
    by (auto split: if_splits)
  moreover have "set q \<subseteq> set s" using Cons.IH [of q] q by simp
  ultimately show ?case
  proof (elim disjE)
    assume "p \<in> set (Split s sep)"
    then have "set p \<subseteq> set s" by (rule Cons.IH)
    then show ?thesis by (simp add: subset_insertI2)
  qed (simp_all add: subset_insertI2)
qed

lemma TrimRight_noteq_last: "TrimRight s c \<noteq> [] \<Longrightarrow> last (TrimRight s c) \<noteq> c"
  using hd_dropWhile [of "\<lambda>x. x = c" "rev s"] by (simp add: TrimRight_def last_rev)

lemma TrimRight_prefix: "prefix (TrimRight s c) s"
  using suffix_dropWhile [of "\<lambda>x. x = c" "rev s"] by (simp add: TrimRight_def suffix_to_prefix)

section \<open>Slash-separated paths\<close>

text \<open>
  \<open>path.Clean\<close>: the elements of the path are taken from left to right, empty ones and \<open>.\<close> are
  dropped, \<open>..\<close> removes the element before it, at the root of a rooted path it is dropped, and at
  the front of a relative one it is kept. \<open>filepath\<close> is the same on Unix.
\<close>

fun clean_step :: "bool \<Rightarrow> string list \<Rightarrow> string \<Rightarrow> string list" where
  \<comment> \<open>the elements so far, last one first\<close>
  "clean_step rooted acc e =
     (if e = [] \<or> e = ''.'' then acc
      else if e = ''..'' then
        (case acc of
           [] \<Rightarrow> if rooted then [] else [''..'']
         | d # acc' \<Rightarrow> if d = ''..'' then ''..'' # acc else acc')
      else e # acc)"

definition clean_elems :: "bool \<Rightarrow> string list \<Rightarrow> string list" where
  "clean_elems rooted es = rev (foldl (clean_step rooted) [] es)"

definition is_rooted :: "string \<Rightarrow> bool" where
  "is_rooted s = prefix ''/'' s"

definition path_Clean :: "string \<Rightarrow> string" where
  "path_Clean s =
     (if s = [] then ''.''
      else let body = Join (clean_elems (is_rooted s) (Split s CHR ''/'')) ''/'' in
        if is_rooted s then CHR ''/'' # body
        else if body = [] then ''.'' else body)"

text \<open>\<open>path.Join\<close>: the non-empty elements joined with slashes and cleaned.\<close>

definition path_Join :: "string list \<Rightarrow> string" where
  "path_Join es =
     (let ne = filter (\<lambda>e. e \<noteq> []) es in if ne = [] then [] else path_Clean (Join ne ''/''))"

text \<open>\<open>path.Ext\<close>: from the last dot of the last element.\<close>

definition path_Ext :: "string \<Rightarrow> string" where
  "path_Ext p =
     (let base = takeWhile (\<lambda>c. c \<noteq> CHR ''/'') (rev p) in
        if CHR ''.'' \<in> set base then CHR ''.'' # rev (takeWhile (\<lambda>c. c \<noteq> CHR ''.'') base)
        else [])"

text \<open>\<open>filepath.Dir\<close>: everything up to the last slash, cleaned.\<close>

definition path_Dir :: "string \<Rightarrow> string" where
  "path_Dir p = path_Clean (rev (dropWhile (\<lambda>c. c \<noteq> CHR ''/'') (rev p)))"

section \<open>Numbers as text\<close>

definition digit_char :: "nat \<Rightarrow> char" where
  "digit_char d = char_of (48 + d)"

definition is_digit :: "char \<Rightarrow> bool" where
  "is_digit c \<longleftrightarrow> 48 \<le> byte c \<and> byte c \<le> (57 :: nat)"

definition digit_val :: "char \<Rightarrow> nat" where
  "digit_val c = byte c - 48"

fun show_nat :: "nat \<Rightarrow> string" where
  "show_nat n = (if n < 10 then [digit_char n] else show_nat (n div 10) @ [digit_char (n mod 10)])"

declare show_nat.simps [simp del]

definition read_nat :: "string \<Rightarrow> nat" where
  "read_nat s = foldl (\<lambda>n c. 10 * n + digit_val c) 0 s"

text \<open>\<open>strconv.FormatInt(n, 10)\<close> and \<open>strconv.Itoa\<close>.\<close>

definition FormatInt :: "int \<Rightarrow> string" where
  "FormatInt n = (if n < 0 then CHR ''-'' # show_nat (nat (- n)) else show_nat (nat n))"

text \<open>
  \<open>strconv.ParseInt(s, 10, 64)\<close>, and \<open>strconv.Atoi\<close> on a 64-bit platform: an optional sign, at
  least one digit and nothing else, and a value that fits.
\<close>

definition parse_digits :: "string \<Rightarrow> nat option" where
  "parse_digits s = (if s \<noteq> [] \<and> list_all is_digit s then Some (read_nat s) else None)"

definition ParseInt :: "string \<Rightarrow> int option" where
  "ParseInt s =
     (let (neg, body) =
        (case s of
           [] \<Rightarrow> (False, s)
         | c # t \<Rightarrow> if c = CHR ''-'' then (True, t) else if c = CHR ''+'' then (False, t)
                   else (False, s))
      in case parse_digits body of
           None \<Rightarrow> None
         | Some n \<Rightarrow>
             if neg then (if int n \<le> 2 ^ 63 then Some (- int n) else None)
             else (if int n < 2 ^ 63 then Some (int n) else None))"

lemma digit_char_bytes: "d < 10 \<Longrightarrow> byte (digit_char d) = (48 + d :: nat)"
  by (simp add: digit_char_def)

lemma digit_char_is_digit: "d < 10 \<Longrightarrow> is_digit (digit_char d)"
  by (simp add: is_digit_def digit_char_bytes)

lemma digit_val_digit_char: "d < 10 \<Longrightarrow> digit_val (digit_char d) = d"
  by (simp add: digit_val_def digit_char_bytes)

lemma show_nat_digits: "list_all is_digit (show_nat n)"
proof (induction n rule: show_nat.induct)
  case (1 n)
  then show ?case
    by (subst show_nat.simps) (simp add: digit_char_is_digit)
qed

lemma show_nat_nonempty: "show_nat n \<noteq> []"
  by (subst show_nat.simps) simp

lemma read_nat_snoc: "read_nat (s @ [c]) = 10 * read_nat s + digit_val c"
  by (simp add: read_nat_def)

lemma read_show_nat: "read_nat (show_nat n) = n"
proof (induction n rule: show_nat.induct)
  case (1 n)
  show ?case
  proof (cases "n < 10")
    case True
    then show ?thesis
      by (subst show_nat.simps) (simp add: read_nat_def digit_val_digit_char)
  next
    case False
    with "1.IH" have "read_nat (show_nat (n div 10)) = n div 10" by simp
    with False show ?thesis
      by (subst show_nat.simps) (simp add: read_nat_snoc digit_val_digit_char)
  qed
qed

lemma parse_show_nat: "parse_digits (show_nat n) = Some n"
  by (simp add: parse_digits_def show_nat_nonempty show_nat_digits read_show_nat)

lemma show_nat_not_sign: "\<exists>c t. show_nat n = c # t \<and> c \<noteq> CHR ''-'' \<and> c \<noteq> CHR ''+''"
proof -
  obtain c t where ct: "show_nat n = c # t"
    using show_nat_nonempty [of n] by (cases "show_nat n") auto
  with show_nat_digits [of n] have "is_digit c" by simp
  then have "c \<noteq> CHR ''-''" and "c \<noteq> CHR ''+''" by (auto simp: is_digit_def)
  with ct show ?thesis by blast
qed

text \<open>What \<open>FormatInt\<close> writes, \<open>ParseInt\<close> reads back.\<close>

lemma ParseInt_FormatInt:
  assumes "- (2 ^ 63) \<le> n" and "n < 2 ^ 63"
  shows "ParseInt (FormatInt n) = Some n"
proof (cases "n < 0")
  case True
  with assms(1) show ?thesis
    by (simp add: ParseInt_def FormatInt_def parse_show_nat)
next
  case False
  obtain c t where ct: "show_nat (nat n) = c # t" "c \<noteq> CHR ''-''" "c \<noteq> CHR ''+''"
    using show_nat_not_sign [of "nat n"] by blast
  from ct(1) have "parse_digits (c # t) = Some (nat n)" using parse_show_nat [of "nat n"] by simp
  with False ct assms(2) show ?thesis
    by (simp add: ParseInt_def FormatInt_def)
qed

lemma ParseInt_range: "ParseInt s = Some n \<Longrightarrow> - (2 ^ 63) \<le> n \<and> n < 2 ^ 63"
  by (auto simp: ParseInt_def Let_def split: list.splits if_splits option.splits prod.splits)

lemma FormatInt_inj: "FormatInt m = FormatInt n \<Longrightarrow> m = n"
proof -
  assume eq: "FormatInt m = FormatInt n"
  have sign: "prefix ''-'' (FormatInt k) \<longleftrightarrow> k < 0" for k
  proof (cases "k < 0")
    case True
    then show ?thesis by (simp add: FormatInt_def)
  next
    case False
    then show ?thesis
      using show_nat_not_sign [of "nat k"] by (auto simp: FormatInt_def)
  qed
  have "m < 0 \<longleftrightarrow> n < 0" using eq sign by metis
  moreover have "read_nat (show_nat (nat \<bar>m\<bar>)) = read_nat (show_nat (nat \<bar>n\<bar>))"
    using eq \<open>m < 0 \<longleftrightarrow> n < 0\<close> by (auto simp: FormatInt_def split: if_splits)
  ultimately show "m = n" by (simp add: read_show_nat) linarith
qed

text \<open>\<open>strconv.ParseBool\<close>.\<close>

definition ParseBool :: "string \<Rightarrow> bool option" where
  "ParseBool s =
     (if s \<in> {''1'', ''t'', ''T'', ''TRUE'', ''true'', ''True''} then Some True
      else if s \<in> {''0'', ''f'', ''F'', ''FALSE'', ''false'', ''False''} then Some False
      else None)"

section \<open>Encodings\<close>

definition hex_digit :: "nat \<Rightarrow> char" where
  "hex_digit d = (if d < 10 then char_of (48 + d) else char_of (87 + d))"

text \<open>\<open>hex.EncodeToString\<close>.\<close>

definition hex_EncodeToString :: "string \<Rightarrow> string" where
  "hex_EncodeToString bs = concat (map (\<lambda>c. [hex_digit (byte c div 16), hex_digit (byte c mod 16)]) bs)"

text \<open>The URL alphabet of base64 and \<open>base64.RawURLEncoding.EncodeToString\<close> (no padding).\<close>

definition b64_char :: "nat \<Rightarrow> char" where
  "b64_char d =
     (if d < 26 then char_of (65 + d) else if d < 52 then char_of (71 + d)
      else if d < 62 then char_of (d - 4) else if d = 62 then CHR ''-'' else CHR ''_'')"

fun RawURLEncode :: "string \<Rightarrow> string" where
  "RawURLEncode [] = []"
| "RawURLEncode [a] = [b64_char (byte a div 4), b64_char (byte a mod 4 * 16)]"
| "RawURLEncode [a, b] =
     [b64_char (byte a div 4), b64_char (byte a mod 4 * 16 + byte b div 16),
      b64_char (byte b mod 16 * 4)]"
| "RawURLEncode (a # b # c # s) =
     [b64_char (byte a div 4), b64_char (byte a mod 4 * 16 + byte b div 16),
      b64_char (byte b mod 16 * 4 + byte c div 64), b64_char (byte c mod 64)] @ RawURLEncode s"

text \<open>\<open>url.QueryEscape\<close>.\<close>

definition unreserved :: "char \<Rightarrow> bool" where
  "unreserved c \<longleftrightarrow>
     48 \<le> byte c \<and> byte c \<le> (57 :: nat) \<or> 65 \<le> byte c \<and> byte c \<le> (90 :: nat) \<or>
     97 \<le> byte c \<and> byte c \<le> (122 :: nat) \<or> c \<in> {CHR ''-'', CHR ''_'', CHR ''.'', CHR ''~''}"

definition upper_hex :: "nat \<Rightarrow> char" where
  "upper_hex d = (if d < 10 then char_of (48 + d) else char_of (55 + d))"

definition QueryEscape :: "string \<Rightarrow> string" where
  "QueryEscape s = concat (map (\<lambda>c.
     if unreserved c then [c]
     else if c = CHR '' '' then ''+''
     else [CHR ''%'', upper_hex (byte c div 16), upper_hex (byte c mod 16)]) s)"

lemma b64_char_unreserved: "d < 64 \<Longrightarrow> unreserved (b64_char d)"
  by (auto simp: b64_char_def unreserved_def)

lemma byte_lt_256: "byte c < (256 :: nat)"
  by (metis of_char_mod_256 mod_less_divisor zero_less_numeral)

lemma RawURLEncode_unreserved: "c \<in> set (RawURLEncode s) \<Longrightarrow> unreserved c"
proof (induction s rule: RawURLEncode.induct)
  case 1
  then show ?case by simp
next
  case (2 a)
  have "byte a div 4 < (64 :: nat)" using byte_lt_256 [of a] by arith
  with 2 show ?case by (auto simp: b64_char_unreserved)
next
  case (3 a b)
  have "byte a div 4 < (64 :: nat)" "byte a mod 4 * 16 + byte b div 16 < (64 :: nat)"
    "byte b mod 16 * 4 < (64 :: nat)"
    using byte_lt_256 [of a] byte_lt_256 [of b] by arith+
  with 3 show ?case by (auto simp: b64_char_unreserved)
next
  case (4 a b c s)
  have "byte a div 4 < (64 :: nat)" "byte a mod 4 * 16 + byte b div 16 < (64 :: nat)"
    "byte b mod 16 * 4 + byte c div 64 < (64 :: nat)" "byte c mod 64 < (64 :: nat)"
    using byte_lt_256 [of a] byte_lt_256 [of b] byte_lt_256 [of c] by arith+
  with 4 show ?case by (auto simp: b64_char_unreserved)
qed

lemma QueryEscape_unreserved: "\<forall>c \<in> set s. unreserved c \<Longrightarrow> QueryEscape s = s"
  by (induction s) (auto simp: QueryEscape_def)

lemma QueryEscape_RawURLEncode: "QueryEscape (RawURLEncode s) = RawURLEncode s"
  by (rule QueryEscape_unreserved) (simp add: RawURLEncode_unreserved)

lemma length_RawURLEncode: "length (RawURLEncode s) = (length s * 4 + 2) div 3"
  by (induction s rule: RawURLEncode.induct) auto

text \<open>
  \<open>strconv.Quote\<close>, the verb \<open>%q\<close>. On text with other than ASCII characters it consults the Unicode
  tables, which are the argument \<open>uni\<close>.
\<close>

definition quote_char :: "char \<Rightarrow> string" where
  "quote_char c =
     (let n = byte c :: nat in
      if n = 34 \<or> n = 92 then [CHR 0x5C, c]
      else if 32 \<le> n \<and> n < 127 then [c]
      else if n = 7 then [CHR 0x5C, CHR ''a''] else if n = 8 then [CHR 0x5C, CHR ''b'']
      else if n = 12 then [CHR 0x5C, CHR ''f''] else if n = 10 then [CHR 0x5C, CHR ''n'']
      else if n = 13 then [CHR 0x5C, CHR ''r''] else if n = 9 then [CHR 0x5C, CHR ''t'']
      else if n = 11 then [CHR 0x5C, CHR ''v'']
      else [CHR 0x5C, CHR ''x'', hex_digit (n div 16), hex_digit (n mod 16)])"

definition Quote :: "(string \<Rightarrow> string) \<Rightarrow> string \<Rightarrow> string" where
  "Quote uni s =
     (if is_ascii s then CHR 0x22 # concat (map quote_char s) @ [CHR 0x22] else uni s)"

end
