(* ===== verification/Errors.thy ===== *)
theory Errors
  imports GoStrings
begin

text \<open>
  Error values: \<open>app/lib/errors.go\<close>, the Postgres error tests of \<open>app/lib/wordotronDb.go\<close> and the
  chain walks of Go's \<open>errors.Is\<close> and \<open>errors.As\<close>. A Go error is a value of \<open>goerr\<close>: the
  application's own error type, an error wrapped by \<open>fmt.Errorf\<close>, one of the package-level
  sentinels, an error of a driver or framework, or some other error.
\<close>

section \<open>Error codes and the error type\<close>

datatype code =
    CodeBadRequest | CodeValidation | CodeUnauthorized | CodeForbidden | CodeNotFound
  | CodeConflict | CodeTooManyRequests | CodePayloadTooLarge | CodeUnsupportedType
  | CodeInternal | CodeUnavailable

fun code_text :: "code \<Rightarrow> string" where
  "code_text CodeBadRequest = ''BAD_REQUEST''"
| "code_text CodeValidation = ''VALIDATION_ERROR''"
| "code_text CodeUnauthorized = ''UNAUTHORIZED''"
| "code_text CodeForbidden = ''FORBIDDEN''"
| "code_text CodeNotFound = ''NOT_FOUND''"
| "code_text CodeConflict = ''CONFLICT''"
| "code_text CodeTooManyRequests = ''TOO_MANY_REQUESTS''"
| "code_text CodePayloadTooLarge = ''PAYLOAD_TOO_LARGE''"
| "code_text CodeUnsupportedType = ''UNSUPPORTED_MEDIA_TYPE''"
| "code_text CodeInternal = ''INTERNAL_ERROR''"
| "code_text CodeUnavailable = ''SERVICE_UNAVAILABLE''"

record FieldError =
  feField :: string
  feMessage :: string

text \<open>The package-level errors that code compares against with \<open>errors.Is\<close>.\<close>

datatype sentinel =
    ErrInvalidToken | ErrExpiredToken | ErrWrongType
  | ErrPasswordMismatch
  | ErrStateNotFound
  | ErrProviderDisabled | ErrExchangeFailed | ErrIdentityUnusable
  | ErrObjectNotFound
  | RedisNil | PgxErrNoRows
  | JwtErrTokenExpired | BcryptErrMismatch
  | ContextCanceled | ContextDeadlineExceeded

fun sentinel_text :: "sentinel \<Rightarrow> string" where
  "sentinel_text ErrInvalidToken = ''auth: invalid token''"
| "sentinel_text ErrExpiredToken = ''auth: token expired''"
| "sentinel_text ErrWrongType = ''auth: wrong token type''"
| "sentinel_text ErrPasswordMismatch = ''auth: password does not match''"
| "sentinel_text ErrStateNotFound = ''auth: oauth state not found''"
| "sentinel_text ErrProviderDisabled = ''auth: google sign-in is not configured''"
| "sentinel_text ErrExchangeFailed = ''auth: could not complete the google exchange''"
| "sentinel_text ErrIdentityUnusable = ''auth: google returned an unusable profile''"
| "sentinel_text ErrObjectNotFound = ''storage: object not found''"
| "sentinel_text RedisNil = ''redis: nil''"
| "sentinel_text PgxErrNoRows = ''no rows in result set''"
| "sentinel_text JwtErrTokenExpired = ''token is expired''"
| "sentinel_text BcryptErrMismatch =
     ''crypto/bcrypt: hashedPassword is not the hash of the given password''"
| "sentinel_text ContextCanceled = ''context canceled''"
| "sentinel_text ContextDeadlineExceeded = ''context deadline exceeded''"

text \<open>
  \<open>AppError\<close> is \<open>*lib.Error\<close> with its cause, and \<open>Wrapf pre e post\<close> is an error made by
  \<open>fmt.Errorf\<close> whose text is \<open>pre\<close>, the text of \<open>e\<close> and \<open>post\<close>, and which unwraps to \<open>e\<close>.
\<close>

datatype goerr =
    AppError (errCode: code) (errStatus: int) (errMessage: string) (errFields: "FieldError list")
      (errCause: "goerr option")
  | Wrapf string goerr string
  | Sentinel sentinel
  | PgError string
  | FiberError int string
  | Opaque string

text \<open>\<open>(*Error).Error\<close>, and the texts of the other errors.\<close>

fun error_text :: "goerr \<Rightarrow> string" where
  "error_text (AppError c s m fs None) = code_text c @ '': '' @ m"
| "error_text (AppError c s m fs (Some e)) = code_text c @ '': '' @ m @ '': '' @ error_text e"
| "error_text (Wrapf pre e post) = pre @ error_text e @ post"
| "error_text (Sentinel s) = sentinel_text s"
| "error_text (PgError c) = ''SQLSTATE '' @ c"
| "error_text (FiberError c m) = m"
| "error_text (Opaque m) = m"

section \<open>Constructors\<close>

text \<open>\<open>Wrap\<close>, \<open>WithFields\<close> and \<open>WithMessage\<close> return a copy; they are methods of \<open>*lib.Error\<close>.\<close>

fun Wrap :: "goerr \<Rightarrow> goerr option \<Rightarrow> goerr" where
  "Wrap (AppError c s m fs _) e = AppError c s m fs e"
| "Wrap x _ = x"

fun WithFields :: "goerr \<Rightarrow> FieldError list \<Rightarrow> goerr" where
  "WithFields (AppError c s m _ e) fs = AppError c s m fs e"
| "WithFields x _ = x"

fun WithMessage :: "goerr \<Rightarrow> string \<Rightarrow> goerr" where
  "WithMessage (AppError c s _ fs e) m = AppError c s m fs e"
| "WithMessage x _ = x"

definition NewError :: "code \<Rightarrow> int \<Rightarrow> string \<Rightarrow> goerr" where
  "NewError c s m = AppError c s m [] None"

definition BadRequest :: "string \<Rightarrow> goerr" where
  "BadRequest m = NewError CodeBadRequest 400 m"

definition Validation :: "FieldError list \<Rightarrow> goerr" where
  "Validation fs = AppError CodeValidation 422 ''The request contains invalid fields'' fs None"

definition Unauthorized :: "string \<Rightarrow> goerr" where
  "Unauthorized m =
     NewError CodeUnauthorized 401 (if m = [] then ''Authentication is required'' else m)"

definition Forbidden :: "string \<Rightarrow> goerr" where
  "Forbidden m =
     NewError CodeForbidden 403
       (if m = [] then ''You do not have permission to perform this action'' else m)"

definition NotFound :: "string \<Rightarrow> goerr" where
  "NotFound r = NewError CodeNotFound 404 ((if r = [] then ''Resource'' else r) @ '' not found'')"

definition Conflict :: "string \<Rightarrow> goerr" where
  "Conflict m = NewError CodeConflict 409 m"

definition TooManyRequests :: "string \<Rightarrow> goerr" where
  "TooManyRequests m =
     NewError CodeTooManyRequests 429
       (if m = [] then ''Too many requests, please slow down'' else m)"

definition PayloadTooLarge :: "string \<Rightarrow> goerr" where
  "PayloadTooLarge m =
     NewError CodePayloadTooLarge 413 (if m = [] then ''Request body is too large'' else m)"

definition UnsupportedMediaType :: "string \<Rightarrow> goerr" where
  "UnsupportedMediaType m =
     NewError CodeUnsupportedType 415 (if m = [] then ''Unsupported media type'' else m)"

definition Internal :: "goerr \<Rightarrow> goerr" where
  "Internal e = Wrap (AppError CodeInternal 500 ''An unexpected error occurred'' [] None) (Some e)"

definition Unavailable :: "string \<Rightarrow> goerr option \<Rightarrow> goerr" where
  "Unavailable m e =
     Wrap (NewError CodeUnavailable 503
       (if m = [] then ''Service temporarily unavailable'' else m)) e"

lemmas error_defs =
  NewError_def BadRequest_def Validation_def Unauthorized_def Forbidden_def NotFound_def
  Conflict_def TooManyRequests_def PayloadTooLarge_def UnsupportedMediaType_def Internal_def
  Unavailable_def

section \<open>Walking the chain\<close>

text \<open>\<open>lib.As\<close>: the first application error of the chain.\<close>

fun As :: "goerr \<Rightarrow> goerr option" where
  "As (AppError c s m fs e) = Some (AppError c s m fs e)"
| "As (Wrapf pre e post) = As e"
| "As _ = None"

text \<open>\<open>lib.From\<close> on a non-nil error.\<close>

definition From :: "goerr \<Rightarrow> goerr" where
  "From e = (case As e of Some a \<Rightarrow> a | None \<Rightarrow> Internal e)"

text \<open>\<open>errors.Is(err, target)\<close> for a sentinel.\<close>

fun Is :: "goerr \<Rightarrow> sentinel \<Rightarrow> bool" where
  "Is (AppError c s m fs None) t = False"
| "Is (AppError c s m fs (Some e)) t = Is e t"
| "Is (Wrapf pre e post) t = Is e t"
| "Is (Sentinel x) t = (x = t)"
| "Is _ t = False"

text \<open>\<open>errors.As\<close> for \<open>*pgconn.PgError\<close> and \<open>*fiber.Error\<close>.\<close>

fun AsPg :: "goerr \<Rightarrow> string option" where
  "AsPg (PgError c) = Some c"
| "AsPg (AppError _ _ _ _ (Some e)) = AsPg e"
| "AsPg (Wrapf _ e _) = AsPg e"
| "AsPg _ = None"

fun AsFiber :: "goerr \<Rightarrow> (int \<times> string) option" where
  "AsFiber (FiberError c m) = Some (c, m)"
| "AsFiber (AppError _ _ _ _ (Some e)) = AsFiber e"
| "AsFiber (Wrapf _ e _) = AsFiber e"
| "AsFiber _ = None"

definition PgUniqueViolation :: string where "PgUniqueViolation = ''23505''"
definition PgForeignKeyViolation :: string where "PgForeignKeyViolation = ''23503''"
definition PgCheckViolation :: string where "PgCheckViolation = ''23514''"

lemmas pg_codes = PgUniqueViolation_def PgForeignKeyViolation_def PgCheckViolation_def

definition IsPgError :: "goerr \<Rightarrow> string \<Rightarrow> bool" where
  "IsPgError e c = (case AsPg e of Some c' \<Rightarrow> c' = c | None \<Rightarrow> False)"

definition IsNoRows :: "goerr \<Rightarrow> bool" where
  "IsNoRows e = Is e PgxErrNoRows"

text \<open>\<open>appErr, ok := lib.As(err); ok && appErr.Code == code\<close>.\<close>

definition has_code :: "goerr \<Rightarrow> code \<Rightarrow> bool" where
  "has_code e c = (case As e of Some a \<Rightarrow> errCode a = c | None \<Rightarrow> False)"

definition is_app :: "goerr \<Rightarrow> bool" where
  "is_app e \<longleftrightarrow> (case e of AppError _ _ _ _ _ \<Rightarrow> True | _ \<Rightarrow> False)"

lemma As_is_app: "As e = Some a \<Longrightarrow> is_app a"
  by (induction e rule: As.induct) (auto simp: is_app_def)

lemma From_is_app: "is_app (From e)"
  by (cases "As e") (simp_all add: From_def Internal_def As_is_app, simp add: is_app_def)

lemma has_code_simps [simp]:
  "has_code (AppError c s m fs e) c' \<longleftrightarrow> c = c'"
  "has_code (Wrapf pre err post) c' \<longleftrightarrow> has_code err c'"
  "has_code (Sentinel x) c' \<longleftrightarrow> False"
  "has_code (PgError p) c' \<longleftrightarrow> False"
  "has_code (Opaque p) c' \<longleftrightarrow> False"
  by (simp_all add: has_code_def)

lemma errCode_constructors [simp]:
  "errCode (BadRequest m) = CodeBadRequest"
  "errCode (Unauthorized m) = CodeUnauthorized"
  "errCode (Forbidden m) = CodeForbidden"
  "errCode (NotFound m) = CodeNotFound"
  "errCode (Conflict m) = CodeConflict"
  "errCode (Internal e) = CodeInternal"
  "errCode (Validation fs) = CodeValidation"
  by (simp_all add: error_defs)

end
