(* ===== verification/Pagination.thy ===== *)
theory Pagination
  imports Float64 Errors
begin

text \<open>
  Pagination: \<open>app/models/pagination.go\<close> and the query-parameter parsing of \<open>app/lib/utils.go\<close>.
  \<open>int\<close> is 64 bits wide; the product in \<open>Offset\<close> wraps, and the number of pages is computed in
  \<open>float64\<close>.
\<close>

section \<open>Page parameters\<close>

definition SortAsc :: string where "SortAsc = ''asc''"
definition SortDesc :: string where "SortDesc = ''desc''"

definition SortOrder_Valid :: "string \<Rightarrow> bool" where
  "SortOrder_Valid o' \<longleftrightarrow> o' = SortAsc \<or> o' = SortDesc"

definition DefaultPage :: int where "DefaultPage = 1"
definition DefaultLimit :: int where "DefaultLimit = 20"
definition MaxLimit :: int where "MaxLimit = 100"

record PageParams =
  ppPage :: int
  ppLimit :: int
  ppSort :: string
  ppOrder :: string
  ppSearch :: string

definition Normalize :: "PageParams \<Rightarrow> string \<Rightarrow> PageParams" where
  "Normalize p defaultSort =
     (let p = (if ppPage p < 1 then p\<lparr>ppPage := DefaultPage\<rparr> else p);
          p = (if ppLimit p < 1 then p\<lparr>ppLimit := DefaultLimit\<rparr> else p);
          p = (if MaxLimit < ppLimit p then p\<lparr>ppLimit := MaxLimit\<rparr> else p);
          p = (if ppSort p = [] then p\<lparr>ppSort := defaultSort\<rparr> else p);
          p = (if \<not> SortOrder_Valid (ppOrder p) then p\<lparr>ppOrder := SortDesc\<rparr> else p)
      in p)"

definition Offset :: "PageParams \<Rightarrow> int" where
  "Offset p = (if ppPage p < 1 then 0 else int64 ((ppPage p - 1) * ppLimit p))"

record PageMeta =
  pmPage :: int
  pmLimit :: int
  pmTotal :: int
  pmTotalPages :: int
  pmHasNext :: bool
  pmHasPrev :: bool

definition NewPageMeta :: "PageParams \<Rightarrow> int \<Rightarrow> PageMeta" where
  "NewPageMeta p cnt =
     (let limit = (if ppLimit p < 1 then DefaultLimit else ppLimit p);
          pages = int64 \<lceil>fdiv (float_of_int cnt) (float_of_int limit)\<rceil>;
          totalPages = (if pages < 1 then 1 else pages)
      in \<lparr>pmPage = ppPage p, pmLimit = limit, pmTotal = cnt, pmTotalPages = totalPages,
          pmHasNext = ppPage p < totalPages, pmHasPrev = 1 < ppPage p\<rparr>)"

record 'a Page =
  pgItems :: "'a list"
  pgMeta :: PageMeta

text \<open>What every operation of the program that takes page parameters relies on.\<close>

definition page_ok :: "PageParams \<Rightarrow> bool" where
  "page_ok p \<longleftrightarrow> 1 \<le> ppPage p \<and> 1 \<le> ppLimit p \<and> ppLimit p \<le> MaxLimit \<and> SortOrder_Valid (ppOrder p)"

lemma Normalize_fields:
  "ppPage (Normalize p d) = (if ppPage p < 1 then 1 else ppPage p)"
  "ppLimit (Normalize p d) =
     (if ppLimit p < 1 then 20 else if 100 < ppLimit p then 100 else ppLimit p)"
  "ppSort (Normalize p d) = (if ppSort p = [] then d else ppSort p)"
  "ppOrder (Normalize p d) = (if SortOrder_Valid (ppOrder p) then ppOrder p else SortDesc)"
  "ppSearch (Normalize p d) = ppSearch p"
  by (simp_all add: Normalize_def DefaultPage_def DefaultLimit_def MaxLimit_def Let_def)

lemma Normalize_ok: "page_ok (Normalize p d)"
  by (simp add: page_ok_def Normalize_fields MaxLimit_def SortOrder_Valid_def)

lemma Normalize_id: "page_ok p \<Longrightarrow> ppSort p \<noteq> [] \<or> d = [] \<Longrightarrow> Normalize p d = p"
  by (cases p) (auto simp: page_ok_def Normalize_def MaxLimit_def Let_def)

lemma Normalize_idem: "Normalize (Normalize p d) d = Normalize p d"
  by (rule Normalize_id [OF Normalize_ok]) (simp add: Normalize_fields)

text \<open>Below \<open>2^31\<close> rows the offset that reaches the database is the exact one.\<close>

lemma Offset_exact:
  assumes "page_ok p" and "(ppPage p - 1) * ppLimit p < 2 ^ 31"
  shows "int32 (Offset p) = (ppPage p - 1) * ppLimit p"
proof -
  have nonneg: "0 \<le> (ppPage p - 1) * ppLimit p" using assms(1) by (simp add: page_ok_def)
  then have "int64 ((ppPage p - 1) * ppLimit p) = (ppPage p - 1) * ppLimit p"
    using assms(2) by (intro int64_id) simp_all
  moreover have "int32 ((ppPage p - 1) * ppLimit p) = (ppPage p - 1) * ppLimit p"
    using nonneg assms(2) by (intro int32_id) simp_all
  ultimately show ?thesis using assms(1) by (simp add: Offset_def page_ok_def)
qed

lemma NewPageMeta_pages:
  assumes "1 \<le> ppLimit p" and "ppLimit p < 2 ^ 53" and "0 \<le> cnt" and "cnt < 2 ^ 53"
  shows "pmTotalPages (NewPageMeta p cnt) = max 1 ((cnt + ppLimit p - 1) div ppLimit p)"
proof -
  let ?n = "(cnt + ppLimit p - 1) div ppLimit p"
  have ceil: "\<lceil>fdiv (float_of_int cnt) (float_of_int (ppLimit p))\<rceil> = ?n"
    using assms ceiling_quotient [of "ppLimit p" cnt]
    by (simp add: ceiling_fdiv)
  have "0 \<le> ?n" using assms by (simp add: pos_imp_zdiv_nonneg_iff)
  moreover have "?n \<le> cnt + ppLimit p - 1" using assms zdiv_mono2 [of "cnt + ppLimit p - 1" 1 "ppLimit p"] by simp
  then have "?n < 2 ^ 63" using assms by simp
  ultimately have "int64 ?n = ?n" by (simp add: int64_id)
  with ceil assms(1) show ?thesis by (simp add: NewPageMeta_def Let_def)
qed

section \<open>Parsing the query string\<close>

record SortWhitelist =
  swAllowed :: "string list"
  swDefault :: string

definition SortWhitelist_Contains :: "SortWhitelist \<Rightarrow> string \<Rightarrow> bool" where
  "SortWhitelist_Contains w field \<longleftrightarrow> list_ex (\<lambda>allowed. allowed = field) (swAllowed w)"

text \<open>
  \<open>fiber.Query\<close> belongs to the framework: \<open>qi key default\<close> and \<open>qs key default\<close> stand for its
  integer and string instances on the request at hand, and \<open>uni\<close> is the Unicode case table.
\<close>

definition page_problems :: "SortWhitelist \<Rightarrow> PageParams \<Rightarrow> FieldError list" where
  "page_problems w p =
     (if ppPage p < 1 then [\<lparr>feField = ''page'', feMessage = ''must be 1 or greater''\<rparr>] else []) @
     (if ppLimit p < 1 \<or> MaxLimit < ppLimit p
      then [\<lparr>feField = ''limit'', feMessage = ''must be between 1 and 100''\<rparr>] else []) @
     (if \<not> SortWhitelist_Contains w (ppSort p)
      then [\<lparr>feField = ''sort'', feMessage = ''must be one of: '' @ Join (swAllowed w) '', ''\<rparr>]
      else []) @
     (if \<not> SortOrder_Valid (ppOrder p)
      then [\<lparr>feField = ''order'', feMessage = ''must be asc or desc''\<rparr>] else []) @
     (if 128 < length (ppSearch p)
      then [\<lparr>feField = ''search'', feMessage = ''must be at most 128 characters''\<rparr>] else [])"

definition ParsePageParams ::
    "(string \<Rightarrow> string) \<Rightarrow> (string \<Rightarrow> int \<Rightarrow> int) \<Rightarrow> (string \<Rightarrow> string \<Rightarrow> string) \<Rightarrow> SortWhitelist \<Rightarrow>
     goerr + PageParams" where
  "ParsePageParams uni qi qs w =
     (let params = \<lparr>ppPage = qi ''page'' DefaultPage, ppLimit = qi ''limit'' DefaultLimit,
            ppSort = TrimSpace (qs ''sort'' (swDefault w)),
            ppOrder = ToLower uni (TrimSpace (qs ''order'' SortDesc)),
            ppSearch = TrimSpace (qs ''search'' [])\<rparr>;
          fields = page_problems w params
      in if 0 < length fields then Inl (Validation fields)
         else Inr (Normalize params (swDefault w)))"

lemma page_problems_Nil:
  "page_problems w p = [] \<longleftrightarrow>
     page_ok p \<and> ppSort p \<in> set (swAllowed w) \<and> length (ppSearch p) \<le> 128"
  by (auto simp: page_problems_def page_ok_def SortWhitelist_Contains_def list_ex_iff
      SortOrder_Valid_def MaxLimit_def)

end
