(* ===== verification/Models.thy ===== *)
theory Models
  imports Pagination
begin

text \<open>
  The domain types of \<open>app/models\<close>, the JWT claims and token pair of \<open>app/lib/auth/jwt.go\<close>, and the
  predicates on them. A Go pointer that may be nil is an option. Go's string types with named
  constants (roles, statuses, parts of speech) are strings, as any string can inhabit them.
\<close>

section \<open>Users (app/models/user.go)\<close>

definition RoleUser :: string where "RoleUser = ''user''"
definition RoleAdmin :: string where "RoleAdmin = ''admin''"

definition Role_Valid :: "string \<Rightarrow> bool" where
  "Role_Valid r \<longleftrightarrow> r = RoleUser \<or> r = RoleAdmin"

record User =
  uID :: uuid
  uEmail :: string
  uFullName :: string
  uRole :: string
  uAvatarURL :: "string option"
  uIsActive :: bool
  uEmailVerifiedAt :: "gotime option"
  uLastLoginAt :: "gotime option"
  uCreatedAt :: gotime
  uUpdatedAt :: gotime
  uPasswordHash :: string

definition User_IsAdmin :: "User \<Rightarrow> bool" where
  "User_IsAdmin u \<longleftrightarrow> uRole u = RoleAdmin"

record CreateUserInput =
  cuEmail :: string
  cuPasswordHash :: string
  cuFullName :: string
  cuRole :: string

record UpdateUserInput =
  uuFullName :: "string option"
  uuAvatarURL :: "string option"
  uuRole :: "string option"
  uuIsActive :: "bool option"

record ListUsersFilter =
  lufPage :: PageParams
  lufRole :: "string option"
  lufIsActive :: "bool option"

section \<open>Single-use tokens (app/models/token.go)\<close>

text \<open>\<open>PasswordResetToken\<close> and \<open>EmailVerificationToken\<close> have the same fields.\<close>

record SingleUseToken =
  tkID :: uuid
  tkUserID :: uuid
  tkTokenHash :: string
  tkExpiresAt :: gotime
  tkUsedAt :: "gotime option"
  tkCreatedAt :: gotime

type_synonym PasswordResetToken = SingleUseToken
type_synonym EmailVerificationToken = SingleUseToken

definition PasswordResetToken_IsUsable :: "PasswordResetToken \<Rightarrow> gotime \<Rightarrow> bool" where
  "PasswordResetToken_IsUsable t now \<longleftrightarrow> tkUsedAt t = None \<and> now < tkExpiresAt t"

definition EmailVerificationToken_IsUsable :: "EmailVerificationToken \<Rightarrow> gotime \<Rightarrow> bool" where
  "EmailVerificationToken_IsUsable t now \<longleftrightarrow> tkUsedAt t = None \<and> now < tkExpiresAt t"

section \<open>External identities (app/models/oauth.go)\<close>

definition ProviderGoogle :: string where "ProviderGoogle = ''google''"

definition Provider_Valid :: "string \<Rightarrow> bool" where
  "Provider_Valid p \<longleftrightarrow> p = ProviderGoogle"

record OAuthAccount =
  oacID :: uuid
  oacUserID :: uuid
  oacProvider :: string
  oacProviderAccountID :: string
  oacEmail :: "string option"
  oacCreatedAt :: gotime
  oacUpdatedAt :: gotime

record ExternalIdentity =
  eiProvider :: string
  eiSubject :: string
  eiEmail :: string
  eiEmailVerified :: bool
  eiFullName :: string
  eiAvatarURL :: string

section \<open>Words and senses (app/models/word.go)\<close>

definition PartsOfSpeech :: "string list" where
  "PartsOfSpeech =
     [''noun'', ''verb'', ''adjective'', ''adverb'', ''pronoun'', ''preposition'',
      ''conjunction'', ''interjection'', ''phrase'']"

definition PartOfSpeech_Valid :: "string \<Rightarrow> bool" where
  "PartOfSpeech_Valid p \<longleftrightarrow> list_ex (\<lambda>candidate. p = candidate) PartsOfSpeech"

record WordMeta =
  wmSynonyms :: "string list"
  wmAntonyms :: "string list"
  wmOtherWaysToSay :: "string list"

record WordSense =
  wsID :: uuid
  wsWordID :: uuid
  wsPartOfSpeech :: "string option"
  wsDefinition :: string
  wsExample :: "string option"
  wsMeta :: WordMeta
  wsSenseOrder :: int
  wsCreatedAt :: gotime
  wsUpdatedAt :: gotime

text \<open>A nil slice of tags is stored as NULL, so \<open>Tags\<close> is an option.\<close>

record Word =
  wID :: uuid
  wTerm :: string
  wLanguage :: string
  wPronunciation :: "string option"
  wTags :: "string list option"
  wCreatedBy :: "uuid option"
  wCreatedAt :: gotime
  wUpdatedAt :: gotime
  wSenses :: "WordSense list"

record CreateWordInput =
  cwTerm :: string
  cwLanguage :: string
  cwPronunciation :: "string option"
  cwTags :: "string list option"
  cwCreatedBy :: "uuid option"

record UpdateWordInput =
  uwTerm :: "string option"
  uwLanguage :: "string option"
  uwPronunciation :: "string option"
  uwTags :: "string list option"
  uwClearPronunciation :: bool

record CreateWordSenseInput =
  csWordID :: uuid
  csPartOfSpeech :: "string option"
  csDefinition :: string
  csExample :: "string option"
  csMeta :: "WordMeta option"
  csSenseOrder :: int

record UpdateWordSenseInput =
  usPartOfSpeech :: "string option"
  usDefinition :: "string option"
  usExample :: "string option"
  usMeta :: "WordMeta option"
  usClearPartOfSpeech :: bool
  usClearExample :: bool

record ListWordsFilter =
  lwfSearch :: "string option"
  lwfLanguage :: "string option"
  lwfTags :: "string list option"
  lwfCreatedBy :: "uuid option"

section \<open>A person's words (app/models/user_word.go)\<close>

definition StatusLearning :: string where "StatusLearning = ''learning''"
definition StatusKnown :: string where "StatusKnown = ''known''"
definition StatusArchived :: string where "StatusArchived = ''archived''"

definition LearningStatuses :: "string list" where
  "LearningStatuses = [StatusLearning, StatusKnown, StatusArchived]"

definition LearningStatus_Valid :: "string \<Rightarrow> bool" where
  "LearningStatus_Valid s \<longleftrightarrow> list_ex (\<lambda>candidate. s = candidate) LearningStatuses"

definition MaxBox :: int where "MaxBox = 5"

record UserWord =
  uwUserID :: uuid
  uwWordID :: uuid
  uwStatus :: string
  uwNotes :: "string option"
  uwIsFavourite :: bool
  uwReviewCount :: int
  uwCorrectCount :: int
  uwBox :: int
  uwLastReviewedAt :: "gotime option"
  uwDueAt :: gotime
  uwAddedAt :: gotime
  uwUpdatedAt :: gotime

definition UserWord_Accuracy :: "UserWord \<Rightarrow> rat" where
  "UserWord_Accuracy u =
     (if uwReviewCount u = 0 then 0
      else fdiv (float_of_int (uwCorrectCount u)) (float_of_int (uwReviewCount u)))"

definition UserWord_IsDue :: "UserWord \<Rightarrow> gotime \<Rightarrow> bool" where
  "UserWord_IsDue u now \<longleftrightarrow> uwStatus u \<noteq> StatusArchived \<and> \<not> now < uwDueAt u"

record UserWordStats =
  stTotal :: int
  stLearning :: int
  stKnown :: int
  stArchived :: int
  stFavourites :: int
  stDue :: int
  stReviews :: int
  stCorrect :: int

definition UserWordStats_Accuracy :: "UserWordStats \<Rightarrow> rat" where
  "UserWordStats_Accuracy s =
     (if stReviews s = 0 then 0
      else fdiv (float_of_int (stCorrect s)) (float_of_int (stReviews s)))"

section \<open>Claims and token pairs (app/lib/auth/jwt.go)\<close>

definition TokenTypeAccess :: string where "TokenTypeAccess = ''access''"
definition TokenTypeRefresh :: string where "TokenTypeRefresh = ''refresh''"

text \<open>The registered claims the program sets or reads, and its own two.\<close>

record Claims =
  clID :: string
  clSubject :: string
  clIssuer :: string
  clIssuedAt :: "gotime option"
  clNotBefore :: "gotime option"
  clExpiresAt :: "gotime option"
  clRole :: string
  clTokenType :: string

record TokenPair =
  tpAccessToken :: string
  tpRefreshToken :: string
  tpTokenType :: string
  tpExpiresIn :: int
  tpExpiresAt :: gotime
  tpAccessJTI :: string
  tpRefreshJTI :: string
  tpRefreshExpiresAt :: gotime

text \<open>\<open>(*Claims).IssuedAtTime\<close>.\<close>

definition IssuedAtTime :: "Claims \<Rightarrow> gotime" where
  "IssuedAtTime c = (case clIssuedAt c of None \<Rightarrow> zero_time | Some t \<Rightarrow> t)"

lemma PartOfSpeech_Valid_iff: "PartOfSpeech_Valid p \<longleftrightarrow> p \<in> set PartsOfSpeech"
  by (auto simp: PartOfSpeech_Valid_def list_ex_iff)

lemma LearningStatus_Valid_iff: "LearningStatus_Valid s \<longleftrightarrow> s \<in> set LearningStatuses"
  by (auto simp: LearningStatus_Valid_def list_ex_iff)

lemma roles_distinct: "RoleUser \<noteq> RoleAdmin"
  by (simp add: RoleUser_def RoleAdmin_def)

lemma statuses_distinct [simp]:
  "StatusLearning \<noteq> StatusKnown" "StatusKnown \<noteq> StatusLearning"
  "StatusLearning \<noteq> StatusArchived" "StatusArchived \<noteq> StatusLearning"
  "StatusKnown \<noteq> StatusArchived" "StatusArchived \<noteq> StatusKnown"
  by (simp_all add: StatusLearning_def StatusKnown_def StatusArchived_def)

end
