(* ===== verification/Schema.thy ===== *)
theory Schema
  imports Models
begin

text \<open>
  The database: the rows of \<open>app/repository/db/models.go\<close>, the tables of \<open>migrations/*.up.sql\<close>
  with their constraints, and the SQL notions the queries of \<open>app/repository/db\<close> use (LIKE
  patterns, ORDER BY, LIMIT and OFFSET, unique and foreign keys). A table is the list of its rows
  in insertion order. The functions a Postgres server supplies (the lower-casing of CITEXT and
  ILIKE, and the collation) are arguments.
\<close>

section \<open>Rows (app/repository/db/models.go)\<close>

record dbUser =
  duID :: uuid
  duEmail :: string
  duPasswordHash :: "string option"
  duFullName :: string
  duRole :: string
  duAvatarUrl :: "string option"
  duIsActive :: bool
  duEmailVerifiedAt :: "gotime option"
  duLastLoginAt :: "gotime option"
  duCreatedAt :: gotime
  duUpdatedAt :: gotime

text \<open>The two token rows have the fields of the domain's tokens.\<close>

type_synonym dbToken = SingleUseToken

record dbWord =
  dwID :: uuid
  dwTerm :: string
  dwLanguage :: string
  dwPronunciation :: "string option"
  dwTags :: "string list option"
  dwCreatedBy :: "uuid option"
  dwCreatedAt :: gotime
  dwUpdatedAt :: gotime

text \<open>\<open>meta\<close> is the text of a JSONB value.\<close>

record dbWordSense =
  dsID :: uuid
  dsWordID :: uuid
  dsPartOfSpeech :: "string option"
  dsDefinition :: string
  dsExample :: "string option"
  dsMeta :: string
  dsSenseOrder :: int
  dsCreatedAt :: gotime
  dsUpdatedAt :: gotime

record database =
  tUsers :: "dbUser list"
  tResets :: "dbToken list"
  tVerifications :: "dbToken list"
  tOAuth :: "OAuthAccount list"
  tWords :: "dbWord list"
  tSenses :: "dbWordSense list"
  tUserWords :: "UserWord list"

definition empty_database :: database where
  "empty_database =
     \<lparr>tUsers = [], tResets = [], tVerifications = [], tOAuth = [], tWords = [], tSenses = [],
      tUserWords = []\<rparr>"

text \<open>\<open>TIMESTAMPTZ\<close> keeps microseconds; the driver drops the rest.\<close>

definition pg_time :: "gotime \<Rightarrow> gotime" where
  "pg_time t = t div 1000 * 1000"

lemma pg_time_le: "pg_time t \<le> t"
  using div_mult_mod_eq [of t 1000] pos_mod_sign [of 1000 t] unfolding pg_time_def by linarith

lemma pg_time_gt: "t - 1000 < pg_time t"
proof -
  have "t = t div 1000 * 1000 + t mod 1000" by simp
  moreover have "t mod 1000 < 1000" by simp
  ultimately show ?thesis by (simp add: pg_time_def)
qed

section \<open>Text\<close>

text \<open>The characters of a UTF-8 text are counted without its continuation bytes.\<close>

definition is_continuation :: "char \<Rightarrow> bool" where
  "is_continuation c \<longleftrightarrow> 128 \<le> (of_char c :: nat) \<and> (of_char c :: nat) < 192"

definition text_length :: "string \<Rightarrow> nat" where
  "text_length s = length (filter (\<lambda>c. \<not> is_continuation c) s)"

lemma text_length_le: "text_length s \<le> length s"
  by (simp add: text_length_def)

text \<open>
  LIKE patterns: \<open>%\<close> matches any text, \<open>_\<close> one character, a backslash quotes the next character.
  A pattern that ends in a lone backslash is an error (22025).
\<close>

datatype like_item = AnyText | AnyChar | Literal char

fun parse_like :: "string \<Rightarrow> like_item list option" where
  "parse_like [] = Some []"
| "parse_like (c # s) =
     (if c = CHR 0x5C then
        (case s of [] \<Rightarrow> None | d # r \<Rightarrow> map_option ((#) (Literal d)) (parse_like r))
      else map_option ((#) (if c = CHR ''%'' then AnyText else if c = CHR ''_'' then AnyChar
                            else Literal c)) (parse_like s))"

function like_items :: "like_item list \<Rightarrow> string \<Rightarrow> bool" where
  "like_items [] s \<longleftrightarrow> s = []"
| "like_items (AnyText # p) [] \<longleftrightarrow> like_items p []"
| "like_items (AnyText # p) (c # s) \<longleftrightarrow> like_items p (c # s) \<or> like_items (AnyText # p) s"
| "like_items (AnyChar # p) [] \<longleftrightarrow> False"
| "like_items (AnyChar # p) (c # s) \<longleftrightarrow> like_items p (dropWhile is_continuation s)"
| "like_items (Literal d # p) [] \<longleftrightarrow> False"
| "like_items (Literal d # p) (c # s) \<longleftrightarrow> c = d \<and> like_items p s"
  by pat_completeness auto

termination
proof (relation "measure (\<lambda>(p, s). length p + length s)", goal_cases)
  case (5 p c s)
  have "length (dropWhile is_continuation s) \<le> length s" by (rule length_dropWhile_le)
  then show ?case by simp
qed auto

definition ILIKE :: "(string \<Rightarrow> string) \<Rightarrow> string \<Rightarrow> string \<Rightarrow> bool" where
  "ILIKE lo s pattern =
     (case parse_like (lo pattern) of None \<Rightarrow> False | Some p \<Rightarrow> like_items p (lo s))"

text \<open>\<open>'%' || search || '%'\<close>.\<close>

definition contains_pattern :: "string \<Rightarrow> string" where
  "contains_pattern search = ''%'' @ search @ ''%''"

section \<open>Ordering and paging\<close>

fun insert_by :: "('a \<Rightarrow> 'a \<Rightarrow> bool) \<Rightarrow> 'a \<Rightarrow> 'a list \<Rightarrow> 'a list" where
  "insert_by le x [] = [x]"
| "insert_by le x (y # ys) = (if le x y then x # y # ys else y # insert_by le x ys)"

definition order_by :: "('a \<Rightarrow> 'a \<Rightarrow> bool) \<Rightarrow> 'a list \<Rightarrow> 'a list" where
  "order_by le xs = foldr (insert_by le) xs []"

lemma order_by_simps [simp]:
  "order_by le [] = []" "order_by le (x # xs) = insert_by le x (order_by le xs)"
  by (simp_all add: order_by_def)

lemma set_insert_by [simp]: "set (insert_by le x xs) = insert x (set xs)"
  by (induction xs) auto

lemma set_order_by [simp]: "set (order_by le xs) = set xs"
  by (induction xs) simp_all

lemma length_insert_by [simp]: "length (insert_by le x xs) = Suc (length xs)"
  by (induction xs) auto

lemma length_order_by [simp]: "length (order_by le xs) = length xs"
  by (induction xs) simp_all

lemma distinct_insert_by: "distinct (insert_by le x xs) \<longleftrightarrow> x \<notin> set xs \<and> distinct xs"
  by (induction xs) auto

lemma distinct_order_by: "distinct xs \<Longrightarrow> distinct (order_by le xs)"
  by (induction xs) (simp_all add: distinct_insert_by)

text \<open>
  \<open>LIMIT l::int OFFSET o::int\<close>. A negative limit is error 2201W and a negative offset 2201X.
\<close>

definition limit_offset :: "int \<Rightarrow> int \<Rightarrow> 'a list \<Rightarrow> goerr + 'a list" where
  "limit_offset l off xs =
     (if l < 0 then Inl (PgError ''2201W'')
      else if off < 0 then Inl (PgError ''2201X'')
      else Inr (take (nat l) (drop (nat off) xs)))"

section \<open>Rows and keys\<close>

text \<open>
  \<open>DELETE\<close> and \<open>UPDATE\<close> on the rows that satisfy a condition, and the number of rows they touch.
\<close>

definition rows_matching :: "('r \<Rightarrow> bool) \<Rightarrow> 'r list \<Rightarrow> int" where
  "rows_matching P xs = int (length (filter P xs))"

definition update_rows :: "('r \<Rightarrow> bool) \<Rightarrow> ('r \<Rightarrow> 'r) \<Rightarrow> 'r list \<Rightarrow> 'r list" where
  "update_rows P f xs = map (\<lambda>r. if P r then f r else r) xs"

definition delete_rows :: "('r \<Rightarrow> bool) \<Rightarrow> 'r list \<Rightarrow> 'r list" where
  "delete_rows P xs = filter (\<lambda>r. \<not> P r) xs"

text \<open>\<open>one_row\<close> is \<open>QueryRow(...).Scan\<close>: the first row, or \<open>pgx.ErrNoRows\<close>.\<close>

definition one_row :: "'r option \<Rightarrow> goerr + 'r" where
  "one_row x = (case x of None \<Rightarrow> Inl (Sentinel PgxErrNoRows) | Some r \<Rightarrow> Inr r)"

lemma one_row_simps [simp]:
  "one_row None = Inl (Sentinel PgxErrNoRows)" "one_row (Some r) = Inr r"
  by (simp_all add: one_row_def)

lemma update_rows_simps [simp]:
  "update_rows P f [] = []"
  "update_rows P f (x # xs) = (if P x then f x else x) # update_rows P f xs"
  by (simp_all add: update_rows_def)

lemma delete_rows_simps [simp]:
  "delete_rows P [] = []"
  "delete_rows P (x # xs) = (if P x then delete_rows P xs else x # delete_rows P xs)"
  by (simp_all add: delete_rows_def)

lemma set_update_rows: "set (update_rows P f xs) = (\<lambda>r. if P r then f r else r) ` set xs"
  by (simp add: update_rows_def)

lemma set_delete_rows [simp]: "set (delete_rows P xs) = {r \<in> set xs. \<not> P r}"
  by (simp add: delete_rows_def)

lemma map_update_rows: "(\<And>r. P r \<Longrightarrow> key (f r) = key r) \<Longrightarrow> map key (update_rows P f xs) = map key xs"
  by (induction xs) auto

lemma image_update_rows:
  "(\<And>r. P r \<Longrightarrow> key (f r) = key r) \<Longrightarrow> key ` set (update_rows P f xs) = key ` set xs"
  using map_update_rows [of P key f xs] by (metis set_map)

lemma update_rows_none: "(\<And>r. r \<in> set xs \<Longrightarrow> \<not> P r) \<Longrightarrow> update_rows P f xs = xs"
  by (induction xs) auto

lemma distinct_map_delete_rows: "distinct (map key xs) \<Longrightarrow> distinct (map key (delete_rows P xs))"
  by (simp add: delete_rows_def distinct_map_filter)

lemma ball_update_rows:
  "(\<forall>r\<in>set (update_rows P f xs). Q r) \<longleftrightarrow> (\<forall>r\<in>set xs. if P r then Q (f r) else Q r)"
  by (auto simp: set_update_rows)

lemma find_update_rows_key:
  assumes "\<And>r. key (f r) = key r"
  shows "find (\<lambda>r. key r = k) (update_rows P f xs) =
         map_option (\<lambda>r. if P r then f r else r) (find (\<lambda>r. key r = k) xs)"
  by (induction xs) (auto simp: assms)

lemma find_delete_rows:
  "find Q (delete_rows P xs) = find (\<lambda>r. Q r \<and> \<not> P r) xs"
  by (induction xs) auto

lemma find_cong_key: "(\<And>r. r \<in> set xs \<Longrightarrow> P r = Q r) \<Longrightarrow> find P xs = find Q xs"
  by (induction xs) auto

section \<open>Constraints (migrations)\<close>

definition user_check :: "dbUser \<Rightarrow> bool" where
  "user_check u \<longleftrightarrow> duRole u = ''user'' \<or> duRole u = ''admin''"

definition oauth_check :: "OAuthAccount \<Rightarrow> bool" where
  "oauth_check a \<longleftrightarrow> oacProvider a = ''google''"

text \<open>The language pattern is two lower-case letters and subtags of two to eight letters or digits.\<close>

definition lower_letter :: "char \<Rightarrow> bool" where
  "lower_letter c \<longleftrightarrow> CHR ''a'' \<le> c \<and> c \<le> CHR ''z''"

definition letter_or_digit :: "char \<Rightarrow> bool" where
  "letter_or_digit c \<longleftrightarrow> lower_letter c \<or> (CHR ''A'' \<le> c \<and> c \<le> CHR ''Z'') \<or> (CHR ''0'' \<le> c \<and> c \<le> CHR ''9'')"

definition language_subtag :: "string \<Rightarrow> bool" where
  "language_subtag s \<longleftrightarrow> 2 \<le> length s \<and> length s \<le> 8 \<and> list_all letter_or_digit s"

definition language_ok :: "string \<Rightarrow> bool" where
  "language_ok s \<longleftrightarrow>
     (case Split s (CHR ''-'') of
        [] \<Rightarrow> False
      | p # ps \<Rightarrow> length p = 2 \<and> list_all lower_letter p \<and> list_all language_subtag ps)"

definition word_check :: "dbWord \<Rightarrow> bool" where
  "word_check w \<longleftrightarrow> language_ok (dwLanguage w) \<and>
     (case dwPronunciation w of None \<Rightarrow> True | Some p \<Rightarrow> text_length p \<le> 200)"

definition sense_check :: "dbWordSense \<Rightarrow> bool" where
  "sense_check s \<longleftrightarrow>
     (case dsPartOfSpeech s of None \<Rightarrow> True | Some p \<Rightarrow> PartOfSpeech_Valid p) \<and>
     1 \<le> text_length (dsDefinition s) \<and> text_length (dsDefinition s) \<le> 2000 \<and>
     (case dsExample s of None \<Rightarrow> True | Some x \<Rightarrow> text_length x \<le> 2000)"

definition user_word_check :: "UserWord \<Rightarrow> bool" where
  "user_word_check u \<longleftrightarrow>
     LearningStatus_Valid (uwStatus u) \<and>
     (case uwNotes u of None \<Rightarrow> True | Some n \<Rightarrow> text_length n \<le> 2000) \<and>
     0 \<le> uwReviewCount u \<and> 0 \<le> uwCorrectCount u \<and> 0 \<le> uwBox u \<and> uwBox u \<le> 5 \<and>
     uwCorrectCount u \<le> uwReviewCount u"

text \<open>
  What every database reachable through the constraints satisfies: keys are unique, checks hold
  and references point at rows that exist.
\<close>

definition users_ok :: "(string \<Rightarrow> string) \<Rightarrow> dbUser list \<Rightarrow> bool" where
  "users_ok lo us \<longleftrightarrow> distinct (map duID us) \<and> distinct (map (\<lambda>u. lo (duEmail u)) us) \<and>
     (\<forall>u\<in>set us. user_check u)"

definition tokens_ok :: "uuid set \<Rightarrow> dbToken list \<Rightarrow> bool" where
  "tokens_ok ids ts \<longleftrightarrow> distinct (map tkID ts) \<and> distinct (map tkTokenHash ts) \<and>
     (\<forall>t\<in>set ts. tkUserID t \<in> ids)"

definition oauth_ok :: "uuid set \<Rightarrow> OAuthAccount list \<Rightarrow> bool" where
  "oauth_ok ids as \<longleftrightarrow> distinct (map oacID as) \<and>
     distinct (map (\<lambda>a. (oacProvider a, oacProviderAccountID a)) as) \<and>
     distinct (map (\<lambda>a. (oacUserID a, oacProvider a)) as) \<and>
     (\<forall>a\<in>set as. oauth_check a \<and> oacUserID a \<in> ids)"

definition words_ok :: "(string \<Rightarrow> string) \<Rightarrow> uuid set \<Rightarrow> dbWord list \<Rightarrow> bool" where
  "words_ok lo ids ws \<longleftrightarrow> distinct (map dwID ws) \<and>
     distinct (map (\<lambda>w. (dwLanguage w, lo (dwTerm w))) ws) \<and>
     (\<forall>w\<in>set ws. word_check w \<and> (case dwCreatedBy w of None \<Rightarrow> True | Some i \<Rightarrow> i \<in> ids))"

definition senses_ok :: "uuid set \<Rightarrow> dbWordSense list \<Rightarrow> bool" where
  "senses_ok ids ss \<longleftrightarrow> distinct (map dsID ss) \<and>
     (\<forall>s\<in>set ss. sense_check s \<and> dsWordID s \<in> ids)"

definition user_words_ok :: "uuid set \<Rightarrow> uuid set \<Rightarrow> UserWord list \<Rightarrow> bool" where
  "user_words_ok uids wids us \<longleftrightarrow> distinct (map (\<lambda>u. (uwUserID u, uwWordID u)) us) \<and>
     (\<forall>u\<in>set us. user_word_check u \<and> uwUserID u \<in> uids \<and> uwWordID u \<in> wids)"

definition user_ids :: "database \<Rightarrow> uuid set" where
  "user_ids d = duID ` set (tUsers d)"

definition word_ids :: "database \<Rightarrow> uuid set" where
  "word_ids d = dwID ` set (tWords d)"

definition db_ok :: "(string \<Rightarrow> string) \<Rightarrow> database \<Rightarrow> bool" where
  "db_ok lo d \<longleftrightarrow>
     users_ok lo (tUsers d) \<and> tokens_ok (user_ids d) (tResets d) \<and>
     tokens_ok (user_ids d) (tVerifications d) \<and> oauth_ok (user_ids d) (tOAuth d) \<and>
     words_ok lo (user_ids d) (tWords d) \<and> senses_ok (word_ids d) (tSenses d) \<and>
     user_words_ok (user_ids d) (word_ids d) (tUserWords d)"

lemmas table_defs = users_ok_def tokens_ok_def oauth_ok_def words_ok_def senses_ok_def user_words_ok_def

lemma db_ok_empty: "db_ok lo empty_database"
  by (simp add: db_ok_def empty_database_def table_defs)

end
