(* ===== verification/Config.thy ===== *)
theory Config
  imports Float64 Errors
begin

text \<open>
  \<open>app/config/config.go\<close>: the configuration, the readers of environment variables, \<open>Load\<close> and
  \<open>Validate\<close>. The environment is a function that gives the empty text for an unset variable, as
  \<open>os.Getenv\<close> does. \<open>time.ParseDuration\<close> is modelled with its overflow checks and its
  floating-point fractions.
\<close>

section \<open>The configuration\<close>

record App =
  apEnv :: string
  apName :: string
  apPort :: int
  apFrontendURL :: string
  apResetPasswordPath :: string
  apVerifyEmailPath :: string
  apShutdownTimeout :: duration
  apBodyLimitBytes :: int
  apTrustedProxies :: "string list"
  apHeartbeatEnabled :: bool
  apHeartbeatInterval :: duration
  apBackendURL :: string

record Log =
  lgLevel :: string
  lgFormat :: string

record Database =
  dcURL :: string
  dcMaxConns :: int
  dcMinConns :: int
  dcMaxConnLifetime :: duration
  dcMaxConnIdleTime :: duration

record Auth =
  auJWTSecret :: string
  auJWTExpiry :: duration
  auRefreshSecret :: string
  auRefreshExpiry :: duration
  auIssuer :: string
  auBcryptCost :: int
  auPasswordResetExpiry :: duration
  auEmailVerificationExpiry :: duration
  auRefreshCookie :: bool
  auCookieDomain :: string
  auCookieSecure :: bool
  auCookieSameSite :: string

record Google =
  ggClientID :: string
  ggClientSecret :: string
  ggRedirectURL :: string

record OpenAI =
  oaAPIKey :: string
  oaModel :: string
  oaBaseURL :: string
  oaTimeout :: duration
  oaLogDir :: string

record CORS =
  coAllowedOrigins :: "string list"
  coAllowCredentials :: bool

record RateLimit_config =
  rlEnabled :: bool
  rlMax :: int
  rlWindow :: duration
  rlAuthMax :: int
  rlAuthWindow :: duration
  rlTrustHeader :: bool

record StorageConfig =
  sgProvider :: string
  sgPublicBaseURL :: string
  sgLocalPath :: string
  sgMaxUploadBytes :: int
  sgS3Bucket :: string
  sgS3Region :: string
  sgS3Endpoint :: string
  sgS3AccessKey :: string
  sgS3SecretKey :: string
  sgS3UsePathStyle :: bool

record Config =
  cfApp :: App
  cfLog :: Log
  cfDB :: Database
  cfRedisURL :: string
  cfAuth :: Auth
  cfGoogle :: Google
  cfOpenAI :: OpenAI
  cfCORS :: CORS
  cfLimiter :: RateLimit_config
  cfStorage :: StorageConfig

definition EnvDevelopment :: string where "EnvDevelopment = ''development''"
definition EnvTesting :: string where "EnvTesting = ''testing''"
definition EnvProduction :: string where "EnvProduction = ''production''"

definition Google_Enabled :: "Google \<Rightarrow> bool" where
  "Google_Enabled g \<longleftrightarrow> ggClientID g \<noteq> [] \<and> ggClientSecret g \<noteq> [] \<and> ggRedirectURL g \<noteq> []"

definition OpenAI_Enabled :: "OpenAI \<Rightarrow> bool" where
  "OpenAI_Enabled a \<longleftrightarrow> oaAPIKey a \<noteq> []"

definition IsProduction :: "App \<Rightarrow> bool" where
  "IsProduction a \<longleftrightarrow> apEnv a = EnvProduction"

definition Addr :: "App \<Rightarrow> string" where
  "Addr a = CHR '':'' # FormatInt (apPort a)"

section \<open>Durations as text\<close>

text \<open>\<open>leadingInt\<close>: the digits in front, or None when they exceed \<open>2^63\<close>.\<close>

fun leadingInt :: "nat \<Rightarrow> string \<Rightarrow> (nat \<times> string) option" where
  "leadingInt x [] = Some (x, [])"
| "leadingInt x (c # s) =
     (if \<not> is_digit c then Some (x, c # s)
      else if x > 2 ^ 63 div 10 then None
      else let y = 10 * x + digit_val c in if y > 2 ^ 63 then None else leadingInt y s)"

text \<open>
  \<open>leadingFraction\<close>: the digits after the point as a number and its power of ten; digits past the
  capacity are read and ignored.
\<close>

fun leadingFraction :: "nat \<Rightarrow> nat \<Rightarrow> bool \<Rightarrow> string \<Rightarrow> nat \<times> nat \<times> string" where
  "leadingFraction x scale overflow [] = (x, scale, [])"
| "leadingFraction x scale overflow (c # s) =
     (if \<not> is_digit c then (x, scale, c # s)
      else if overflow \<or> x > (2 ^ 63 - 1) div 10 then leadingFraction x scale True s
      else let y = 10 * x + digit_val c in
           if y > 2 ^ 63 then leadingFraction x scale True s
           else leadingFraction y (10 * scale) False s)"

definition unit_of :: "string \<Rightarrow> nat option" where
  "unit_of u =
     map_of [(''ns'', 1), (''us'', 1000), ([CHR 0xC2, CHR 0xB5, CHR ''s''], 1000),
             ([CHR 0xCE, CHR 0xBC, CHR ''s''], 1000), (''ms'', 1000000), (''s'', 1000000000),
             (''m'', 60000000000), (''h'', 3600000000000)] u"

definition unit_end :: "char \<Rightarrow> bool" where
  "unit_end c \<longleftrightarrow> c = CHR ''.'' \<or> is_digit c"

text \<open>One round of the loop: a number with a unit, added to the total \<open>d\<close>.\<close>

definition duration_round :: "nat \<Rightarrow> string \<Rightarrow> (nat \<times> string) option" where
  "duration_round d s =
     (case s of
        [] \<Rightarrow> None
      | c # _ \<Rightarrow>
        if \<not> (c = CHR ''.'' \<or> is_digit c) then None
        else
          (case leadingInt 0 s of
             None \<Rightarrow> None
           | Some (v, s1) \<Rightarrow>
             let pre = length s1 \<noteq> length s;
                 (f, scale, s2, post) =
                   (case s1 of
                      p # r \<Rightarrow>
                        if p = CHR ''.'' then
                          (case leadingFraction 0 1 False r of
                             (f, scale, t) \<Rightarrow> (f, scale, t, length t \<noteq> length r))
                        else (0, 1, s1, False)
                    | [] \<Rightarrow> (0, 1, s1, False)) in
             if \<not> pre \<and> \<not> post then None
             else
              (case unit_of (takeWhile (\<lambda>c. \<not> unit_end c) s2) of
                 None \<Rightarrow> None
               | Some unit \<Rightarrow>
                   if v > 2 ^ 63 div unit then None
                   else
                     let v1 = v * unit;
                         v2 = (if f > 0
                               then v1 + nat \<lfloor>fmul (float_of_int (int f))
                                                   (fdiv (float_of_int (int unit)) (float_of_int (int scale)))\<rfloor>
                               else v1) in
                     if v2 > 2 ^ 63 \<or> d + v2 > 2 ^ 63 then None
                     else Some (d + v2, dropWhile (\<lambda>c. \<not> unit_end c) s2))))"

text \<open>The loop consumes at least one character per round, so the length of the text is fuel enough.\<close>

fun duration_loop :: "nat \<Rightarrow> nat \<Rightarrow> string \<Rightarrow> nat option" where
  "duration_loop fuel d [] = Some d"
| "duration_loop 0 d (c # s) = None"
| "duration_loop (Suc fuel) d (c # s) =
     (case duration_round d (c # s) of None \<Rightarrow> None | Some (d', r) \<Rightarrow> duration_loop fuel d' r)"

definition ParseDuration :: "string \<Rightarrow> duration option" where
  "ParseDuration s =
     (let (neg, body) =
        (case s of
           [] \<Rightarrow> (False, s)
         | c # t \<Rightarrow> if c = CHR ''-'' then (True, t) else if c = CHR ''+'' then (False, t)
                   else (False, s)) in
      if body = ''0'' then Some 0
      else if body = [] then None
      else (case duration_loop (length body) 0 body of
              None \<Rightarrow> None
            | Some d \<Rightarrow>
                if neg then Some (- int d)
                else if d > 2 ^ 63 - 1 then None else Some (int d)))"

section \<open>Readers of the environment\<close>

type_synonym environ = "string \<Rightarrow> string"

definition getString :: "environ \<Rightarrow> string \<Rightarrow> string \<Rightarrow> string" where
  "getString env key fallback = (let v = TrimSpace (env key) in if v \<noteq> [] then v else fallback)"

definition getInt :: "environ \<Rightarrow> string \<Rightarrow> int \<Rightarrow> int" where
  "getInt env key fallback =
     (let raw = TrimSpace (env key) in
      if raw = [] then fallback
      else let raw = (if CHR ''#'' \<in> set raw then TrimSpace (takeWhile (\<lambda>c. c \<noteq> CHR ''#'') raw)
                      else raw) in
           (case ParseInt raw of None \<Rightarrow> fallback | Some v \<Rightarrow> v))"

definition getBool :: "environ \<Rightarrow> string \<Rightarrow> bool \<Rightarrow> bool" where
  "getBool env key fallback =
     (let raw = TrimSpace (env key) in
      if raw = [] then fallback
      else (case ParseBool raw of None \<Rightarrow> fallback | Some v \<Rightarrow> v))"

definition getDuration :: "environ \<Rightarrow> string \<Rightarrow> duration \<Rightarrow> duration" where
  "getDuration env key fallback =
     (let raw = TrimSpace (env key) in
      if raw = [] then fallback
      else (case ParseDuration raw of None \<Rightarrow> fallback | Some v \<Rightarrow> v))"

definition getStringSlice :: "environ \<Rightarrow> string \<Rightarrow> string list \<Rightarrow> string list" where
  "getStringSlice env key fallback =
     (let raw = TrimSpace (env key) in
      if raw = [] then fallback
      else let out = filter (\<lambda>p. p \<noteq> []) (map TrimSpace (Split raw (CHR '',''))) in
           if out = [] then fallback else out)"

section \<open>Validation\<close>

definition problem_if :: "bool \<Rightarrow> string \<Rightarrow> string list" where
  "problem_if b m = (if b then [m] else [])"

definition config_problems :: "(string \<Rightarrow> string) \<Rightarrow> (string \<Rightarrow> string) \<Rightarrow> Config \<Rightarrow> string list" where
  "config_problems lower quote c =
     (let app = cfApp c; auth = cfAuth c; st = cfStorage c in
      problem_if (apEnv app \<noteq> EnvDevelopment \<and> apEnv app \<noteq> EnvTesting \<and> apEnv app \<noteq> EnvProduction)
        (''APP_ENV must be one of development|staging|production, got '' @ Quote quote (apEnv app)) @
      problem_if (apFrontendURL app = []) ''FRONTEND_URL is required'' @
      problem_if (apPort app < 1 \<or> apPort app > 65535) ''PORT must be between 1 and 65535'' @
      problem_if (dcURL (cfDB c) = []) ''DATABASE_URL is required'' @
      problem_if (cfRedisURL c = []) ''REDIS_URL is required'' @
      problem_if (length (auJWTSecret auth) < 32) ''JWT_SECRET must be at least 32 characters'' @
      problem_if (length (auRefreshSecret auth) < 32) ''REFRESH_SECRET must be at least 32 characters'' @
      problem_if (auJWTSecret auth = auRefreshSecret auth) ''JWT_SECRET and REFRESH_SECRET must differ'' @
      problem_if (auJWTExpiry auth \<le> 0 \<or> auJWTExpiry auth > Hour) ''JWT_EXPIRY must be > 0 and <= 1h'' @
      problem_if (auRefreshExpiry auth \<le> auJWTExpiry auth)
        ''REFRESH_EXPIRY must be greater than JWT_EXPIRY'' @
      problem_if (auBcryptCost auth < 10 \<or> auBcryptCost auth > 31)
        ''BCRYPT_COST must be between 10 and 31'' @
      (if sgProvider st = ''local'' then
         problem_if (sgLocalPath st = []) ''STORAGE_LOCAL_PATH is required for the local provider''
       else if sgProvider st = ''s3'' then
         problem_if (sgS3Bucket st = []) ''S3_BUCKET is required for the s3 provider'' @
         problem_if (sgS3Region st = []) ''S3_REGION is required for the s3 provider''
       else [''STORAGE_PROVIDER must be local or s3, got '' @ Quote quote (sgProvider st)]) @
      (if IsProduction app then
         concat (map (\<lambda>origin. problem_if (origin = ''*'')
                        ''CORS_ALLOWED_ORIGINS must not contain '*' in production'')
                   (coAllowedOrigins (cfCORS c))) @
         problem_if (auRefreshCookie auth \<and> \<not> auCookieSecure auth)
           ''COOKIE_SECURE must be true in production when refresh cookies are enabled'' @
         problem_if (Contains (ToLower lower (auJWTSecret auth)) ''change-me'' \<or>
                     Contains (ToLower lower (auRefreshSecret auth)) ''change-me'')
           ''default example secrets must be replaced in production''
       else []))"

definition newline :: string where "newline = [CHR 0x0A]"

text \<open>\<open>(*Config).Validate\<close>: None is a nil error.\<close>

definition Config_Validate :: "(string \<Rightarrow> string) \<Rightarrow> (string \<Rightarrow> string) \<Rightarrow> Config \<Rightarrow> goerr option" where
  "Config_Validate lower quote c =
     (let problems = config_problems lower quote c in
      if 0 < length problems
      then Some (Opaque (''invalid configuration:'' @ newline @ ''  - '' @
                         Join problems (newline @ ''  - '')))
      else None)"

section \<open>Load\<close>

text \<open>What \<open>godotenv.Load\<close> reports; the environment is the one it leaves.\<close>

datatype dotenv = DotenvOk | DotenvMissing | DotenvPathError goerr | DotenvMalformed goerr

definition load_config :: "(string \<Rightarrow> string) \<Rightarrow> environ \<Rightarrow> Config" where
  "load_config lower env =
     \<lparr>cfApp =
       \<lparr>apEnv = getString env ''APP_ENV'' EnvDevelopment,
        apName = getString env ''APP_NAME'' ''backend-api'',
        apPort = getInt env ''PORT'' 8080,
        apFrontendURL = TrimRight (getString env ''FRONTEND_URL'' ''http://localhost:5173'') (CHR ''/''),
        apResetPasswordPath = getString env ''RESET_PASSWORD_PATH'' ''/reset-password'',
        apVerifyEmailPath = getString env ''VERIFY_EMAIL_PATH'' ''/verify-email'',
        apShutdownTimeout = getDuration env ''SHUTDOWN_TIMEOUT'' (15 * Second),
        apBodyLimitBytes = getInt env ''BODY_LIMIT_BYTES'' (4 * 1024 * 1024),
        apTrustedProxies = getStringSlice env ''TRUSTED_PROXIES'' [],
        apHeartbeatEnabled = getBool env ''ENABLE_HEARTBEAT'' False,
        apHeartbeatInterval = getDuration env ''HEARTBEAT_INTERVAL'' (12 * Minute),
        apBackendURL = TrimRight (getString env ''BACKEND_URL'' '''') (CHR ''/'')\<rparr>,
      cfLog = \<lparr>lgLevel = getString env ''LOG_LEVEL'' ''info'', lgFormat = getString env ''LOG_FORMAT'' ''json''\<rparr>,
      cfDB =
       \<lparr>dcURL = getString env ''DATABASE_URL'' '''',
        dcMaxConns = int32 (getInt env ''DB_MAX_CONNS'' 20),
        dcMinConns = int32 (getInt env ''DB_MIN_CONNS'' 2),
        dcMaxConnLifetime = getDuration env ''DB_MAX_CONN_LIFETIME'' Hour,
        dcMaxConnIdleTime = getDuration env ''DB_MAX_CONN_IDLE_TIME'' (30 * Minute)\<rparr>,
      cfRedisURL = getString env ''REDIS_URL'' '''',
      cfAuth =
       \<lparr>auJWTSecret = getString env ''JWT_SECRET'' '''',
        auJWTExpiry = getDuration env ''JWT_EXPIRY'' (15 * Minute),
        auRefreshSecret = getString env ''REFRESH_SECRET'' '''',
        auRefreshExpiry = getDuration env ''REFRESH_EXPIRY'' (720 * Hour),
        auIssuer = getString env ''JWT_ISSUER'' ''backend-api'',
        auBcryptCost = getInt env ''BCRYPT_COST'' 12,
        auPasswordResetExpiry = getDuration env ''PASSWORD_RESET_EXPIRY'' Hour,
        auEmailVerificationExpiry = getDuration env ''EMAIL_VERIFICATION_EXPIRY'' (24 * Hour),
        auRefreshCookie = getBool env ''REFRESH_COOKIE_ENABLED'' False,
        auCookieDomain = getString env ''COOKIE_DOMAIN'' '''',
        auCookieSecure = getBool env ''COOKIE_SECURE'' True,
        auCookieSameSite = getString env ''COOKIE_SAMESITE'' ''Strict''\<rparr>,
      cfGoogle =
       \<lparr>ggClientID = getString env ''GOOGLE_CLIENT_ID'' '''',
        ggClientSecret = getString env ''GOOGLE_CLIENT_SECRET'' '''',
        ggRedirectURL = getString env ''GOOGLE_REDIRECT_URL'' ''''\<rparr>,
      cfOpenAI =
       \<lparr>oaAPIKey = getString env ''OPENAI_API_KEY'' '''',
        oaModel = getString env ''OPENAI_MODEL'' ''gpt-4o-mini'',
        oaBaseURL = TrimRight (getString env ''OPENAI_BASE_URL'' ''https://api.openai.com/v1'') (CHR ''/''),
        oaTimeout = getDuration env ''OPENAI_TIMEOUT'' (20 * Second),
        oaLogDir = getString env ''OPENAI_LOG_DIR'' ''./.data/openai-logs''\<rparr>,
      cfCORS =
       \<lparr>coAllowedOrigins = getStringSlice env ''CORS_ALLOWED_ORIGINS'' [''http://localhost:5173''],
        coAllowCredentials = getBool env ''CORS_ALLOW_CREDENTIALS'' True\<rparr>,
      cfLimiter =
       \<lparr>rlEnabled = getBool env ''RATE_LIMIT_ENABLED'' True,
        rlMax = getInt env ''RATE_LIMIT_MAX'' 120,
        rlWindow = getDuration env ''RATE_LIMIT_WINDOW'' Minute,
        rlAuthMax = getInt env ''AUTH_RATE_LIMIT_MAX'' 10,
        rlAuthWindow = getDuration env ''AUTH_RATE_LIMIT_WINDOW'' Minute,
        rlTrustHeader = False\<rparr>,
      cfStorage =
       \<lparr>sgProvider = ToLower lower (getString env ''STORAGE_PROVIDER'' ''local''),
        sgPublicBaseURL =
          TrimRight (getString env ''STORAGE_PUBLIC_BASE_URL'' ''http://localhost:8080/files'') (CHR ''/''),
        sgLocalPath = getString env ''STORAGE_LOCAL_PATH'' ''./.data/uploads'',
        sgMaxUploadBytes = int64 (getInt env ''STORAGE_MAX_UPLOAD_BYTES'' (5 * 1024 * 1024)),
        sgS3Bucket = getString env ''S3_BUCKET'' '''',
        sgS3Region = getString env ''S3_REGION'' ''us-east-1'',
        sgS3Endpoint = getString env ''S3_ENDPOINT'' '''',
        sgS3AccessKey = getString env ''S3_ACCESS_KEY_ID'' '''',
        sgS3SecretKey = getString env ''S3_SECRET_ACCESS_KEY'' '''',
        sgS3UsePathStyle = getBool env ''S3_USE_PATH_STYLE'' True\<rparr>\<rparr>"

definition Load :: "(string \<Rightarrow> string) \<Rightarrow> (string \<Rightarrow> string) \<Rightarrow> dotenv \<Rightarrow> environ \<Rightarrow> goerr + Config" where
  "Load lower quote de env =
     (case de of
        DotenvMalformed e \<Rightarrow> Inl (Wrapf ''load .env: '' e '''')
      | _ \<Rightarrow>
          let cfg = load_config lower env in
          (case Config_Validate lower quote cfg of Some e \<Rightarrow> Inl e | None \<Rightarrow> Inr cfg))"

section \<open>Properties\<close>

lemma problem_if_Nil [simp]: "problem_if b m = [] \<longleftrightarrow> \<not> b"
  by (simp add: problem_if_def)

text \<open>What an accepted configuration satisfies.\<close>

definition config_ok :: "(string \<Rightarrow> string) \<Rightarrow> Config \<Rightarrow> bool" where
  "config_ok lower c \<longleftrightarrow>
     (let app = cfApp c; auth = cfAuth c; st = cfStorage c in
      (apEnv app = EnvDevelopment \<or> apEnv app = EnvTesting \<or> apEnv app = EnvProduction) \<and>
      apFrontendURL app \<noteq> [] \<and> 1 \<le> apPort app \<and> apPort app \<le> 65535 \<and>
      dcURL (cfDB c) \<noteq> [] \<and> cfRedisURL c \<noteq> [] \<and>
      32 \<le> length (auJWTSecret auth) \<and> 32 \<le> length (auRefreshSecret auth) \<and>
      auJWTSecret auth \<noteq> auRefreshSecret auth \<and>
      0 < auJWTExpiry auth \<and> auJWTExpiry auth \<le> Hour \<and> auJWTExpiry auth < auRefreshExpiry auth \<and>
      10 \<le> auBcryptCost auth \<and> auBcryptCost auth \<le> 31 \<and>
      (sgProvider st = ''local'' \<and> sgLocalPath st \<noteq> [] \<or>
       sgProvider st = ''s3'' \<and> sgS3Bucket st \<noteq> [] \<and> sgS3Region st \<noteq> []) \<and>
      (IsProduction app \<longrightarrow>
         ''*'' \<notin> set (coAllowedOrigins (cfCORS c)) \<and> (auRefreshCookie auth \<longrightarrow> auCookieSecure auth) \<and>
         \<not> Contains (ToLower lower (auJWTSecret auth)) ''change-me'' \<and>
         \<not> Contains (ToLower lower (auRefreshSecret auth)) ''change-me''))"

lemma config_problems_Nil: "config_problems lower quote c = [] \<longleftrightarrow> config_ok lower c"
proof -
  have storage: "(if p = ''local'' then problem_if a m
       else if p = ''s3'' then problem_if b n @ problem_if d k else [q]) = [] \<longleftrightarrow>
      p = ''local'' \<and> \<not> a \<or> p = ''s3'' \<and> \<not> b \<and> \<not> d" for p a m b n d k q
    by simp
  have origins: "concat (map (\<lambda>origin. problem_if (origin = ''*'') m) xs) = [] \<longleftrightarrow> ''*'' \<notin> set xs" for m xs
    by (induction xs) auto
  have prod: "(if b then xs else []) = [] \<longleftrightarrow> (b \<longrightarrow> xs = [])" for b and xs :: "string list"
    by simp
  show ?thesis
    unfolding config_problems_def config_ok_def Let_def append_is_Nil_conv problem_if_Nil storage
      origins prod not_less not_le de_Morgan_conj de_Morgan_disj not_not
    by (simp only: conj_assoc) blast
qed

lemma Config_Validate_None: "Config_Validate lower quote c = None \<longleftrightarrow> config_ok lower c"
  unfolding config_problems_Nil [of lower quote c, symmetric]
  by (simp add: Config_Validate_def Let_def)

text \<open>The loop of \<open>ParseDuration\<close> makes progress.\<close>

lemma leadingInt_length: "leadingInt x s = Some (v, r) \<Longrightarrow> length r \<le> length s"
  by (induction x s rule: leadingInt.induct) (fastforce simp: Let_def split: if_splits)+

lemma leadingFraction_length: "leadingFraction x sc ov s = (f, k, r) \<Longrightarrow> length r \<le> length s"
  by (induction x sc ov s rule: leadingFraction.induct) (fastforce simp: Let_def split: if_splits)+

end
