(* ===== verification/World.thy ===== *)
theory World
  imports Schema Config
begin

text \<open>
  Everything outside the process. \<open>ext\<close> collects the functions of the packages and services that
  are not part of the repository; every definition that uses one takes the record as an argument
  \<open>E\<close>, and a theorem that relies on one of their documented laws names it as a hypothesis.
  \<open>world\<close> is the mutable state: the database, Redis, the stored files, the clock, the entropy
  drawn so far, the log, and a schedule that says how long each outside call takes and whether it
  fails. A fault strikes before the call has an effect.
\<close>

section \<open>Functions of other packages\<close>

text \<open>The signing method named in the header of a JWT, and the options of \<open>jwt.ParseWithClaims\<close>.\<close>

datatype jwt_method = SigningMethodHMAC string | OtherMethod string

record jwt_options =
  joMethods :: "string list"
  joIssuer :: string
  joExpirationRequired :: bool
  joNow :: gotime

text \<open>The claims of a Google ID token that \<open>app/lib/auth/google.go\<close> reads (\<open>googleClaims\<close>).\<close>

record googleClaims =
  gcIssuer :: string
  gcAudience :: "string list"
  gcExpiresAt :: "gotime option"
  gcSubject :: string
  gcEmail :: string
  gcEmailVerified :: bool
  gcName :: string
  gcGivenName :: string
  gcPicture :: string
  gcHostedDomain :: string

text \<open>\<open>OAuthState\<close> of \<open>app/lib/auth/oauth_state.go\<close>.\<close>

record OAuthState =
  osCodeVerifier :: string
  osReturnTo :: string
  osCreatedAt :: gotime

text \<open>\<open>Sense\<close> of \<open>app/lib/dictionary/get_initial_word_data.go\<close>.\<close>

record Sense =
  snPartOfSpeech :: string
  snDefinition :: string
  snExample :: string
  snSynonyms :: "string list"
  snAntonyms :: "string list"
  snOtherWaysToSay :: "string list"

record http_request =
  hqMethod :: string
  hqURL :: string
  hqHeaders :: "(string \<times> string) list"
  hqBody :: string

record http_response =
  hrStatus :: int
  hrBody :: string

text \<open>
  \<open>x_jwt_decode\<close> and \<open>x_jwt_verified\<close> (the header and payload of a token, and the check of its
  signature under a key) only appear in the laws of the JWT package.
  The random sources are sequences indexed by the number of draws made before; \<open>x_http\<close> is the
  answer of the outside world to the \<open>n\<close>-th request, \<open>x_cwd\<close> the working directory and \<open>x_temp\<close>
  the suffixes that \<open>os.CreateTemp\<close> draws.
\<close>

record ext =
  x_uuid :: "nat \<Rightarrow> uuid"
  x_random :: "nat \<Rightarrow> nat \<Rightarrow> string"
  x_uuid_string :: "uuid \<Rightarrow> string"
  x_uuid_parse :: "string \<Rightarrow> uuid option"
  x_unicode_lower :: "string \<Rightarrow> string"
  x_unicode_quote :: "string \<Rightarrow> string"
  x_pg_lower :: "string \<Rightarrow> string"
  x_pg_le :: "string \<Rightarrow> string \<Rightarrow> bool"
  x_bcrypt_generate :: "nat \<Rightarrow> int \<Rightarrow> string \<Rightarrow> goerr + string"
  x_bcrypt_compare :: "string \<Rightarrow> string \<Rightarrow> goerr option"
  x_bcrypt_cost :: "string \<Rightarrow> int option"
  x_numeric_date :: "gotime \<Rightarrow> gotime"
  x_jwt_sign :: "string \<Rightarrow> Claims \<Rightarrow> goerr + string"
  x_jwt_parse :: "jwt_options \<Rightarrow> (jwt_method \<Rightarrow> goerr + string) \<Rightarrow> string \<Rightarrow> goerr + Claims"
  x_jwt_decode :: "string \<Rightarrow> (jwt_method \<times> Claims) option"
  x_jwt_verified :: "string \<Rightarrow> string \<Rightarrow> bool"
  x_id_token :: "string \<Rightarrow> googleClaims option"
  x_meta_marshal :: "WordMeta \<Rightarrow> goerr + string"
  x_meta_unmarshal :: "string \<Rightarrow> goerr + WordMeta"
  x_jsonb :: "string \<Rightarrow> string option"
  x_state_marshal :: "OAuthState \<Rightarrow> goerr + string"
  x_state_unmarshal :: "string \<Rightarrow> goerr + OAuthState"
  x_http :: "nat \<Rightarrow> http_request \<Rightarrow> goerr + http_response"
  x_cwd :: string
  x_temp :: "nat \<Rightarrow> string"

section \<open>State\<close>

text \<open>
  How an outside call can fail. Usually it has had no effect then; when only its reply is lost, it has.
\<close>

datatype fault = Broken string | Canceled | DeadlineExceeded | ReplyLost fault

fun fault_error :: "fault \<Rightarrow> goerr" where
  "fault_error (Broken m) = Opaque m"
| "fault_error Canceled = Sentinel ContextCanceled"
| "fault_error DeadlineExceeded = Sentinel ContextDeadlineExceeded"
| "fault_error (ReplyLost x) = fault_error x"

fun took_effect :: "fault \<Rightarrow> bool" where
  "took_effect (ReplyLost x) = True"
| "took_effect x = False"

datatype redis_value = RString string | RHash "(string \<times> string) list"

record redis_entry =
  reValue :: redis_value
  reExpires :: "gotime option"

datatype log_level = LevelDebug | LevelInfo | LevelWarn | LevelError

record log_entry =
  leLevel :: log_level
  leMessage :: string
  leAttrs :: "(string \<times> string) list"

record world =
  w_db :: database
  w_redis :: "string \<Rightarrow> redis_entry option"
  w_files :: "string \<Rightarrow> string option"
  w_clock :: gotime
  w_txnow :: "gotime option"
  w_rng :: nat
  w_sched :: "(nat \<times> fault option) list"
  w_log :: "log_entry list"

type_synonym 'a act = "(world, goerr, 'a) go"

text \<open>An outside call takes the head of the schedule: time passes and the call may fail, before or after its effect.\<close>

definition pending_fault :: "world \<Rightarrow> fault option" where
  "pending_fault w = (case w_sched w of [] \<Rightarrow> None | (_, x) # _ \<Rightarrow> x)"

definition tick :: "world \<Rightarrow> world" where
  "tick w =
     (case w_sched w of [] \<Rightarrow> w
      | (d, _) # rest \<Rightarrow> w\<lparr>w_clock := w_clock w + int d, w_sched := rest\<rparr>)"

definition external :: "'a act \<Rightarrow> 'a act" where
  "external f w =
     (case pending_fault w of
        None \<Rightarrow> f (tick w)
      | Some x \<Rightarrow> (Inl (fault_error x), if took_effect x then snd (f (tick w)) else tick w))"

definition calm :: "world \<Rightarrow> bool" where
  "calm w \<longleftrightarrow> list_all (\<lambda>(d, x). x = None) (w_sched w)"

lemma tick_fields [simp]:
  "w_db (tick w) = w_db w" "w_redis (tick w) = w_redis w" "w_files (tick w) = w_files w"
  "w_txnow (tick w) = w_txnow w" "w_rng (tick w) = w_rng w" "w_log (tick w) = w_log w"
  by (simp_all add: tick_def split: list.split)

lemma tick_clock: "w_clock w \<le> w_clock (tick w)"
  by (simp add: tick_def split: list.split)

lemma tick_idle: "w_sched w = [] \<Longrightarrow> tick w = w"
  by (simp add: tick_def)

lemma calm_tick [simp]: "calm w \<Longrightarrow> calm (tick w)"
  by (auto simp: calm_def tick_def split: list.split)

lemma calm_no_fault: "calm w \<Longrightarrow> pending_fault w = None"
  by (auto simp: calm_def pending_fault_def split: list.split)

lemma calm_update [simp]:
  "calm (w\<lparr>w_db := d\<rparr>) = calm w" "calm (w\<lparr>w_redis := r\<rparr>) = calm w"
  "calm (w\<lparr>w_files := f\<rparr>) = calm w" "calm (w\<lparr>w_txnow := t\<rparr>) = calm w"
  "calm (w\<lparr>w_rng := n\<rparr>) = calm w" "calm (w\<lparr>w_log := l\<rparr>) = calm w"
  by (simp_all add: calm_def)

lemma external_calm: "calm w \<Longrightarrow> external f w = f (tick w)"
  by (simp add: external_def calm_no_fault)

lemma external_fault: "pending_fault w = Some x \<Longrightarrow> \<not> took_effect x \<Longrightarrow> external f w = (Inl (fault_error x), tick w)"
  by (simp add: external_def)

lemma external_pure: "external (ret a) w = (case pending_fault w of None \<Rightarrow> Inr a | Some x \<Rightarrow> Inl (fault_error x), tick w)"
  by (simp add: external_def ret_def split: option.split)

lemma wp_external [wp_rules]:
  "wp (external f) Q R w =
     (case pending_fault w of None \<Rightarrow> wp f Q R (tick w)
      | Some x \<Rightarrow> R (fault_error x) (if took_effect x then snd (f (tick w)) else tick w))"
  by (simp add: external_def wp_def split: option.split)

lemma pres_external [pres_intros]:
  assumes "\<And>w. I w \<Longrightarrow> I (tick w)" and "pres I f"
  shows "pres I (external f)"
  by (rule presI) (simp add: external_def assms presD [OF assms(2)] split: option.split)

lemma fault_error_not_app [simp]:
  "As (fault_error x) = None" "\<not> IsNoRows (fault_error x)" "\<not> Is (fault_error x) RedisNil"
  "\<not> IsPgError (fault_error x) c" "\<not> has_code (fault_error x) cd"
  by (induction x; simp add: IsNoRows_def IsPgError_def)+

section \<open>Clock, entropy and log\<close>

definition time_now :: "gotime act" where
  "time_now = gets w_clock"

definition draw_uuid :: "ext \<Rightarrow> uuid act" where
  "draw_uuid E w = (Inr (x_uuid E (w_rng w)), w\<lparr>w_rng := Suc (w_rng w)\<rparr>)"

definition uuid_NewString :: "ext \<Rightarrow> string act" where
  "uuid_NewString E = attempt (draw_uuid E) fail (\<lambda>u. ret (x_uuid_string E u))"

definition rand_Read :: "ext \<Rightarrow> nat \<Rightarrow> string act" where
  "rand_Read E n =
     external (\<lambda>w. (Inr (x_random E (w_rng w) n), w\<lparr>w_rng := Suc (w_rng w)\<rparr>))"

definition log_at :: "log_level \<Rightarrow> string \<Rightarrow> (string \<times> string) list \<Rightarrow> unit act" where
  "log_at l m as = modify (\<lambda>w. w\<lparr>w_log := w_log w @ [\<lparr>leLevel = l, leMessage = m, leAttrs = as\<rparr>]\<rparr>)"

lemmas act_defs = time_now_def draw_uuid_def uuid_NewString_def rand_Read_def log_at_def

lemma draw_uuid_run [go_run]:
  "draw_uuid E w = (Inr (x_uuid E (w_rng w)), w\<lparr>w_rng := Suc (w_rng w)\<rparr>)"
  by (simp add: draw_uuid_def)

lemma uuid_NewString_run [go_run]:
  "uuid_NewString E w = (Inr (x_uuid_string E (x_uuid E (w_rng w))), w\<lparr>w_rng := Suc (w_rng w)\<rparr>)"
  by (simp add: uuid_NewString_def attempt_def draw_uuid_def ret_def)

lemma time_now_run [go_run]: "time_now w = (Inr (w_clock w), w)"
  by (simp add: time_now_def gets_def)

lemma log_at_run [go_run]:
  "log_at l m as w = (Inr (), w\<lparr>w_log := w_log w @ [\<lparr>leLevel = l, leMessage = m, leAttrs = as\<rparr>]\<rparr>)"
  by (simp add: log_at_def modify_def)

section \<open>Lower case and equality of CITEXT\<close>

text \<open>
  The server's \<open>lower()\<close> maps ASCII letters as C does; what it does to other letters depends on its
  locale. Two CITEXT values are equal when their lower-cased forms are.
\<close>

definition pg_lower :: "ext \<Rightarrow> string \<Rightarrow> string" where
  "pg_lower E = ToLower (x_pg_lower E)"

definition citext_eq :: "ext \<Rightarrow> string \<Rightarrow> string \<Rightarrow> bool" where
  "citext_eq E a b \<longleftrightarrow> pg_lower E a = pg_lower E b"

section \<open>Statements and transactions (app/lib/wordotronDb.go, app/repository/store.go)\<close>

text \<open>\<open>NOW()\<close> is the start of the transaction the statement runs in.\<close>

definition NOW :: "world \<Rightarrow> gotime" where
  "NOW w = pg_time (case w_txnow w of Some t \<Rightarrow> t | None \<Rightarrow> w_clock w)"

text \<open>
  A statement is a function of \<open>NOW()\<close>, the id \<open>gen_random_uuid()\<close> would give, and the database.
\<close>

type_synonym 'a stmt = "gotime \<Rightarrow> uuid \<Rightarrow> database \<Rightarrow> (goerr + 'a) \<times> database"

definition run_stmt :: "ext \<Rightarrow> 'a stmt \<Rightarrow> 'a act" where
  "run_stmt E q = external (\<lambda>w.
     (case q (NOW w) (x_uuid E (w_rng w)) (w_db w) of
        (r, d) \<Rightarrow> (r, w\<lparr>w_db := d, w_rng := Suc (w_rng w)\<rparr>)))"

text \<open>
  \<open>lib.InTx\<close>: the database is restored when the body or the commit fails. A transaction whose opening
  or commit has failed is gone; if a commit took effect and only its reply was lost, then the
  transaction is closed and rolling it back does nothing.
\<close>

definition Begin :: "unit act" where
  "Begin = attempt (external (ret ())) fail (\<lambda>_. modify (\<lambda>w. w\<lparr>w_txnow := Some (w_clock w)\<rparr>))"

definition rollback :: "database \<Rightarrow> unit act" where
  "rollback saved = ignore (external (ret ()))
     (modify (\<lambda>w. w\<lparr>w_db := saved, w_txnow := None\<rparr>))"

definition rollback_open :: "database \<Rightarrow> unit act" where
  "rollback_open saved = ignore (external (ret ()))
     (modify (\<lambda>w. if w_txnow w = None then w else w\<lparr>w_db := saved, w_txnow := None\<rparr>))"

definition Commit :: "unit act" where
  "Commit = external (modify (\<lambda>w. w\<lparr>w_txnow := None\<rparr>))"

definition InTx :: "'a act \<Rightarrow> 'a act" where
  "InTx fn =
     attempt Begin (\<lambda>e. fail (Wrapf ''begin transaction: '' e '''')) (\<lambda>_.
     attempt (gets w_db) fail (\<lambda>saved.
     attempt fn (\<lambda>e. ignore (rollback saved) (fail e)) (\<lambda>a.
     attempt Commit
       (\<lambda>e. ignore (rollback_open saved) (fail (Wrapf ''commit transaction: '' e '''')))
       (\<lambda>_. ret a))))"

text \<open>
  A \<open>Store\<close> is bound to the pool or to a transaction; a transaction inside a transaction fails.
\<close>

datatype Store = PoolStore | TxStore

fun WithTx :: "Store \<Rightarrow> (Store \<Rightarrow> 'a act) \<Rightarrow> 'a act" where
  "WithTx TxStore fn = fail (Opaque ''repository: nested transactions are not supported'')"
| "WithTx PoolStore fn = InTx (fn TxStore)"

lemma NOW_fields [simp]:
  "NOW (w\<lparr>w_db := d\<rparr>) = NOW w" "NOW (w\<lparr>w_redis := r\<rparr>) = NOW w" "NOW (w\<lparr>w_rng := n\<rparr>) = NOW w"
  "NOW (w\<lparr>w_log := l\<rparr>) = NOW w" "NOW (w\<lparr>w_files := f\<rparr>) = NOW w"
  "NOW (w\<lparr>w_txnow := Some t\<rparr>) = pg_time t"
  by (simp_all add: NOW_def split: option.split)

lemma run_stmt_calm:
  assumes "calm w" and "q (NOW (tick w)) (x_uuid E (w_rng w)) (w_db w) = (r, d)"
  shows "run_stmt E q w = (r, (tick w)\<lparr>w_db := d, w_rng := Suc (w_rng w)\<rparr>)"
  using assms by (simp add: run_stmt_def external_calm)

lemma wp_run_stmt [wp_rules]:
  "wp (run_stmt E q) Q R w =
     (case pending_fault w of
        Some x \<Rightarrow> R (fault_error x) (if took_effect x
          then (tick w)\<lparr>w_db := snd (q (NOW (tick w)) (x_uuid E (w_rng w)) (w_db w)), w_rng := Suc (w_rng w)\<rparr> else tick w)
      | None \<Rightarrow>
          (case q (NOW (tick w)) (x_uuid E (w_rng w)) (w_db w) of
             (Inl e, d) \<Rightarrow> R e ((tick w)\<lparr>w_db := d, w_rng := Suc (w_rng w)\<rparr>)
           | (Inr a, d) \<Rightarrow> Q a ((tick w)\<lparr>w_db := d, w_rng := Suc (w_rng w)\<rparr>)))"
proof (cases "pending_fault w")
  case None
  then show ?thesis
    by (cases "q (NOW (tick w)) (x_uuid E (w_rng w)) (w_db w)")
       (auto simp: run_stmt_def external_def wp_def split: sum.split)
qed (auto simp: run_stmt_def wp_external split: prod.split)

text \<open>A transaction leaves the database untouched unless its body ends well, and then it may commit.\<close>

lemmas tx_defs = InTx_def Begin_def Commit_def rollback_def rollback_open_def external_def

lemma InTx_atomic:
  assumes "InTx fn w = (Inl e, w')"
  shows "w_db w' = w_db w \<or> (\<exists>a v v'. fn v = (Inr a, v') \<and> w_db v = w_db w \<and> w_db w' = w_db v')"
proof -
  let ?v = "(tick w)\<lparr>w_txnow := Some (w_clock (tick w))\<rparr>"
  obtain r v' where run: "fn ?v = (r, v')" by fastforce
  show ?thesis
  proof (cases r)
    case (Inl e')
    then show ?thesis using assms run
      by (auto simp: tx_defs go_defs split: option.splits prod.splits sum.splits if_splits)
  next
    case (Inr a)
    then have "w_db w' = w_db w \<or> w_db w' = w_db v'" using assms run
      by (auto simp: tx_defs go_defs split: option.splits prod.splits sum.splits if_splits)
    moreover have "w_db ?v = w_db w" by simp
    ultimately show ?thesis using run Inr by blast
  qed
qed

text \<open>What holds of the database before and after every body holds after the transaction.\<close>

lemma InTx_preserves:
  assumes body: "\<And>w. I (w_db w) \<Longrightarrow> I (w_db (snd (fn w)))" and "I (w_db w)"
  shows "I (w_db (snd (InTx fn w)))"
proof (cases "pending_fault w")
  case (Some x)
  then show ?thesis using assms(2)
    by (simp add: InTx_def Begin_def external_pure attempt_def fail_def)
next
  case None
  define v where "v = (tick w)\<lparr>w_txnow := Some (w_clock (tick w))\<rparr>"
  obtain r w1 where fn: "fn v = (r, w1)" by fastforce
  have v: "w_db v = w_db w" by (simp add: v_def)
  have "I (w_db w1)" using body [of v] fn assms(2) by (simp add: v)
  then show ?thesis using None fn assms(2) v
    by (auto simp: tx_defs go_defs simp flip: v_def split: option.splits sum.splits if_splits)
qed

lemma InTx_calm_ok:
  assumes "calm w"
    and fn: "fn ((tick w)\<lparr>w_txnow := Some (w_clock (tick w))\<rparr>) = (Inr a, w1)"
    and "calm w1"
  shows "InTx fn w = (Inr a, (tick w1)\<lparr>w_txnow := None\<rparr>)"
  using assms by (simp add: InTx_def Begin_def Commit_def external_calm go_defs)

lemma InTx_calm_err:
  assumes "calm w"
    and fn: "fn ((tick w)\<lparr>w_txnow := Some (w_clock (tick w))\<rparr>) = (Inl e, w1)"
    and "calm w1"
  shows "InTx fn w = (Inl e, (tick w1)\<lparr>w_db := w_db w, w_txnow := None\<rparr>)"
  using assms by (simp add: InTx_def Begin_def rollback_def external_calm go_defs)

end
