(* ===== verification/Redis.thy ===== *)
theory Redis
  imports World "HOL-Library.AList"
begin

text \<open>
  The Redis commands the program sends, as documented, on a store of strings and hashes whose keys
  may carry an expiry. A key at or past its expiry does not exist. \<open>TxPipeline\<close> runs its commands
  as one MULTI/EXEC block and reports the first error; every command of the block is run.
\<close>

type_synonym redis_store = "string \<Rightarrow> redis_entry option"
type_synonym 'a command = "gotime \<Rightarrow> redis_store \<Rightarrow> (goerr + 'a) \<times> redis_store"

definition expired :: "gotime \<Rightarrow> redis_entry \<Rightarrow> bool" where
  "expired now e = (case reExpires e of None \<Rightarrow> False | Some t \<Rightarrow> t \<le> now)"

definition live_entry :: "gotime \<Rightarrow> redis_store \<Rightarrow> string \<Rightarrow> redis_entry option" where
  "live_entry now st k =
     (case st k of None \<Rightarrow> None | Some e \<Rightarrow> if expired now e then None else Some e)"

definition WRONGTYPE :: goerr where
  "WRONGTYPE = Opaque ''WRONGTYPE Operation against a key holding the wrong kind of value''"

text \<open>
  How the client renders a duration: whole seconds for \<open>EXPIRE\<close>, and for \<open>SET\<close> milliseconds
  unless the duration is a whole number of seconds; a positive duration is at least one unit.
\<close>

definition Millisecond :: duration where "Millisecond = 1000000"

definition format_sec :: "duration \<Rightarrow> duration" where
  "format_sec d = (if 0 < d \<and> d < Second then Second else d div Second * Second)"

definition set_ttl :: "duration \<Rightarrow> duration option" where
  "set_ttl d =
     (if d \<le> 0 then None
      else if d < Millisecond then Some Millisecond
      else if d mod Second = 0 then Some d
      else Some (d div Millisecond * Millisecond))"

definition HSET :: "string \<Rightarrow> string \<Rightarrow> string \<Rightarrow> unit command" where
  "HSET k f v now st =
     (case live_entry now st k of
        None \<Rightarrow> (Inr (), st(k \<mapsto> \<lparr>reValue = RHash [(f, v)], reExpires = None\<rparr>))
      | Some e \<Rightarrow>
          (case reValue e of
             RHash h \<Rightarrow> (Inr (), st(k \<mapsto> e\<lparr>reValue := RHash (AList.update f v h)\<rparr>))
           | RString _ \<Rightarrow> (Inl WRONGTYPE, st)))"

definition EXPIRE :: "string \<Rightarrow> duration \<Rightarrow> bool command" where
  "EXPIRE k d now st =
     (case live_entry now st k of
        None \<Rightarrow> (Inr False, st)
      | Some e \<Rightarrow>
          if format_sec d \<le> 0 then (Inr True, st(k := None))
          else (Inr True, st(k \<mapsto> e\<lparr>reExpires := Some (now + format_sec d)\<rparr>)))"

definition HGET :: "string \<Rightarrow> string \<Rightarrow> string command" where
  "HGET k f now st =
     (case live_entry now st k of
        None \<Rightarrow> (Inl (Sentinel RedisNil), st)
      | Some e \<Rightarrow>
          (case reValue e of
             RHash h \<Rightarrow> (case map_of h f of None \<Rightarrow> (Inl (Sentinel RedisNil), st) | Some v \<Rightarrow> (Inr v, st))
           | RString _ \<Rightarrow> (Inl WRONGTYPE, st)))"

text \<open>\<open>HDEL\<close> removes the key with its last field.\<close>

definition HDEL :: "string \<Rightarrow> string \<Rightarrow> int command" where
  "HDEL k f now st =
     (case live_entry now st k of
        None \<Rightarrow> (Inr 0, st)
      | Some e \<Rightarrow>
          (case reValue e of
             RHash h \<Rightarrow>
               (let h' = AList.delete f h in
                (Inr (if map_of h f = None then 0 else 1),
                 if h' = [] then st(k := None) else st(k \<mapsto> e\<lparr>reValue := RHash h'\<rparr>)))
           | RString _ \<Rightarrow> (Inl WRONGTYPE, st)))"

definition HLEN :: "string \<Rightarrow> int command" where
  "HLEN k now st =
     (case live_entry now st k of
        None \<Rightarrow> (Inr 0, st)
      | Some e \<Rightarrow>
          (case reValue e of RHash h \<Rightarrow> (Inr (int (length h)), st)
           | RString _ \<Rightarrow> (Inl WRONGTYPE, st)))"

definition DEL :: "string \<Rightarrow> int command" where
  "DEL k now st = (Inr (if live_entry now st k = None then 0 else 1), st(k := None))"

definition SET :: "string \<Rightarrow> string \<Rightarrow> duration \<Rightarrow> unit command" where
  "SET k v d now st =
     (Inr (), st(k \<mapsto> \<lparr>reValue = RString v,
                       reExpires = map_option ((+) now) (set_ttl d)\<rparr>))"

definition GET :: "string \<Rightarrow> string command" where
  "GET k now st =
     (case live_entry now st k of
        None \<Rightarrow> (Inl (Sentinel RedisNil), st)
      | Some e \<Rightarrow> (case reValue e of RString v \<Rightarrow> (Inr v, st) | RHash _ \<Rightarrow> (Inl WRONGTYPE, st)))"

definition GETDEL :: "string \<Rightarrow> string command" where
  "GETDEL k now st =
     (case live_entry now st k of
        None \<Rightarrow> (Inl (Sentinel RedisNil), st)
      | Some e \<Rightarrow>
          (case reValue e of RString v \<Rightarrow> (Inr v, st(k := None)) | RHash _ \<Rightarrow> (Inl WRONGTYPE, st)))"

definition EXISTS :: "string \<Rightarrow> int command" where
  "EXISTS k now st = (Inr (if live_entry now st k = None then 0 else 1), st)"

definition INCR :: "string \<Rightarrow> int command" where
  "INCR k now st =
     (case live_entry now st k of
        None \<Rightarrow> (Inr 1, st(k \<mapsto> \<lparr>reValue = RString (FormatInt 1), reExpires = None\<rparr>))
      | Some e \<Rightarrow>
          (case reValue e of
             RHash _ \<Rightarrow> (Inl WRONGTYPE, st)
           | RString v \<Rightarrow>
               (case ParseInt v of
                  None \<Rightarrow> (Inl (Opaque ''ERR value is not an integer or out of range''), st)
                | Some n \<Rightarrow>
                    if n = 2 ^ 63 - 1
                    then (Inl (Opaque ''ERR increment or decrement would overflow''), st)
                    else (Inr (n + 1), st(k \<mapsto> e\<lparr>reValue := RString (FormatInt (n + 1))\<rparr>)))))"

text \<open>\<open>EXPIRE key seconds NX\<close> sets an expiry only where there is none.\<close>

definition EXPIRE_NX :: "string \<Rightarrow> duration \<Rightarrow> bool command" where
  "EXPIRE_NX k d now st =
     (case live_entry now st k of
        None \<Rightarrow> (Inr False, st)
      | Some e \<Rightarrow> if reExpires e = None then EXPIRE k d now st else (Inr False, st))"

text \<open>
  \<open>TTL\<close>: the remaining time rounded to whole seconds; the client returns the raw answers -1 (no
  expiry) and -2 (no key) as nanoseconds.
\<close>

definition TTL :: "string \<Rightarrow> duration command" where
  "TTL k now st =
     (case live_entry now st k of
        None \<Rightarrow> (Inr (- 2), st)
      | Some e \<Rightarrow>
          (case reExpires e of None \<Rightarrow> (Inr (- 1), st)
           | Some t \<Rightarrow> (Inr ((t - now + Second div 2) div Second * Second), st)))"

section \<open>Pipelines\<close>

definition pipeline2 :: "'a command \<Rightarrow> 'b command \<Rightarrow> ((goerr + 'a) \<times> (goerr + 'b)) command" where
  "pipeline2 c1 c2 now st =
     (let (r1, st1) = c1 now st; (r2, st2) = c2 now st1 in (Inr (r1, r2), st2))"

definition multi2 :: "'a command \<Rightarrow> 'b command \<Rightarrow> ('a \<times> 'b) command" where
  "multi2 c1 c2 now st =
     (let (r1, st1) = c1 now st; (r2, st2) = c2 now st1 in
      (case r1 of Inl e \<Rightarrow> Inl e
       | Inr a \<Rightarrow> (case r2 of Inl e \<Rightarrow> Inl e | Inr b \<Rightarrow> Inr (a, b)), st2))"

definition redis :: "'a command \<Rightarrow> 'a act" where
  "redis c = external (\<lambda>w. (case c (w_clock w) (w_redis w) of (r, st) \<Rightarrow> (r, w\<lparr>w_redis := st\<rparr>)))"

text \<open>The state after a command that left the store \<open>st\<close>.\<close>

definition after_redis :: "world \<Rightarrow> redis_store \<Rightarrow> world" where
  "after_redis w st = (tick w)\<lparr>w_redis := st\<rparr>"

lemma after_redis_fields [simp]:
  "w_db (after_redis w st) = w_db w" "w_redis (after_redis w st) = st"
  "w_files (after_redis w st) = w_files w" "w_txnow (after_redis w st) = w_txnow w"
  "w_rng (after_redis w st) = w_rng w" "w_log (after_redis w st) = w_log w"
  "w_clock (after_redis w st) = w_clock (tick w)" "w_sched (after_redis w st) = w_sched (tick w)"
  by (simp_all add: after_redis_def)

lemma calm_after_redis [simp]: "calm w \<Longrightarrow> calm (after_redis w st)"
  by (simp add: after_redis_def)

lemma redis_calm:
  assumes "calm w"
  shows "redis c w = (case c (w_clock (tick w)) (w_redis w) of (r, st) \<Rightarrow> (r, after_redis w st))"
  using assms by (simp add: redis_def external_calm after_redis_def split: prod.split)

lemma wp_redis [wp_rules]:
  "wp (redis c) Q R w =
     (case pending_fault w of
        Some x \<Rightarrow> R (fault_error x) (if took_effect x
          then after_redis w (snd (c (w_clock (tick w)) (w_redis w))) else tick w)
      | None \<Rightarrow>
          (case c (w_clock (tick w)) (w_redis w) of
             (Inl e, st) \<Rightarrow> R e (after_redis w st)
           | (Inr a, st) \<Rightarrow> Q a (after_redis w st)))"
proof (cases "pending_fault w")
  case None
  then show ?thesis
    by (cases "c (w_clock (tick w)) (w_redis w)")
       (auto simp: redis_def external_def wp_def after_redis_def split: sum.split)
qed (simp add: redis_def wp_external after_redis_def split: prod.split)

text \<open>A command touches Redis alone.\<close>

lemma redis_frame:
  "w_db (snd (redis c w)) = w_db w" "w_files (snd (redis c w)) = w_files w"
  "w_txnow (snd (redis c w)) = w_txnow w" "w_rng (snd (redis c w)) = w_rng w"
  by (auto simp: redis_def external_def split: option.split prod.split)

lemma live_entry_later:
  assumes "live_entry t st k = Some e" and "s \<le> t"
  shows "live_entry s st k = Some e"
  using assms by (auto simp: live_entry_def expired_def split: option.splits if_splits)

end
