(* ===== verification/Queries.thy ===== *)
theory Queries
  imports World
begin

text \<open>
  The statements of \<open>app/repository/db/*.sql.go\<close>: each function of \<open>db.Queries\<close> is the effect of
  its SQL text on the database, with the constraints, cascades and triggers of the migrations. A
  failing statement leaves the database as it was. The order of the checks is that of the server:
  column checks, then unique indexes, then foreign keys.
\<close>

section \<open>Helpers of the SQL texts\<close>

definition query :: "(database \<Rightarrow> goerr + 'a) \<Rightarrow> 'a stmt" where
  "query f t i d = (f d, d)"

definition reject :: "string \<Rightarrow> database \<Rightarrow> (goerr + 'a) \<times> database" where
  "reject c d = (Inl (PgError c), d)"

definition COALESCE :: "'a option \<Rightarrow> 'a \<Rightarrow> 'a" where
  "COALESCE x y = (case x of None \<Rightarrow> y | Some v \<Rightarrow> v)"

definition COALESCE_null :: "'a option \<Rightarrow> 'a option \<Rightarrow> 'a option" where
  "COALESCE_null x y = (case x of None \<Rightarrow> y | Some v \<Rightarrow> Some v)"

text \<open>\<open>$n IS NULL OR column = $n\<close>.\<close>

definition null_or :: "'a option \<Rightarrow> ('a \<Rightarrow> bool) \<Rightarrow> bool" where
  "null_or x P = (case x of None \<Rightarrow> True | Some v \<Rightarrow> P v)"

text \<open>\<open>tags @> $n\<close>: NULL tags contain nothing, not even the empty array.\<close>

definition tags_contain :: "string list option \<Rightarrow> string list \<Rightarrow> bool" where
  "tags_contain tags xs =
     (case tags of None \<Rightarrow> False | Some ts \<Rightarrow> list_all (\<lambda>x. List.member ts x) xs)"

text \<open>
  The ORDER BY of the list queries: one CASE per sortable column and direction, then the id.
\<close>

definition sort_le ::
    "(string \<times> ('r \<Rightarrow> 'r \<Rightarrow> bool)) list \<Rightarrow> ('r \<Rightarrow> 'r \<Rightarrow> bool) \<Rightarrow> string \<Rightarrow> string \<Rightarrow> 'r \<Rightarrow> 'r \<Rightarrow> bool"
where
  "sort_le columns id_le by_column direction a b =
     (case map_of columns by_column of
        None \<Rightarrow> id_le a b
      | Some le \<Rightarrow>
          if direction = ''asc'' then le a b \<and> (le b a \<longrightarrow> id_le a b)
          else if direction = ''desc'' then le b a \<and> (le a b \<longrightarrow> id_le a b)
          else id_le a b)"

definition citext_le :: "ext \<Rightarrow> string \<Rightarrow> string \<Rightarrow> bool" where
  "citext_le E a b = x_pg_le E (pg_lower E a) (pg_lower E b)"

lemmas sql_defs = query_def reject_def COALESCE_def COALESCE_null_def null_or_def

section \<open>Users (users.sql.go)\<close>

record CreateUserParams =
  cupEmail :: string
  cupPasswordHash :: "string option"
  cupFullName :: string
  cupRole :: string

record UpdateUserParams =
  uupID :: uuid
  uupFullName :: "string option"
  uupAvatarUrl :: "string option"
  uupRole :: "string option"
  uupIsActive :: "bool option"

record ListUsersParams =
  lupSearch :: "string option"
  lupRole :: "string option"
  lupIsActive :: "bool option"
  lupSortBy :: string
  lupSortOrder :: string
  lupPageOffset :: int
  lupPageLimit :: int

definition user_matches :: "ext \<Rightarrow> string option \<Rightarrow> string option \<Rightarrow> bool option \<Rightarrow> dbUser \<Rightarrow> bool" where
  "user_matches E search role active u \<longleftrightarrow>
     null_or search (\<lambda>s. ILIKE (pg_lower E) (duEmail u) (contains_pattern s) \<or>
                         ILIKE (pg_lower E) (duFullName u) (contains_pattern s)) \<and>
     null_or role (\<lambda>r. duRole u = r) \<and>
     null_or active (\<lambda>b. duIsActive u = b)"

definition CountUsers :: "ext \<Rightarrow> string option \<Rightarrow> string option \<Rightarrow> bool option \<Rightarrow> int stmt" where
  "CountUsers E search role active =
     query (\<lambda>d. Inr (rows_matching (user_matches E search role active) (tUsers d)))"

text \<open>Inserting a user: the role's check, the primary key, the unique address.\<close>

definition insert_user :: "ext \<Rightarrow> dbUser \<Rightarrow> database \<Rightarrow> (goerr + dbUser) \<times> database" where
  "insert_user E u d =
     (if \<not> user_check u then reject PgCheckViolation d
      else if list_ex (\<lambda>v. duID v = duID u \<or> citext_eq E (duEmail v) (duEmail u)) (tUsers d)
      then reject PgUniqueViolation d
      else (Inr u, d\<lparr>tUsers := tUsers d @ [u]\<rparr>))"

definition CreateUser :: "ext \<Rightarrow> CreateUserParams \<Rightarrow> dbUser stmt" where
  "CreateUser E p now i d =
     insert_user E
       \<lparr>duID = i, duEmail = cupEmail p, duPasswordHash = cupPasswordHash p,
        duFullName = cupFullName p, duRole = cupRole p, duAvatarUrl = None, duIsActive = True,
        duEmailVerifiedAt = None, duLastLoginAt = None, duCreatedAt = now, duUpdatedAt = now\<rparr> d"

text \<open>
  Deleting a user cascades to tokens, external identities and word lists; the words the user
  created stay, without a creator, and their update trigger fires.
\<close>

definition DeleteUser :: "uuid \<Rightarrow> int stmt" where
  "DeleteUser k now i d =
     (let n = rows_matching (\<lambda>u. duID u = k) (tUsers d) in
      if n = 0 then (Inr 0, d)
      else
       (Inr n,
        d\<lparr>tUsers := delete_rows (\<lambda>u. duID u = k) (tUsers d),
          tResets := delete_rows (\<lambda>t. tkUserID t = k) (tResets d),
          tVerifications := delete_rows (\<lambda>t. tkUserID t = k) (tVerifications d),
          tOAuth := delete_rows (\<lambda>a. oacUserID a = k) (tOAuth d),
          tWords := update_rows (\<lambda>w. dwCreatedBy w = Some k)
                      (\<lambda>w. w\<lparr>dwCreatedBy := None, dwUpdatedAt := now\<rparr>) (tWords d),
          tUserWords := delete_rows (\<lambda>u. uwUserID u = k) (tUserWords d)\<rparr>))"

definition EmailExistsQuery :: "ext \<Rightarrow> string \<Rightarrow> bool stmt" where
  "EmailExistsQuery E email = query (\<lambda>d. Inr (list_ex (\<lambda>u. citext_eq E (duEmail u) email) (tUsers d)))"

definition GetUserByEmail :: "ext \<Rightarrow> string \<Rightarrow> dbUser stmt" where
  "GetUserByEmail E email =
     query (\<lambda>d. one_row (find (\<lambda>u. citext_eq E (duEmail u) email) (tUsers d)))"

definition GetUserByID :: "uuid \<Rightarrow> dbUser stmt" where
  "GetUserByID k = query (\<lambda>d. one_row (find (\<lambda>u. duID u = k) (tUsers d)))"

definition user_columns :: "ext \<Rightarrow> (string \<times> (dbUser \<Rightarrow> dbUser \<Rightarrow> bool)) list" where
  "user_columns E =
     [(''created_at'', \<lambda>a b. duCreatedAt a \<le> duCreatedAt b),
      (''updated_at'', \<lambda>a b. duUpdatedAt a \<le> duUpdatedAt b),
      (''email'', \<lambda>a b. citext_le E (duEmail a) (duEmail b)),
      (''full_name'', \<lambda>a b. x_pg_le E (duFullName a) (duFullName b))]"

definition ListUsers :: "ext \<Rightarrow> ListUsersParams \<Rightarrow> dbUser list stmt" where
  "ListUsers E p =
     query (\<lambda>d. limit_offset (lupPageLimit p) (lupPageOffset p)
       (order_by (sort_le (user_columns E) (\<lambda>a b. duID a \<le> duID b) (lupSortBy p) (lupSortOrder p))
         (filter (user_matches E (lupSearch p) (lupRole p) (lupIsActive p)) (tUsers d))))"

text \<open>An UPDATE of the user with a given id; the trigger sets \<open>updated_at\<close>.\<close>

definition touch_user :: "gotime \<Rightarrow> (dbUser \<Rightarrow> dbUser) \<Rightarrow> dbUser \<Rightarrow> dbUser" where
  "touch_user now f u = (f u)\<lparr>duUpdatedAt := now\<rparr>"

definition set_user :: "uuid \<Rightarrow> (dbUser \<Rightarrow> dbUser) \<Rightarrow> database \<Rightarrow> database" where
  "set_user k f d = d\<lparr>tUsers := update_rows (\<lambda>u. duID u = k) f (tUsers d)\<rparr>"

definition update_user :: "uuid \<Rightarrow> (dbUser \<Rightarrow> dbUser) \<Rightarrow> database \<Rightarrow> (goerr + dbUser) \<times> database" where
  "update_user k f d =
     (case find (\<lambda>u. duID u = k) (tUsers d) of
        None \<Rightarrow> (Inl (Sentinel PgxErrNoRows), d)
      | Some u \<Rightarrow>
          if user_check (f u) then (Inr (f u), set_user k f d) else reject PgCheckViolation d)"

definition MarkUserEmailVerified :: "uuid \<Rightarrow> unit stmt" where
  "MarkUserEmailVerified k now i d =
     (Inr (), set_user k (touch_user now (\<lambda>u. u\<lparr>duEmailVerifiedAt := Some now\<rparr>)) d)"

definition UpdateLastLogin :: "uuid \<Rightarrow> unit stmt" where
  "UpdateLastLogin k now i d =
     (Inr (), set_user k (touch_user now (\<lambda>u. u\<lparr>duLastLoginAt := Some now\<rparr>)) d)"

definition UpdateUser :: "UpdateUserParams \<Rightarrow> dbUser stmt" where
  "UpdateUser p now i d =
     update_user (uupID p)
       (touch_user now (\<lambda>u.
          u\<lparr>duFullName := COALESCE (uupFullName p) (duFullName u),
            duAvatarUrl := COALESCE_null (uupAvatarUrl p) (duAvatarUrl u),
            duRole := COALESCE (uupRole p) (duRole u),
            duIsActive := COALESCE (uupIsActive p) (duIsActive u)\<rparr>)) d"

definition UpdateUserPassword :: "uuid \<Rightarrow> string option \<Rightarrow> unit stmt" where
  "UpdateUserPassword k h now i d =
     (Inr (), set_user k (touch_user now (\<lambda>u. u\<lparr>duPasswordHash := h\<rparr>)) d)"

section \<open>Single-use tokens (password_reset_tokens.sql.go, email_verification_tokens.sql.go)\<close>

text \<open>
  The two tables have the same columns and the same five statements. \<open>token_table\<close> says which of
  them a statement addresses.
\<close>

datatype token_table = ResetTable | VerificationTable

fun tokens_of :: "token_table \<Rightarrow> database \<Rightarrow> dbToken list" where
  "tokens_of ResetTable d = tResets d"
| "tokens_of VerificationTable d = tVerifications d"

fun set_tokens :: "token_table \<Rightarrow> dbToken list \<Rightarrow> database \<Rightarrow> database" where
  "set_tokens ResetTable ts d = d\<lparr>tResets := ts\<rparr>"
| "set_tokens VerificationTable ts d = d\<lparr>tVerifications := ts\<rparr>"

definition create_token :: "token_table \<Rightarrow> uuid \<Rightarrow> string \<Rightarrow> gotime \<Rightarrow> dbToken stmt" where
  "create_token T user h expires now i d =
     (let t = \<lparr>tkID = i, tkUserID = user, tkTokenHash = h, tkExpiresAt = pg_time expires,
               tkUsedAt = None, tkCreatedAt = now\<rparr> in
      if list_ex (\<lambda>s. tkID s = i \<or> tkTokenHash s = h) (tokens_of T d) then reject PgUniqueViolation d
      else if \<not> list_ex (\<lambda>u. duID u = user) (tUsers d) then reject PgForeignKeyViolation d
      else (Inr t, set_tokens T (tokens_of T d @ [t]) d))"

definition delete_expired_tokens :: "token_table \<Rightarrow> int stmt" where
  "delete_expired_tokens T now i d =
     (Inr (rows_matching (\<lambda>t. tkExpiresAt t < now) (tokens_of T d)),
      set_tokens T (delete_rows (\<lambda>t. tkExpiresAt t < now) (tokens_of T d)) d)"

definition get_token :: "token_table \<Rightarrow> string \<Rightarrow> dbToken stmt" where
  "get_token T h = query (\<lambda>d. one_row (find (\<lambda>t. tkTokenHash t = h) (tokens_of T d)))"

definition use_tokens :: "token_table \<Rightarrow> (dbToken \<Rightarrow> bool) \<Rightarrow> int stmt" where
  "use_tokens T P now i d =
     (let Q = (\<lambda>t. P t \<and> tkUsedAt t = None) in
      (Inr (rows_matching Q (tokens_of T d)),
       set_tokens T (update_rows Q (\<lambda>t. t\<lparr>tkUsedAt := Some now\<rparr>) (tokens_of T d)) d))"

definition CreatePasswordResetToken :: "uuid \<Rightarrow> string \<Rightarrow> gotime \<Rightarrow> dbToken stmt" where
  "CreatePasswordResetToken = create_token ResetTable"

definition DeleteExpiredPasswordResetTokens :: "int stmt" where
  "DeleteExpiredPasswordResetTokens = delete_expired_tokens ResetTable"

definition GetPasswordResetToken :: "string \<Rightarrow> dbToken stmt" where
  "GetPasswordResetToken = get_token ResetTable"

definition InvalidateUserPasswordResetTokens :: "uuid \<Rightarrow> int stmt" where
  "InvalidateUserPasswordResetTokens user = use_tokens ResetTable (\<lambda>t. tkUserID t = user)"

definition MarkPasswordResetTokenUsed :: "uuid \<Rightarrow> int stmt" where
  "MarkPasswordResetTokenUsed k = use_tokens ResetTable (\<lambda>t. tkID t = k)"

definition CreateEmailVerificationToken :: "uuid \<Rightarrow> string \<Rightarrow> gotime \<Rightarrow> dbToken stmt" where
  "CreateEmailVerificationToken = create_token VerificationTable"

definition DeleteExpiredEmailVerificationTokens :: "int stmt" where
  "DeleteExpiredEmailVerificationTokens = delete_expired_tokens VerificationTable"

definition GetEmailVerificationToken :: "string \<Rightarrow> dbToken stmt" where
  "GetEmailVerificationToken = get_token VerificationTable"

definition InvalidateUserEmailVerificationTokens :: "uuid \<Rightarrow> int stmt" where
  "InvalidateUserEmailVerificationTokens user = use_tokens VerificationTable (\<lambda>t. tkUserID t = user)"

definition MarkEmailVerificationTokenUsed :: "uuid \<Rightarrow> int stmt" where
  "MarkEmailVerificationTokenUsed k = use_tokens VerificationTable (\<lambda>t. tkID t = k)"

section \<open>External identities (oauth_accounts.sql.go)\<close>

definition CreateOAuthUser :: "ext \<Rightarrow> string \<Rightarrow> string \<Rightarrow> string option \<Rightarrow> dbUser stmt" where
  "CreateOAuthUser E email full_name avatar now i d =
     insert_user E
       \<lparr>duID = i, duEmail = email, duPasswordHash = None, duFullName = full_name,
        duRole = ''user'', duAvatarUrl = avatar, duIsActive = True,
        duEmailVerifiedAt = Some now, duLastLoginAt = None, duCreatedAt = now, duUpdatedAt = now\<rparr> d"

definition GetOAuthAccount :: "string \<Rightarrow> string \<Rightarrow> OAuthAccount stmt" where
  "GetOAuthAccount provider account =
     query (\<lambda>d. one_row (find (\<lambda>a. oacProvider a = provider \<and> oacProviderAccountID a = account)
                            (tOAuth d)))"

definition GetOAuthAccountsByUser :: "uuid \<Rightarrow> OAuthAccount list stmt" where
  "GetOAuthAccountsByUser user =
     query (\<lambda>d. Inr (order_by (\<lambda>a b. oacCreatedAt a \<le> oacCreatedAt b)
                       (filter (\<lambda>a. oacUserID a = user) (tOAuth d))))"

definition LinkOAuthAccount :: "uuid \<Rightarrow> string \<Rightarrow> string \<Rightarrow> string option \<Rightarrow> OAuthAccount stmt" where
  "LinkOAuthAccount user provider account email now i d =
     (let a = \<lparr>oacID = i, oacUserID = user, oacProvider = provider, oacProviderAccountID = account,
               oacEmail = email, oacCreatedAt = now, oacUpdatedAt = now\<rparr> in
      if \<not> oauth_check a then reject PgCheckViolation d
      else if list_ex (\<lambda>b. oacID b = i \<or> oacProvider b = provider \<and> oacProviderAccountID b = account \<or>
                           oacUserID b = user \<and> oacProvider b = provider) (tOAuth d)
      then reject PgUniqueViolation d
      else if \<not> list_ex (\<lambda>u. duID u = user) (tUsers d) then reject PgForeignKeyViolation d
      else (Inr a, d\<lparr>tOAuth := tOAuth d @ [a]\<rparr>))"

definition MarkEmailVerified :: "uuid \<Rightarrow> dbUser stmt" where
  "MarkEmailVerified k now i d =
     update_user k
       (touch_user now (\<lambda>u. u\<lparr>duEmailVerifiedAt := COALESCE_null (duEmailVerifiedAt u) (Some now)\<rparr>)) d"

definition SetUserAvatarIfEmpty :: "uuid \<Rightarrow> string option \<Rightarrow> dbUser stmt" where
  "SetUserAvatarIfEmpty k avatar now i d =
     update_user k
       (touch_user now (\<lambda>u. u\<lparr>duAvatarUrl := COALESCE_null (duAvatarUrl u) avatar\<rparr>)) d"

definition UnlinkOAuthAccount :: "uuid \<Rightarrow> string \<Rightarrow> int stmt" where
  "UnlinkOAuthAccount user provider now i d =
     (Inr (rows_matching (\<lambda>a. oacUserID a = user \<and> oacProvider a = provider) (tOAuth d)),
      d\<lparr>tOAuth := delete_rows (\<lambda>a. oacUserID a = user \<and> oacProvider a = provider) (tOAuth d)\<rparr>)"

definition UpdateOAuthAccountEmail :: "string \<Rightarrow> string \<Rightarrow> string option \<Rightarrow> OAuthAccount stmt" where
  "UpdateOAuthAccountEmail provider account email now i d =
     (let P = (\<lambda>a. oacProvider a = provider \<and> oacProviderAccountID a = account);
          f = (\<lambda>a. a\<lparr>oacEmail := email, oacUpdatedAt := now\<rparr>) in
      case find P (tOAuth d) of
        None \<Rightarrow> (Inl (Sentinel PgxErrNoRows), d)
      | Some a \<Rightarrow> (Inr (f a), d\<lparr>tOAuth := update_rows P f (tOAuth d)\<rparr>))"

end
