(* ===== verification/QueriesWords.thy ===== *)
theory QueriesWords
  imports Queries
begin

text \<open>
  The statements of \<open>words.sql.go\<close>, \<open>word_senses.sql.go\<close> and \<open>user_words.sql.go\<close>.
\<close>

section \<open>Words (words.sql.go)\<close>

record CreateWordParams =
  cwpTerm :: string
  cwpLanguage :: string
  cwpPronunciation :: "string option"
  cwpTags :: "string list option"
  cwpCreatedBy :: "uuid option"

record UpdateWordParams =
  uwpID :: uuid
  uwpTerm :: "string option"
  uwpLanguage :: "string option"
  uwpClearPronunciation :: bool
  uwpPronunciation :: "string option"
  uwpTags :: "string list option"

record WordFilterParams =
  wfpSearch :: "string option"
  wfpLanguage :: "string option"
  wfpTags :: "string list option"
  wfpCreatedBy :: "uuid option"

record ListWordsParams = WordFilterParams +
  lwpSortBy :: string
  lwpSortOrder :: string
  lwpPageOffset :: int
  lwpPageLimit :: int

definition word_matches :: "ext \<Rightarrow> 'a WordFilterParams_scheme \<Rightarrow> dbWord \<Rightarrow> bool" where
  "word_matches E p w \<longleftrightarrow>
     null_or (wfpSearch p) (\<lambda>s. ILIKE (pg_lower E) (dwTerm w) (contains_pattern s)) \<and>
     null_or (wfpLanguage p) (\<lambda>l. dwLanguage w = l) \<and>
     null_or (wfpTags p) (\<lambda>ts. tags_contain (dwTags w) ts) \<and>
     null_or (wfpCreatedBy p) (\<lambda>i. dwCreatedBy w = Some i)"

definition CountWords :: "ext \<Rightarrow> WordFilterParams \<Rightarrow> int stmt" where
  "CountWords E p = query (\<lambda>d. Inr (rows_matching (word_matches E p) (tWords d)))"

definition same_term :: "ext \<Rightarrow> dbWord \<Rightarrow> dbWord \<Rightarrow> bool" where
  "same_term E v w \<longleftrightarrow> dwLanguage v = dwLanguage w \<and> citext_eq E (dwTerm v) (dwTerm w)"

definition CreateWord :: "ext \<Rightarrow> CreateWordParams \<Rightarrow> dbWord stmt" where
  "CreateWord E p now i d =
     (let w = \<lparr>dwID = i, dwTerm = cwpTerm p, dwLanguage = cwpLanguage p,
               dwPronunciation = cwpPronunciation p, dwTags = cwpTags p,
               dwCreatedBy = cwpCreatedBy p, dwCreatedAt = now, dwUpdatedAt = now\<rparr> in
      if \<not> word_check w then reject PgCheckViolation d
      else if list_ex (\<lambda>v. dwID v = i \<or> same_term E v w) (tWords d) then reject PgUniqueViolation d
      else if \<not> null_or (cwpCreatedBy p) (\<lambda>k. list_ex (\<lambda>u. duID u = k) (tUsers d))
      then reject PgForeignKeyViolation d
      else (Inr w, d\<lparr>tWords := tWords d @ [w]\<rparr>))"

text \<open>Deleting a word cascades to its senses and to the lists that hold it.\<close>

definition DeleteWord :: "uuid \<Rightarrow> int stmt" where
  "DeleteWord k now i d =
     (Inr (rows_matching (\<lambda>w. dwID w = k) (tWords d)),
      d\<lparr>tWords := delete_rows (\<lambda>w. dwID w = k) (tWords d),
        tSenses := (if list_ex (\<lambda>w. dwID w = k) (tWords d)
                    then delete_rows (\<lambda>s. dsWordID s = k) (tSenses d) else tSenses d),
        tUserWords := (if list_ex (\<lambda>w. dwID w = k) (tWords d)
                       then delete_rows (\<lambda>u. uwWordID u = k) (tUserWords d) else tUserWords d)\<rparr>)"

definition GetWord :: "uuid \<Rightarrow> dbWord stmt" where
  "GetWord k = query (\<lambda>d. one_row (find (\<lambda>w. dwID w = k) (tWords d)))"

definition GetWordByTerm :: "ext \<Rightarrow> string \<Rightarrow> string \<Rightarrow> dbWord stmt" where
  "GetWordByTerm E language term =
     query (\<lambda>d. one_row (find (\<lambda>w. dwLanguage w = language \<and> citext_eq E (dwTerm w) term) (tWords d)))"

text \<open>Tags with their number of uses, most used first.\<close>

definition ListWordTags :: "ext \<Rightarrow> string option \<Rightarrow> int \<Rightarrow> (string \<times> int) list stmt" where
  "ListWordTags E language page_limit =
     query (\<lambda>d.
       let ws = filter (\<lambda>w. null_or language (\<lambda>l. dwLanguage w = l)) (tWords d);
           tags = concat (map (\<lambda>w. case dwTags w of None \<Rightarrow> [] | Some ts \<Rightarrow> ts) ws);
           groups = map (\<lambda>t. (t, rows_matching (\<lambda>u. u = t) tags)) (remdups tags) in
       limit_offset page_limit 0
         (order_by (\<lambda>a b. snd b < snd a \<or> snd a = snd b \<and> x_pg_le E (fst a) (fst b)) groups))"

definition word_columns :: "ext \<Rightarrow> (string \<times> (dbWord \<Rightarrow> dbWord \<Rightarrow> bool)) list" where
  "word_columns E =
     [(''created_at'', \<lambda>a b. dwCreatedAt a \<le> dwCreatedAt b),
      (''updated_at'', \<lambda>a b. dwUpdatedAt a \<le> dwUpdatedAt b),
      (''term'', \<lambda>a b. citext_le E (dwTerm a) (dwTerm b))]"

definition ListWords :: "ext \<Rightarrow> ListWordsParams \<Rightarrow> dbWord list stmt" where
  "ListWords E p =
     query (\<lambda>d. limit_offset (lwpPageLimit p) (lwpPageOffset p)
       (order_by (sort_le (word_columns E) (\<lambda>a b. dwID a \<le> dwID b) (lwpSortBy p) (lwpSortOrder p))
         (filter (word_matches E p) (tWords d))))"

definition UpdateWord :: "ext \<Rightarrow> UpdateWordParams \<Rightarrow> dbWord stmt" where
  "UpdateWord E p now i d =
     (case find (\<lambda>w. dwID w = uwpID p) (tWords d) of
        None \<Rightarrow> (Inl (Sentinel PgxErrNoRows), d)
      | Some w \<Rightarrow>
          let w' = w\<lparr>dwTerm := COALESCE (uwpTerm p) (dwTerm w),
                     dwLanguage := COALESCE (uwpLanguage p) (dwLanguage w),
                     dwPronunciation := (if uwpClearPronunciation p then None
                        else COALESCE_null (uwpPronunciation p) (dwPronunciation w)),
                     dwTags := COALESCE_null (uwpTags p) (dwTags w), dwUpdatedAt := now\<rparr> in
          if \<not> word_check w' then reject PgCheckViolation d
          else if list_ex (\<lambda>v. dwID v \<noteq> uwpID p \<and> same_term E v w') (tWords d)
          then reject PgUniqueViolation d
          else (Inr w', d\<lparr>tWords := update_rows (\<lambda>v. dwID v = uwpID p) (\<lambda>_. w') (tWords d)\<rparr>))"

section \<open>Senses (word_senses.sql.go)\<close>

record CreateWordSenseParams =
  cspWordID :: uuid
  cspDefinition :: string
  cspPartOfSpeech :: "string option"
  cspExample :: "string option"
  cspMeta :: "string option"
  cspSenseOrder :: int

record UpdateWordSenseParams =
  uspID :: uuid
  uspClearPartOfSpeech :: bool
  uspPartOfSpeech :: "string option"
  uspDefinition :: "string option"
  uspClearExample :: bool
  uspExample :: "string option"
  uspMeta :: "string option"

text \<open>The value of a \<open>$n::jsonb\<close> parameter: NULL, a document, or error 22P02.\<close>

definition jsonb_param :: "ext \<Rightarrow> string option \<Rightarrow> goerr + string option" where
  "jsonb_param E m =
     (case m of None \<Rightarrow> Inr None
      | Some t \<Rightarrow> (case x_jsonb E t of None \<Rightarrow> Inl (PgError ''22P02'') | Some j \<Rightarrow> Inr (Some j)))"

definition CreateWordSense :: "ext \<Rightarrow> CreateWordSenseParams \<Rightarrow> dbWordSense stmt" where
  "CreateWordSense E p now i d =
     (case jsonb_param E (cspMeta p) of
        Inl e \<Rightarrow> (Inl e, d)
      | Inr m \<Rightarrow>
          let s = \<lparr>dsID = i, dsWordID = cspWordID p, dsPartOfSpeech = cspPartOfSpeech p,
                   dsDefinition = cspDefinition p, dsExample = cspExample p,
                   dsMeta = COALESCE m ''{}'', dsSenseOrder = cspSenseOrder p,
                   dsCreatedAt = now, dsUpdatedAt = now\<rparr> in
          if \<not> sense_check s then reject PgCheckViolation d
          else if list_ex (\<lambda>t. dsID t = i) (tSenses d) then reject PgUniqueViolation d
          else if \<not> list_ex (\<lambda>w. dwID w = cspWordID p) (tWords d) then reject PgForeignKeyViolation d
          else (Inr s, d\<lparr>tSenses := tSenses d @ [s]\<rparr>))"

definition DeleteWordSense :: "uuid \<Rightarrow> int stmt" where
  "DeleteWordSense k now i d =
     (Inr (rows_matching (\<lambda>s. dsID s = k) (tSenses d)),
      d\<lparr>tSenses := delete_rows (\<lambda>s. dsID s = k) (tSenses d)\<rparr>)"

definition DeleteWordSensesByWord :: "uuid \<Rightarrow> unit stmt" where
  "DeleteWordSensesByWord k now i d =
     (Inr (), d\<lparr>tSenses := delete_rows (\<lambda>s. dsWordID s = k) (tSenses d)\<rparr>)"

definition GetWordSense :: "uuid \<Rightarrow> dbWordSense stmt" where
  "GetWordSense k = query (\<lambda>d. one_row (find (\<lambda>s. dsID s = k) (tSenses d)))"

definition sense_le :: "dbWordSense \<Rightarrow> dbWordSense \<Rightarrow> bool" where
  "sense_le a b \<longleftrightarrow> dsSenseOrder a < dsSenseOrder b \<or>
     dsSenseOrder a = dsSenseOrder b \<and> dsCreatedAt a \<le> dsCreatedAt b"

definition ListWordSensesByWord :: "uuid \<Rightarrow> dbWordSense list stmt" where
  "ListWordSensesByWord k =
     query (\<lambda>d. Inr (order_by sense_le (filter (\<lambda>s. dsWordID s = k) (tSenses d))))"

definition ListWordSensesByWordIDs :: "uuid list \<Rightarrow> dbWordSense list stmt" where
  "ListWordSensesByWordIDs ks =
     query (\<lambda>d. Inr (order_by (\<lambda>a b. dsWordID a < dsWordID b \<or> dsWordID a = dsWordID b \<and> sense_le a b)
       (filter (\<lambda>s. List.member ks (dsWordID s)) (tSenses d))))"

definition UpdateWordSense :: "ext \<Rightarrow> UpdateWordSenseParams \<Rightarrow> dbWordSense stmt" where
  "UpdateWordSense E p now i d =
     (case jsonb_param E (uspMeta p) of
        Inl e \<Rightarrow> (Inl e, d)
      | Inr m \<Rightarrow>
        (case find (\<lambda>s. dsID s = uspID p) (tSenses d) of
           None \<Rightarrow> (Inl (Sentinel PgxErrNoRows), d)
         | Some s \<Rightarrow>
             let s' = s\<lparr>dsPartOfSpeech := (if uspClearPartOfSpeech p then None
                          else COALESCE_null (uspPartOfSpeech p) (dsPartOfSpeech s)),
                        dsDefinition := COALESCE (uspDefinition p) (dsDefinition s),
                        dsExample := (if uspClearExample p then None
                          else COALESCE_null (uspExample p) (dsExample s)),
                        dsMeta := COALESCE m (dsMeta s), dsUpdatedAt := now\<rparr> in
             if \<not> sense_check s' then reject PgCheckViolation d
             else (Inr s', d\<lparr>tSenses := update_rows (\<lambda>t. dsID t = uspID p) (\<lambda>_. s') (tSenses d)\<rparr>)))"

section \<open>A person's words (user_words.sql.go)\<close>

record AddWordToUserParams =
  awpUserID :: uuid
  awpWordID :: uuid
  awpStatus :: "string option"
  awpNotes :: "string option"
  awpIsFavourite :: "bool option"

record UserWordFilterParams =
  ufpUserID :: uuid
  ufpSearch :: "string option"
  ufpStatus :: "string option"
  ufpLanguage :: "string option"
  ufpTags :: "string list option"
  ufpIsFavourite :: "bool option"
  ufpDueOnly :: bool

record ListUserWordsParams = UserWordFilterParams +
  ulpSortBy :: string
  ulpSortOrder :: string
  ulpPageOffset :: int
  ulpPageLimit :: int

record UpdateUserWordParams =
  uuwStatus :: "string option"
  uuwClearNotes :: bool
  uuwNotes :: "string option"
  uuwIsFavourite :: "bool option"
  uuwUserID :: uuid
  uuwWordID :: uuid

definition user_word_key :: "uuid \<Rightarrow> uuid \<Rightarrow> UserWord \<Rightarrow> bool" where
  "user_word_key user word u \<longleftrightarrow> uwUserID u = user \<and> uwWordID u = word"

text \<open>
  Adding a word twice returns the existing row; its \<open>ON CONFLICT DO UPDATE\<close> fires the update trigger.
\<close>

definition AddWordToUser :: "AddWordToUserParams \<Rightarrow> UserWord stmt" where
  "AddWordToUser p now i d =
     (let u = \<lparr>uwUserID = awpUserID p, uwWordID = awpWordID p,
               uwStatus = COALESCE (awpStatus p) ''learning'', uwNotes = awpNotes p,
               uwIsFavourite = COALESCE (awpIsFavourite p) False, uwReviewCount = 0,
               uwCorrectCount = 0, uwBox = 0, uwLastReviewedAt = None, uwDueAt = now,
               uwAddedAt = now, uwUpdatedAt = now\<rparr>;
          K = user_word_key (awpUserID p) (awpWordID p) in
      if \<not> user_word_check u then reject PgCheckViolation d
      else
       (case find K (tUserWords d) of
          Some v \<Rightarrow>
            (Inr (v\<lparr>uwUpdatedAt := now\<rparr>),
             d\<lparr>tUserWords := update_rows K (\<lambda>v. v\<lparr>uwUpdatedAt := now\<rparr>) (tUserWords d)\<rparr>)
        | None \<Rightarrow>
            if \<not> list_ex (\<lambda>v. duID v = awpUserID p) (tUsers d) \<or>
               \<not> list_ex (\<lambda>w. dwID w = awpWordID p) (tWords d)
            then reject PgForeignKeyViolation d
            else (Inr u, d\<lparr>tUserWords := tUserWords d @ [u]\<rparr>)))"

text \<open>\<open>user_words uw JOIN words w ON w.id = uw.word_id\<close>.\<close>

definition join_words :: "database \<Rightarrow> (UserWord \<times> dbWord) list" where
  "join_words d =
     concat (map (\<lambda>u. map (Pair u) (filter (\<lambda>w. dwID w = uwWordID u) (tWords d))) (tUserWords d))"

definition user_word_matches ::
    "ext \<Rightarrow> gotime \<Rightarrow> 'a UserWordFilterParams_scheme \<Rightarrow> UserWord \<times> dbWord \<Rightarrow> bool" where
  "user_word_matches E now p x \<longleftrightarrow>
     (case x of (u, w) \<Rightarrow>
       uwUserID u = ufpUserID p \<and>
       null_or (ufpSearch p) (\<lambda>s. ILIKE (pg_lower E) (dwTerm w) (contains_pattern s)) \<and>
       null_or (ufpStatus p) (\<lambda>s. uwStatus u = s) \<and>
       null_or (ufpLanguage p) (\<lambda>l. dwLanguage w = l) \<and>
       null_or (ufpTags p) (\<lambda>ts. tags_contain (dwTags w) ts) \<and>
       null_or (ufpIsFavourite p) (\<lambda>b. uwIsFavourite u = b) \<and>
       (\<not> ufpDueOnly p \<or> (uwDueAt u \<le> now \<and> uwStatus u \<noteq> ''archived'')))"

definition CountUserWords :: "ext \<Rightarrow> UserWordFilterParams \<Rightarrow> int stmt" where
  "CountUserWords E p now i d =
     (Inr (rows_matching (user_word_matches E now p) (join_words d)), d)"

definition GetUserWord :: "uuid \<Rightarrow> uuid \<Rightarrow> UserWord stmt" where
  "GetUserWord user word = query (\<lambda>d. one_row (find (user_word_key user word) (tUserWords d)))"

definition GetUserWordStats :: "uuid \<Rightarrow> UserWordStats stmt" where
  "GetUserWordStats user now i d =
     (let us = filter (\<lambda>u. uwUserID u = user) (tUserWords d) in
      (Inr \<lparr>stTotal = int (length us),
            stLearning = rows_matching (\<lambda>u. uwStatus u = ''learning'') us,
            stKnown = rows_matching (\<lambda>u. uwStatus u = ''known'') us,
            stArchived = rows_matching (\<lambda>u. uwStatus u = ''archived'') us,
            stFavourites = rows_matching uwIsFavourite us,
            stDue = rows_matching (\<lambda>u. uwDueAt u \<le> now \<and> uwStatus u \<noteq> ''archived'') us,
            stReviews = sum_list (map uwReviewCount us),
            stCorrect = sum_list (map uwCorrectCount us)\<rparr>, d))"

definition user_word_columns :: "ext \<Rightarrow> (string \<times> (UserWord \<times> dbWord \<Rightarrow> UserWord \<times> dbWord \<Rightarrow> bool)) list"
where
  "user_word_columns E =
     [(''added_at'', \<lambda>a b. uwAddedAt (fst a) \<le> uwAddedAt (fst b)),
      (''due_at'', \<lambda>a b. uwDueAt (fst a) \<le> uwDueAt (fst b)),
      (''term'', \<lambda>a b. citext_le E (dwTerm (snd a)) (dwTerm (snd b)))]"

definition ListUserWords :: "ext \<Rightarrow> ListUserWordsParams \<Rightarrow> (UserWord \<times> dbWord) list stmt" where
  "ListUserWords E p now i d =
     (limit_offset (ulpPageLimit p) (ulpPageOffset p)
       (order_by (sort_le (user_word_columns E) (\<lambda>a b. uwWordID (fst a) \<le> uwWordID (fst b))
                   (ulpSortBy p) (ulpSortOrder p))
         (filter (user_word_matches E now p) (join_words d))), d)"

text \<open>
  Leitner scheduling. \<open>review_count + 1\<close> is an INTEGER addition, so it fails (22003) at the top.
\<close>

definition Days :: "int \<Rightarrow> duration" where
  "Days n = n * 24 * Hour"

definition review_interval :: "bool \<Rightarrow> int \<Rightarrow> duration" where
  "review_interval correct box =
     (if \<not> correct then 10 * Minute
      else if box + 1 = 1 then Days 1
      else if box + 1 = 2 then Days 2
      else if box + 1 = 3 then Days 4
      else if box + 1 = 4 then Days 7
      else Days 15)"

definition review :: "bool \<Rightarrow> gotime \<Rightarrow> UserWord \<Rightarrow> UserWord" where
  "review correct now u =
     u\<lparr>uwReviewCount := uwReviewCount u + 1,
       uwCorrectCount := uwCorrectCount u + (if correct then 1 else 0),
       uwBox := (if correct then min (uwBox u + 1) 5 else 0),
       uwStatus := (if uwStatus u = ''archived'' then uwStatus u
                    else if correct \<and> uwBox u + 1 \<ge> 5 then ''known''
                    else ''learning''),
       uwLastReviewedAt := Some now,
       uwDueAt := now + review_interval correct (uwBox u),
       uwUpdatedAt := now\<rparr>"

definition RecordReview :: "bool \<Rightarrow> uuid \<Rightarrow> uuid \<Rightarrow> UserWord stmt" where
  "RecordReview correct user word now i d =
     (case find (user_word_key user word) (tUserWords d) of
        None \<Rightarrow> (Inl (Sentinel PgxErrNoRows), d)
      | Some u \<Rightarrow>
          if uwReviewCount u + 1 \<ge> 2 ^ 31 then reject ''22003'' d
          else (Inr (review correct now u),
                d\<lparr>tUserWords := update_rows (user_word_key user word) (review correct now)
                                   (tUserWords d)\<rparr>))"

definition RemoveWordFromUser :: "uuid \<Rightarrow> uuid \<Rightarrow> int stmt" where
  "RemoveWordFromUser user word now i d =
     (Inr (rows_matching (user_word_key user word) (tUserWords d)),
      d\<lparr>tUserWords := delete_rows (user_word_key user word) (tUserWords d)\<rparr>)"

definition UpdateUserWord :: "UpdateUserWordParams \<Rightarrow> UserWord stmt" where
  "UpdateUserWord p now i d =
     (let K = user_word_key (uuwUserID p) (uuwWordID p);
          f = (\<lambda>u. u\<lparr>uwStatus := COALESCE (uuwStatus p) (uwStatus u),
                     uwNotes := (if uuwClearNotes p then None
                                 else COALESCE_null (uuwNotes p) (uwNotes u)),
                     uwIsFavourite := COALESCE (uuwIsFavourite p) (uwIsFavourite u),
                     uwUpdatedAt := now\<rparr>) in
      case find K (tUserWords d) of
        None \<Rightarrow> (Inl (Sentinel PgxErrNoRows), d)
      | Some u \<Rightarrow>
          if \<not> user_word_check (f u) then reject PgCheckViolation d
          else (Inr (f u), d\<lparr>tUserWords := update_rows K f (tUserWords d)\<rparr>))"

end
