(* ===== verification/Integrity.thy ===== *)
theory Integrity
  imports QueriesWords
begin

text \<open>
  Every statement keeps the constraints of the schema: \<open>keeps_db E q\<close> says so of one statement,
  and the collection \<open>keeps_db_intros\<close> holds the fact for each of them.
\<close>

named_theorems keeps_db_intros \<open>statements keep the constraints of the schema\<close>

definition keeps_db :: "ext \<Rightarrow> 'a stmt \<Rightarrow> bool" where
  "keeps_db E q \<longleftrightarrow> (\<forall>now i d. db_ok (pg_lower E) d \<longrightarrow> db_ok (pg_lower E) (snd (q now i d)))"

lemma keeps_dbI:
  "(\<And>now i d. db_ok (pg_lower E) d \<Longrightarrow> db_ok (pg_lower E) (snd (q now i d))) \<Longrightarrow> keeps_db E q"
  by (simp add: keeps_db_def)

lemma keeps_db_query [keeps_db_intros]: "keeps_db E (query f)"
  by (simp add: keeps_db_def query_def)

lemma snd_reject [simp]: "snd (reject c d) = d"
  by (simp add: reject_def)

section \<open>Users\<close>

lemma user_ids_mem: "list_ex (\<lambda>u. duID u = k) (tUsers d) \<longleftrightarrow> k \<in> user_ids d"
  by (auto simp: list_ex_iff user_ids_def)

lemma word_ids_mem: "list_ex (\<lambda>w. dwID w = k) (tWords d) \<longleftrightarrow> k \<in> word_ids d"
  by (auto simp: list_ex_iff word_ids_def)

lemma tokens_ok_mono: "tokens_ok A ts \<Longrightarrow> A \<subseteq> B \<Longrightarrow> tokens_ok B ts"
  by (auto simp: tokens_ok_def)

lemma oauth_ok_mono: "oauth_ok A as \<Longrightarrow> A \<subseteq> B \<Longrightarrow> oauth_ok B as"
  by (auto simp: oauth_ok_def)

lemma words_ok_mono: "words_ok lo A ws \<Longrightarrow> A \<subseteq> B \<Longrightarrow> words_ok lo B ws"
  by (auto simp: words_ok_def split: option.splits)

lemma user_words_ok_mono:
  "user_words_ok A W us \<Longrightarrow> A \<subseteq> B \<Longrightarrow> W \<subseteq> X \<Longrightarrow> user_words_ok B X us"
  by (auto simp: user_words_ok_def)

lemma senses_ok_mono: "senses_ok A ss \<Longrightarrow> A \<subseteq> B \<Longrightarrow> senses_ok B ss"
  by (auto simp: senses_ok_def)

lemma db_ok_insert_user:
  assumes "db_ok (pg_lower E) d"
  shows "db_ok (pg_lower E) (snd (insert_user E u d))"
proof -
  have "users_ok (pg_lower E) (tUsers d @ [u])"
    if "user_check u" "\<not> list_ex (\<lambda>v. duID v = duID u \<or> citext_eq E (duEmail v) (duEmail u)) (tUsers d)"
    using assms that by (force simp: db_ok_def users_ok_def list_ex_iff citext_eq_def)
  moreover have "user_ids d \<subseteq> user_ids (d\<lparr>tUsers := tUsers d @ [u]\<rparr>)"
    by (auto simp: user_ids_def)
  moreover have "word_ids (d\<lparr>tUsers := tUsers d @ [u]\<rparr>) = word_ids d"
    by (simp add: word_ids_def)
  ultimately show ?thesis
    using assms
    by (auto simp: insert_user_def db_ok_def intro: tokens_ok_mono oauth_ok_mono words_ok_mono
          user_words_ok_mono)
qed

lemma CreateUser_keeps [keeps_db_intros]: "keeps_db E (CreateUser E p)"
  by (rule keeps_dbI) (simp add: CreateUser_def db_ok_insert_user)

lemma CreateOAuthUser_keeps [keeps_db_intros]: "keeps_db E (CreateOAuthUser E a b c)"
  by (rule keeps_dbI) (simp add: CreateOAuthUser_def db_ok_insert_user)

text \<open>A change of columns other than the keys of a user.\<close>

lemma db_ok_set_user:
  assumes "db_ok (pg_lower E) d"
    and keep: "\<And>u. duID (f u) = duID u" "\<And>u. duEmail (f u) = duEmail u"
    and check: "\<And>u. u \<in> set (tUsers d) \<Longrightarrow> duID u = k \<Longrightarrow> user_check (f u)"
  shows "db_ok (pg_lower E) (set_user k f d)"
proof -
  have ids: "map duID (update_rows (\<lambda>u. duID u = k) f (tUsers d)) = map duID (tUsers d)"
    by (rule map_update_rows) (simp add: keep)
  have emails: "map (\<lambda>u. pg_lower E (duEmail u)) (update_rows (\<lambda>u. duID u = k) f (tUsers d)) =
      map (\<lambda>u. pg_lower E (duEmail u)) (tUsers d)"
    by (rule map_update_rows) (simp add: keep)
  have "users_ok (pg_lower E) (update_rows (\<lambda>u. duID u = k) f (tUsers d))"
    using assms(1) check by (auto simp: db_ok_def users_ok_def ids emails set_update_rows)
  moreover have "user_ids (set_user k f d) = user_ids d"
    using arg_cong [OF ids, of set] by (simp add: user_ids_def set_user_def)
  ultimately show ?thesis
    using assms(1) by (simp add: db_ok_def set_user_def word_ids_def)
qed

lemma touch_user_fields [simp]:
  "duID (touch_user now f u) = duID (f u)" "duEmail (touch_user now f u) = duEmail (f u)"
  "duRole (touch_user now f u) = duRole (f u)" "duIsActive (touch_user now f u) = duIsActive (f u)"
  "duPasswordHash (touch_user now f u) = duPasswordHash (f u)"
  "duEmailVerifiedAt (touch_user now f u) = duEmailVerifiedAt (f u)"
  "duAvatarUrl (touch_user now f u) = duAvatarUrl (f u)"
  "duFullName (touch_user now f u) = duFullName (f u)"
  by (simp_all add: touch_user_def)

lemma db_ok_user_check: "db_ok lo d \<Longrightarrow> u \<in> set (tUsers d) \<Longrightarrow> user_check u"
  by (simp add: db_ok_def users_ok_def)

lemma set_user_keeps:
  assumes "\<And>now u. duID (f now u) = duID u" "\<And>now u. duEmail (f now u) = duEmail u"
    "\<And>now u. duRole (f now u) = duRole u"
  shows "keeps_db E (\<lambda>now i d. (r, set_user k (f now) d))"
  by (rule keeps_dbI, simp, rule db_ok_set_user)
     (simp_all add: assms user_check_def, use db_ok_user_check user_check_def in blast)

lemma MarkUserEmailVerified_keeps [keeps_db_intros]: "keeps_db E (MarkUserEmailVerified k)"
  unfolding MarkUserEmailVerified_def by (rule set_user_keeps) simp_all

lemma UpdateLastLogin_keeps [keeps_db_intros]: "keeps_db E (UpdateLastLogin k)"
  unfolding UpdateLastLogin_def by (rule set_user_keeps) simp_all

lemma UpdateUserPassword_keeps [keeps_db_intros]: "keeps_db E (UpdateUserPassword k h)"
  unfolding UpdateUserPassword_def by (rule set_user_keeps) simp_all

lemma db_ok_update_user:
  assumes "db_ok (pg_lower E) d"
    and keep: "\<And>u. duID (f u) = duID u" "\<And>u. duEmail (f u) = duEmail u"
  shows "db_ok (pg_lower E) (snd (update_user k f d))"
proof (cases "find (\<lambda>u. duID u = k) (tUsers d)")
  case None
  then show ?thesis using assms by (simp add: update_user_def)
next
  case (Some u)
  have "u' = u" if "u' \<in> set (tUsers d)" "duID u' = k" for u'
    using find_distinct_key [of duID "tUsers d" u'] that Some assms(1)
    by (simp add: db_ok_def users_ok_def)
  then have "user_check (f u) \<Longrightarrow> db_ok (pg_lower E) (set_user k f d)"
    by (intro db_ok_set_user [OF assms]) metis
  then show ?thesis using assms Some by (simp add: update_user_def)
qed

lemma UpdateUser_keeps [keeps_db_intros]: "keeps_db E (UpdateUser p)"
  by (rule keeps_dbI) (simp add: UpdateUser_def db_ok_update_user)

lemma MarkEmailVerified_keeps [keeps_db_intros]: "keeps_db E (MarkEmailVerified k)"
  by (rule keeps_dbI) (simp add: MarkEmailVerified_def db_ok_update_user)

lemma SetUserAvatarIfEmpty_keeps [keeps_db_intros]: "keeps_db E (SetUserAvatarIfEmpty k a)"
  by (rule keeps_dbI) (simp add: SetUserAvatarIfEmpty_def db_ok_update_user)

text \<open>Deleting a user removes every reference to it.\<close>

lemma DeleteUser_keeps [keeps_db_intros]: "keeps_db E (DeleteUser k)"
proof (rule keeps_dbI)
  fix now i d
  assume d: "db_ok (pg_lower E) d"
  define ws where "ws = update_rows (\<lambda>w. dwCreatedBy w = Some k)
    (\<lambda>w. w\<lparr>dwCreatedBy := None, dwUpdatedAt := now\<rparr>) (tWords d)"
  have ids: "map dwID ws = map dwID (tWords d)"
    unfolding ws_def by (rule map_update_rows) simp
  have terms: "map (\<lambda>w. (dwLanguage w, pg_lower E (dwTerm w))) ws =
      map (\<lambda>w. (dwLanguage w, pg_lower E (dwTerm w))) (tWords d)"
    unfolding ws_def by (rule map_update_rows) simp
  have "words_ok (pg_lower E) (user_ids d - {k}) ws"
    using d ids terms
    by (auto simp: db_ok_def words_ok_def ws_def set_update_rows word_check_def split: option.splits)
  moreover have "dwID ` set ws = word_ids d"
    using arg_cong [OF ids, of set] by (simp add: word_ids_def)
  moreover have "duID ` {u \<in> set (tUsers d). duID u \<noteq> k} = user_ids d - {k}"
    by (auto simp: user_ids_def)
  ultimately show "db_ok (pg_lower E) (snd (DeleteUser k now i d))"
    using d
    by (auto simp: DeleteUser_def db_ok_def user_ids_def word_ids_def Let_def
          users_ok_def tokens_ok_def oauth_ok_def user_words_ok_def distinct_map_delete_rows
          simp flip: ws_def)
qed

section \<open>Tokens\<close>

lemma tokens_of_set_tokens [simp]:
  "tokens_of T (set_tokens T ts d) = ts" "tUsers (set_tokens T ts d) = tUsers d"
  "tWords (set_tokens T ts d) = tWords d"
  by (cases T; simp)+

lemma db_ok_set_tokens:
  assumes "db_ok lo d" and "tokens_ok (user_ids d) ts"
  shows "db_ok lo (set_tokens T ts d)"
  using assms by (cases T) (auto simp: db_ok_def user_ids_def word_ids_def)

lemma db_ok_tokens_of: "db_ok lo d \<Longrightarrow> tokens_ok (user_ids d) (tokens_of T d)"
  by (cases T) (simp_all add: db_ok_def)

lemma create_token_keeps: "keeps_db E (create_token T user h x)"
proof (rule keeps_dbI)
  fix now i d
  assume d: "db_ok (pg_lower E) d"
  have "db_ok (pg_lower E) (set_tokens T (tokens_of T d @ [t]) d)"
    if "\<not> list_ex (\<lambda>s. tkID s = tkID t \<or> tkTokenHash s = tkTokenHash t) (tokens_of T d)"
      "tkUserID t \<in> user_ids d" for t
    using that db_ok_tokens_of [OF d, of T]
    by (intro db_ok_set_tokens [OF d]) (auto simp: tokens_ok_def list_ex_iff)
  then show "db_ok (pg_lower E) (snd (create_token T user h x now i d))"
    using d by (simp add: create_token_def Let_def user_ids_mem)
qed

lemma delete_expired_tokens_keeps: "keeps_db E (delete_expired_tokens T)"
  by (rule keeps_dbI)
     (auto simp: delete_expired_tokens_def tokens_ok_def distinct_map_delete_rows
           intro!: db_ok_set_tokens dest: db_ok_tokens_of [where T = T])

lemma use_tokens_keeps: "keeps_db E (use_tokens T P)"
proof (rule keeps_dbI)
  fix now i d
  assume d: "db_ok (pg_lower E) d"
  define ts where "ts = update_rows (\<lambda>t. P t \<and> tkUsedAt t = None) (\<lambda>t. t\<lparr>tkUsedAt := Some now\<rparr>)
    (tokens_of T d)"
  have ids: "map tkID ts = map tkID (tokens_of T d)"
    unfolding ts_def by (rule map_update_rows) simp
  have hashes: "map tkTokenHash ts = map tkTokenHash (tokens_of T d)"
    unfolding ts_def by (rule map_update_rows) simp
  have "tokens_ok (user_ids d) ts"
    using db_ok_tokens_of [OF d, of T]
    by (auto simp: tokens_ok_def ids hashes) (auto simp: ts_def set_update_rows)
  then show "db_ok (pg_lower E) (snd (use_tokens T P now i d))"
    using d by (simp add: use_tokens_def Let_def db_ok_set_tokens flip: ts_def)
qed

lemmas token_statement_defs =
  CreatePasswordResetToken_def DeleteExpiredPasswordResetTokens_def GetPasswordResetToken_def
  InvalidateUserPasswordResetTokens_def MarkPasswordResetTokenUsed_def
  CreateEmailVerificationToken_def DeleteExpiredEmailVerificationTokens_def
  GetEmailVerificationToken_def InvalidateUserEmailVerificationTokens_def
  MarkEmailVerificationTokenUsed_def

lemmas token_table_keeps [keeps_db_intros] =
  create_token_keeps delete_expired_tokens_keeps use_tokens_keeps

section \<open>External identities\<close>

lemma db_ok_set_oauth:
  "db_ok lo d \<Longrightarrow> oauth_ok (user_ids d) as \<Longrightarrow> db_ok lo (d\<lparr>tOAuth := as\<rparr>)"
  by (simp add: db_ok_def user_ids_def word_ids_def)

lemma db_ok_oauth: "db_ok lo d \<Longrightarrow> oauth_ok (user_ids d) (tOAuth d)"
  by (simp add: db_ok_def)

lemma LinkOAuthAccount_keeps [keeps_db_intros]: "keeps_db E (LinkOAuthAccount u p a e)"
proof (rule keeps_dbI)
  fix now i d
  assume d: "db_ok (pg_lower E) d"
  have "db_ok (pg_lower E) (d\<lparr>tOAuth := tOAuth d @ [x]\<rparr>)"
    if "oauth_check x" "oacUserID x \<in> user_ids d"
      "\<not> list_ex (\<lambda>b. oacID b = oacID x \<or>
         oacProvider b = oacProvider x \<and> oacProviderAccountID b = oacProviderAccountID x \<or>
         oacUserID b = oacUserID x \<and> oacProvider b = oacProvider x) (tOAuth d)" for x
    using that db_ok_oauth [OF d]
    by (intro db_ok_set_oauth [OF d]) (force simp: oauth_ok_def list_ex_iff)
  then show "db_ok (pg_lower E) (snd (LinkOAuthAccount u p a e now i d))"
    using d by (simp add: LinkOAuthAccount_def Let_def user_ids_mem)
qed

lemma UnlinkOAuthAccount_keeps [keeps_db_intros]: "keeps_db E (UnlinkOAuthAccount u p)"
  by (rule keeps_dbI)
     (auto simp: UnlinkOAuthAccount_def oauth_ok_def distinct_map_delete_rows
           intro!: db_ok_set_oauth dest: db_ok_oauth)

lemma UpdateOAuthAccountEmail_keeps [keeps_db_intros]: "keeps_db E (UpdateOAuthAccountEmail p a e)"
proof (rule keeps_dbI)
  fix now i d
  assume d: "db_ok (pg_lower E) d"
  define as where "as = update_rows (\<lambda>x. oacProvider x = p \<and> oacProviderAccountID x = a)
    (\<lambda>x. x\<lparr>oacEmail := e, oacUpdatedAt := now\<rparr>) (tOAuth d)"
  have "map key as = map key (tOAuth d)"
    if "\<And>x. key (x\<lparr>oacEmail := e, oacUpdatedAt := now\<rparr>) = key x" for key :: "OAuthAccount \<Rightarrow> 'k"
    unfolding as_def by (rule map_update_rows) (simp add: that)
  note maps = this
  have "oauth_ok (user_ids d) as"
    using db_ok_oauth [OF d]
    by (auto simp: oauth_ok_def maps) (auto simp: as_def set_update_rows oauth_check_def)
  then show "db_ok (pg_lower E) (snd (UpdateOAuthAccountEmail p a e now i d))"
    using d by (auto simp: UpdateOAuthAccountEmail_def Let_def db_ok_set_oauth simp flip: as_def
                     split: option.split)
qed

end
