(* ===== verification/IntegrityWords.thy ===== *)
theory IntegrityWords
  imports Integrity
begin

text \<open>
  The statements on words, senses and word lists keep the constraints of the schema, and the
  Leitner schedule of \<open>RecordReview\<close> does what its comment says.
\<close>

section \<open>Words\<close>

lemma db_ok_words: "db_ok lo d \<Longrightarrow> words_ok lo (user_ids d) (tWords d)"
  by (simp add: db_ok_def)

lemma db_ok_set_words:
  assumes "db_ok lo d" and "words_ok lo (user_ids d) ws" and "word_ids d \<subseteq> dwID ` set ws"
  shows "db_ok lo (d\<lparr>tWords := ws\<rparr>)"
  using assms
  by (auto simp: db_ok_def user_ids_def word_ids_def elim: senses_ok_mono user_words_ok_mono)

lemma CreateWord_keeps [keeps_db_intros]: "keeps_db E (CreateWord E p)"
proof (rule keeps_dbI)
  fix now i d
  assume d: "db_ok (pg_lower E) d"
  have "db_ok (pg_lower E) (d\<lparr>tWords := tWords d @ [w]\<rparr>)"
    if "word_check w" "\<not> list_ex (\<lambda>v. dwID v = dwID w \<or> same_term E v w) (tWords d)"
      "null_or (dwCreatedBy w) (\<lambda>k. k \<in> user_ids d)" for w
    using that db_ok_words [OF d]
    by (intro db_ok_set_words [OF d])
       (force simp: words_ok_def list_ex_iff same_term_def citext_eq_def null_or_def word_ids_def
              split: option.splits)+
  then show "db_ok (pg_lower E) (snd (CreateWord E p now i d))"
    using d by (simp add: CreateWord_def Let_def user_ids_mem)
qed

lemma DeleteWord_keeps [keeps_db_intros]: "keeps_db E (DeleteWord k)"
proof (rule keeps_dbI)
  fix now i d
  assume d: "db_ok (pg_lower E) d"
  have "dwID ` {w \<in> set (tWords d). dwID w \<noteq> k} = word_ids d - {k}"
    by (auto simp: word_ids_def)
  then show "db_ok (pg_lower E) (snd (DeleteWord k now i d))"
    using d
    by (auto simp: DeleteWord_def db_ok_def user_ids_def word_ids_def word_ids_mem
          users_ok_def words_ok_def senses_ok_def user_words_ok_def distinct_map_delete_rows)
qed

lemma UpdateWord_keeps [keeps_db_intros]: "keeps_db E (UpdateWord E p)"
proof (rule keeps_dbI)
  fix now i d
  assume d: "db_ok (pg_lower E) d"
  have "db_ok (pg_lower E) (d\<lparr>tWords := update_rows (\<lambda>v. dwID v = dwID w') (\<lambda>_. w') (tWords d)\<rparr>)"
    if w': "word_check w'" "\<not> list_ex (\<lambda>v. dwID v \<noteq> dwID w' \<and> same_term E v w') (tWords d)"
      "null_or (dwCreatedBy w') (\<lambda>k. k \<in> user_ids d)" for w'
  proof (rule db_ok_set_words [OF d])
    let ?ws = "update_rows (\<lambda>v. dwID v = dwID w') (\<lambda>_. w') (tWords d)"
    have ids: "map dwID ?ws = map dwID (tWords d)"
      by (rule map_update_rows) simp
    show "word_ids d \<subseteq> dwID ` set ?ws"
      using arg_cong [OF ids, of set] by (simp add: word_ids_def)
    have "distinct (map dwID xs) \<Longrightarrow> distinct (map (\<lambda>w. (dwLanguage w, pg_lower E (dwTerm w))) xs) \<Longrightarrow>
        \<not> list_ex (\<lambda>v. dwID v \<noteq> dwID w' \<and> same_term E v w') xs \<Longrightarrow>
        distinct (map (\<lambda>w. (dwLanguage w, pg_lower E (dwTerm w)))
          (update_rows (\<lambda>v. dwID v = dwID w') (\<lambda>_. w') xs))" for xs
    proof (induction xs)
      case (Cons x xs)
      show ?case
      proof (cases "dwID x = dwID w'")
        case True
        with Cons.prems have "update_rows (\<lambda>v. dwID v = dwID w') (\<lambda>_. w') xs = xs"
          by (intro update_rows_none) (auto simp: image_iff)
        moreover have "\<not> same_term E v w'" if "v \<in> set xs" for v
          using Cons.prems(1,3) True that by (auto simp: list_ex_iff image_iff) metis
        ultimately show ?thesis using True Cons.prems(2)
          by (auto simp: same_term_def citext_eq_def image_iff) (metis+)?
      next
        case False
        with Cons show ?thesis
          by (auto simp: set_update_rows same_term_def citext_eq_def split: if_splits)
      qed
    qed simp
    then show "words_ok (pg_lower E) (user_ids d) ?ws"
      using w' db_ok_words [OF d]
      by (auto simp: words_ok_def ids set_update_rows null_or_def split: option.splits)
  qed
  then have update_at: "db_ok (pg_lower E) (d\<lparr>tWords := update_rows (\<lambda>v. dwID v = k) (\<lambda>_. w') (tWords d)\<rparr>)"
    if "dwID w' = k" "word_check w'" "\<not> list_ex (\<lambda>v. dwID v \<noteq> k \<and> same_term E v w') (tWords d)"
      "null_or (dwCreatedBy w') (\<lambda>k. k \<in> user_ids d)" for w' k
    using that by blast
  show "db_ok (pg_lower E) (snd (UpdateWord E p now i d))"
  proof (cases "find (\<lambda>w. dwID w = uwpID p) (tWords d)")
    case (Some w)
    then have w: "w \<in> set (tWords d)" "dwID w = uwpID p" by (auto dest: find_SomeD)
    have "null_or (dwCreatedBy w) (\<lambda>k. k \<in> user_ids d)"
      using w(1) db_ok_words [OF d] by (auto simp: words_ok_def null_or_def split: option.splits)
    with Some w d show ?thesis
      by (auto simp: UpdateWord_def Let_def intro!: update_at)
  qed (simp add: UpdateWord_def d)
qed

section \<open>Senses\<close>

lemma db_ok_senses: "db_ok lo d \<Longrightarrow> senses_ok (word_ids d) (tSenses d)"
  by (simp add: db_ok_def)

lemma db_ok_set_senses:
  "db_ok lo d \<Longrightarrow> senses_ok (word_ids d) ss \<Longrightarrow> db_ok lo (d\<lparr>tSenses := ss\<rparr>)"
  by (simp add: db_ok_def user_ids_def word_ids_def)

lemma CreateWordSense_keeps [keeps_db_intros]: "keeps_db E (CreateWordSense E p)"
proof (rule keeps_dbI)
  fix now i d
  assume d: "db_ok (pg_lower E) d"
  have "db_ok (pg_lower E) (d\<lparr>tSenses := tSenses d @ [s]\<rparr>)"
    if "sense_check s" "\<not> list_ex (\<lambda>t. dsID t = dsID s) (tSenses d)" "dsWordID s \<in> word_ids d" for s
    using that db_ok_senses [OF d]
    by (intro db_ok_set_senses [OF d]) (auto simp: senses_ok_def list_ex_iff)
  then show "db_ok (pg_lower E) (snd (CreateWordSense E p now i d))"
    using d by (simp add: CreateWordSense_def Let_def word_ids_mem split: sum.split)
qed

lemma DeleteWordSense_keeps [keeps_db_intros]: "keeps_db E (DeleteWordSense k)"
  by (rule keeps_dbI)
     (auto simp: DeleteWordSense_def senses_ok_def distinct_map_delete_rows
           intro!: db_ok_set_senses dest: db_ok_senses)

lemma DeleteWordSensesByWord_keeps [keeps_db_intros]: "keeps_db E (DeleteWordSensesByWord k)"
  by (rule keeps_dbI)
     (auto simp: DeleteWordSensesByWord_def senses_ok_def distinct_map_delete_rows
           intro!: db_ok_set_senses dest: db_ok_senses)

lemma UpdateWordSense_keeps [keeps_db_intros]: "keeps_db E (UpdateWordSense E p)"
proof (rule keeps_dbI)
  fix now i d
  assume d: "db_ok (pg_lower E) d"
  have "db_ok (pg_lower E) (d\<lparr>tSenses := update_rows (\<lambda>t. dsID t = k) (\<lambda>_. s) (tSenses d)\<rparr>)"
    if s: "dsID s = k" "sense_check s" "dsWordID s \<in> word_ids d" for s k
  proof (rule db_ok_set_senses [OF d])
    have "map dsID (update_rows (\<lambda>t. dsID t = k) (\<lambda>_. s) (tSenses d)) = map dsID (tSenses d)"
      by (rule map_update_rows) (simp add: s)
    then show "senses_ok (word_ids d) (update_rows (\<lambda>t. dsID t = k) (\<lambda>_. s) (tSenses d))"
      using s db_ok_senses [OF d] by (auto simp: senses_ok_def set_update_rows)
  qed
  note update = this
  show "db_ok (pg_lower E) (snd (UpdateWordSense E p now i d))"
  proof (cases "find (\<lambda>s. dsID s = uspID p) (tSenses d)")
    case None
    then show ?thesis using d by (simp add: UpdateWordSense_def split: sum.split)
  next
    case (Some s)
    then have "dsWordID s \<in> word_ids d" "dsID s = uspID p"
      using find_SomeD [OF Some] db_ok_senses [OF d] by (auto simp: senses_ok_def)
    then show ?thesis
      using d Some by (simp add: UpdateWordSense_def Let_def update split: sum.split)
  qed
qed

section \<open>Word lists\<close>

lemma db_ok_user_words: "db_ok lo d \<Longrightarrow> user_words_ok (user_ids d) (word_ids d) (tUserWords d)"
  by (simp add: db_ok_def)

lemma db_ok_set_user_words:
  "db_ok lo d \<Longrightarrow> user_words_ok (user_ids d) (word_ids d) us \<Longrightarrow> db_ok lo (d\<lparr>tUserWords := us\<rparr>)"
  by (simp add: db_ok_def user_ids_def word_ids_def)

text \<open>An update of one entry that keeps its key and passes the checks.\<close>

lemma db_ok_update_user_word:
  assumes d: "db_ok lo d"
    and key: "\<And>v. uwUserID (f v) = uwUserID v" "\<And>v. uwWordID (f v) = uwWordID v"
    and check: "\<And>v. v \<in> set (tUserWords d) \<Longrightarrow> user_word_key a b v \<Longrightarrow> user_word_check (f v)"
  shows "db_ok lo (d\<lparr>tUserWords := update_rows (user_word_key a b) f (tUserWords d)\<rparr>)"
proof (rule db_ok_set_user_words [OF d])
  have "map (\<lambda>u. (uwUserID u, uwWordID u)) (update_rows (user_word_key a b) f (tUserWords d)) =
      map (\<lambda>u. (uwUserID u, uwWordID u)) (tUserWords d)"
    by (rule map_update_rows) (simp add: key)
  then show "user_words_ok (user_ids d) (word_ids d) (update_rows (user_word_key a b) f (tUserWords d))"
    using db_ok_user_words [OF d] check
    by (auto simp: user_words_ok_def set_update_rows key)
qed

text \<open>The entry of a user and a word is unique.\<close>

lemma find_user_word:
  assumes "db_ok lo d" and "v \<in> set (tUserWords d)" and "user_word_key a b v"
  shows "find (user_word_key a b) (tUserWords d) = Some v"
proof -
  have "find (\<lambda>u. (uwUserID u, uwWordID u) = (uwUserID v, uwWordID v)) (tUserWords d) = Some v"
    using db_ok_user_words [OF assms(1)] assms(2)
    by (intro find_distinct_key) (simp_all add: user_words_ok_def)
  moreover have "(\<lambda>u. (uwUserID u, uwWordID u) = (uwUserID v, uwWordID v)) = user_word_key a b"
    using assms(3) by (auto simp: user_word_key_def fun_eq_iff)
  ultimately show ?thesis by simp
qed

lemma user_word_check_update [simp]:
  "user_word_check (v\<lparr>uwUpdatedAt := t\<rparr>) = user_word_check v"
  by (simp add: user_word_check_def)

lemma AddWordToUser_keeps [keeps_db_intros]: "keeps_db E (AddWordToUser p)"
proof (rule keeps_dbI)
  fix now i d
  assume d: "db_ok (pg_lower E) d"
  have "db_ok (pg_lower E) (d\<lparr>tUserWords := tUserWords d @ [u]\<rparr>)"
    if "user_word_check u" "uwUserID u \<in> user_ids d" "uwWordID u \<in> word_ids d"
      "find (user_word_key (uwUserID u) (uwWordID u)) (tUserWords d) = None" for u
    using that db_ok_user_words [OF d]
    by (intro db_ok_set_user_words [OF d])
       (force simp: user_words_ok_def find_None_iff user_word_key_def)
  note add = this
  have "db_ok (pg_lower E) (d\<lparr>tUserWords := update_rows (user_word_key a b)
      (\<lambda>v. v\<lparr>uwUpdatedAt := now\<rparr>) (tUserWords d)\<rparr>)" for a b
    using db_ok_user_words [OF d] by (intro db_ok_update_user_word [OF d]) (auto simp: user_words_ok_def)
  then show "db_ok (pg_lower E) (snd (AddWordToUser p now i d))"
    using d by (auto simp: AddWordToUser_def Let_def user_ids_mem word_ids_mem intro!: add
                     split: option.split)
qed

lemma RemoveWordFromUser_keeps [keeps_db_intros]: "keeps_db E (RemoveWordFromUser u w)"
  by (rule keeps_dbI)
     (auto simp: RemoveWordFromUser_def user_words_ok_def distinct_map_delete_rows
           intro!: db_ok_set_user_words dest: db_ok_user_words)

lemma UpdateUserWord_keeps [keeps_db_intros]: "keeps_db E (UpdateUserWord p)"
proof (rule keeps_dbI)
  fix now i d
  assume d: "db_ok (pg_lower E) d"
  show "db_ok (pg_lower E) (snd (UpdateUserWord p now i d))"
    using d find_user_word [OF d]
    by (auto simp: UpdateUserWord_def Let_def split: option.split intro!: db_ok_update_user_word)
qed

section \<open>Reviews\<close>

lemma review_check:
  assumes "user_word_check u"
  shows "user_word_check (review correct now u)"
  using assms
  by (auto simp: user_word_check_def review_def LearningStatus_Valid_iff LearningStatuses_def
        StatusLearning_def StatusKnown_def StatusArchived_def)

lemma RecordReview_keeps [keeps_db_intros]: "keeps_db E (RecordReview c u w)"
proof (rule keeps_dbI)
  fix now i d
  assume d: "db_ok (pg_lower E) d"
  have "db_ok (pg_lower E)
      (d\<lparr>tUserWords := update_rows (user_word_key u w) (review c now) (tUserWords d)\<rparr>)"
    using db_ok_user_words [OF d]
    by (intro db_ok_update_user_word [OF d])
       (auto simp: user_words_ok_def review_check, simp_all add: review_def)
  then show "db_ok (pg_lower E) (snd (RecordReview c u w now i d))"
    using d by (simp add: RecordReview_def split: option.split)
qed

end
