(* ===== verification/Repositories.thy ===== *)
theory Repositories
  imports IntegrityWords
begin

text \<open>
  \<open>app/repository\<close>: the repositories of users, single-use tokens, words and senses. Each runs one
  statement and maps the driver's errors to application errors. Bound to the pool or to a
  transaction, a repository issues the same statements; whether they see \<open>NOW()\<close> of a transaction
  and can be rolled back is part of the state.
\<close>

section \<open>Running a statement\<close>

text \<open>The state after a statement that left the database \<open>d\<close>.\<close>

definition after :: "world \<Rightarrow> database \<Rightarrow> world" where
  "after w d = (tick w)\<lparr>w_db := d, w_rng := Suc (w_rng w)\<rparr>"

lemma after_fields [simp]:
  "w_db (after w d) = d" "w_redis (after w d) = w_redis w" "w_files (after w d) = w_files w"
  "w_txnow (after w d) = w_txnow w" "w_rng (after w d) = Suc (w_rng w)"
  "w_log (after w d) = w_log w" "w_clock (after w d) = w_clock (tick w)"
  "w_sched (after w d) = w_sched (tick w)"
  by (simp_all add: after_def)

lemma calm_after [simp]: "calm w \<Longrightarrow> calm (after w d)"
  by (simp add: after_def)

lemma run_stmt_after:
  assumes "calm w"
  shows "run_stmt E q w =
     (case q (NOW (tick w)) (x_uuid E (w_rng w)) (w_db w) of (r, d) \<Rightarrow> (r, after w d))"
  using assms by (simp add: run_stmt_def external_calm after_def split: prod.split)

lemma run_query_after:
  "calm w \<Longrightarrow> run_stmt E (query f) w = (f (w_db w), after w (w_db w))"
  by (simp add: run_stmt_after query_def)

text \<open>The invariant of the database, as an invariant of programs.\<close>

definition world_ok :: "ext \<Rightarrow> world \<Rightarrow> bool" where
  "world_ok E w \<longleftrightarrow> db_ok (pg_lower E) (w_db w)"

lemma world_ok_update [simp]:
  "world_ok E (tick w) = world_ok E w" "world_ok E (w\<lparr>w_redis := r\<rparr>) = world_ok E w"
  "world_ok E (w\<lparr>w_files := f\<rparr>) = world_ok E w" "world_ok E (w\<lparr>w_rng := n\<rparr>) = world_ok E w"
  "world_ok E (w\<lparr>w_log := l\<rparr>) = world_ok E w" "world_ok E (w\<lparr>w_txnow := t\<rparr>) = world_ok E w"
  by (simp_all add: world_ok_def)

text \<open>
  What an invariant of the world has to offer so that the running server keeps it: it only looks at
  the database and at the entropy used up, of which it may know a lower bound \<open>N\<close>; it holds of a
  database that a transaction restores; and the writing statements keep it. Everything above the
  statements is done once for all such invariants. Statements that create tokens come later, since
  an invariant may depend on how a token was drawn.
\<close>

definition stmt_keeps :: "ext \<Rightarrow> (world \<Rightarrow> bool) \<Rightarrow> 'a stmt \<Rightarrow> bool" where
  "stmt_keeps E I q \<longleftrightarrow>
     (\<forall>w. I w \<longrightarrow> I (w\<lparr>w_db := snd (q (NOW w) (x_uuid E (w_rng w)) (w_db w)), w_rng := Suc (w_rng w)\<rparr>))"

locale world_invariant =
  fixes E :: ext and N :: nat and I :: "world \<Rightarrow> bool"
  assumes frame: "I w \<Longrightarrow> w_db w' = w_db w \<Longrightarrow> w_rng w \<le> w_rng w' \<Longrightarrow> I w'"
    and restore: "I w \<Longrightarrow> I w' \<Longrightarrow> w_db w'' = w_db w \<Longrightarrow> w_rng w'' = w_rng w' \<Longrightarrow> I w''"
    and drawn: "I w \<Longrightarrow> N \<le> w_rng w"
    and plain_account: "cupRole cu = RoleUser \<Longrightarrow> stmt_keeps E I (CreateUser E cu)"
    and profile_update: "uupRole uu = None \<Longrightarrow> uupIsActive uu = None \<Longrightarrow> stmt_keeps E I (UpdateUser uu)"
    and user_statements: "stmt_keeps E I (UpdateUserPassword k h)" "stmt_keeps E I (UpdateLastLogin k)"
      "stmt_keeps E I (MarkUserEmailVerified k)" "stmt_keeps E I (DeleteUser k)"
    and token_statements: "stmt_keeps E I (use_tokens T P)" "stmt_keeps E I (delete_expired_tokens T)"
    and word_statements: "stmt_keeps E I (CreateWord E cw)" "stmt_keeps E I (UpdateWord E uw)"
      "stmt_keeps E I (DeleteWord k)" "stmt_keeps E I (CreateWordSense E cs)" "stmt_keeps E I (UpdateWordSense E us)"
      "stmt_keeps E I (DeleteWordSense k)" "stmt_keeps E I (DeleteWordSensesByWord k)"
begin

lemma kept_run_stmt [pres_intros]: "stmt_keeps E I q \<Longrightarrow> pres I (run_stmt E q)"
proof (rule presI)
  fix w
  assume q: "stmt_keeps E I q" and "I w"
  then have "I (tick w)" using frame [of w "tick w"] by simp
  then show "I (snd (run_stmt E q w))"
    using q [unfolded stmt_keeps_def, rule_format, of "tick w"]
    by (cases "q (NOW (tick w)) (x_uuid E (w_rng w)) (w_db w)") (auto simp: run_stmt_def external_def split: option.split)
qed

lemma kept_query: "stmt_keeps E I (query f)"
  by (auto simp: stmt_keeps_def query_def intro: frame)

lemma kept_frame:
  assumes "\<And>w. w_db (snd (m w)) = w_db w \<and> w_rng w \<le> w_rng (snd (m w))"
  shows "pres I m"
  using assms frame by (auto simp: pres_def)

lemma kept_external [pres_intros]: "pres I f \<Longrightarrow> pres I (external f)"
  by (rule pres_external) (auto intro: frame)

lemma kept_draw [pres_intros]: "pres I (draw_uuid F)"
  by (rule kept_frame) (simp add: draw_uuid_def)

lemma kept_NewString [pres_intros]: "pres I (uuid_NewString F)"
  by (rule kept_frame) (simp add: go_run)

lemma kept_log [pres_intros]: "pres I (log_at l m a)"
  by (rule kept_frame) (simp add: log_at_run)

lemma kept_now [pres_intros]: "pres I time_now"
  by (rule kept_frame) (simp add: time_now_run)

lemma kept_rand [pres_intros]: "pres I (rand_Read F n)"
  unfolding rand_Read_def by (intro kept_external kept_frame) simp

lemma kept_InTx [pres_intros]:
  assumes "pres I f"
  shows "pres I (InTx f)"
proof (rule presI)
  fix w assume I: "I w"
  define v where "v = (tick w)\<lparr>w_txnow := Some (w_clock (tick w))\<rparr>"
  have "I v" using frame [OF I, of v] by (simp add: v_def)
  obtain r w1 where run: "f v = (r, w1)" by fastforce
  have w1: "I w1" using pres_run [OF assms \<open>I v\<close> run] .
  have same: "I u" if "w_db u = w_db w1" "w_rng u = w_rng w1" for u using frame [OF w1, of u] that by simp
  have rolled_back: "I u" if "w_db u = w_db w" "w_rng u = w_rng w1" for u using restore [OF I w1 that] .
  have early: "I (tick w)" using frame [OF I, of "tick w"] by simp
  have v: "w_db v = w_db w" by (simp add: v_def)
  show "I (snd (InTx f w))"
    using run early same rolled_back v
    by (auto simp: tx_defs go_defs simp flip: v_def split: option.splits sum.splits if_splits)
qed

lemma kept_WithTx [pres_intros]: "pres I (f TxStore) \<Longrightarrow> pres I (WithTx st f)"
  by (cases st) (simp_all add: kept_InTx pres_fail)

end

text \<open>The constraints of the schema are such an invariant.\<close>

lemma stmt_keeps_world_ok: "keeps_db E q \<Longrightarrow> stmt_keeps E (world_ok E) q"
  by (simp add: stmt_keeps_def keeps_db_def world_ok_def)

interpretation consistent: world_invariant E 0 "world_ok E" for E
  by unfold_locales (simp add: world_ok_def | rule stmt_keeps_world_ok keeps_db_intros)+

section \<open>Users (user_repository.go)\<close>

text \<open>\<open>lib.Internal(fmt.Errorf("<what>: %w", err))\<close>.\<close>

definition internal_error :: "string \<Rightarrow> goerr \<Rightarrow> goerr" where
  "internal_error what e = Internal (Wrapf (what @ '': '') e '''')"

definition toDomainUser :: "dbUser \<Rightarrow> User" where
  "toDomainUser row =
     \<lparr>uID = duID row, uEmail = duEmail row, uFullName = duFullName row, uRole = duRole row,
      uAvatarURL = duAvatarUrl row, uIsActive = duIsActive row,
      uEmailVerifiedAt = duEmailVerifiedAt row, uLastLoginAt = duLastLoginAt row,
      uCreatedAt = duCreatedAt row, uUpdatedAt = duUpdatedAt row,
      uPasswordHash = (case duPasswordHash row of None \<Rightarrow> [] | Some h \<Rightarrow> h)\<rparr>"

definition escapeLike :: "string \<Rightarrow> string" where
  "escapeLike input =
     (let out = ReplaceAll input (CHR 0x5C) [CHR 0x5C, CHR 0x5C];
          out = ReplaceAll out (CHR ''%'') [CHR 0x5C, CHR ''%''] in
      ReplaceAll out (CHR ''_'') [CHR 0x5C, CHR ''_''])"

definition Users_Create :: "ext \<Rightarrow> CreateUserInput \<Rightarrow> User act" where
  "Users_Create E inp =
     attempt (run_stmt E (CreateUser E
        \<lparr>cupEmail = cuEmail inp, cupPasswordHash = Some (cuPasswordHash inp),
         cupFullName = cuFullName inp, cupRole = cuRole inp\<rparr>))
       (\<lambda>e. if IsPgError e PgUniqueViolation
            then fail (Wrap (Conflict ''An account with this email already exists'') (Some e))
            else fail (internal_error ''create user'' e))
       (\<lambda>row. ret (toDomainUser row))"

definition Users_GetByID :: "ext \<Rightarrow> uuid \<Rightarrow> User act" where
  "Users_GetByID E k =
     attempt (run_stmt E (GetUserByID k))
       (\<lambda>e. if IsNoRows e then fail (Wrap (NotFound ''User'') (Some e))
            else fail (internal_error ''get user by id'' e))
       (\<lambda>row. ret (toDomainUser row))"

definition Users_GetByEmail :: "ext \<Rightarrow> string \<Rightarrow> User act" where
  "Users_GetByEmail E email =
     attempt (run_stmt E (GetUserByEmail E email))
       (\<lambda>e. if IsNoRows e then fail (Wrap (NotFound ''User'') (Some e))
            else fail (internal_error ''get user by email'' e))
       (\<lambda>row. ret (toDomainUser row))"

definition Users_Update :: "ext \<Rightarrow> uuid \<Rightarrow> UpdateUserInput \<Rightarrow> User act" where
  "Users_Update E k inp =
     attempt (run_stmt E (UpdateUser
        \<lparr>uupID = k, uupFullName = uuFullName inp, uupAvatarUrl = uuAvatarURL inp,
         uupRole = uuRole inp, uupIsActive = uuIsActive inp\<rparr>))
       (\<lambda>e. if IsNoRows e then fail (Wrap (NotFound ''User'') (Some e))
            else if IsPgError e PgCheckViolation
            then fail (Wrap (BadRequest ''Invalid role'') (Some e))
            else fail (internal_error ''update user'' e))
       (\<lambda>row. ret (toDomainUser row))"

definition Users_UpdatePassword :: "ext \<Rightarrow> uuid \<Rightarrow> string \<Rightarrow> unit act" where
  "Users_UpdatePassword E k h =
     attempt (run_stmt E (UpdateUserPassword k (Some h)))
       (\<lambda>e. fail (internal_error ''update password'' e)) ret"

definition Users_TouchLastLogin :: "ext \<Rightarrow> uuid \<Rightarrow> unit act" where
  "Users_TouchLastLogin E k =
     attempt (run_stmt E (UpdateLastLogin k))
       (\<lambda>e. fail (internal_error ''update last login'' e)) ret"

definition Users_MarkEmailVerified :: "ext \<Rightarrow> uuid \<Rightarrow> unit act" where
  "Users_MarkEmailVerified E k =
     attempt (run_stmt E (MarkUserEmailVerified k))
       (\<lambda>e. fail (internal_error ''mark email verified'' e)) ret"

definition Users_Delete :: "ext \<Rightarrow> uuid \<Rightarrow> unit act" where
  "Users_Delete E k =
     attempt (run_stmt E (DeleteUser k))
       (\<lambda>e. fail (internal_error ''delete user'' e))
       (\<lambda>affected. if affected = 0 then fail (NotFound ''User'') else ret ())"

definition Users_List :: "ext \<Rightarrow> ListUsersFilter \<Rightarrow> (User list \<times> int) act" where
  "Users_List E flt =
     (let page = lufPage flt;
          search = (if ppSearch page = [] then None else Some (escapeLike (ppSearch page))) in
      attempt (run_stmt E (ListUsers E
         \<lparr>lupSearch = search, lupRole = lufRole flt, lupIsActive = lufIsActive flt,
          lupSortBy = ppSort page, lupSortOrder = ppOrder page,
          lupPageOffset = int32 (Offset page), lupPageLimit = int32 (ppLimit page)\<rparr>))
        (\<lambda>e. fail (internal_error ''list users'' e)) (\<lambda>rows.
      attempt (run_stmt E (CountUsers E search (lufRole flt) (lufIsActive flt)))
        (\<lambda>e. fail (internal_error ''count users'' e)) (\<lambda>cnt.
      ret (map toDomainUser rows, cnt))))"

definition Users_EmailExists :: "ext \<Rightarrow> string \<Rightarrow> bool act" where
  "Users_EmailExists E email =
     attempt (run_stmt E (EmailExistsQuery E email))
       (\<lambda>e. fail (internal_error ''check email'' e)) ret"

section \<open>Single-use tokens (password_reset_repository.go, email_verification_repository.go)\<close>

definition toDomainResetToken :: "dbToken \<Rightarrow> PasswordResetToken" where
  "toDomainResetToken row =
     \<lparr>tkID = tkID row, tkUserID = tkUserID row, tkTokenHash = tkTokenHash row,
      tkExpiresAt = tkExpiresAt row, tkUsedAt = tkUsedAt row, tkCreatedAt = tkCreatedAt row\<rparr>"

definition PasswordResets_Create :: "ext \<Rightarrow> uuid \<Rightarrow> string \<Rightarrow> gotime \<Rightarrow> PasswordResetToken act" where
  "PasswordResets_Create E user h expires =
     attempt (run_stmt E (CreatePasswordResetToken user h expires))
       (\<lambda>e. fail (internal_error ''create password reset token'' e))
       (\<lambda>row. ret (toDomainResetToken row))"

definition PasswordResets_GetByTokenHash :: "ext \<Rightarrow> string \<Rightarrow> PasswordResetToken act" where
  "PasswordResets_GetByTokenHash E h =
     attempt (run_stmt E (GetPasswordResetToken h))
       (\<lambda>e. if IsNoRows e then fail (Wrap (NotFound ''Reset token'') (Some e))
            else fail (internal_error ''get password reset token'' e))
       (\<lambda>row. ret (toDomainResetToken row))"

definition PasswordResets_MarkUsed :: "ext \<Rightarrow> uuid \<Rightarrow> unit act" where
  "PasswordResets_MarkUsed E k =
     attempt (run_stmt E (MarkPasswordResetTokenUsed k))
       (\<lambda>e. fail (internal_error ''mark reset token used'' e))
       (\<lambda>affected. if affected = 0 then fail (Conflict ''This reset link has already been used'')
                   else ret ())"

definition PasswordResets_InvalidateForUser :: "ext \<Rightarrow> uuid \<Rightarrow> unit act" where
  "PasswordResets_InvalidateForUser E user =
     attempt (run_stmt E (InvalidateUserPasswordResetTokens user))
       (\<lambda>e. fail (internal_error ''invalidate reset tokens'' e)) (\<lambda>_. ret ())"

definition PasswordResets_DeleteExpired :: "ext \<Rightarrow> int act" where
  "PasswordResets_DeleteExpired E =
     attempt (run_stmt E DeleteExpiredPasswordResetTokens)
       (\<lambda>e. fail (internal_error ''delete expired reset tokens'' e)) ret"

definition toDomainVerificationToken :: "dbToken \<Rightarrow> EmailVerificationToken" where
  "toDomainVerificationToken row =
     \<lparr>tkID = tkID row, tkUserID = tkUserID row, tkTokenHash = tkTokenHash row,
      tkExpiresAt = tkExpiresAt row, tkUsedAt = tkUsedAt row, tkCreatedAt = tkCreatedAt row\<rparr>"

definition EmailVerifications_Create ::
    "ext \<Rightarrow> uuid \<Rightarrow> string \<Rightarrow> gotime \<Rightarrow> EmailVerificationToken act" where
  "EmailVerifications_Create E user h expires =
     attempt (run_stmt E (CreateEmailVerificationToken user h expires))
       (\<lambda>e. fail (internal_error ''create email verification token'' e))
       (\<lambda>row. ret (toDomainVerificationToken row))"

definition EmailVerifications_GetByTokenHash :: "ext \<Rightarrow> string \<Rightarrow> EmailVerificationToken act" where
  "EmailVerifications_GetByTokenHash E h =
     attempt (run_stmt E (GetEmailVerificationToken h))
       (\<lambda>e. if IsNoRows e then fail (Wrap (NotFound ''Verification token'') (Some e))
            else fail (internal_error ''get email verification token'' e))
       (\<lambda>row. ret (toDomainVerificationToken row))"

definition EmailVerifications_MarkUsed :: "ext \<Rightarrow> uuid \<Rightarrow> unit act" where
  "EmailVerifications_MarkUsed E k =
     attempt (run_stmt E (MarkEmailVerificationTokenUsed k))
       (\<lambda>e. fail (internal_error ''mark verification token used'' e))
       (\<lambda>affected. if affected = 0
                   then fail (Conflict ''This verification link has already been used'') else ret ())"

definition EmailVerifications_InvalidateForUser :: "ext \<Rightarrow> uuid \<Rightarrow> unit act" where
  "EmailVerifications_InvalidateForUser E user =
     attempt (run_stmt E (InvalidateUserEmailVerificationTokens user))
       (\<lambda>e. fail (internal_error ''invalidate verification tokens'' e)) (\<lambda>_. ret ())"

definition EmailVerifications_DeleteExpired :: "ext \<Rightarrow> int act" where
  "EmailVerifications_DeleteExpired E =
     attempt (run_stmt E DeleteExpiredEmailVerificationTokens)
       (\<lambda>e. fail (internal_error ''delete expired verification tokens'' e)) ret"

section \<open>Words (word_repository.go)\<close>

definition toDomainWord :: "dbWord \<Rightarrow> Word" where
  "toDomainWord row =
     \<lparr>wID = dwID row, wTerm = dwTerm row, wLanguage = dwLanguage row,
      wPronunciation = dwPronunciation row, wTags = dwTags row, wCreatedBy = dwCreatedBy row,
      wCreatedAt = dwCreatedAt row, wUpdatedAt = dwUpdatedAt row, wSenses = []\<rparr>"

definition Words_Create :: "ext \<Rightarrow> CreateWordInput \<Rightarrow> Word act" where
  "Words_Create E inp =
     attempt (run_stmt E (CreateWord E
        \<lparr>cwpTerm = cwTerm inp, cwpLanguage = cwLanguage inp, cwpPronunciation = cwPronunciation inp,
         cwpTags = cwTags inp, cwpCreatedBy = cwCreatedBy inp\<rparr>))
       (\<lambda>e. if IsPgError e PgUniqueViolation
            then fail (Wrap (Conflict ''This word already exists'') (Some e))
            else fail (internal_error ''create word'' e))
       (\<lambda>row. ret (toDomainWord row))"

definition Words_GetByID :: "ext \<Rightarrow> uuid \<Rightarrow> Word act" where
  "Words_GetByID E k =
     attempt (run_stmt E (GetWord k))
       (\<lambda>e. if IsNoRows e then fail (Wrap (NotFound ''Word'') (Some e))
            else fail (internal_error ''get word'' e))
       (\<lambda>row. ret (toDomainWord row))"

definition Words_GetByTerm :: "ext \<Rightarrow> string \<Rightarrow> string \<Rightarrow> Word act" where
  "Words_GetByTerm E language term =
     attempt (run_stmt E (GetWordByTerm E language term))
       (\<lambda>e. if IsNoRows e then fail (Wrap (NotFound ''Word'') (Some e))
            else fail (internal_error ''get word by term'' e))
       (\<lambda>row. ret (toDomainWord row))"

definition Words_Update :: "ext \<Rightarrow> uuid \<Rightarrow> UpdateWordInput \<Rightarrow> Word act" where
  "Words_Update E k inp =
     attempt (run_stmt E (UpdateWord E
        \<lparr>uwpID = k, uwpTerm = uwTerm inp, uwpLanguage = uwLanguage inp,
         uwpClearPronunciation = uwClearPronunciation inp, uwpPronunciation = uwPronunciation inp,
         uwpTags = uwTags inp\<rparr>))
       (\<lambda>e. if IsNoRows e then fail (Wrap (NotFound ''Word'') (Some e))
            else fail (internal_error ''update word'' e))
       (\<lambda>row. ret (toDomainWord row))"

definition Words_Delete :: "ext \<Rightarrow> uuid \<Rightarrow> unit act" where
  "Words_Delete E k =
     attempt (run_stmt E (DeleteWord k))
       (\<lambda>e. fail (internal_error ''delete word'' e))
       (\<lambda>affected. if affected = 0 then fail (NotFound ''Word'') else ret ())"

definition Words_List :: "ext \<Rightarrow> ListWordsFilter \<Rightarrow> PageParams \<Rightarrow> (Word list \<times> int) act" where
  "Words_List E flt page =
     attempt (run_stmt E (ListWords E
        \<lparr>wfpSearch = lwfSearch flt, wfpLanguage = lwfLanguage flt, wfpTags = lwfTags flt,
         wfpCreatedBy = lwfCreatedBy flt, lwpSortBy = ppSort page, lwpSortOrder = ppOrder page,
         lwpPageOffset = int32 (Offset page), lwpPageLimit = int32 (ppLimit page)\<rparr>))
       (\<lambda>e. fail (internal_error ''list words'' e)) (\<lambda>rows.
     attempt (run_stmt E (CountWords E
        \<lparr>wfpSearch = lwfSearch flt, wfpLanguage = lwfLanguage flt, wfpTags = lwfTags flt,
         wfpCreatedBy = lwfCreatedBy flt\<rparr>))
       (\<lambda>e. fail (internal_error ''count words'' e)) (\<lambda>cnt.
     ret (map toDomainWord rows, cnt)))"

section \<open>Senses (word_sense_repository.go)\<close>

definition empty_meta :: WordMeta where
  "empty_meta = \<lparr>wmSynonyms = [], wmAntonyms = [], wmOtherWaysToSay = []\<rparr>"

definition marshalWordMeta :: "ext \<Rightarrow> WordMeta option \<Rightarrow> goerr + string option" where
  "marshalWordMeta E m =
     (case m of None \<Rightarrow> Inr None
      | Some x \<Rightarrow> (case x_meta_marshal E x of Inl e \<Rightarrow> Inl e | Inr t \<Rightarrow> Inr (Some t)))"

definition toDomainWordSense :: "ext \<Rightarrow> dbWordSense \<Rightarrow> goerr + WordSense" where
  "toDomainWordSense E row =
     (case (if dsMeta row = [] then Inr empty_meta else x_meta_unmarshal E (dsMeta row)) of
        Inl e \<Rightarrow> Inl (internal_error ''unmarshal sense meta'' e)
      | Inr meta \<Rightarrow>
          Inr \<lparr>wsID = dsID row, wsWordID = dsWordID row, wsPartOfSpeech = dsPartOfSpeech row,
               wsDefinition = dsDefinition row, wsExample = dsExample row, wsMeta = meta,
               wsSenseOrder = dsSenseOrder row, wsCreatedAt = dsCreatedAt row,
               wsUpdatedAt = dsUpdatedAt row\<rparr>)"

definition of_result :: "goerr + 'a \<Rightarrow> 'a act" where
  "of_result r w = (r, w)"

definition WordSenses_Create :: "ext \<Rightarrow> CreateWordSenseInput \<Rightarrow> WordSense act" where
  "WordSenses_Create E inp =
     attempt (of_result (marshalWordMeta E (csMeta inp)))
       (\<lambda>e. fail (internal_error ''marshal sense meta'' e)) (\<lambda>m.
     attempt (run_stmt E (CreateWordSense E
        \<lparr>cspWordID = csWordID inp, cspDefinition = csDefinition inp,
         cspPartOfSpeech = csPartOfSpeech inp, cspExample = csExample inp, cspMeta = m,
         cspSenseOrder = csSenseOrder inp\<rparr>))
       (\<lambda>e. fail (internal_error ''create word sense'' e))
       (\<lambda>row. of_result (toDomainWordSense E row)))"

definition WordSenses_GetByID :: "ext \<Rightarrow> uuid \<Rightarrow> WordSense act" where
  "WordSenses_GetByID E k =
     attempt (run_stmt E (GetWordSense k))
       (\<lambda>e. if IsNoRows e then fail (Wrap (NotFound ''Word sense'') (Some e))
            else fail (internal_error ''get word sense'' e))
       (\<lambda>row. of_result (toDomainWordSense E row))"

text \<open>The loops over the rows stop at the first row that does not decode.\<close>

fun decode_senses :: "ext \<Rightarrow> dbWordSense list \<Rightarrow> goerr + WordSense list" where
  "decode_senses E [] = Inr []"
| "decode_senses E (row # rows) =
     (case toDomainWordSense E row of
        Inl e \<Rightarrow> Inl e
      | Inr s \<Rightarrow> (case decode_senses E rows of Inl e \<Rightarrow> Inl e | Inr ss \<Rightarrow> Inr (s # ss)))"

definition WordSenses_ListByWord :: "ext \<Rightarrow> uuid \<Rightarrow> WordSense list act" where
  "WordSenses_ListByWord E k =
     attempt (run_stmt E (ListWordSensesByWord k))
       (\<lambda>e. fail (internal_error ''list word senses'' e))
       (\<lambda>rows. of_result (decode_senses E rows))"

type_synonym senses_by_word = "uuid \<Rightarrow> WordSense list option"

definition add_sense :: "WordSense \<Rightarrow> senses_by_word \<Rightarrow> senses_by_word" where
  "add_sense s m =
     m(wsWordID s \<mapsto> (case m (wsWordID s) of None \<Rightarrow> [] | Some ss \<Rightarrow> ss) @ [s])"

fun group_senses :: "ext \<Rightarrow> dbWordSense list \<Rightarrow> senses_by_word \<Rightarrow> goerr + senses_by_word" where
  "group_senses E [] m = Inr m"
| "group_senses E (row # rows) m =
     (case toDomainWordSense E row of
        Inl e \<Rightarrow> Inl e
      | Inr s \<Rightarrow> group_senses E rows (add_sense s m))"

definition WordSenses_ListByWords :: "ext \<Rightarrow> uuid list \<Rightarrow> senses_by_word act" where
  "WordSenses_ListByWords E ks =
     (if ks = [] then ret Map.empty
      else attempt (run_stmt E (ListWordSensesByWordIDs ks))
        (\<lambda>e. fail (internal_error ''list word senses by words'' e))
        (\<lambda>rows. of_result (group_senses E rows Map.empty)))"

definition WordSenses_Update :: "ext \<Rightarrow> uuid \<Rightarrow> UpdateWordSenseInput \<Rightarrow> WordSense act" where
  "WordSenses_Update E k inp =
     attempt (of_result (marshalWordMeta E (usMeta inp)))
       (\<lambda>e. fail (internal_error ''marshal sense meta'' e)) (\<lambda>m.
     attempt (run_stmt E (UpdateWordSense E
        \<lparr>uspID = k, uspClearPartOfSpeech = usClearPartOfSpeech inp,
         uspPartOfSpeech = usPartOfSpeech inp, uspDefinition = usDefinition inp,
         uspClearExample = usClearExample inp, uspExample = usExample inp, uspMeta = m\<rparr>))
       (\<lambda>e. if IsNoRows e then fail (Wrap (NotFound ''Word sense'') (Some e))
            else fail (internal_error ''update word sense'' e))
       (\<lambda>row. of_result (toDomainWordSense E row)))"

definition WordSenses_Delete :: "ext \<Rightarrow> uuid \<Rightarrow> unit act" where
  "WordSenses_Delete E k =
     attempt (run_stmt E (DeleteWordSense k))
       (\<lambda>e. fail (internal_error ''delete word sense'' e))
       (\<lambda>affected. if affected = 0 then fail (NotFound ''Word sense'') else ret ())"

definition WordSenses_DeleteByWord :: "ext \<Rightarrow> uuid \<Rightarrow> unit act" where
  "WordSenses_DeleteByWord E k =
     attempt (run_stmt E (DeleteWordSensesByWord k))
       (\<lambda>e. fail (internal_error ''delete word senses'' e)) ret"

section \<open>Every repository operation keeps the constraints\<close>

lemma pres_of_result [pres_intros]: "pres I (of_result r)"
  by (rule presI) (simp add: of_result_def)

lemmas users_repository_defs =
  Users_Create_def Users_GetByID_def Users_GetByEmail_def Users_Update_def Users_UpdatePassword_def
  Users_TouchLastLogin_def Users_MarkEmailVerified_def Users_Delete_def Users_List_def
  Users_EmailExists_def

lemmas token_repository_defs =
  PasswordResets_Create_def PasswordResets_GetByTokenHash_def PasswordResets_MarkUsed_def
  PasswordResets_InvalidateForUser_def PasswordResets_DeleteExpired_def
  EmailVerifications_Create_def EmailVerifications_GetByTokenHash_def EmailVerifications_MarkUsed_def
  EmailVerifications_InvalidateForUser_def EmailVerifications_DeleteExpired_def

lemmas word_repository_defs =
  Words_Create_def Words_GetByID_def Words_GetByTerm_def Words_Update_def Words_Delete_def
  Words_List_def WordSenses_Create_def WordSenses_GetByID_def WordSenses_ListByWord_def
  WordSenses_ListByWords_def WordSenses_Update_def WordSenses_Delete_def WordSenses_DeleteByWord_def

lemmas query_defs =
  CountUsers_def EmailExistsQuery_def GetUserByEmail_def GetUserByID_def ListUsers_def get_token_def
  CountWords_def GetWord_def GetWordByTerm_def ListWords_def GetWordSense_def
  ListWordSensesByWord_def ListWordSensesByWordIDs_def

text \<open>The statements of the repositories, for any invariant of the world.\<close>

context world_invariant
begin

lemma kept_queries:
  "stmt_keeps E I (CountUsers E s r a)" "stmt_keeps E I (EmailExistsQuery E m)"
  "stmt_keeps E I (GetUserByEmail E m)" "stmt_keeps E I (GetUserByID k)" "stmt_keeps E I (ListUsers E p)"
  "stmt_keeps E I (GetPasswordResetToken h)" "stmt_keeps E I (GetEmailVerificationToken h)"
  "stmt_keeps E I (CountWords E q)" "stmt_keeps E I (GetWord k)"
  "stmt_keeps E I (GetWordByTerm E l t)" "stmt_keeps E I (ListWords E x)" "stmt_keeps E I (GetWordSense k)"
  "stmt_keeps E I (ListWordSensesByWord k)" "stmt_keeps E I (ListWordSensesByWordIDs ks)"
  by (simp_all add: query_defs token_statement_defs kept_query)

lemma kept_token_updates:
  "stmt_keeps E I DeleteExpiredPasswordResetTokens" "stmt_keeps E I (InvalidateUserPasswordResetTokens u)"
  "stmt_keeps E I (MarkPasswordResetTokenUsed k)" "stmt_keeps E I DeleteExpiredEmailVerificationTokens"
  "stmt_keeps E I (InvalidateUserEmailVerificationTokens u)" "stmt_keeps E I (MarkEmailVerificationTokenUsed k)"
  by (simp_all add: token_statement_defs token_statements)

lemmas kept_statements = kept_queries kept_token_updates user_statements word_statements

lemma Users_Create_kept:
  assumes "\<And>cu. cupRole cu = cuRole i \<Longrightarrow> stmt_keeps E I (CreateUser E cu)"
  shows "pres I (Users_Create E i)"
  unfolding Users_Create_def by (intro pres_intros assms) simp

lemma Users_Update_kept:
  assumes "\<And>uu. uupRole uu = uuRole u \<Longrightarrow> uupIsActive uu = uuIsActive u \<Longrightarrow> stmt_keeps E I (UpdateUser uu)"
  shows "pres I (Users_Update E k u)"
  unfolding Users_Update_def by (intro pres_intros assms) simp_all

lemma plain_users_kept [pres_intros]:
  "cuRole i = RoleUser \<Longrightarrow> pres I (Users_Create E i)"
  "uuRole u = None \<Longrightarrow> uuIsActive u = None \<Longrightarrow> pres I (Users_Update E k u)"
  by (rule Users_Create_kept Users_Update_kept, rule plain_account profile_update, simp_all)+

lemma users_repository_kept [pres_intros]:
  "pres I (Users_GetByID E k)" "pres I (Users_GetByEmail E m)"
  "pres I (Users_UpdatePassword E k h)" "pres I (Users_TouchLastLogin E k)" "pres I (Users_MarkEmailVerified E k)"
  "pres I (Users_Delete E k)" "pres I (Users_List E f)" "pres I (Users_EmailExists E m)"
  unfolding users_repository_defs by (intro pres_intros kept_statements)+

lemma token_repository_kept [pres_intros]:
  "pres I (PasswordResets_GetByTokenHash E h)" "pres I (PasswordResets_MarkUsed E k)"
  "pres I (PasswordResets_InvalidateForUser E u)" "pres I (PasswordResets_DeleteExpired E)"
  "pres I (EmailVerifications_GetByTokenHash E h)" "pres I (EmailVerifications_MarkUsed E k)"
  "pres I (EmailVerifications_InvalidateForUser E u)" "pres I (EmailVerifications_DeleteExpired E)"
  unfolding token_repository_defs by (intro pres_intros kept_statements)+

lemma token_creation_kept:
  "stmt_keeps E I (CreatePasswordResetToken u h x) \<Longrightarrow> pres I (PasswordResets_Create E u h x)"
  "stmt_keeps E I (CreateEmailVerificationToken u h x) \<Longrightarrow> pres I (EmailVerifications_Create E u h x)"
  unfolding token_repository_defs by (intro pres_intros; assumption)+

lemma word_repository_kept [pres_intros]:
  "pres I (Words_Create E c)" "pres I (Words_GetByID E k)" "pres I (Words_GetByTerm E l t)" "pres I (Words_Update E k u)"
  "pres I (Words_Delete E k)" "pres I (Words_List E f p)" "pres I (WordSenses_Create E s)" "pres I (WordSenses_GetByID E k)"
  "pres I (WordSenses_ListByWord E k)" "pres I (WordSenses_ListByWords E ks)" "pres I (WordSenses_Update E k v)"
  "pres I (WordSenses_Delete E k)" "pres I (WordSenses_DeleteByWord E k)"
  unfolding word_repository_defs by (intro pres_intros kept_statements)+

end

end
