(* ===== verification/Sessions.thy ===== *)
theory Sessions
  imports Redis Repositories
begin

text \<open>
  The session state of \<open>app/lib/auth/session.go\<close>: refresh tokens registered per user in a Redis
  hash, the revocation epoch of a user, and the blacklist of single access tokens.
\<close>

section \<open>The store\<close>

definition sessionsKeyPrefix :: string where "sessionsKeyPrefix = ''auth:sessions:''"
definition revokedKeyPrefix :: string where "revokedKeyPrefix = ''auth:revoked:''"
definition blacklistKeyPrefix :: string where "blacklistKeyPrefix = ''auth:blacklist:''"

definition sessionsKey :: "ext \<Rightarrow> uuid \<Rightarrow> string" where
  "sessionsKey E u = sessionsKeyPrefix @ x_uuid_string E u"

definition revokedKey :: "ext \<Rightarrow> uuid \<Rightarrow> string" where
  "revokedKey E u = revokedKeyPrefix @ x_uuid_string E u"

definition blacklistKey :: "string \<Rightarrow> string" where
  "blacklistKey jti = blacklistKeyPrefix @ jti"

record SessionStore =
  ssRefreshTTL :: duration

definition NewRedisSessionStore :: "duration \<Rightarrow> SessionStore" where
  "NewRedisSessionStore refreshTTL = \<lparr>ssRefreshTTL = refreshTTL\<rparr>"

definition StoreRefreshToken :: "ext \<Rightarrow> SessionStore \<Rightarrow> uuid \<Rightarrow> string \<Rightarrow> gotime \<Rightarrow> unit act" where
  "StoreRefreshToken E s user jti expiresAt =
     (let key = sessionsKey E user in
      attempt (redis (multi2 (HSET key jti (FormatInt (Unix expiresAt)))
                             (EXPIRE key (ssRefreshTTL s + Hour))))
        (\<lambda>e. fail (Wrapf ''auth: store refresh token: '' e ''''))
        (\<lambda>_. ret ()))"

definition RevokeRefreshToken :: "ext \<Rightarrow> uuid \<Rightarrow> string \<Rightarrow> unit act" where
  "RevokeRefreshToken E user jti =
     attempt (redis (HDEL (sessionsKey E user) jti))
       (\<lambda>e. if \<not> Is e RedisNil then fail (Wrapf ''auth: revoke refresh token: '' e '''') else ret ())
       (\<lambda>_. ret ())"

definition IsRefreshTokenActive :: "ext \<Rightarrow> uuid \<Rightarrow> string \<Rightarrow> bool act" where
  "IsRefreshTokenActive E user jti =
     attempt (redis (HGET (sessionsKey E user) jti))
       (\<lambda>e. if Is e RedisNil then ret False
            else fail (Wrapf ''auth: read refresh token: '' e ''''))
       (\<lambda>raw.
         case ParseInt raw of
           None \<Rightarrow> ignore (RevokeRefreshToken E user jti) (ret False)
         | Some expiresAt \<Rightarrow>
             attempt time_now fail (\<lambda>t.
               if Unix t \<ge> expiresAt then ignore (RevokeRefreshToken E user jti) (ret False)
               else ret True))"

definition RevokeAllSessions :: "ext \<Rightarrow> SessionStore \<Rightarrow> uuid \<Rightarrow> unit act" where
  "RevokeAllSessions E s user =
     attempt time_now fail (\<lambda>t.
       let epoch = t - Second in
       attempt (redis (multi2 (DEL (sessionsKey E user))
                              (SET (revokedKey E user) (FormatInt (Unix epoch)) (ssRefreshTTL s + Hour))))
         (\<lambda>e. fail (Wrapf ''auth: revoke all sessions: '' e ''''))
         (\<lambda>_. ret ()))"

definition BlacklistAccessToken :: "string \<Rightarrow> duration \<Rightarrow> unit act" where
  "BlacklistAccessToken jti ttl =
     (if ttl \<le> 0 then ret ()
      else attempt (redis (SET (blacklistKey jti) ''1'' ttl))
        (\<lambda>e. fail (Wrapf ''auth: blacklist access token: '' e ''''))
        ret)"

text \<open>
  The two results of the pipeline. \<open>Exec\<close> returns the first error of its commands; \<open>Val\<close> of a
  failed command is zero.
\<close>

definition IsAccessTokenValid :: "ext \<Rightarrow> uuid \<Rightarrow> string \<Rightarrow> gotime \<Rightarrow> bool act" where
  "IsAccessTokenValid E user jti issuedAt =
     attempt (redis (pipeline2 (EXISTS (blacklistKey jti)) (GET (revokedKey E user))))
       (\<lambda>e. if \<not> Is e RedisNil then fail (Wrapf ''auth: validate access token: '' e '''') else ret True)
       (\<lambda>(blacklisted, revokedAt).
         let first_error = (case blacklisted of Inl e \<Rightarrow> Some e
                            | Inr _ \<Rightarrow> (case revokedAt of Inl e \<Rightarrow> Some e | Inr _ \<Rightarrow> None)) in
         if (case first_error of Some e \<Rightarrow> \<not> Is e RedisNil | None \<Rightarrow> False)
         then fail (Wrapf ''auth: validate access token: '' (case first_error of Some e \<Rightarrow> e) '''')
         else if 0 < (case blacklisted of Inl _ \<Rightarrow> 0 | Inr n \<Rightarrow> n) then ret False
         else
          (case revokedAt of
             Inl e \<Rightarrow> if Is e RedisNil then ret True
                      else fail (Wrapf ''auth: read revocation epoch: '' e '''')
           | Inr raw \<Rightarrow>
               (case ParseInt raw of
                  None \<Rightarrow> ret True
                | Some epoch \<Rightarrow> ret (epoch < Unix issuedAt))))"

definition ActiveSessionCount :: "ext \<Rightarrow> uuid \<Rightarrow> int act" where
  "ActiveSessionCount E user =
     attempt (redis (HLEN (sessionsKey E user)))
       (\<lambda>e. fail (Wrapf ''auth: count sessions: '' e '''')) ret"

lemmas session_defs =
  StoreRefreshToken_def RevokeRefreshToken_def IsRefreshTokenActive_def RevokeAllSessions_def
  BlacklistAccessToken_def IsAccessTokenValid_def ActiveSessionCount_def

context world_invariant
begin

lemma kept_redis [pres_intros]: "pres I (redis c)"
  by (rule kept_frame) (simp add: redis_frame)

lemma session_kept [pres_intros]:
  "pres I (StoreRefreshToken F s u j x)" "pres I (RevokeRefreshToken F u j)" "pres I (IsRefreshTokenActive F u j)"
  "pres I (RevokeAllSessions F s u)" "pres I (BlacklistAccessToken j t)" "pres I (IsAccessTokenValid F u j i)"
  "pres I (ActiveSessionCount F u)"
  unfolding session_defs by (intro pres_intros)+

end

end
