(* ===== verification/SessionSpec.thy ===== *)
theory SessionSpec
  imports Sessions
begin

text \<open>
  What the session store promises. The abstract state is the set of refresh tokens that are live
  at an instant; \<open>session_contract\<close> states how each operation changes it, the lemmas of the locale
  are what the services rely on, and the Redis implementation is shown to be an instance.
\<close>

section \<open>The contract\<close>

locale session_contract =
  fixes store :: "uuid \<Rightarrow> string \<Rightarrow> gotime \<Rightarrow> unit act"
    and is_active :: "uuid \<Rightarrow> string \<Rightarrow> bool act"
    and revoke :: "uuid \<Rightarrow> string \<Rightarrow> unit act"
    and revoke_all :: "uuid \<Rightarrow> unit act"
    and live :: "world \<Rightarrow> gotime \<Rightarrow> uuid \<Rightarrow> string \<Rightarrow> bool"
    and good :: "world \<Rightarrow> bool"
    and lifetime :: duration
  assumes store_spec:
    "good w \<Longrightarrow> calm w \<Longrightarrow> 0 \<le> x \<Longrightarrow> Unix x < 2 ^ 63 \<Longrightarrow> x \<le> w_clock w + lifetime \<Longrightarrow>
     \<exists>w'. store u j x w = (Inr (), w') \<and> good w' \<and> calm w' \<and> w_clock w \<le> w_clock w' \<and>
       (\<forall>t\<ge>w_clock w'. \<forall>v k. live w' t v k =
          (if v = u \<and> k = j then Unix t < Unix x else live w t v k))"
    and is_active_spec:
    "good w \<Longrightarrow> calm w \<Longrightarrow>
     \<exists>w' t. is_active u j w = (Inr (live w t u j), w') \<and> good w' \<and> calm w' \<and>
       w_clock w \<le> t \<and> t \<le> w_clock w' \<and> (\<forall>t\<ge>w_clock w'. \<forall>v k. live w' t v k = live w t v k)"
    and revoke_spec:
    "good w \<Longrightarrow> calm w \<Longrightarrow>
     \<exists>w'. revoke u j w = (Inr (), w') \<and> good w' \<and> calm w' \<and> w_clock w \<le> w_clock w' \<and>
       (\<forall>t\<ge>w_clock w'. \<forall>v k. live w' t v k = (\<not> (v = u \<and> k = j) \<and> live w t v k))"
    and revoke_all_spec:
    "good w \<Longrightarrow> calm w \<Longrightarrow>
     \<exists>w'. revoke_all u w = (Inr (), w') \<and> good w' \<and> calm w' \<and> w_clock w \<le> w_clock w' \<and>
       (\<forall>t\<ge>w_clock w'. \<forall>v k. live w' t v k = (v \<noteq> u \<and> live w t v k))"
begin

text \<open>Once revoked, a token is reported inactive.\<close>

lemma revoked_inactive:
  assumes "good w" and "calm w"
  shows "\<exists>w1 w2. revoke u j w = (Inr (), w1) \<and> is_active u j w1 = (Inr False, w2)"
proof -
  obtain w1 where r: "revoke u j w = (Inr (), w1)" "good w1" "calm w1"
    and live: "\<forall>t\<ge>w_clock w1. \<forall>v k. live w1 t v k = (\<not> (v = u \<and> k = j) \<and> live w t v k)"
    using revoke_spec [OF assms] by blast
  obtain w2 t where "is_active u j w1 = (Inr (live w1 t u j), w2)" "w_clock w1 \<le> t"
    using is_active_spec [OF r(2,3)] by blast
  with live r(1) show ?thesis by auto
qed

text \<open>After all sessions of a user are dropped, no token of that user is active.\<close>

lemma revoke_all_inactive:
  assumes "good w" and "calm w"
  shows "\<exists>w1. revoke_all u w = (Inr (), w1) \<and> good w1 \<and> calm w1 \<and>
      (\<forall>j. \<exists>w2. is_active u j w1 = (Inr False, w2))"
proof -
  obtain w1 where r: "revoke_all u w = (Inr (), w1)" "good w1" "calm w1"
    and live: "\<forall>t\<ge>w_clock w1. \<forall>v k. live w1 t v k = (v \<noteq> u \<and> live w t v k)"
    using revoke_all_spec [OF assms] by blast
  have "\<exists>w2. is_active u j w1 = (Inr False, w2)" for j
    using is_active_spec [OF r(2,3), of u j] live by auto
  with r show ?thesis by blast
qed

text \<open>A rotation leaves the other tokens alone, retires the old one and activates the new one.\<close>

lemma rotation:
  assumes "good w" and "calm w" and "j \<noteq> j'"
    and x: "0 \<le> x" "Unix x < 2 ^ 63" "x \<le> w_clock w + lifetime"
  shows "\<exists>w1 w2. revoke u j w = (Inr (), w1) \<and> store u j' x w1 = (Inr (), w2) \<and> good w2 \<and> calm w2 \<and>
     (\<forall>t\<ge>w_clock w2. \<not> live w2 t u j \<and> live w2 t u j' = (Unix t < Unix x) \<and>
       (\<forall>v k. (v, k) \<noteq> (u, j) \<and> (v, k) \<noteq> (u, j') \<longrightarrow> live w2 t v k = live w t v k))"
proof -
  obtain w1 where r: "revoke u j w = (Inr (), w1)" "good w1" "calm w1" "w_clock w \<le> w_clock w1"
    and live1: "\<forall>t\<ge>w_clock w1. \<forall>v k. live w1 t v k = (\<not> (v = u \<and> k = j) \<and> live w t v k)"
    using revoke_spec [OF assms(1,2)] by blast
  have "x \<le> w_clock w1 + lifetime" using x(3) r(4) by simp
  then obtain w2 where s: "store u j' x w1 = (Inr (), w2)" "good w2" "calm w2" "w_clock w1 \<le> w_clock w2"
    and live2: "\<forall>t\<ge>w_clock w2. \<forall>v k. live w2 t v k =
        (if v = u \<and> k = j' then Unix t < Unix x else live w1 t v k)"
    using store_spec [OF r(2,3) x(1,2)] by blast
  show ?thesis
    using r s live1 live2 \<open>j \<noteq> j'\<close> by (intro exI [of _ w1] exI [of _ w2]) auto
qed

end

section \<open>The Redis implementation\<close>

text \<open>
  The law of the UUID package the keys rest on: parsing inverts printing, and the text of a UUID
  is not empty.
\<close>

definition uuid_law :: "ext \<Rightarrow> bool" where
  "uuid_law E \<longleftrightarrow> (\<forall>u. x_uuid_parse E (x_uuid_string E u) = Some u \<and> x_uuid_string E u \<noteq> [])"

lemma uuid_string_inj: "uuid_law E \<Longrightarrow> x_uuid_string E u = x_uuid_string E v \<longleftrightarrow> u = v"
  unfolding uuid_law_def by (metis option.inject)

lemma sessionsKey_inj [simp]: "uuid_law E \<Longrightarrow> sessionsKey E u = sessionsKey E v \<longleftrightarrow> u = v"
  by (simp add: sessionsKey_def uuid_string_inj)

lemma revokedKey_inj [simp]: "uuid_law E \<Longrightarrow> revokedKey E u = revokedKey E v \<longleftrightarrow> u = v"
  by (simp add: revokedKey_def uuid_string_inj)

lemma session_keys_distinct [simp]:
  "sessionsKey E u \<noteq> revokedKey F v" "revokedKey F v \<noteq> sessionsKey E u"
  "sessionsKey E u \<noteq> blacklistKey j" "blacklistKey j \<noteq> sessionsKey E u"
  "revokedKey E u \<noteq> blacklistKey j" "blacklistKey j \<noteq> revokedKey E u"
  "blacklistKey j = blacklistKey k \<longleftrightarrow> j = k"
  by (simp_all add: sessionsKey_def revokedKey_def blacklistKey_def sessionsKeyPrefix_def
      revokedKeyPrefix_def blacklistKeyPrefix_def)

text \<open>The key of a user's hash lives for the refresh lifetime and an hour after the last write.\<close>

definition key_ttl :: "SessionStore \<Rightarrow> duration" where
  "key_ttl s = format_sec (ssRefreshTTL s + Hour)"

lemma key_ttl_ge: "0 \<le> ssRefreshTTL s \<Longrightarrow> ssRefreshTTL s < key_ttl s"
proof -
  assume "0 \<le> ssRefreshTTL s"
  then have "\<not> ssRefreshTTL s + Hour < Second" by (simp add: Hour_def Minute_def Second_def)
  moreover have "ssRefreshTTL s + Hour - Second < (ssRefreshTTL s + Hour) div Second * Second"
    using div_mult_mod_eq [of "ssRefreshTTL s + Hour" Second]
      pos_mod_bound [of Second "ssRefreshTTL s + Hour"]
    by (simp add: Second_def)
  moreover have "Second < Hour" by (simp add: Hour_def Minute_def Second_def)
  ultimately show ?thesis by (simp add: key_ttl_def format_sec_def)
qed

text \<open>
  The invariant of the store: the hash of a user holds expiries that the program wrote, it never
  expires before one of them, and the revocation epoch is a string that the program wrote.
\<close>

definition hash_ok :: "gotime \<Rightarrow> (string \<times> string) list \<Rightarrow> bool" where
  "hash_ok until h \<longleftrightarrow>
     (\<forall>j v. map_of h j = Some v \<longrightarrow>
        (\<exists>x. v = FormatInt x \<and> - (2 ^ 63) \<le> x \<and> x < 2 ^ 63 \<and> x * Second \<le> until))"

definition sessions_ok :: "ext \<Rightarrow> SessionStore \<Rightarrow> gotime \<Rightarrow> redis_store \<Rightarrow> bool" where
  "sessions_ok E s clock st \<longleftrightarrow>
     (\<forall>u e. st (sessionsKey E u) = Some e \<longrightarrow>
        (\<exists>h until. e = \<lparr>reValue = RHash h, reExpires = Some until\<rparr> \<and> until \<le> clock + key_ttl s \<and>
           hash_ok until h)) \<and>
     (\<forall>u e. st (revokedKey E u) = Some e \<longrightarrow> (\<exists>n. reValue e = RString (FormatInt n)))"

text \<open>The tokens that are live at an instant.\<close>

definition live_session :: "ext \<Rightarrow> redis_store \<Rightarrow> gotime \<Rightarrow> uuid \<Rightarrow> string \<Rightarrow> bool" where
  "live_session E st t u j =
     (case st (sessionsKey E u) of
        None \<Rightarrow> False
      | Some e \<Rightarrow>
          (case reValue e of
             RString _ \<Rightarrow> False
           | RHash h \<Rightarrow>
               (case map_of h j of
                  None \<Rightarrow> False
                | Some v \<Rightarrow> (case ParseInt v of None \<Rightarrow> False | Some x \<Rightarrow> Unix t < x))))"

lemma sessions_ok_later: "sessions_ok E s c st \<Longrightarrow> c \<le> c' \<Longrightarrow> sessions_ok E s c' st"
  unfolding sessions_ok_def by (meson add_right_mono order_trans)

lemma sessions_okD:
  assumes "sessions_ok E s c st" and "st (sessionsKey E u) = Some e"
  obtains h until where "e = \<lparr>reValue = RHash h, reExpires = Some until\<rparr>"
    and "until \<le> c + key_ttl s" and "hash_ok until h"
  using assms unfolding sessions_ok_def by blast

lemma sessions_ok_revoked:
  "sessions_ok E s c st \<Longrightarrow> st (revokedKey E u) = Some e \<Longrightarrow> \<exists>n. reValue e = RString (FormatInt n)"
  unfolding sessions_ok_def by blast

lemma Unix_less_iff: "Unix t < x \<longleftrightarrow> t < x * Second"
  by (simp add: Unix_def Second_def) linarith

lemma Unix_mult_le: "Unix t * Second \<le> t"
  using div_mult_mod_eq [of t Second] pos_mod_sign [of Second t]
  by (simp add: Unix_def Second_def)

lemma live_session_earlier:
  assumes "live_session E st t u j" and "c \<le> t"
  shows "live_session E st c u j"
proof -
  obtain e h v x where *: "st (sessionsKey E u) = Some e" "reValue e = RHash h" "map_of h j = Some v"
    "ParseInt v = Some x" "Unix t < x"
    using assms(1) by (auto simp: live_session_def split: option.splits redis_value.splits)
  from *(5) Unix_mono [OF assms(2)] have "Unix c < x" by simp
  with * show ?thesis by (simp add: live_session_def)
qed

text \<open>A live token sits in a hash that has not expired.\<close>

lemma live_sessionD:
  assumes ok: "sessions_ok E s c st" and "live_session E st t u j"
  obtains h until x where "live_entry t st (sessionsKey E u) = Some \<lparr>reValue = RHash h, reExpires = Some until\<rparr>"
    and "map_of h j = Some (FormatInt x)" and "ParseInt (FormatInt x) = Some x" and "Unix t < x"
proof -
  obtain e where e: "st (sessionsKey E u) = Some e"
    using assms(2) by (auto simp: live_session_def split: option.splits)
  obtain h until where h: "e = \<lparr>reValue = RHash h, reExpires = Some until\<rparr>" "hash_ok until h"
    using sessions_okD [OF ok e] by blast
  obtain v where v: "map_of h j = Some v"
    using assms(2) e h by (auto simp: live_session_def split: option.splits)
  obtain x where x: "v = FormatInt x" "- (2 ^ 63) \<le> x" "x < 2 ^ 63" "x * Second \<le> until"
    using h(2) v unfolding hash_ok_def by blast
  have p: "ParseInt (FormatInt x) = Some x" using ParseInt_FormatInt x by blast
  then have "Unix t < x" using assms(2) e h v x by (simp add: live_session_def)
  moreover from this have "t < until" using x(4) by (simp add: Unix_less_iff)
  ultimately show ?thesis
    using that [of h until x] e h v x p by (simp add: live_entry_def expired_def)
qed

text \<open>Reading an entry gives its liveness, whatever the key's own expiry.\<close>

lemma HGET_live:
  assumes ok: "sessions_ok E s c st"
  shows "(case HGET (sessionsKey E u) j t st of (r, st') \<Rightarrow> st' = st \<and>
      (case r of Inl e \<Rightarrow> e = Sentinel RedisNil \<and> \<not> live_session E st t u j
       | Inr raw \<Rightarrow> (\<exists>x. raw = FormatInt x \<and> ParseInt raw = Some x \<and>
                       live_session E st t u j = (Unix t < x))))"
proof (cases "live_entry t st (sessionsKey E u)")
  case None
  then have "\<not> live_session E st t u j" using live_sessionD [OF ok] by (metis option.distinct(1))
  then show ?thesis using None by (simp add: HGET_def)
next
  case (Some e)
  then have e: "st (sessionsKey E u) = Some e" by (auto simp: live_entry_def split: option.splits if_splits)
  obtain h until where h: "e = \<lparr>reValue = RHash h, reExpires = Some until\<rparr>" "hash_ok until h"
    using sessions_okD [OF ok e] by blast
  show ?thesis
  proof (cases "map_of h j")
    case None
    then show ?thesis using Some h e by (simp add: HGET_def live_session_def)
  next
    case v: (Some v)
    then obtain x where "v = FormatInt x" "- (2 ^ 63) \<le> x" "x < 2 ^ 63"
      using h(2) unfolding hash_ok_def by blast
    with ParseInt_FormatInt v Some h e show ?thesis
      by (auto simp: HGET_def live_session_def)
  qed
qed

section \<open>The operations on the store\<close>

lemma live_session_upd:
  assumes "uuid_law E"
  shows "live_session E (st(sessionsKey E u \<mapsto> \<lparr>reValue = RHash h, reExpires = x\<rparr>)) t v k =
    (if v = u then (case map_of h k of None \<Rightarrow> False
       | Some y \<Rightarrow> (case ParseInt y of None \<Rightarrow> False | Some n \<Rightarrow> Unix t < n))
     else live_session E st t v k)"
  using assms by (simp add: live_session_def)

lemma live_session_none:
  assumes "uuid_law E"
  shows "live_session E (st(sessionsKey E u := None)) t v k = (v \<noteq> u \<and> live_session E st t v k)"
  using assms by (simp add: live_session_def)

lemma live_session_hash:
  assumes "st (sessionsKey E u) = Some \<lparr>reValue = RHash h, reExpires = x\<rparr>"
  shows "live_session E st t u k = (case map_of h k of None \<Rightarrow> False
       | Some y \<Rightarrow> (case ParseInt y of None \<Rightarrow> False | Some n \<Rightarrow> Unix t < n))"
  using assms by (simp add: live_session_def)

lemma sessions_ok_set_hash:
  assumes "uuid_law E" and "sessions_ok E s c st" and "until \<le> c + key_ttl s" and "hash_ok until h"
  shows "sessions_ok E s c (st(sessionsKey E u \<mapsto> \<lparr>reValue = RHash h, reExpires = Some until\<rparr>))"
  using assms by (auto simp: sessions_ok_def)

lemma sessions_ok_drop_hash:
  assumes "uuid_law E" and "sessions_ok E s c st"
  shows "sessions_ok E s c (st(sessionsKey E u := None))"
  using assms by (auto simp: sessions_ok_def)

lemma hash_ok_update:
  assumes "hash_ok until h" and "until \<le> until'" and "- (2 ^ 63) \<le> x" "x < 2 ^ 63"
    and "x * Second \<le> until'"
  shows "hash_ok until' (AList.update j (FormatInt x) h)"
  using assms unfolding hash_ok_def update_conv' by (auto, meson order_trans)

lemma hash_ok_delete: "hash_ok until h \<Longrightarrow> hash_ok until (AList.delete j h)"
  unfolding hash_ok_def delete_conv' by (simp add: fun_upd_def)

text \<open>Registering a token.\<close>

lemma store_command:
  assumes law: "uuid_law E" and ok: "sessions_ok E s c st" and "0 \<le> ssRefreshTTL s"
    and x: "0 \<le> x" "Unix x < 2 ^ 63" "x \<le> c + ssRefreshTTL s"
  shows "\<exists>st'. multi2 (HSET (sessionsKey E u) j (FormatInt (Unix x)))
                     (EXPIRE (sessionsKey E u) (ssRefreshTTL s + Hour)) c st = (Inr ((), True), st') \<and>
       sessions_ok E s c st' \<and>
       (\<forall>t\<ge>c. \<forall>v k. live_session E st' t v k =
          (if v = u \<and> k = j then Unix t < Unix x else live_session E st t v k))"
proof -
  let ?key = "sessionsKey E u" and ?until = "c + key_ttl s" and ?n = "Unix x"
  have ttl: "format_sec (ssRefreshTTL s + Hour) = key_ttl s" by (simp add: key_ttl_def)
  have pos: "0 < key_ttl s" using key_ttl_ge assms(3) by (meson le_less_trans)
  have n: "- (2 ^ 63) \<le> ?n" "?n < 2 ^ 63" "?n * Second \<le> ?until"
  proof -
    show "- (2 ^ 63) \<le> ?n" using x(1) by (simp add: Unix_def Second_def)
    show "?n < 2 ^ 63" by fact
    show "?n * Second \<le> ?until"
      using Unix_mult_le [of x] x(3) key_ttl_ge [OF assms(3)] by linarith
  qed
  have parse: "ParseInt (FormatInt ?n) = Some ?n" using ParseInt_FormatInt n by blast
  show ?thesis
  proof (cases "live_entry c st ?key")
    case None
    let ?st = "st(?key \<mapsto> \<lparr>reValue = RHash [(j, FormatInt ?n)], reExpires = Some ?until\<rparr>)"
    have "\<not> live_session E st t u k" if "c \<le> t" for t k
      using live_sessionD [OF ok, of t u k] live_entry_later [OF _ that] None
      by (metis option.distinct(1))
    moreover have "hash_ok ?until [(j, FormatInt ?n)]" using n by (auto simp: hash_ok_def)
    ultimately show ?thesis
      using None pos parse
      by (intro exI [of _ ?st])
         (simp add: multi2_def HSET_def EXPIRE_def live_entry_def expired_def ttl
            live_session_upd [OF law] sessions_ok_set_hash [OF law ok])
  next
    case (Some e)
    then have e: "st ?key = Some e" "\<not> expired c e"
      by (auto simp: live_entry_def split: option.splits if_splits)
    obtain h until where h: "e = \<lparr>reValue = RHash h, reExpires = Some until\<rparr>"
      "until \<le> ?until" "hash_ok until h"
      using sessions_okD [OF ok e(1)] by blast
    let ?h = "AList.update j (FormatInt ?n) h"
    let ?st = "st(?key \<mapsto> \<lparr>reValue = RHash ?h, reExpires = Some ?until\<rparr>)"
    have "hash_ok ?until ?h" using hash_ok_update [OF h(3,2) n] .
    then show ?thesis
      using Some e h pos parse
      by (intro exI [of _ ?st])
         (simp add: multi2_def HSET_def EXPIRE_def live_entry_def expired_def ttl update_conv'
            live_session_upd [OF law] live_session_hash [where st = st and E = E and u = u, OF e(1) [unfolded h(1)]]
            sessions_ok_set_hash [OF law ok])
  qed
qed

text \<open>Revoking one token.\<close>

lemma revoke_command:
  assumes law: "uuid_law E" and ok: "sessions_ok E s c st"
  shows "\<exists>n st'. HDEL (sessionsKey E u) j c st = (Inr n, st') \<and> sessions_ok E s c st' \<and>
       (\<forall>t\<ge>c. \<forall>v k. live_session E st' t v k = (\<not> (v = u \<and> k = j) \<and> live_session E st t v k))"
proof (cases "live_entry c st (sessionsKey E u)")
  case None
  have "\<not> live_session E st t u k" if "c \<le> t" for t k
    using live_sessionD [OF ok, of t u k] live_entry_later [OF _ that] None
    by (metis option.distinct(1))
  then show ?thesis using None ok by (auto simp: HDEL_def)
next
  case (Some e)
  then have e: "st (sessionsKey E u) = Some e"
    by (auto simp: live_entry_def split: option.splits if_splits)
  obtain h until where h: "e = \<lparr>reValue = RHash h, reExpires = Some until\<rparr>"
    "until \<le> c + key_ttl s" "hash_ok until h"
    using sessions_okD [OF ok e] by blast
  note hash = live_session_hash [where st = st and E = E and u = u, OF e [unfolded h(1)]]
  show ?thesis
  proof (cases "AList.delete j h = []")
    case True
    have "map_of h k = None" if "k \<noteq> j" for k
      using arg_cong [OF True, of "\<lambda>h. map_of h k"] that by (simp add: delete_conv')
    then have "\<not> live_session E st t u k" if "k \<noteq> j" for t k using that by (simp add: hash)
    then show ?thesis
      using True Some h sessions_ok_drop_hash [OF law ok]
      by (auto simp: HDEL_def Let_def live_session_none [OF law])
  next
    case False
    then show ?thesis
      using Some h sessions_ok_set_hash [OF law ok h(2) hash_ok_delete [OF h(3)]]
      by (auto simp: HDEL_def Let_def live_session_upd [OF law] delete_conv' hash)
  qed
qed

text \<open>Dropping every session.\<close>

lemma revoke_all_command:
  assumes law: "uuid_law E" and ok: "sessions_ok E s c st"
  shows "\<exists>n st'. multi2 (DEL (sessionsKey E u)) (SET (revokedKey E u) (FormatInt epoch) d) c st
           = (Inr (n, ()), st') \<and>
       sessions_ok E s c st' \<and> st' (revokedKey E u) = Some \<lparr>reValue = RString (FormatInt epoch),
          reExpires = map_option ((+) c) (set_ttl d)\<rparr> \<and>
       (\<forall>k. k \<noteq> sessionsKey E u \<longrightarrow> k \<noteq> revokedKey E u \<longrightarrow> st' k = st k) \<and>
       (\<forall>t v k. live_session E st' t v k = (v \<noteq> u \<and> live_session E st t v k))"
proof -
  let ?e = "\<lparr>reValue = RString (FormatInt epoch),
    reExpires = map_option ((+) c) (set_ttl d)\<rparr>"
  let ?st = "st(sessionsKey E u := None, revokedKey E u \<mapsto> ?e)"
  have "multi2 (DEL (sessionsKey E u)) (SET (revokedKey E u) (FormatInt epoch) d) c st
      = (Inr (if live_entry c st (sessionsKey E u) = None then 0 else 1, ()), ?st)"
    by (simp add: multi2_def DEL_def SET_def)
  moreover have "sessions_ok E s c ?st"
    using sessions_ok_drop_hash [OF law ok] law by (auto simp: sessions_ok_def)
  moreover have "live_session E ?st t v k = (v \<noteq> u \<and> live_session E st t v k)" for t v k
    using law by (simp add: live_session_def)
  ultimately show ?thesis
    by (intro exI [of _ "if live_entry c st (sessionsKey E u) = None then 0 else 1"] exI [of _ ?st]) auto
qed

section \<open>Redis implements the contract\<close>

definition good_sessions :: "ext \<Rightarrow> SessionStore \<Rightarrow> world \<Rightarrow> bool" where
  "good_sessions E s w \<longleftrightarrow>
     uuid_law E \<and> 0 \<le> ssRefreshTTL s \<and> sessions_ok E s (w_clock w) (w_redis w)"

definition live_in :: "ext \<Rightarrow> world \<Rightarrow> gotime \<Rightarrow> uuid \<Rightarrow> string \<Rightarrow> bool" where
  "live_in E w = live_session E (w_redis w)"

lemma good_sessions_tick:
  assumes "good_sessions E s w"
  shows "sessions_ok E s (w_clock (tick w)) (w_redis w)"
  using assms sessions_ok_later tick_clock unfolding good_sessions_def by blast

lemma StoreRefreshToken_spec:
  assumes good: "good_sessions E s w" and "calm w"
    and x: "0 \<le> x" "Unix x < 2 ^ 63" "x \<le> w_clock w + ssRefreshTTL s"
  shows "\<exists>w'. StoreRefreshToken E s u j x w = (Inr (), w') \<and> good_sessions E s w' \<and> calm w' \<and>
      w_clock w' = w_clock (tick w) \<and> w_db w' = w_db w \<and> w_rng w' = w_rng w \<and>
      (\<forall>t\<ge>w_clock w'. \<forall>v k. live_in E w' t v k =
         (if v = u \<and> k = j then Unix t < Unix x else live_in E w t v k))"
proof -
  have x': "x \<le> w_clock (tick w) + ssRefreshTTL s" using x(3) tick_clock [of w] by simp
  obtain st' where st': "multi2 (HSET (sessionsKey E u) j (FormatInt (Unix x)))
        (EXPIRE (sessionsKey E u) (ssRefreshTTL s + Hour)) (w_clock (tick w)) (w_redis w)
        = (Inr ((), True), st')"
    and ok: "sessions_ok E s (w_clock (tick w)) st'"
    and live: "\<forall>t\<ge>w_clock (tick w). \<forall>v k. live_session E st' t v k =
        (if v = u \<and> k = j then Unix t < Unix x else live_session E (w_redis w) t v k)"
    using store_command [OF _ good_sessions_tick [OF good] _ x(1,2) x', where u = u and j = j] good
    unfolding good_sessions_def by blast
  have "StoreRefreshToken E s u j x w = (Inr (), after_redis w st')"
    using st' \<open>calm w\<close> by (simp add: StoreRefreshToken_def Let_def attempt_def redis_calm ret_def)
  then show ?thesis
    using ok live good \<open>calm w\<close> by (simp add: good_sessions_def live_in_def)
qed

lemma RevokeRefreshToken_spec:
  assumes good: "good_sessions E s w" and "calm w"
  shows "\<exists>w'. RevokeRefreshToken E u j w = (Inr (), w') \<and> good_sessions E s w' \<and> calm w' \<and>
      w_clock w' = w_clock (tick w) \<and> w_db w' = w_db w \<and> w_rng w' = w_rng w \<and>
      (\<forall>t\<ge>w_clock w'. \<forall>v k. live_in E w' t v k = (\<not> (v = u \<and> k = j) \<and> live_in E w t v k))"
proof -
  obtain n st' where st': "HDEL (sessionsKey E u) j (w_clock (tick w)) (w_redis w) = (Inr n, st')"
    and ok: "sessions_ok E s (w_clock (tick w)) st'"
    and live: "\<forall>t\<ge>w_clock (tick w). \<forall>v k. live_session E st' t v k =
        (\<not> (v = u \<and> k = j) \<and> live_session E (w_redis w) t v k)"
    using revoke_command [OF _ good_sessions_tick [OF good], where u = u and j = j] good
    unfolding good_sessions_def by blast
  have "RevokeRefreshToken E u j w = (Inr (), after_redis w st')"
    using st' \<open>calm w\<close> by (simp add: RevokeRefreshToken_def attempt_def redis_calm ret_def)
  then show ?thesis
    using ok live good \<open>calm w\<close> by (simp add: good_sessions_def live_in_def)
qed

lemma good_sessions_idle:
  "good_sessions E s w \<Longrightarrow> good_sessions E s (after_redis w (w_redis w))"
  using good_sessions_tick by (simp add: good_sessions_def)

lemma IsRefreshTokenActive_spec:
  assumes good: "good_sessions E s w" and "calm w"
  shows "\<exists>w'. IsRefreshTokenActive E u j w = (Inr (live_in E w (w_clock (tick w)) u j), w') \<and>
      good_sessions E s w' \<and> calm w' \<and> w_clock (tick w) \<le> w_clock w' \<and>
      w_db w' = w_db w \<and> w_rng w' = w_rng w \<and>
      (live_in E w (w_clock (tick w)) u j \<longrightarrow> w' = after_redis w (w_redis w)) \<and>
      (\<forall>t\<ge>w_clock w'. \<forall>v k. live_in E w' t v k = live_in E w t v k)"
proof -
  let ?c = "w_clock (tick w)" and ?w = "after_redis w (w_redis w)"
  have good': "good_sessions E s ?w" by (rule good_sessions_idle [OF good])
  have c': "calm ?w" using \<open>calm w\<close> by simp
  obtain r where get: "HGET (sessionsKey E u) j ?c (w_redis w) = (r, w_redis w)"
    and r: "case r of Inl e \<Rightarrow> e = Sentinel RedisNil \<and> \<not> live_session E (w_redis w) ?c u j
       | Inr raw \<Rightarrow> (\<exists>x. raw = FormatInt x \<and> ParseInt raw = Some x \<and>
                       live_session E (w_redis w) ?c u j = (Unix ?c < x))"
    using HGET_live [OF good_sessions_tick [OF good], where u = u and j = j and t = ?c] by (auto split: prod.splits)
  obtain w2 where rv: "RevokeRefreshToken E u j ?w = (Inr (), w2)" "good_sessions E s w2" "calm w2"
    "w_clock w2 = w_clock (tick ?w)" "w_db w2 = w_db w" "w_rng w2 = w_rng w"
    "\<forall>t\<ge>w_clock w2. \<forall>v k. live_in E w2 t v k = (\<not> (v = u \<and> k = j) \<and> live_in E ?w t v k)"
    using RevokeRefreshToken_spec [OF good' c', of u j] by auto
  have le: "?c \<le> w_clock w2" using tick_clock [of ?w] rv(4) by simp
  show ?thesis
  proof (cases "live_session E (w_redis w) ?c u j")
    case True
    then have "IsRefreshTokenActive E u j w = (Inr True, ?w)"
      using get r \<open>calm w\<close>
      by (auto simp: IsRefreshTokenActive_def attempt_def redis_calm go_run split: sum.splits)
    then show ?thesis using True good' \<open>calm w\<close> by (simp add: live_in_def)
  next
    case False
    have dead: "\<not> live_session E (w_redis w) t u j" if "?c \<le> t" for t
      using False live_session_earlier that by blast
    show ?thesis
    proof (cases r)
      case (Inl e)
      then have "IsRefreshTokenActive E u j w = (Inr False, ?w)"
        using get r \<open>calm w\<close> by (auto simp: IsRefreshTokenActive_def attempt_def redis_calm go_run)
      then show ?thesis using False good' \<open>calm w\<close> by (simp add: live_in_def)
    next
      case (Inr raw)
      then obtain x where "ParseInt raw = Some x" "x \<le> Unix ?c" using r False by auto
      then have "IsRefreshTokenActive E u j w = (Inr False, w2)"
        using get Inr rv(1) \<open>calm w\<close>
        by (simp add: IsRefreshTokenActive_def attempt_def redis_calm go_run ignore_run)
      moreover have "live_in E w2 t v k = live_in E w t v k" if "w_clock w2 \<le> t" for t v k
        using rv(7) that dead [of t] le by (auto simp: live_in_def)
      ultimately show ?thesis using False rv le by (simp add: live_in_def)
    qed
  qed
qed

lemma RevokeAllSessions_spec:
  assumes good: "good_sessions E s w" and "calm w"
  shows "\<exists>w'. RevokeAllSessions E s u w = (Inr (), w') \<and> good_sessions E s w' \<and> calm w' \<and>
      w_clock w' = w_clock (tick w) \<and> w_db w' = w_db w \<and> w_rng w' = w_rng w \<and> w_log w' = w_log w \<and>
      w_redis w' (revokedKey E u) = Some \<lparr>reValue = RString (FormatInt (Unix (w_clock w) - 1)),
        reExpires = map_option ((+) (w_clock w')) (set_ttl (ssRefreshTTL s + Hour))\<rparr> \<and>
      (\<forall>k. k \<noteq> sessionsKey E u \<longrightarrow> k \<noteq> revokedKey E u \<longrightarrow> w_redis w' k = w_redis w k) \<and>
      (\<forall>t v k. live_in E w' t v k = (v \<noteq> u \<and> live_in E w t v k))"
proof -
  obtain n st' where st': "multi2 (DEL (sessionsKey E u))
        (SET (revokedKey E u) (FormatInt (Unix (w_clock w - Second))) (ssRefreshTTL s + Hour))
        (w_clock (tick w)) (w_redis w) = (Inr (n, ()), st')"
    and st: "sessions_ok E s (w_clock (tick w)) st'"
      "st' (revokedKey E u) = Some \<lparr>reValue = RString (FormatInt (Unix (w_clock w - Second))),
        reExpires = map_option ((+) (w_clock (tick w))) (set_ttl (ssRefreshTTL s + Hour))\<rparr>"
      "\<forall>k. k \<noteq> sessionsKey E u \<longrightarrow> k \<noteq> revokedKey E u \<longrightarrow> st' k = w_redis w k"
      "\<forall>t v k. live_session E st' t v k = (v \<noteq> u \<and> live_session E (w_redis w) t v k)"
    using revoke_all_command [OF _ good_sessions_tick [OF good], where u = u and epoch = "Unix (w_clock w - Second)" and d = "ssRefreshTTL s + Hour"] good unfolding good_sessions_def by blast
  have "RevokeAllSessions E s u w = (Inr (), after_redis w st')"
    using st' \<open>calm w\<close> by (simp add: RevokeAllSessions_def attempt_def redis_calm go_run)
  then show ?thesis
    using st good \<open>calm w\<close> by (simp add: good_sessions_def live_in_def Unix_minus_second)
qed

interpretation redis_sessions: session_contract
  "StoreRefreshToken E s" "IsRefreshTokenActive E" "RevokeRefreshToken E" "RevokeAllSessions E s"
  "live_in E" "good_sessions E s" "ssRefreshTTL s"
  for E s
proof (unfold_locales, goal_cases)
  case (1 w x u j)
  then show ?case using StoreRefreshToken_spec [of E s w x u j] tick_clock [of w] by metis
next
  case (2 w u j)
  then show ?case using IsRefreshTokenActive_spec [of E s w u j] tick_clock [of w] by metis
next
  case (3 w u j)
  then show ?case using RevokeRefreshToken_spec [of E s w u j] tick_clock [of w] by metis
next
  case (4 w u)
  then show ?case using RevokeAllSessions_spec [of E s w u] tick_clock [of w] by metis
qed

end
