(* ===== verification/Credentials.thy ===== *)
theory Credentials
  imports SessionSpec Sha256
begin

text \<open>
  \<open>app/lib/auth/password.go\<close> and \<open>app/lib/auth/jwt.go\<close>: hashing and checking passwords, and minting
  and parsing access and refresh tokens. Bcrypt and the JWT package are arguments; what the
  program relies on of them is stated by the laws at the end.
\<close>

section \<open>Passwords (password.go)\<close>

definition MinCost :: int where "MinCost = 4"
definition MaxCost :: int where "MaxCost = 31"

record BcryptHasher =
  bhCost :: int
  bhDummyHash :: string

text \<open>The bcrypt package draws a salt for each hash.\<close>

definition bcrypt_GenerateFromPassword :: "ext \<Rightarrow> int \<Rightarrow> string \<Rightarrow> string act" where
  "bcrypt_GenerateFromPassword E cost plain w =
     (x_bcrypt_generate E (w_rng w) cost plain, w\<lparr>w_rng := Suc (w_rng w)\<rparr>)"

text \<open>\<open>base64.RawStdEncoding\<close> differs from the URL alphabet in two letters.\<close>

definition RawStdEncode :: "string \<Rightarrow> string" where
  "RawStdEncode s =
     map (\<lambda>c. if c = CHR ''-'' then CHR ''+'' else if c = CHR ''_'' then CHR ''/'' else c) (RawURLEncode s)"

definition NewBcryptHasher :: "ext \<Rightarrow> int \<Rightarrow> BcryptHasher act" where
  "NewBcryptHasher E cost =
     (if cost < MinCost \<or> cost > MaxCost
      then fail (Opaque (''auth: bcrypt cost '' @ FormatInt cost @ '' out of range ['' @
                         FormatInt MinCost @ '','' @ FormatInt MaxCost @ '']''))
      else
        attempt (rand_Read E 24) (\<lambda>e. fail (Wrapf ''auth: generate dummy secret: '' e '''')) (\<lambda>filler.
        attempt (bcrypt_GenerateFromPassword E cost (RawStdEncode filler))
          (\<lambda>e. fail (Wrapf ''auth: precompute dummy hash: '' e ''''))
          (\<lambda>dummy. ret \<lparr>bhCost = cost, bhDummyHash = dummy\<rparr>)))"

definition Hash :: "ext \<Rightarrow> BcryptHasher \<Rightarrow> string \<Rightarrow> string act" where
  "Hash E h plain =
     (if length plain > 72 then fail (Opaque ''auth: password exceeds 72 bytes'')
      else attempt (bcrypt_GenerateFromPassword E (bhCost h) plain)
             (\<lambda>e. fail (Wrapf ''auth: hash password: '' e '''')) ret)"

text \<open>\<open>Verify\<close>: None is a nil error.\<close>

definition Verify :: "ext \<Rightarrow> string \<Rightarrow> string \<Rightarrow> goerr option" where
  "Verify E hash plain =
     (case x_bcrypt_compare E hash plain of
        None \<Rightarrow> None
      | Some e \<Rightarrow> Some (if Is e BcryptErrMismatch then Sentinel ErrPasswordMismatch
                        else Wrapf ''auth: compare password: '' e ''''))"

definition DummyVerify :: "ext \<Rightarrow> BcryptHasher \<Rightarrow> unit act" where
  "DummyVerify E h = (let _ = x_bcrypt_compare E (bhDummyHash h) ''dummy-password'' in ret ())"

definition NeedsRehash :: "ext \<Rightarrow> BcryptHasher \<Rightarrow> string \<Rightarrow> bool" where
  "NeedsRehash E h hash =
     (case x_bcrypt_cost E hash of None \<Rightarrow> True | Some cost \<Rightarrow> cost < bhCost h)"

section \<open>Tokens (jwt.go)\<close>

definition Claims_UserID :: "ext \<Rightarrow> Claims \<Rightarrow> goerr + uuid" where
  "Claims_UserID E c =
     (case x_uuid_parse E (clSubject c) of
        None \<Rightarrow> Inl (Wrapf '''' (Sentinel ErrInvalidToken) '': subject is not a uuid'')
      | Some u \<Rightarrow> Inr u)"

record JWTManager =
  jmAccessSecret :: string
  jmRefreshSecret :: string
  jmAccessTTL :: duration
  jmRefreshTTL :: duration
  jmIssuer :: string

definition NewJWTManager :: "Auth \<Rightarrow> JWTManager" where
  "NewJWTManager cfg =
     \<lparr>jmAccessSecret = auJWTSecret cfg, jmRefreshSecret = auRefreshSecret cfg,
      jmAccessTTL = auJWTExpiry cfg, jmRefreshTTL = auRefreshExpiry cfg, jmIssuer = auIssuer cfg\<rparr>"

definition jwt_sign :: "ext \<Rightarrow> string \<Rightarrow> Claims \<Rightarrow> goerr + string" where
  "jwt_sign E secret claims =
     (case x_jwt_sign E secret claims of
        Inl e \<Rightarrow> Inl (Wrapf ''auth: sign token: '' e '''')
      | Inr t \<Rightarrow> Inr t)"

text \<open>The claims of a token issued at \<open>t\<close> to live for \<open>ttl\<close>.\<close>

definition claims_at ::
    "ext \<Rightarrow> JWTManager \<Rightarrow> uuid \<Rightarrow> string \<Rightarrow> string \<Rightarrow> string \<Rightarrow> gotime \<Rightarrow> duration \<Rightarrow> Claims" where
  "claims_at E m user role jti typ t ttl =
     \<lparr>clID = jti, clSubject = x_uuid_string E user, clIssuer = jmIssuer m,
      clIssuedAt = Some (x_numeric_date E t), clNotBefore = Some (x_numeric_date E t),
      clExpiresAt = Some (x_numeric_date E (t + ttl)), clRole = role, clTokenType = typ\<rparr>"

text \<open>\<open>int64(d.Seconds())\<close> truncates towards zero.\<close>

definition whole_seconds :: "duration \<Rightarrow> int" where
  "whole_seconds d = (if 0 \<le> d then d div Second else - ((- d) div Second))"

definition GenerateTokenPair :: "ext \<Rightarrow> JWTManager \<Rightarrow> uuid \<Rightarrow> string \<Rightarrow> TokenPair act" where
  "GenerateTokenPair E m user role =
     attempt time_now fail (\<lambda>issuedAt.
     attempt (uuid_NewString E) fail (\<lambda>accessJTI.
     attempt (uuid_NewString E) fail (\<lambda>refreshJTI.
     attempt (of_result (jwt_sign E (jmAccessSecret m)
         (claims_at E m user role accessJTI TokenTypeAccess issuedAt (jmAccessTTL m)))) fail (\<lambda>accessToken.
     attempt (of_result (jwt_sign E (jmRefreshSecret m)
         (claims_at E m user role refreshJTI TokenTypeRefresh issuedAt (jmRefreshTTL m)))) fail (\<lambda>refreshToken.
     ret \<lparr>tpAccessToken = accessToken, tpRefreshToken = refreshToken, tpTokenType = ''Bearer'',
          tpExpiresIn = whole_seconds (jmAccessTTL m), tpExpiresAt = issuedAt + jmAccessTTL m,
          tpAccessJTI = accessJTI, tpRefreshJTI = refreshJTI,
          tpRefreshExpiresAt = issuedAt + jmRefreshTTL m\<rparr>)))))"

text \<open>The key function pins the algorithm family.\<close>

definition signing_key :: "string \<Rightarrow> jwt_method \<Rightarrow> goerr + string" where
  "signing_key secret method =
     (case method of
        SigningMethodHMAC alg \<Rightarrow> Inr secret
      | OtherMethod alg \<Rightarrow>
          Inl (Wrapf '''' (Sentinel ErrInvalidToken) ('': unexpected signing method '' @ alg)))"

definition parse_options :: "JWTManager \<Rightarrow> gotime \<Rightarrow> jwt_options" where
  "parse_options m t =
     \<lparr>joMethods = [''HS256''], joIssuer = jmIssuer m, joExpirationRequired = True, joNow = t\<rparr>"

definition jwt_parse :: "ext \<Rightarrow> JWTManager \<Rightarrow> string \<Rightarrow> string \<Rightarrow> string \<Rightarrow> gotime \<Rightarrow> goerr + Claims" where
  "jwt_parse E m raw secret want t =
     (case x_jwt_parse E (parse_options m t) (signing_key secret) raw of
        Inl e \<Rightarrow>
          if Is e JwtErrTokenExpired then Inl (Sentinel ErrExpiredToken)
          else Inl (Wrapf '''' (Sentinel ErrInvalidToken) ('': '' @ error_text e))
      | Inr claims \<Rightarrow>
          if clTokenType claims \<noteq> want then Inl (Sentinel ErrWrongType)
          else if clID claims = [] then Inl (Wrapf '''' (Sentinel ErrInvalidToken) '': missing jti'')
          else
           (case Claims_UserID E claims of
              Inl e \<Rightarrow> Inl e
            | Inr _ \<Rightarrow>
                if \<not> Role_Valid (clRole claims)
                then Inl (Wrapf '''' (Sentinel ErrInvalidToken) '': unknown role'')
                else Inr claims))"

definition ParseAccessToken :: "ext \<Rightarrow> JWTManager \<Rightarrow> string \<Rightarrow> Claims act" where
  "ParseAccessToken E m token =
     attempt time_now fail (\<lambda>t. of_result (jwt_parse E m token (jmAccessSecret m) TokenTypeAccess t))"

definition ParseRefreshToken :: "ext \<Rightarrow> JWTManager \<Rightarrow> string \<Rightarrow> Claims act" where
  "ParseRefreshToken E m token =
     attempt time_now fail (\<lambda>t. of_result (jwt_parse E m token (jmRefreshSecret m) TokenTypeRefresh t))"

section \<open>Laws of the packages\<close>

text \<open>A hash matches the password it was made from; the salt does not matter.\<close>

definition bcrypt_law :: "ext \<Rightarrow> bool" where
  "bcrypt_law E \<longleftrightarrow>
     (\<forall>n cost plain h. x_bcrypt_generate E n cost plain = Inr h \<longrightarrow> x_bcrypt_compare E h plain = None)"

text \<open>A \<open>NumericDate\<close> has whole seconds.\<close>

definition numeric_date_law :: "ext \<Rightarrow> bool" where
  "numeric_date_law E \<longleftrightarrow> (\<forall>t. x_numeric_date E t = Unix t * Second)"

text \<open>
  \<open>ParseWithClaims\<close> accepts exactly the tokens whose method is allowed and for which the key function
  gives a key that verifies the signature, with the required issuer, past their not-before time
  and not expired; \<open>SignedString\<close> makes a token that carries its claims and verifies under its key.
\<close>

definition claims_valid :: "jwt_options \<Rightarrow> Claims \<Rightarrow> bool" where
  "claims_valid opts c \<longleftrightarrow>
     clIssuer c = joIssuer opts \<and>
     (case clExpiresAt c of None \<Rightarrow> \<not> joExpirationRequired opts | Some x \<Rightarrow> joNow opts < x) \<and>
     (case clNotBefore c of None \<Rightarrow> True | Some x \<Rightarrow> x \<le> joNow opts)"

definition jwt_law :: "ext \<Rightarrow> bool" where
  "jwt_law E \<longleftrightarrow>
     (\<forall>opts key raw c. x_jwt_parse E opts key raw = Inr c \<longleftrightarrow>
        claims_valid opts c \<and>
        (\<exists>secret alg. x_jwt_decode E raw = Some (SigningMethodHMAC alg, c) \<and> alg \<in> set (joMethods opts) \<and>
           key (SigningMethodHMAC alg) = Inr secret \<and> x_jwt_verified E secret raw)) \<and>
     (\<forall>secret c raw. x_jwt_sign E secret c = Inr raw \<longrightarrow>
        x_jwt_decode E raw = Some (SigningMethodHMAC ''HS256'', c) \<and> x_jwt_verified E secret raw)"

section \<open>Lemmas\<close>

lemmas credential_defs =
  NewBcryptHasher_def Hash_def DummyVerify_def GenerateTokenPair_def ParseAccessToken_def
  ParseRefreshToken_def

context world_invariant
begin

lemma kept_bcrypt [pres_intros]: "pres I (bcrypt_GenerateFromPassword F c p)"
  by (rule kept_frame) (simp add: bcrypt_GenerateFromPassword_def)

lemma credential_kept [pres_intros]:
  "pres I (Hash F h p)" "pres I (DummyVerify F h)" "pres I (GenerateTokenPair F m u r)" "pres I (ParseAccessToken F m t)"
  "pres I (ParseRefreshToken F m t)" "pres I (NewBcryptHasher F c)"
  unfolding credential_defs by (intro pres_intros)+

end

lemma DummyVerify_run [go_run]: "DummyVerify E h w = (Inr (), w)"
  by (simp add: DummyVerify_def ret_def)

text \<open>What a parsed token tells.\<close>

lemma jwt_parse_Inr:
  "jwt_parse E m raw secret want t = Inr c \<longleftrightarrow>
     x_jwt_parse E (parse_options m t) (signing_key secret) raw = Inr c \<and> clTokenType c = want \<and>
     clID c \<noteq> [] \<and> (\<exists>u. x_uuid_parse E (clSubject c) = Some u) \<and> Role_Valid (clRole c)"
  by (auto simp: jwt_parse_def Claims_UserID_def split: sum.splits option.splits)

lemma Verify_None: "Verify E h p = None \<longleftrightarrow> x_bcrypt_compare E h p = None"
  by (simp add: Verify_def split: option.split)

lemma Hash_run:
  assumes "length plain \<le> 72" and "x_bcrypt_generate E (w_rng w) (bhCost h) plain = Inr hash"
  shows "Hash E h plain w = (Inr hash, w\<lparr>w_rng := Suc (w_rng w)\<rparr>)"
  using assms by (simp add: Hash_def attempt_def bcrypt_GenerateFromPassword_def ret_def)

text \<open>Minting a pair, when the signer returns tokens.\<close>

lemma GenerateTokenPair_run:
  assumes "x_jwt_sign E (jmAccessSecret m) (claims_at E m u r
      (x_uuid_string E (x_uuid E (w_rng w))) TokenTypeAccess (w_clock w) (jmAccessTTL m)) = Inr acc"
    and "x_jwt_sign E (jmRefreshSecret m) (claims_at E m u r
      (x_uuid_string E (x_uuid E (Suc (w_rng w)))) TokenTypeRefresh (w_clock w) (jmRefreshTTL m)) = Inr rfr"
  shows "GenerateTokenPair E m u r w =
    (Inr \<lparr>tpAccessToken = acc, tpRefreshToken = rfr, tpTokenType = ''Bearer'',
          tpExpiresIn = whole_seconds (jmAccessTTL m), tpExpiresAt = w_clock w + jmAccessTTL m,
          tpAccessJTI = x_uuid_string E (x_uuid E (w_rng w)),
          tpRefreshJTI = x_uuid_string E (x_uuid E (Suc (w_rng w))),
          tpRefreshExpiresAt = w_clock w + jmRefreshTTL m\<rparr>,
     w\<lparr>w_rng := Suc (Suc (w_rng w))\<rparr>)"
  using assms
  by (simp add: GenerateTokenPair_def attempt_def go_run of_result_def jwt_sign_def ret_def)

end
