(* ===== verification/Identity.thy ===== *)
theory Identity
  imports Credentials
begin

text \<open>
  \<open>app/lib/auth/google.go\<close> and \<open>app/lib/auth/oauth_state.go\<close>: the authorization-code flow with
  Google, the reading of the ID token, PKCE, and the short-lived state of an in-flight sign-in.
\<close>

section \<open>The Google provider (google.go)\<close>

definition googleAuthURL :: string where
  "googleAuthURL = ''https://accounts.google.com/o/oauth2/v2/auth''"

definition googleTokenURL :: string where
  "googleTokenURL = ''https://oauth2.googleapis.com/token''"

definition googleIssuers :: "string list" where
  "googleIssuers = [''https://accounts.google.com'', ''accounts.google.com'']"

record GoogleProvider =
  gpClientID :: string
  gpClientSecret :: string
  gpRedirectURL :: string

definition NewGoogleProvider :: "Google \<Rightarrow> GoogleProvider option" where
  "NewGoogleProvider cfg =
     (if \<not> Google_Enabled cfg then None
      else Some \<lparr>gpClientID = ggClientID cfg, gpClientSecret = ggClientSecret cfg,
                 gpRedirectURL = ggRedirectURL cfg\<rparr>)"

text \<open>\<open>url.Values.Encode\<close>: the pairs sorted by key, escaped and joined. The lists below are sorted.\<close>

definition Values_Encode :: "(string \<times> string) list \<Rightarrow> string" where
  "Values_Encode vs = Join (map (\<lambda>(k, v). QueryEscape k @ ''='' @ QueryEscape v) vs) ''&''"

definition AuthCodeURL :: "GoogleProvider \<Rightarrow> string \<Rightarrow> string \<Rightarrow> string" where
  "AuthCodeURL g state codeChallenge =
     googleAuthURL @ ''?'' @ Values_Encode
       [(''access_type'', ''online''), (''client_id'', gpClientID g),
        (''code_challenge'', codeChallenge), (''code_challenge_method'', ''S256''),
        (''prompt'', ''select_account''), (''redirect_uri'', gpRedirectURL g),
        (''response_type'', ''code''), (''scope'', ''openid email profile''), (''state'', state)]"

record googleTokenResponse =
  gtIDToken :: string
  gtError :: string
  gtErrorDesc :: string

definition VerifyAudience :: "googleClaims \<Rightarrow> string \<Rightarrow> bool" where
  "VerifyAudience c expected = list_ex (\<lambda>audience. audience = expected) (gcAudience c)"

definition exchange_failed :: "string \<Rightarrow> goerr" where
  "exchange_failed m = Wrapf '''' (Sentinel ErrExchangeFailed) m"

definition identity_unusable :: "string \<Rightarrow> goerr" where
  "identity_unusable m = Wrapf '''' (Sentinel ErrIdentityUnusable) m"

definition identity_of_claims :: "ext \<Rightarrow> GoogleProvider \<Rightarrow> gotime \<Rightarrow> googleClaims \<Rightarrow> goerr + ExternalIdentity"
where
  "identity_of_claims E g t c =
     (if \<not> list_ex (\<lambda>issuer. gcIssuer c = issuer) googleIssuers
      then Inl (exchange_failed ('': unexpected issuer '' @ Quote (x_unicode_quote E) (gcIssuer c)))
      else if \<not> VerifyAudience c (gpClientID g)
      then Inl (exchange_failed '': token was issued for another client'')
      else if (case gcExpiresAt c of None \<Rightarrow> True | Some x \<Rightarrow> x < t)
      then Inl (exchange_failed '': id_token has expired'')
      else if gcSubject c = [] then Inl (exchange_failed '': id_token has no subject'')
      else
        let email = ToLower (x_unicode_lower E) (TrimSpace (gcEmail c)) in
        if email = [] then Inl (identity_unusable '': no email address'')
        else if \<not> gcEmailVerified c
        then Inl (identity_unusable '': email address is not verified with Google'')
        else
          let fullName = TrimSpace (gcName c);
              fullName = (if fullName = [] then TrimSpace (gcGivenName c) else fullName);
              fullName = (if fullName = [] then SplitN2_0 email (CHR ''@'') else fullName) in
          Inr \<lparr>eiProvider = ProviderGoogle, eiSubject = gcSubject c, eiEmail = email,
               eiEmailVerified = True, eiFullName = fullName, eiAvatarURL = gcPicture c\<rparr>)"

definition identityFromIDToken :: "ext \<Rightarrow> GoogleProvider \<Rightarrow> string \<Rightarrow> ExternalIdentity act" where
  "identityFromIDToken E g raw =
     (case x_id_token E raw of
        None \<Rightarrow> fail (exchange_failed '': unreadable id_token'')
      | Some c \<Rightarrow> attempt time_now fail (\<lambda>t. of_result (identity_of_claims E g t c)))"

text \<open>One HTTP round trip; the answer depends on the entropy drawn so far.\<close>

definition http_Do :: "ext \<Rightarrow> http_request \<Rightarrow> http_response act" where
  "http_Do E q = external (\<lambda>w. (x_http E (w_rng w) q, w\<lparr>w_rng := Suc (w_rng w)\<rparr>))"

text \<open>
  \<open>unmarshal\<close> decodes the body into \<open>googleTokenResponse\<close>; the body is read up to 1 MiB, which is
  an outside call of its own. The provider's error text goes into the error's text, not its chain.
\<close>

definition Exchange ::
    "ext \<Rightarrow> (string \<Rightarrow> googleTokenResponse option) \<Rightarrow> GoogleProvider \<Rightarrow> string \<Rightarrow> string \<Rightarrow> ExternalIdentity act"
where
  "Exchange E unmarshal g code codeVerifier =
     attempt (http_Do E
        \<lparr>hqMethod = ''POST'', hqURL = googleTokenURL,
         hqHeaders = [(''Content-Type'', ''application/x-www-form-urlencoded''),
                      (''Accept'', ''application/json'')],
         hqBody = Values_Encode
           [(''client_id'', gpClientID g), (''client_secret'', gpClientSecret g), (''code'', code),
            (''code_verifier'', codeVerifier), (''grant_type'', ''authorization_code''),
            (''redirect_uri'', gpRedirectURL g)]\<rparr>)
       (\<lambda>e. fail (exchange_failed ('': '' @ error_text e)))
       (\<lambda>response.
     attempt (external (ret (take (2 ^ 20) (hrBody response))))
       (\<lambda>e. fail (exchange_failed ('': reading response: '' @ error_text e)))
       (\<lambda>body.
         case unmarshal body of
           None \<Rightarrow> fail (exchange_failed '': malformed response'')
         | Some payload \<Rightarrow>
             if hrStatus response \<noteq> 200 \<or> gtError payload \<noteq> []
             then fail (exchange_failed ('': '' @ gtError payload @ '' '' @ gtErrorDesc payload))
             else if gtIDToken payload = []
             then fail (exchange_failed '': no id_token in response'')
             else identityFromIDToken E g (gtIDToken payload)))"

definition NewCodeVerifier :: "ext \<Rightarrow> string act" where
  "NewCodeVerifier E =
     attempt (rand_Read E 32) (\<lambda>e. fail (Wrapf ''generate code verifier: '' e ''''))
       (\<lambda>raw. ret (RawURLEncode raw))"

definition CodeChallenge :: "string \<Rightarrow> string" where
  "CodeChallenge verifier = RawURLEncode (Sum256 verifier)"

definition NewOpaqueToken :: "ext \<Rightarrow> string act" where
  "NewOpaqueToken E =
     attempt (rand_Read E 32) (\<lambda>e. fail (Wrapf ''generate token: '' e ''''))
       (\<lambda>raw. ret (RawURLEncode raw))"

section \<open>In-flight state (oauth_state.go)\<close>

definition oauthStatePrefix :: string where "oauthStatePrefix = ''oauth:state:''"
definition oauthHandoffPrefix :: string where "oauthHandoffPrefix = ''oauth:handoff:''"
definition oauthStateTTL :: duration where "oauthStateTTL = 10 * Minute"
definition oauthHandoffTTL :: duration where "oauthHandoffTTL = 60 * Second"
definition maxReturnPathLength :: nat where "maxReturnPathLength = 512"

definition SaveState :: "ext \<Rightarrow> string \<Rightarrow> OAuthState \<Rightarrow> unit act" where
  "SaveState E state data =
     attempt time_now fail (\<lambda>t.
       let data = (if length (osReturnTo data) > maxReturnPathLength then data\<lparr>osReturnTo := []\<rparr> else data);
           data = data\<lparr>osCreatedAt := t\<rparr> in
       attempt (of_result (x_state_marshal E data)) (\<lambda>e. fail (Wrapf ''encode oauth state: '' e ''''))
         (\<lambda>encoded.
       attempt (redis (SET (oauthStatePrefix @ state) encoded oauthStateTTL))
         (\<lambda>e. fail (Wrapf ''save oauth state: '' e '''')) ret))"

definition ConsumeState :: "ext \<Rightarrow> string \<Rightarrow> OAuthState act" where
  "ConsumeState E state =
     attempt (redis (GETDEL (oauthStatePrefix @ state)))
       (\<lambda>e. if Is e RedisNil then fail (Sentinel ErrStateNotFound)
            else fail (Wrapf ''load oauth state: '' e ''''))
       (\<lambda>raw. attempt (of_result (x_state_unmarshal E raw))
          (\<lambda>e. fail (Wrapf ''decode oauth state: '' e '''')) ret)"

definition SaveHandoff :: "ext \<Rightarrow> string \<Rightarrow> uuid \<Rightarrow> unit act" where
  "SaveHandoff E code user =
     attempt (redis (SET (oauthHandoffPrefix @ code) (x_uuid_string E user) oauthHandoffTTL))
       (\<lambda>e. fail (Wrapf ''save oauth handoff: '' e '''')) ret"

definition ConsumeHandoff :: "ext \<Rightarrow> string \<Rightarrow> uuid act" where
  "ConsumeHandoff E code =
     attempt (redis (GETDEL (oauthHandoffPrefix @ code)))
       (\<lambda>e. if Is e RedisNil then fail (Sentinel ErrStateNotFound)
            else fail (Wrapf ''load oauth handoff: '' e ''''))
       (\<lambda>raw. case x_uuid_parse E raw of
                None \<Rightarrow> fail (Wrapf ''decode oauth handoff: '' (Opaque ''invalid UUID'') '''')
              | Some u \<Rightarrow> ret u)"

end
