(* ===== verification/AuthService.thy ===== *)
theory AuthService
  imports Identity
begin

text \<open>
  \<open>app/services/auth.go\<close>: registration, sign-in, refresh, sign-out, password change and reset, and
  email verification. Each function is the whole use case, its log lines included.
\<close>

record AuthResult =
  arUser :: User
  arTokens :: TokenPair

record RegisterInput =
  riEmail :: string
  riPassword :: string
  riFullName :: string

record LoginInput =
  liEmail :: string
  liPassword :: string

record LogoutInput =
  loUserID :: uuid
  loAccessJTI :: string
  loAccessExpiresAt :: gotime
  loRefreshToken :: string

record authService =
  asHasher :: BcryptHasher
  asTokens :: JWTManager
  asSessions :: SessionStore
  asCfg :: Config

definition NewAuthService :: "BcryptHasher \<Rightarrow> JWTManager \<Rightarrow> SessionStore \<Rightarrow> Config \<Rightarrow> authService" where
  "NewAuthService hasher tokens sessions cfg =
     \<lparr>asHasher = hasher, asTokens = tokens, asSessions = sessions, asCfg = cfg\<rparr>"

definition normalizeEmail :: "ext \<Rightarrow> string \<Rightarrow> string" where
  "normalizeEmail E email = ToLower (x_unicode_lower E) (TrimSpace email)"

definition hashToken :: "string \<Rightarrow> string" where
  "hashToken token = hex_EncodeToString (Sum256 token)"

definition generateToken :: "ext \<Rightarrow> (string \<times> string) act" where
  "generateToken E =
     attempt (rand_Read E 32) (\<lambda>e. fail (Wrapf ''generate token: '' e ''''))
       (\<lambda>raw. let token = RawURLEncode raw in ret (token, hashToken token))"

definition link_URL :: "string \<Rightarrow> string \<Rightarrow> string \<Rightarrow> string" where
  "link_URL frontend path token =
     TrimRight frontend (CHR ''/'') @ ''/'' @ TrimLeft path (CHR ''/'') @ ''?token='' @ QueryEscape token"

definition buildResetURL :: "authService \<Rightarrow> string \<Rightarrow> string" where
  "buildResetURL s token =
     link_URL (apFrontendURL (cfApp (asCfg s))) (apResetPasswordPath (cfApp (asCfg s))) token"

definition buildVerifyURL :: "authService \<Rightarrow> string \<Rightarrow> string" where
  "buildVerifyURL s token =
     link_URL (apFrontendURL (cfApp (asCfg s))) (apVerifyEmailPath (cfApp (asCfg s))) token"

section \<open>Sessions\<close>

definition issueSession :: "ext \<Rightarrow> authService \<Rightarrow> User \<Rightarrow> AuthResult act" where
  "issueSession E s user =
     attempt (GenerateTokenPair E (asTokens s) (uID user) (uRole user)) (\<lambda>e. fail (Internal e)) (\<lambda>pair.
     attempt (StoreRefreshToken E (asSessions s) (uID user) (tpRefreshJTI pair) (tpRefreshExpiresAt pair))
       (\<lambda>e. fail (Internal e)) (\<lambda>_.
     ret \<lparr>arUser = user, arTokens = pair\<rparr>))"

definition Register :: "ext \<Rightarrow> authService \<Rightarrow> RegisterInput \<Rightarrow> User act" where
  "Register E s inp =
     (let email = normalizeEmail E (riEmail inp) in
      attempt (Users_EmailExists E email) fail (\<lambda>exists.
      if exists then fail (Conflict ''An account with this email already exists'')
      else
      attempt (Hash E (asHasher s) (riPassword inp)) (\<lambda>e. fail (Internal e)) (\<lambda>hash.
      attempt (Users_Create E
         \<lparr>cuEmail = email, cuPasswordHash = hash, cuFullName = TrimSpace (riFullName inp),
          cuRole = RoleUser\<rparr>) fail (\<lambda>user.
      attempt (generateToken E) (\<lambda>e. fail (Internal e)) (\<lambda>(token, tokenHash).
      attempt time_now fail (\<lambda>t.
      let expiresAt = t + auEmailVerificationExpiry (cfAuth (asCfg s)) in
      attempt (EmailVerifications_Create E (uID user) tokenHash expiresAt) fail (\<lambda>_.
      ignore (log_at LevelDebug ''email verification link'' [(''verify_url'', buildVerifyURL s token)])
      (ignore (log_at LevelInfo ''user registered'' [(''user_id'', x_uuid_string E (uID user))])
      (ret user)))))))))"

definition invalidCredentials :: goerr where
  "invalidCredentials = Unauthorized ''Invalid email or password''"

definition Login :: "ext \<Rightarrow> authService \<Rightarrow> LoginInput \<Rightarrow> AuthResult act" where
  "Login E s inp =
     (let email = normalizeEmail E (liEmail inp) in
      attempt (Users_GetByEmail E email)
        (\<lambda>e. if has_code e CodeNotFound
             then ignore (DummyVerify E (asHasher s)) (fail invalidCredentials)
             else fail e)
        (\<lambda>user.
      case Verify E (uPasswordHash user) (liPassword inp) of
        Some e \<Rightarrow>
          if Is e ErrPasswordMismatch
          then ignore (log_at LevelInfo ''failed login'' [(''user_id'', x_uuid_string E (uID user))])
                 (fail invalidCredentials)
          else fail (Internal e)
      | None \<Rightarrow>
          if \<not> uIsActive user then fail (Forbidden ''This account has been deactivated'')
          else if uEmailVerifiedAt user = None
          then fail (Forbidden ''Please verify your email before signing in'')
          else
            attempt (Users_TouchLastLogin E (uID user))
              (\<lambda>e. ignore (log_at LevelWarn ''could not update last login'' [(''error'', error_text e)])
                     (issueSession E s user))
              (\<lambda>_. issueSession E s user)))"

definition Refresh :: "ext \<Rightarrow> authService \<Rightarrow> string \<Rightarrow> AuthResult act" where
  "Refresh E s refreshToken =
     attempt (ParseRefreshToken E (asTokens s) refreshToken)
       (\<lambda>e. fail (Wrap (Unauthorized ''Invalid or expired refresh token'') (Some e))) (\<lambda>claims.
     attempt (of_result (Claims_UserID E claims))
       (\<lambda>e. fail (Wrap (Unauthorized ''Invalid refresh token'') (Some e))) (\<lambda>userID.
     attempt (IsRefreshTokenActive E userID (clID claims)) (\<lambda>e. fail (Internal e)) (\<lambda>active.
     if \<not> active then
       ignore (log_at LevelWarn ''refresh token reuse detected, revoking all sessions''
                [(''user_id'', x_uuid_string E userID), (''jti'', clID claims)])
       (attempt (RevokeAllSessions E (asSessions s) userID)
          (\<lambda>e. ignore (log_at LevelError ''revoke all sessions failed'' [(''error'', error_text e)])
                 (fail (Unauthorized ''Session expired, please sign in again'')))
          (\<lambda>_. fail (Unauthorized ''Session expired, please sign in again'')))
     else
     attempt (Users_GetByID E userID) fail (\<lambda>user.
     if \<not> uIsActive user then
       ignore (RevokeAllSessions E (asSessions s) userID)
         (fail (Forbidden ''This account has been deactivated''))
     else
     attempt (RevokeRefreshToken E userID (clID claims)) (\<lambda>e. fail (Internal e)) (\<lambda>_.
     issueSession E s user)))))"

text \<open>The best-effort revocation of the refresh token presented at sign-out.\<close>

definition revoke_presented :: "ext \<Rightarrow> authService \<Rightarrow> LogoutInput \<Rightarrow> unit act" where
  "revoke_presented E s inp =
     (if loRefreshToken inp = [] then ret ()
      else
        attempt (ParseRefreshToken E (asTokens s) (loRefreshToken inp)) (\<lambda>_. ret ()) (\<lambda>claims.
          case Claims_UserID E claims of
            Inl _ \<Rightarrow> ret ()
          | Inr userID \<Rightarrow>
              if userID \<noteq> loUserID inp then ret ()
              else attempt (RevokeRefreshToken E (loUserID inp) (clID claims)) (\<lambda>e. fail (Internal e)) ret))"

definition Logout :: "ext \<Rightarrow> authService \<Rightarrow> LogoutInput \<Rightarrow> unit act" where
  "Logout E s inp =
     attempt (revoke_presented E s inp) fail (\<lambda>_.
     attempt (if loAccessJTI inp = [] then ret ()
              else attempt time_now fail (\<lambda>t.
                attempt (BlacklistAccessToken (loAccessJTI inp) (loAccessExpiresAt inp - t))
                  (\<lambda>e. fail (Internal e)) ret)) fail (\<lambda>_.
     ignore (log_at LevelInfo ''user logged out'' [(''user_id'', x_uuid_string E (loUserID inp))])
     (ret ())))"

definition LogoutAll :: "ext \<Rightarrow> authService \<Rightarrow> uuid \<Rightarrow> unit act" where
  "LogoutAll E s userID =
     attempt (RevokeAllSessions E (asSessions s) userID) (\<lambda>e. fail (Internal e)) (\<lambda>_.
     ignore (log_at LevelInfo ''all sessions revoked'' [(''user_id'', x_uuid_string E userID)])
     (ret ()))"

section \<open>Passwords and email\<close>

definition ChangePassword :: "ext \<Rightarrow> authService \<Rightarrow> uuid \<Rightarrow> string \<Rightarrow> string \<Rightarrow> AuthResult act" where
  "ChangePassword E s userID currentPassword newPassword =
     attempt (Users_GetByID E userID) fail (\<lambda>user.
     case Verify E (uPasswordHash user) currentPassword of
       Some e \<Rightarrow>
         if Is e ErrPasswordMismatch
         then fail (WithFields (Unauthorized ''Current password is incorrect'')
                [\<lparr>feField = ''current_password'', feMessage = ''Incorrect password''\<rparr>])
         else fail (Internal e)
     | None \<Rightarrow>
         if currentPassword = newPassword
         then fail (WithFields (BadRequest ''New password must differ from the current one'')
                [\<lparr>feField = ''new_password'', feMessage = ''Must differ from the current password''\<rparr>])
         else
         attempt (Hash E (asHasher s) newPassword) (\<lambda>e. fail (Internal e)) (\<lambda>hash.
         attempt (Users_UpdatePassword E (uID user) hash) fail (\<lambda>_.
         attempt (RevokeAllSessions E (asSessions s) (uID user)) (\<lambda>e. fail (Internal e)) (\<lambda>_.
         ignore (log_at LevelInfo ''password changed'' [(''user_id'', x_uuid_string E (uID user))])
         (issueSession E s user)))))"

definition ForgotPassword :: "ext \<Rightarrow> authService \<Rightarrow> string \<Rightarrow> unit act" where
  "ForgotPassword E s email =
     attempt (Users_GetByEmail E (normalizeEmail E email))
       (\<lambda>e. if has_code e CodeNotFound
            then ignore (log_at LevelInfo ''password reset requested for unknown email'' []) (ret ())
            else fail e)
       (\<lambda>user.
     if \<not> uIsActive user then ret ()
     else
     attempt (generateToken E) (\<lambda>e. fail (Internal e)) (\<lambda>(token, hash).
     attempt time_now fail (\<lambda>t.
     let expiresAt = t + auPasswordResetExpiry (cfAuth (asCfg s)) in
     attempt (WithTx PoolStore (\<lambda>tx.
         attempt (PasswordResets_InvalidateForUser E (uID user)) fail (\<lambda>_.
         attempt (PasswordResets_Create E (uID user) hash expiresAt) fail (\<lambda>_. ret ()))))
       fail (\<lambda>_.
     ignore (log_at LevelDebug ''password reset link'' [(''reset_url'', buildResetURL s token)])
     (ignore (log_at LevelInfo ''password reset requested'' [(''user_id'', x_uuid_string E (uID user))])
     (ret ()))))))"

definition ResetPassword :: "ext \<Rightarrow> authService \<Rightarrow> string \<Rightarrow> string \<Rightarrow> unit act" where
  "ResetPassword E s token newPassword =
     (let invalid = BadRequest ''This reset link is invalid or has expired'' in
      attempt (PasswordResets_GetByTokenHash E (hashToken token))
        (\<lambda>e. if has_code e CodeNotFound then fail invalid else fail e) (\<lambda>rec.
      attempt time_now fail (\<lambda>t.
      if \<not> PasswordResetToken_IsUsable rec t then fail invalid
      else
      attempt (Hash E (asHasher s) newPassword) (\<lambda>e. fail (Internal e)) (\<lambda>hash.
      attempt (WithTx PoolStore (\<lambda>tx.
          attempt (PasswordResets_MarkUsed E (tkID rec)) fail (\<lambda>_.
          Users_UpdatePassword E (tkUserID rec) hash))) fail (\<lambda>_.
      attempt (RevokeAllSessions E (asSessions s) (tkUserID rec))
        (\<lambda>e. ignore (log_at LevelError ''revoke sessions after reset failed'' [(''error'', error_text e)])
          (ignore (log_at LevelInfo ''password reset completed'' [(''user_id'', x_uuid_string E (tkUserID rec))])
          (ret ())))
        (\<lambda>_. ignore (log_at LevelInfo ''password reset completed'' [(''user_id'', x_uuid_string E (tkUserID rec))])
          (ret ())))))))"

definition VerifyEmail :: "ext \<Rightarrow> authService \<Rightarrow> string \<Rightarrow> unit act" where
  "VerifyEmail E s token =
     (let invalid = BadRequest ''This verification link is invalid or has expired'' in
      attempt (EmailVerifications_GetByTokenHash E (hashToken token))
        (\<lambda>e. if has_code e CodeNotFound then fail invalid else fail e) (\<lambda>rec.
      attempt time_now fail (\<lambda>t.
      if \<not> EmailVerificationToken_IsUsable rec t then fail invalid
      else
      attempt (WithTx PoolStore (\<lambda>tx.
          attempt (EmailVerifications_MarkUsed E (tkID rec)) fail (\<lambda>_.
          Users_MarkEmailVerified E (tkUserID rec)))) fail (\<lambda>_.
      ignore (log_at LevelInfo ''email verified'' [(''user_id'', x_uuid_string E (tkUserID rec))])
      (ret ())))))"

lemmas auth_service_defs =
  Register_def Login_def Refresh_def revoke_presented_def Logout_def LogoutAll_def ChangePassword_def
  ForgotPassword_def ResetPassword_def VerifyEmail_def

text \<open>
  Invariants of the world that also survive the creation of tokens. The hash of a new token comes
  from entropy drawn after the first \<open>N\<close> draws.
\<close>

definition token_at :: "ext \<Rightarrow> nat \<Rightarrow> string" where
  "token_at E n = RawURLEncode (x_random E n 32)"

locale service_invariant = world_invariant +
  assumes token_creation: "N \<le> n \<Longrightarrow> stmt_keeps E I (create_token T u (hashToken (token_at E n)) x)"
begin

lemma kept_creation:
  assumes "N \<le> n"
  shows "pres I (PasswordResets_Create E u (hashToken (token_at E n)) x)"
    "pres I (EmailVerifications_Create E u (hashToken (token_at E n)) x)"
  using token_creation [OF assms] by (simp_all add: token_creation_kept token_statement_defs)

lemma kept_generateToken_then:
  assumes "\<And>e. pres I (h e)"
    and "\<And>n. N \<le> n \<Longrightarrow> pres I (k (token_at E n) (hashToken (token_at E n)))"
  shows "pres I (attempt (generateToken E) h (\<lambda>(token, hash). k token hash))"
proof (rule presI)
  fix w assume I: "I w"
  have t: "I (tick w)" using frame [OF I, of "tick w"] by simp
  then have t': "I ((tick w)\<lparr>w_rng := Suc (w_rng w)\<rparr>)"
    using frame [OF t, of "(tick w)\<lparr>w_rng := Suc (w_rng w)\<rparr>"] by simp
  show "I (snd (attempt (generateToken E) h (\<lambda>(token, hash). k token hash) w))"
    using presD [OF assms(1) t] presD [OF assms(1) t'] presD [OF assms(2) [OF drawn [OF I]] t']
    by (auto simp: generateToken_def attempt_def rand_Read_def external_def Let_def token_at_def fail_def ret_def
        split: option.split)
qed

lemma kept_issueSession [pres_intros]: "pres I (issueSession F s u)"
  unfolding issueSession_def by (intro pres_intros)+

text \<open>Every use case keeps the invariant, whatever fails on the way.\<close>

lemma auth_service_kept [pres_intros]:
  "pres I (Register E s r)" "pres I (Login E s l)" "pres I (Refresh E s t)" "pres I (Logout E s o')"
  "pres I (LogoutAll E s u)" "pres I (ChangePassword E s u p q)" "pres I (ForgotPassword E s m)"
  "pres I (ResetPassword E s t q)" "pres I (VerifyEmail E s t)"
  unfolding auth_service_defs
  by ((rule kept_generateToken_then | rule kept_creation, assumption | rule pres_intros | simp)+)

end

interpretation consistent: service_invariant E 0 "world_ok E" for E
  by unfold_locales (rule stmt_keeps_world_ok keeps_db_intros)+

end
