(* ===== verification/RepositorySpec.thy ===== *)
theory RepositorySpec
  imports Repositories
begin

text \<open>
  What the repositories return when no outside call fails, one equation per operation, in the
  collection \<open>repo_run\<close>; and the contract of the single-use token repositories as a locale that
  both of them implement.
\<close>

named_theorems repo_run \<open>repository operations when no outside call fails\<close>

definition not_found :: "string \<Rightarrow> goerr" where
  "not_found what = Wrap (NotFound what) (Some (Sentinel PgxErrNoRows))"

lemma has_code_not_found [simp]: "has_code (not_found what) c \<longleftrightarrow> c = CodeNotFound"
  by (auto simp: not_found_def error_defs)

lemma IsNoRows_simp [simp]: "IsNoRows (Sentinel PgxErrNoRows)"
  by (simp add: IsNoRows_def)

lemma has_code_internal_error [simp]: "has_code (internal_error m e) c \<longleftrightarrow> c = CodeInternal"
  by (auto simp: internal_error_def Internal_def)

section \<open>Users\<close>

lemma Users_GetByEmail_run [repo_run]:
  assumes "calm w"
  shows "Users_GetByEmail E email w =
    ((case find (\<lambda>u. citext_eq E (duEmail u) email) (tUsers (w_db w)) of
        None \<Rightarrow> Inl (not_found ''User'') | Some u \<Rightarrow> Inr (toDomainUser u)), after w (w_db w))"
  using assms
  by (simp add: Users_GetByEmail_def attempt_def GetUserByEmail_def run_query_after go_run not_found_def
      split: option.split)

lemma Users_GetByID_run [repo_run]:
  assumes "calm w"
  shows "Users_GetByID E k w =
    ((case find (\<lambda>u. duID u = k) (tUsers (w_db w)) of
        None \<Rightarrow> Inl (not_found ''User'') | Some u \<Rightarrow> Inr (toDomainUser u)), after w (w_db w))"
  using assms
  by (simp add: Users_GetByID_def attempt_def GetUserByID_def run_query_after go_run not_found_def
      split: option.split)

lemma Users_EmailExists_run [repo_run]:
  assumes "calm w"
  shows "Users_EmailExists E email w =
    (Inr (list_ex (\<lambda>u. citext_eq E (duEmail u) email) (tUsers (w_db w))), after w (w_db w))"
  using assms by (simp add: Users_EmailExists_def attempt_def EmailExistsQuery_def run_query_after go_run)

lemma Users_UpdatePassword_run [repo_run]:
  assumes "calm w"
  shows "Users_UpdatePassword E k h w =
    (Inr (), after w (set_user k (touch_user (NOW (tick w)) (\<lambda>u. u\<lparr>duPasswordHash := Some h\<rparr>)) (w_db w)))"
  using assms
  by (simp add: Users_UpdatePassword_def attempt_def run_stmt_after UpdateUserPassword_def go_run)

lemma Users_TouchLastLogin_run [repo_run]:
  assumes "calm w"
  shows "Users_TouchLastLogin E k w =
    (Inr (), after w (set_user k (touch_user (NOW (tick w)) (\<lambda>u. u\<lparr>duLastLoginAt := Some (NOW (tick w))\<rparr>)) (w_db w)))"
  using assms
  by (simp add: Users_TouchLastLogin_def attempt_def run_stmt_after UpdateLastLogin_def go_run)

lemma Users_MarkEmailVerified_run [repo_run]:
  assumes "calm w"
  shows "Users_MarkEmailVerified E k w =
    (Inr (), after w (set_user k (touch_user (NOW (tick w)) (\<lambda>u. u\<lparr>duEmailVerifiedAt := Some (NOW (tick w))\<rparr>)) (w_db w)))"
  using assms
  by (simp add: Users_MarkEmailVerified_def attempt_def run_stmt_after MarkUserEmailVerified_def go_run)

text \<open>The row \<open>Create\<close> inserts.\<close>

definition new_user :: "CreateUserInput \<Rightarrow> gotime \<Rightarrow> uuid \<Rightarrow> dbUser" where
  "new_user inp t i =
     \<lparr>duID = i, duEmail = cuEmail inp, duPasswordHash = Some (cuPasswordHash inp),
      duFullName = cuFullName inp, duRole = cuRole inp, duAvatarUrl = None, duIsActive = True,
      duEmailVerifiedAt = None, duLastLoginAt = None, duCreatedAt = t, duUpdatedAt = t\<rparr>"

lemma Users_Create_run [repo_run]:
  assumes "calm w"
  shows "Users_Create E inp w =
    (let u = new_user inp (NOW (tick w)) (x_uuid E (w_rng w)) in
     if \<not> user_check u then (Inl (internal_error ''create user'' (PgError PgCheckViolation)), after w (w_db w))
     else if list_ex (\<lambda>v. duID v = duID u \<or> citext_eq E (duEmail v) (duEmail u)) (tUsers (w_db w))
     then (Inl (Wrap (Conflict ''An account with this email already exists'')
                  (Some (PgError PgUniqueViolation))), after w (w_db w))
     else (Inr (toDomainUser u), after w ((w_db w)\<lparr>tUsers := tUsers (w_db w) @ [u]\<rparr>)))"
  using assms
  by (simp add: Users_Create_def attempt_def run_stmt_after CreateUser_def insert_user_def reject_def
      new_user_def Let_def IsPgError_def pg_codes go_run)

lemma Users_Delete_run [repo_run]:
  assumes "calm w"
  shows "Users_Delete E k w =
    (if rows_matching (\<lambda>u. duID u = k) (tUsers (w_db w)) = 0
     then (Inl (NotFound ''User''), after w (w_db w))
     else (Inr (), after w (snd (DeleteUser k (NOW (tick w)) (x_uuid E (w_rng w)) (w_db w)))))"
  using assms
  by (simp add: Users_Delete_def attempt_def run_stmt_after DeleteUser_def Let_def go_run)

lemma Users_Update_run [repo_run]:
  assumes "calm w"
  shows "Users_Update E k inp w =
    (let f = touch_user (NOW (tick w)) (\<lambda>u.
          u\<lparr>duFullName := COALESCE (uuFullName inp) (duFullName u),
            duAvatarUrl := COALESCE_null (uuAvatarURL inp) (duAvatarUrl u),
            duRole := COALESCE (uuRole inp) (duRole u),
            duIsActive := COALESCE (uuIsActive inp) (duIsActive u)\<rparr>) in
     case find (\<lambda>u. duID u = k) (tUsers (w_db w)) of
       None \<Rightarrow> (Inl (not_found ''User''), after w (w_db w))
     | Some u \<Rightarrow>
         if user_check (f u) then (Inr (toDomainUser (f u)), after w (set_user k f (w_db w)))
         else (Inl (Wrap (BadRequest ''Invalid role'') (Some (PgError PgCheckViolation))), after w (w_db w)))"
  using assms
  by (simp add: Users_Update_def attempt_def run_stmt_after UpdateUser_def update_user_def reject_def
      Let_def go_run not_found_def IsNoRows_def IsPgError_def split: option.split)

text \<open>Looking a user up after an update of its row.\<close>

lemma find_set_user:
  assumes "\<And>u. duID (f u) = duID u"
  shows "find (\<lambda>u. duID u = k) (tUsers (set_user j f d)) =
     map_option (\<lambda>u. if duID u = j then f u else u) (find (\<lambda>u. duID u = k) (tUsers d))"
  unfolding set_user_def by (simp add: find_update_rows_key [of duID f, OF assms])

lemma find_email_set_user:
  assumes "\<And>u. duEmail (f u) = duEmail u"
  shows "find (\<lambda>u. citext_eq E (duEmail u) m) (tUsers (set_user j f d)) =
     map_option (\<lambda>u. if duID u = j then f u else u) (find (\<lambda>u. citext_eq E (duEmail u) m) (tUsers d))"
proof -
  have "find (\<lambda>u. citext_eq E (duEmail u) m) (update_rows P f us) =
      map_option (\<lambda>u. if P u then f u else u) (find (\<lambda>u. citext_eq E (duEmail u) m) us)" for P us
    by (induction us) (simp_all add: assms)
  then show ?thesis by (simp add: set_user_def)
qed

lemma set_user_mem: "u \<in> set (tUsers d) \<Longrightarrow> f u \<in> set (tUsers (set_user (duID u) f d))"
  by (force simp: set_user_def set_update_rows)

lemma set_user_tables [simp]:
  "tResets (set_user k f d) = tResets d" "tVerifications (set_user k f d) = tVerifications d"
  "tOAuth (set_user k f d) = tOAuth d" "tWords (set_user k f d) = tWords d"
  "tSenses (set_user k f d) = tSenses d" "tUserWords (set_user k f d) = tUserWords d"
  by (simp_all add: set_user_def)

section \<open>Single-use tokens\<close>

text \<open>
  The contract: creating registers a usable hash, looking up gives the record with the hash, and
  marking consumes a token once. \<open>table\<close> reads the tokens of a state.
\<close>

definition use_token :: "gotime \<Rightarrow> SingleUseToken \<Rightarrow> SingleUseToken" where
  "use_token now t = t\<lparr>tkUsedAt := Some now\<rparr>"

definition consume :: "(SingleUseToken \<Rightarrow> bool) \<Rightarrow> gotime \<Rightarrow> SingleUseToken list \<Rightarrow> SingleUseToken list" where
  "consume P now = update_rows (\<lambda>t. P t \<and> tkUsedAt t = None) (use_token now)"

lemma consume_used: "t \<in> set (consume P now ts) \<Longrightarrow> P t \<Longrightarrow> (\<And>t. P (use_token now t) = P t) \<Longrightarrow> tkUsedAt t \<noteq> None"
  by (auto simp: consume_def set_update_rows use_token_def split: if_splits)

lemma use_token_fields [simp]:
  "tkID (use_token now t) = tkID t" "tkUserID (use_token now t) = tkUserID t"
  "tkTokenHash (use_token now t) = tkTokenHash t" "tkExpiresAt (use_token now t) = tkExpiresAt t"
  "tkUsedAt (use_token now t) = Some now"
  by (simp_all add: use_token_def)

lemma consume_none:
  "\<not> (\<exists>t\<in>set ts. P t \<and> tkUsedAt t = None) \<Longrightarrow> consume P now ts = ts"
  unfolding consume_def by (rule update_rows_none) auto

locale token_repository =
  fixes get :: "string \<Rightarrow> SingleUseToken act"
    and mark :: "uuid \<Rightarrow> unit act"
    and invalidate :: "uuid \<Rightarrow> unit act"
    and table :: "world \<Rightarrow> SingleUseToken list"
    and missing :: goerr
    and used :: goerr
  assumes get_spec:
    "calm w \<Longrightarrow> \<exists>w'. get h w =
       ((case find (\<lambda>t. tkTokenHash t = h) (table w) of None \<Rightarrow> Inl missing | Some t \<Rightarrow> Inr t), w') \<and>
       calm w' \<and> table w' = table w"
    and mark_ok:
    "calm w \<Longrightarrow> \<exists>t\<in>set (table w). tkID t = k \<and> tkUsedAt t = None \<Longrightarrow>
     \<exists>w' now. mark k w = (Inr (), w') \<and> calm w' \<and> table w' = consume (\<lambda>t. tkID t = k) now (table w)"
    and mark_used:
    "calm w \<Longrightarrow> \<not> (\<exists>t\<in>set (table w). tkID t = k \<and> tkUsedAt t = None) \<Longrightarrow>
     \<exists>w'. mark k w = (Inl used, w') \<and> calm w' \<and> table w' = table w"
    and invalidate_spec:
    "calm w \<Longrightarrow> \<exists>w' now. invalidate u w = (Inr (), w') \<and> calm w' \<and>
       table w' = consume (\<lambda>t. tkUserID t = u) now (table w)"
begin

text \<open>A token is consumed at most once.\<close>

lemma mark_once:
  assumes "calm w" and "mark k w = (Inr (), w1)" and "calm w1"
  shows "\<exists>w2. mark k w1 = (Inl used, w2)"
proof -
  have "\<exists>t\<in>set (table w). tkID t = k \<and> tkUsedAt t = None"
    using mark_used [OF assms(1), of k] assms(2) by fastforce
  then obtain now where "table w1 = consume (\<lambda>t. tkID t = k) now (table w)"
    using mark_ok [OF assms(1), of k] assms(2) by fastforce
  then have "\<not> (\<exists>t\<in>set (table w1). tkID t = k \<and> tkUsedAt t = None)"
    using consume_used [where P = "\<lambda>t. tkID t = k"] by fastforce
  then show ?thesis using mark_used [OF assms(3), of k] by blast
qed

text \<open>After an invalidation no token of the user is unused.\<close>

lemma invalidate_all:
  assumes "calm w"
  shows "\<exists>w'. invalidate u w = (Inr (), w') \<and> calm w' \<and>
     (\<forall>t\<in>set (table w'). tkUserID t = u \<longrightarrow> tkUsedAt t \<noteq> None)"
proof -
  obtain w' now where "invalidate u w = (Inr (), w')" "calm w'"
    and tbl: "table w' = consume (\<lambda>t. tkUserID t = u) now (table w)"
    using invalidate_spec [OF assms, of u] by blast
  moreover have "tkUsedAt t \<noteq> None" if "t \<in> set (table w')" "tkUserID t = u" for t
    using consume_used [where P = "\<lambda>t. tkUserID t = u"] that tbl by fastforce
  ultimately show ?thesis by blast
qed

end

lemma toDomain_tokens [simp]: "toDomainResetToken t = t" "toDomainVerificationToken t = t"
  by (simp_all add: toDomainResetToken_def toDomainVerificationToken_def)

lemma rows_matching_zero: "rows_matching P xs = 0 \<longleftrightarrow> \<not> (\<exists>x\<in>set xs. P x)"
  by (simp add: rows_matching_def filter_empty_conv)

lemma PasswordResets_GetByTokenHash_run [repo_run]:
  assumes "calm w"
  shows "PasswordResets_GetByTokenHash E h w =
    ((case find (\<lambda>t. tkTokenHash t = h) (tResets (w_db w)) of
        None \<Rightarrow> Inl (not_found ''Reset token'') | Some t \<Rightarrow> Inr t), after w (w_db w))"
  using assms
  by (simp add: PasswordResets_GetByTokenHash_def attempt_def GetPasswordResetToken_def get_token_def
      run_query_after go_run not_found_def split: option.split)

lemma EmailVerifications_GetByTokenHash_run [repo_run]:
  assumes "calm w"
  shows "EmailVerifications_GetByTokenHash E h w =
    ((case find (\<lambda>t. tkTokenHash t = h) (tVerifications (w_db w)) of
        None \<Rightarrow> Inl (not_found ''Verification token'') | Some t \<Rightarrow> Inr t), after w (w_db w))"
  using assms
  by (simp add: EmailVerifications_GetByTokenHash_def attempt_def GetEmailVerificationToken_def get_token_def
      run_query_after go_run not_found_def split: option.split)

lemma PasswordResets_MarkUsed_run [repo_run]:
  assumes "calm w"
  shows "PasswordResets_MarkUsed E k w =
    (let w' = after w ((w_db w)\<lparr>tResets := consume (\<lambda>t. tkID t = k) (NOW (tick w)) (tResets (w_db w))\<rparr>) in
     if \<exists>t\<in>set (tResets (w_db w)). tkID t = k \<and> tkUsedAt t = None then (Inr (), w')
     else (Inl (Conflict ''This reset link has already been used''), w'))"
  using assms
  by (auto simp: PasswordResets_MarkUsed_def attempt_def MarkPasswordResetTokenUsed_def use_tokens_def
      run_stmt_after go_run rows_matching_zero use_token_def [abs_def] consume_def Let_def)

lemma EmailVerifications_MarkUsed_run [repo_run]:
  assumes "calm w"
  shows "EmailVerifications_MarkUsed E k w =
    (let w' = after w ((w_db w)\<lparr>tVerifications := consume (\<lambda>t. tkID t = k) (NOW (tick w)) (tVerifications (w_db w))\<rparr>) in
     if \<exists>t\<in>set (tVerifications (w_db w)). tkID t = k \<and> tkUsedAt t = None then (Inr (), w')
     else (Inl (Conflict ''This verification link has already been used''), w'))"
  using assms
  by (auto simp: EmailVerifications_MarkUsed_def attempt_def MarkEmailVerificationTokenUsed_def
      use_tokens_def run_stmt_after go_run rows_matching_zero use_token_def [abs_def] consume_def Let_def)

lemma PasswordResets_InvalidateForUser_run [repo_run]:
  assumes "calm w"
  shows "PasswordResets_InvalidateForUser E u w =
    (Inr (), after w ((w_db w)\<lparr>tResets := consume (\<lambda>t. tkUserID t = u)
       (NOW (tick w)) (tResets (w_db w))\<rparr>))"
  using assms
  by (simp add: PasswordResets_InvalidateForUser_def attempt_def InvalidateUserPasswordResetTokens_def
      use_tokens_def run_stmt_after go_run use_token_def [abs_def] consume_def Let_def)

lemma EmailVerifications_InvalidateForUser_run [repo_run]:
  assumes "calm w"
  shows "EmailVerifications_InvalidateForUser E u w =
    (Inr (), after w ((w_db w)\<lparr>tVerifications := consume (\<lambda>t. tkUserID t = u)
       (NOW (tick w)) (tVerifications (w_db w))\<rparr>))"
  using assms
  by (simp add: EmailVerifications_InvalidateForUser_def attempt_def
      InvalidateUserEmailVerificationTokens_def use_tokens_def run_stmt_after go_run use_token_def [abs_def] consume_def Let_def)

text \<open>The row a token repository inserts.\<close>

definition new_token :: "uuid \<Rightarrow> uuid \<Rightarrow> string \<Rightarrow> gotime \<Rightarrow> gotime \<Rightarrow> SingleUseToken" where
  "new_token i user h expires now =
     \<lparr>tkID = i, tkUserID = user, tkTokenHash = h, tkExpiresAt = pg_time expires, tkUsedAt = None,
      tkCreatedAt = now\<rparr>"

lemma PasswordResets_Create_run [repo_run]:
  assumes "calm w"
  shows "PasswordResets_Create E u h x w =
    (let t = new_token (x_uuid E (w_rng w)) u h x (NOW (tick w)) in
     if list_ex (\<lambda>s. tkID s = tkID t \<or> tkTokenHash s = h) (tResets (w_db w))
     then (Inl (internal_error ''create password reset token'' (PgError PgUniqueViolation)), after w (w_db w))
     else if \<not> list_ex (\<lambda>v. duID v = u) (tUsers (w_db w))
     then (Inl (internal_error ''create password reset token'' (PgError PgForeignKeyViolation)), after w (w_db w))
     else (Inr t, after w ((w_db w)\<lparr>tResets := tResets (w_db w) @ [t]\<rparr>)))"
  using assms
  by (simp add: PasswordResets_Create_def attempt_def CreatePasswordResetToken_def create_token_def
      run_stmt_after go_run new_token_def reject_def Let_def)

lemma EmailVerifications_Create_run [repo_run]:
  assumes "calm w"
  shows "EmailVerifications_Create E u h x w =
    (let t = new_token (x_uuid E (w_rng w)) u h x (NOW (tick w)) in
     if list_ex (\<lambda>s. tkID s = tkID t \<or> tkTokenHash s = h) (tVerifications (w_db w))
     then (Inl (internal_error ''create email verification token'' (PgError PgUniqueViolation)), after w (w_db w))
     else if \<not> list_ex (\<lambda>v. duID v = u) (tUsers (w_db w))
     then (Inl (internal_error ''create email verification token'' (PgError PgForeignKeyViolation)), after w (w_db w))
     else (Inr t, after w ((w_db w)\<lparr>tVerifications := tVerifications (w_db w) @ [t]\<rparr>)))"
  using assms
  by (simp add: EmailVerifications_Create_def attempt_def CreateEmailVerificationToken_def
      create_token_def run_stmt_after go_run new_token_def reject_def Let_def)

interpretation password_resets: token_repository
  "PasswordResets_GetByTokenHash E" "PasswordResets_MarkUsed E" "PasswordResets_InvalidateForUser E"
  "\<lambda>w. tResets (w_db w)" "not_found ''Reset token''" "Conflict ''This reset link has already been used''"
  for E
proof (unfold_locales, goal_cases)
  case (1 w h)
  then show ?case by (simp add: repo_run)
next
  case (2 w k)
  then show ?case by (auto simp: repo_run Let_def)
next
  case (3 w k)
  then show ?case by (auto simp: repo_run Let_def consume_none)
next
  case (4 w u)
  then show ?case by (auto simp: repo_run)
qed

interpretation email_verifications: token_repository
  "EmailVerifications_GetByTokenHash E" "EmailVerifications_MarkUsed E"
  "EmailVerifications_InvalidateForUser E" "\<lambda>w. tVerifications (w_db w)"
  "not_found ''Verification token''" "Conflict ''This verification link has already been used''"
  for E
proof (unfold_locales, goal_cases)
  case (1 w h)
  then show ?case by (simp add: repo_run)
next
  case (2 w k)
  then show ?case by (auto simp: repo_run Let_def)
next
  case (3 w k)
  then show ?case by (auto simp: repo_run Let_def consume_none)
next
  case (4 w u)
  then show ?case by (auto simp: repo_run)
qed

end
