(* ===== verification/AuthSpec.thy ===== *)
theory AuthSpec
  imports AuthService RepositorySpec
begin

text \<open>
  The lemmas the properties of the authentication service rest on: when a world is ready to serve
  a request, what a freshly issued session grants, and when an access token is accepted.
\<close>

section \<open>Time\<close>

text \<open>The instant at which the schedule of outside calls is used up bounds the clock.\<close>

definition horizon :: "world \<Rightarrow> gotime" where
  "horizon w = w_clock w + sum_list (map (\<lambda>(d, x). int d) (w_sched w))"

lemma horizon_tick [simp]: "horizon (tick w) = horizon w"
  by (auto simp: horizon_def tick_def split: list.split)

lemma horizon_update [simp]:
  "horizon (w\<lparr>w_db := d\<rparr>) = horizon w" "horizon (w\<lparr>w_redis := r\<rparr>) = horizon w"
  "horizon (w\<lparr>w_rng := n\<rparr>) = horizon w" "horizon (w\<lparr>w_log := l\<rparr>) = horizon w"
  "horizon (w\<lparr>w_txnow := t\<rparr>) = horizon w" "horizon (w\<lparr>w_files := f\<rparr>) = horizon w"
  by (simp_all add: horizon_def)

lemma horizon_after [simp]: "horizon (after w d) = horizon w" "horizon (after_redis w st) = horizon w"
  by (simp_all add: after_def after_redis_def)

lemma clock_le_horizon: "w_clock w \<le> horizon w"
proof -
  have "0 \<le> sum_list (map (\<lambda>(d, x). int d) xs)" for xs :: "(nat \<times> fault option) list"
    by (induction xs) auto
  then show ?thesis by (simp add: horizon_def)
qed

text \<open>Calls to Redis leave the horizon, the database, the entropy and the log alone.\<close>

definition redis_frame_of :: "world \<Rightarrow> world \<Rightarrow> bool" where
  "redis_frame_of w v \<longleftrightarrow> horizon v = horizon w \<and> w_clock w \<le> w_clock v \<and> w_db v = w_db w \<and>
     w_rng v = w_rng w \<and> w_log v = w_log w \<and> w_files v = w_files w \<and> w_txnow v = w_txnow w"

lemma redis_frame_refl [simp]: "redis_frame_of w w"
  by (simp add: redis_frame_of_def)

lemma pres_redis_frame [pres_intros]: "pres (redis_frame_of w) (redis c)"
proof (rule presI)
  fix v
  assume "redis_frame_of w v"
  then show "redis_frame_of w (snd (redis c v))"
    using tick_clock [of v]
    by (auto simp: redis_frame_of_def redis_def external_def split: option.split prod.split)
qed

lemma pres_redis_frame_now [pres_intros]: "pres (redis_frame_of w) time_now"
  by (rule presI) (simp add: time_now_run)

lemma session_frame:
  "pres (redis_frame_of w) (StoreRefreshToken E s u j x)" "pres (redis_frame_of w) (RevokeRefreshToken E u j)"
  "pres (redis_frame_of w) (IsRefreshTokenActive E u j)" "pres (redis_frame_of w) (RevokeAllSessions E s u)"
  "pres (redis_frame_of w) (BlacklistAccessToken j t)" "pres (redis_frame_of w) (IsAccessTokenValid E u j i)"
  "pres (redis_frame_of w) (ActiveSessionCount E u)"
  unfolding session_defs by (intro pres_intros)+

lemma redis_frameD:
  assumes "pres (redis_frame_of w) m" and "m w = (r, v)"
  shows "horizon v = horizon w" "w_clock w \<le> w_clock v" "w_db v = w_db w" "w_rng v = w_rng w"
    "w_log v = w_log w" "w_files v = w_files w" "w_txnow v = w_txnow w"
  using pres_run [OF assms(1) redis_frame_refl assms(2)] by (simp_all add: redis_frame_of_def)

section \<open>A service that is set up\<close>

text \<open>
  The laws of the packages and the wiring of \<open>main\<close>: the session store and the token manager have
  the same refresh lifetime, and the two secrets differ.
\<close>

definition sign_law :: "ext \<Rightarrow> bool" where
  "sign_law E \<longleftrightarrow> (\<forall>secret c. \<exists>raw. x_jwt_sign E secret c = Inr raw)"

definition service_ok :: "ext \<Rightarrow> authService \<Rightarrow> bool" where
  "service_ok E s \<longleftrightarrow>
     uuid_law E \<and> jwt_law E \<and> sign_law E \<and> numeric_date_law E \<and>
     ssRefreshTTL (asSessions s) = jmRefreshTTL (asTokens s) \<and>
     Second \<le> jmAccessTTL (asTokens s) \<and> jmAccessTTL (asTokens s) \<le> jmRefreshTTL (asTokens s) \<and>
     jmAccessSecret (asTokens s) \<noteq> jmRefreshSecret (asTokens s)"

text \<open>A world in which no outside call fails and the clock stays in range.\<close>

definition ready :: "ext \<Rightarrow> authService \<Rightarrow> world \<Rightarrow> bool" where
  "ready E s w \<longleftrightarrow>
     calm w \<and> good_sessions E (asSessions s) w \<and> 0 \<le> w_clock w \<and>
     Unix (horizon w + jmRefreshTTL (asTokens s)) < 2 ^ 63"

lemma ready_calm [simp]: "ready E s w \<Longrightarrow> calm w"
  by (simp add: ready_def)

lemma ready_good: "ready E s w \<Longrightarrow> good_sessions E (asSessions s) w"
  by (simp add: ready_def)

lemma good_sessions_after: "good_sessions E s w \<Longrightarrow> good_sessions E s (after w d)"
  using good_sessions_tick by (simp add: good_sessions_def)

lemma ready_after [simp]: "ready E s w \<Longrightarrow> ready E s (after w d)"
  using tick_clock [of w] by (simp add: ready_def good_sessions_after)

lemma ready_tick [simp]: "ready E s w \<Longrightarrow> ready E s (tick w)"
  using tick_clock [of w] good_sessions_tick [of E "asSessions s" w]
  by (auto simp: ready_def good_sessions_def)

lemma good_sessions_update [simp]:
  "good_sessions E s (w\<lparr>w_rng := n\<rparr>) = good_sessions E s w"
  "good_sessions E s (w\<lparr>w_log := l\<rparr>) = good_sessions E s w"
  "good_sessions E s (w\<lparr>w_db := d\<rparr>) = good_sessions E s w"
  "good_sessions E s (w\<lparr>w_txnow := t\<rparr>) = good_sessions E s w"
  "good_sessions E s (w\<lparr>w_files := f\<rparr>) = good_sessions E s w"
  by (simp_all add: good_sessions_def)

lemma ready_update [simp]:
  "ready E s (w\<lparr>w_rng := n\<rparr>) = ready E s w" "ready E s (w\<lparr>w_log := l\<rparr>) = ready E s w"
  "ready E s (w\<lparr>w_db := d\<rparr>) = ready E s w" "ready E s (w\<lparr>w_txnow := t\<rparr>) = ready E s w"
  "ready E s (w\<lparr>w_files := f\<rparr>) = ready E s w"
  by (simp_all add: ready_def)

lemma live_in_update [simp]:
  "live_in E (w\<lparr>w_rng := n\<rparr>) = live_in E w" "live_in E (w\<lparr>w_log := l\<rparr>) = live_in E w"
  "live_in E (w\<lparr>w_db := d\<rparr>) = live_in E w" "live_in E (w\<lparr>w_txnow := t\<rparr>) = live_in E w"
  "live_in E (after w d) = live_in E w" "live_in E (tick w) = live_in E w"
  by (simp_all add: live_in_def fun_eq_iff)

section \<open>Issuing a session\<close>

text \<open>What the pair issued at \<open>t\<close> for a user is made of.\<close>

definition pair_for :: "ext \<Rightarrow> JWTManager \<Rightarrow> uuid \<Rightarrow> string \<Rightarrow> gotime \<Rightarrow> TokenPair \<Rightarrow> bool" where
  "pair_for E m user role t p \<longleftrightarrow>
     x_jwt_sign E (jmAccessSecret m)
       (claims_at E m user role (tpAccessJTI p) TokenTypeAccess t (jmAccessTTL m)) = Inr (tpAccessToken p) \<and>
     x_jwt_sign E (jmRefreshSecret m)
       (claims_at E m user role (tpRefreshJTI p) TokenTypeRefresh t (jmRefreshTTL m)) = Inr (tpRefreshToken p) \<and>
     tpRefreshExpiresAt p = t + jmRefreshTTL m \<and> tpExpiresAt p = t + jmAccessTTL m"

lemma issueSession_spec:
  assumes ok: "service_ok E s" and ready: "ready E s w"
  shows "\<exists>p w'. issueSession E s u w = (Inr \<lparr>arUser = u, arTokens = p\<rparr>, w') \<and> ready E s w' \<and>
     w_db w' = w_db w \<and> w_clock w \<le> w_clock w' \<and> pair_for E (asTokens s) (uID u) (uRole u) (w_clock w) p \<and>
     tpAccessJTI p = x_uuid_string E (x_uuid E (w_rng w)) \<and>
     tpRefreshJTI p = x_uuid_string E (x_uuid E (Suc (w_rng w))) \<and>
     (\<forall>k. k \<noteq> sessionsKey E (uID u) \<longrightarrow> w_redis w' k = w_redis w k) \<and>
     (\<forall>t\<ge>w_clock w'. \<forall>v k. live_in E w' t v k =
        (if v = uID u \<and> k = tpRefreshJTI p then Unix t < Unix (tpRefreshExpiresAt p)
         else live_in E w t v k))"
proof -
  let ?m = "asTokens s" and ?t = "w_clock w"
  have signs: "\<exists>raw. x_jwt_sign E secret c = Inr raw" for secret c
    using ok by (simp add: service_ok_def sign_law_def)
  obtain acc where acc: "x_jwt_sign E (jmAccessSecret ?m) (claims_at E ?m (uID u) (uRole u)
      (x_uuid_string E (x_uuid E (w_rng w))) TokenTypeAccess ?t (jmAccessTTL ?m)) = Inr acc"
    using signs by blast
  obtain rfr where rfr: "x_jwt_sign E (jmRefreshSecret ?m) (claims_at E ?m (uID u) (uRole u)
      (x_uuid_string E (x_uuid E (Suc (w_rng w)))) TokenTypeRefresh ?t (jmRefreshTTL ?m)) = Inr rfr"
    using signs by blast
  define p where "p = \<lparr>tpAccessToken = acc, tpRefreshToken = rfr, tpTokenType = ''Bearer'',
    tpExpiresIn = whole_seconds (jmAccessTTL ?m), tpExpiresAt = ?t + jmAccessTTL ?m,
    tpAccessJTI = x_uuid_string E (x_uuid E (w_rng w)),
    tpRefreshJTI = x_uuid_string E (x_uuid E (Suc (w_rng w))), tpRefreshExpiresAt = ?t + jmRefreshTTL ?m\<rparr>"
  let ?w = "w\<lparr>w_rng := Suc (Suc (w_rng w))\<rparr>"
  have gen: "GenerateTokenPair E ?m (uID u) (uRole u) w = (Inr p, ?w)"
    using GenerateTokenPair_run [OF acc rfr] by (simp add: p_def)
  have ttl: "0 \<le> jmRefreshTTL ?m" "ssRefreshTTL (asSessions s) = jmRefreshTTL ?m"
    using ok by (auto simp: service_ok_def Second_def)
  have x: "0 \<le> ?t + jmRefreshTTL ?m" "Unix (?t + jmRefreshTTL ?m) < 2 ^ 63"
    "?t + jmRefreshTTL ?m \<le> w_clock ?w + ssRefreshTTL (asSessions s)"
    using ready ttl Unix_mono [of "?t + jmRefreshTTL ?m" "horizon w + jmRefreshTTL ?m"] clock_le_horizon [of w]
    by (auto simp: ready_def)
  let ?key = "sessionsKey E (uID u)"
  have good: "good_sessions E (asSessions s) ?w" and calm: "calm ?w"
    using ready by (simp_all add: ready_def)
  obtain w' where st: "StoreRefreshToken E (asSessions s) (uID u) (tpRefreshJTI p) (?t + jmRefreshTTL ?m) ?w
        = (Inr (), w')" "good_sessions E (asSessions s) w'" "calm w'" "w_clock w' = w_clock (tick ?w)"
      "w_db w' = w_db w"
    and live: "\<forall>t\<ge>w_clock w'. \<forall>v k. live_in E w' t v k =
        (if v = uID u \<and> k = tpRefreshJTI p then Unix t < Unix (?t + jmRefreshTTL ?m) else live_in E ?w t v k)"
    using StoreRefreshToken_spec [OF good calm x, of "uID u" "tpRefreshJTI p"] by auto
  have other: "horizon w' = horizon ?w \<and> (\<forall>k. k \<noteq> ?key \<longrightarrow> w_redis w' k = w_redis w k)"
    using st(1) calm
    by (auto simp: StoreRefreshToken_def Let_def attempt_def redis_calm multi2_def HSET_def EXPIRE_def go_defs
        split: prod.splits sum.splits option.splits redis_value.splits if_splits)
  have le: "w_clock w \<le> w_clock w'" using tick_clock [of ?w] st(4) by simp
  have "issueSession E s u w = (Inr \<lparr>arUser = u, arTokens = p\<rparr>, w')"
    using gen st(1) by (simp add: issueSession_def attempt_def go_run p_def)
  moreover have "ready E s w'"
    using st ready other le by (simp add: ready_def)
  moreover have "pair_for E ?m (uID u) (uRole u) ?t p"
    using acc rfr by (simp add: pair_for_def p_def)
  ultimately show ?thesis using st other live le by (intro exI [of _ p] exI [of _ w']) (simp add: p_def)
qed

section \<open>Tokens that are accepted\<close>

text \<open>A token of a pair parses back to its claims until it expires.\<close>

lemma claims_valid_at:
  assumes "numeric_date_law E" and "t \<le> now" and "now < Unix (t + ttl) * Second"
  shows "claims_valid (parse_options m now) (claims_at E m user role jti typ t ttl)"
  using assms Unix_mult_le [of t] by (simp add: claims_valid_def parse_options_def claims_at_def numeric_date_law_def)

lemma jwt_parse_minted:
  assumes laws: "jwt_law E" "uuid_law E" "numeric_date_law E"
    and signed: "x_jwt_sign E secret (claims_at E m user role jti typ t ttl) = Inr raw"
    and "Role_Valid role" and "jti \<noteq> []" and "t \<le> now" and "now < Unix (t + ttl) * Second"
  shows "jwt_parse E m raw secret typ now = Inr (claims_at E m user role jti typ t ttl)"
proof -
  let ?c = "claims_at E m user role jti typ t ttl"
  have "x_jwt_decode E raw = Some (SigningMethodHMAC ''HS256'', ?c)" "x_jwt_verified E secret raw"
    using laws(1) signed unfolding jwt_law_def by blast+
  moreover have "signing_key secret (SigningMethodHMAC ''HS256'') = Inr secret"
    by (simp add: signing_key_def)
  moreover have "''HS256'' \<in> set (joMethods (parse_options m now))" by (simp add: parse_options_def)
  ultimately have "x_jwt_parse E (parse_options m now) (signing_key secret) raw = Inr ?c"
    using laws(1) claims_valid_at [OF laws(3), of t now ttl m user role jti "typ"] assms(7,8)
    unfolding jwt_law_def by blast
  then show ?thesis
    using assms(5,6) laws(2) by (simp add: jwt_parse_Inr claims_at_def uuid_law_def)
qed

section \<open>Access tokens\<close>

definition blacklisted :: "world \<Rightarrow> gotime \<Rightarrow> string \<Rightarrow> bool" where
  "blacklisted w t jti \<longleftrightarrow> live_entry t (w_redis w) (blacklistKey jti) \<noteq> None"

text \<open>The revocation epoch of a user at an instant.\<close>

definition revocation_epoch :: "ext \<Rightarrow> world \<Rightarrow> gotime \<Rightarrow> uuid \<Rightarrow> int option" where
  "revocation_epoch E w t u =
     (case live_entry t (w_redis w) (revokedKey E u) of
        None \<Rightarrow> None
      | Some e \<Rightarrow> (case reValue e of RString v \<Rightarrow> ParseInt v | RHash _ \<Rightarrow> None))"

lemma IsAccessTokenValid_run:
  assumes good: "good_sessions E s w" and "calm w"
  shows "IsAccessTokenValid E u jti iat w =
    (Inr (\<not> blacklisted w (w_clock (tick w)) jti \<and>
          (case revocation_epoch E w (w_clock (tick w)) u of None \<Rightarrow> True | Some x \<Rightarrow> x < Unix iat)),
     after_redis w (w_redis w))"
proof (cases "live_entry (w_clock (tick w)) (w_redis w) (revokedKey E u)")
  case None
  then show ?thesis
    using \<open>calm w\<close>
    by (simp add: IsAccessTokenValid_def attempt_def redis_calm pipeline2_def EXISTS_def GET_def go_run
        blacklisted_def revocation_epoch_def)
next
  case (Some e)
  then have "w_redis w (revokedKey E u) = Some e"
    by (auto simp: live_entry_def split: option.splits if_splits)
  then obtain n where "reValue e = RString (FormatInt n)"
    using sessions_ok_revoked [OF good_sessions_tick [OF good]] by blast
  with Some show ?thesis
    using \<open>calm w\<close>
    by (simp add: IsAccessTokenValid_def attempt_def redis_calm pipeline2_def EXISTS_def GET_def go_run
        blacklisted_def revocation_epoch_def split: option.split)
qed

section \<open>The session operations in a ready world\<close>

lemma ready_session:
  assumes "ready E s w" and "pres (redis_frame_of w) m" and "m w = (r, v)"
    and "good_sessions E (asSessions s) v" and "calm v"
  shows "ready E s v"
  using redis_frameD [OF assms(2,3)] assms(1,4,5) by (simp add: ready_def)

lemma IsRefreshTokenActive_ready:
  assumes "ready E s w"
  shows "\<exists>w'. IsRefreshTokenActive E u j w = (Inr (live_in E w (w_clock (tick w)) u j), w') \<and>
     ready E s w' \<and> w_db w' = w_db w \<and> w_clock w \<le> w_clock w' \<and> w_rng w' = w_rng w \<and>
     (live_in E w (w_clock (tick w)) u j \<longrightarrow> w' = after_redis w (w_redis w)) \<and>
     (\<forall>t\<ge>w_clock w'. \<forall>v k. live_in E w' t v k = live_in E w t v k)"
proof -
  obtain w' where w': "IsRefreshTokenActive E u j w = (Inr (live_in E w (w_clock (tick w)) u j), w')"
    "good_sessions E (asSessions s) w'" "calm w'" "w_db w' = w_db w" "w_rng w' = w_rng w"
    "live_in E w (w_clock (tick w)) u j \<longrightarrow> w' = after_redis w (w_redis w)"
    "\<forall>t\<ge>w_clock w'. \<forall>v k. live_in E w' t v k = live_in E w t v k"
    using IsRefreshTokenActive_spec [OF ready_good ready_calm, OF assms assms, of u j] by blast
  then show ?thesis
    using ready_session [OF assms session_frame(3) w'(1,2,3)] redis_frameD(2) [OF session_frame(3) w'(1)]
    by blast
qed

lemma RevokeRefreshToken_ready:
  assumes "ready E s w"
  shows "\<exists>w'. RevokeRefreshToken E u j w = (Inr (), w') \<and> ready E s w' \<and> w_db w' = w_db w \<and>
     w_clock w \<le> w_clock w' \<and> w_rng w' = w_rng w \<and>
     (\<forall>t\<ge>w_clock w'. \<forall>v k. live_in E w' t v k = (\<not> (v = u \<and> k = j) \<and> live_in E w t v k))"
proof -
  obtain w' where w': "RevokeRefreshToken E u j w = (Inr (), w')"
    "good_sessions E (asSessions s) w'" "calm w'" "w_db w' = w_db w" "w_rng w' = w_rng w"
    "\<forall>t\<ge>w_clock w'. \<forall>v k. live_in E w' t v k = (\<not> (v = u \<and> k = j) \<and> live_in E w t v k)"
    using RevokeRefreshToken_spec [OF ready_good ready_calm, OF assms assms, of u j] by blast
  then show ?thesis
    using ready_session [OF assms session_frame(2) w'(1,2,3)] redis_frameD(2) [OF session_frame(2) w'(1)]
    by blast
qed

text \<open>The entry \<open>RevokeAllSessions\<close> writes.\<close>

definition epoch_entry :: "SessionStore \<Rightarrow> gotime \<Rightarrow> gotime \<Rightarrow> redis_entry" where
  "epoch_entry s revoked_at written_at =
     \<lparr>reValue = RString (FormatInt (Unix revoked_at - 1)),
      reExpires = map_option ((+) written_at) (set_ttl (ssRefreshTTL s + Hour))\<rparr>"

lemma RevokeAllSessions_ready:
  assumes "ready E s w"
  shows "\<exists>w'. RevokeAllSessions E (asSessions s) u w = (Inr (), w') \<and> ready E s w' \<and> w_db w' = w_db w \<and>
     w_clock w \<le> w_clock w' \<and> w_rng w' = w_rng w \<and> w_log w' = w_log w \<and>
     w_redis w' (revokedKey E u) = Some (epoch_entry (asSessions s) (w_clock w) (w_clock w')) \<and>
     (\<forall>k. k \<noteq> sessionsKey E u \<longrightarrow> k \<noteq> revokedKey E u \<longrightarrow> w_redis w' k = w_redis w k) \<and>
     (\<forall>t v k. live_in E w' t v k = (v \<noteq> u \<and> live_in E w t v k))"
proof -
  obtain w' where w': "RevokeAllSessions E (asSessions s) u w = (Inr (), w')"
    "good_sessions E (asSessions s) w'" "calm w'" "w_db w' = w_db w" "w_rng w' = w_rng w" "w_log w' = w_log w"
    "w_redis w' (revokedKey E u) = Some (epoch_entry (asSessions s) (w_clock w) (w_clock w'))"
    "\<forall>k. k \<noteq> sessionsKey E u \<longrightarrow> k \<noteq> revokedKey E u \<longrightarrow> w_redis w' k = w_redis w k"
    "\<forall>t v k. live_in E w' t v k = (v \<noteq> u \<and> live_in E w t v k)"
    using RevokeAllSessions_spec [OF ready_good ready_calm, OF assms assms, of u]
    unfolding epoch_entry_def by blast
  then show ?thesis
    using ready_session [OF assms session_frame(4) w'(1,2,3)] redis_frameD(2) [OF session_frame(4) w'(1)]
    by blast
qed

text \<open>While the entry lives, the epoch is the second before the revocation.\<close>

lemma revocation_epoch_entry:
  assumes "w_redis w (revokedKey E u) = Some (epoch_entry s c0 c1)"
    and "- (2 ^ 62) \<le> Unix c0" "Unix c0 < 2 ^ 63" and "t < c1 + ssRefreshTTL s" and "0 \<le> ssRefreshTTL s"
  shows "revocation_epoch E w t u = Some (Unix c0 - 1)"
proof -
  have "\<exists>d. set_ttl (ssRefreshTTL s + Hour) = Some d \<and> ssRefreshTTL s \<le> d"
  proof -
    have h: "Hour = 3600 * Second" "Millisecond < Hour" "0 < Millisecond" "Second < Hour"
      by (simp_all add: Hour_def Minute_def Second_def Millisecond_def)
    have "ssRefreshTTL s + Hour - Millisecond < (ssRefreshTTL s + Hour) div Millisecond * Millisecond"
      using div_mult_mod_eq [of "ssRefreshTTL s + Hour" Millisecond]
        pos_mod_bound [of Millisecond "ssRefreshTTL s + Hour"] h(3) by linarith
    then show ?thesis using assms(5) h by (auto simp: set_ttl_def)
  qed
  then have "live_entry t (w_redis w) (revokedKey E u) = Some (epoch_entry s c0 c1)"
    using assms by (auto simp: live_entry_def expired_def epoch_entry_def)
  moreover have "ParseInt (FormatInt (Unix c0 - 1)) = Some (Unix c0 - 1)"
    using assms(2,3) by (intro ParseInt_FormatInt) simp_all
  ultimately show ?thesis by (simp add: revocation_epoch_def epoch_entry_def)
qed

end
