(* ===== verification/Demo.thy ===== *)
theory Demo
  imports AuthSpec
begin

text \<open>
  A concrete world in which the laws of the outside packages hold, so that the theorems that
  assume them can be applied to concrete inputs. The functions are the simplest ones with the
  documented behaviour: a token carries its secret and its claims in the open, a password is its
  own hash, and the random sources count.
\<close>

section \<open>A reversible encoding of texts, numbers and claims\<close>

fun put_text :: "string \<Rightarrow> string \<Rightarrow> string" where
  "put_text [] r = CHR ''.'' # r"
| "put_text (c # s) r = CHR ''x'' # c # put_text s r"

fun take_text :: "string \<Rightarrow> (string \<times> string) option" where
  "take_text [] = None"
| "take_text (d # r) =
     (if d = CHR ''.'' then Some ([], r)
      else (case r of [] \<Rightarrow> None
            | c # r' \<Rightarrow> (case take_text r' of None \<Rightarrow> None | Some (s, t) \<Rightarrow> Some (c # s, t))))"

lemma take_put_text [simp]: "take_text (put_text s r) = Some (s, r)"
  by (induction s) simp_all

fun put_texts :: "string list \<Rightarrow> string \<Rightarrow> string" where
  "put_texts [] r = CHR ''.'' # r"
| "put_texts (s # ss) r = CHR ''x'' # put_text s (put_texts ss r)"

fun take_texts :: "nat \<Rightarrow> string \<Rightarrow> (string list \<times> string) option" where
  "take_texts 0 r = None"
| "take_texts (Suc n) [] = None"
| "take_texts (Suc n) (d # r) =
     (if d = CHR ''.'' then Some ([], r)
      else (case take_text r of None \<Rightarrow> None
            | Some (s, r') \<Rightarrow>
                (case take_texts n r' of None \<Rightarrow> None | Some (ss, t) \<Rightarrow> Some (s # ss, t))))"

lemma take_put_texts: "length ss < n \<Longrightarrow> take_texts n (put_texts ss r) = Some (ss, r)"
proof (induction ss arbitrary: n)
  case Nil
  then show ?case by (cases n) simp_all
next
  case (Cons s ss)
  then show ?case by (cases n) simp_all
qed

lemma length_put_text: "length (put_text s r) = 2 * length s + 1 + length r"
  by (induction s) simp_all

lemma length_put_texts: "length ss < length (put_texts ss r)"
  by (induction ss) (simp_all add: length_put_text)

definition int_text :: "int \<Rightarrow> string" where
  "int_text n = (if n < 0 then ''m'' else ''p'') @ show_nat (nat \<bar>n\<bar>)"

definition text_int :: "string \<Rightarrow> int" where
  "text_int s =
     (case s of [] \<Rightarrow> 0
      | c # r \<Rightarrow> if c = CHR ''m'' then - int (read_nat r) else int (read_nat r))"

lemma text_int_text [simp]: "text_int (int_text n) = n"
  by (simp add: text_int_def int_text_def read_show_nat)

definition time_text :: "gotime option \<Rightarrow> string" where
  "time_text t = (case t of None \<Rightarrow> [] | Some n \<Rightarrow> int_text n)"

definition text_time :: "string \<Rightarrow> gotime option" where
  "text_time s = (if s = [] then None else Some (text_int s))"

lemma text_time_text [simp]: "text_time (time_text t) = t"
proof -
  have "int_text n \<noteq> []" for n by (simp add: int_text_def)
  then show ?thesis by (simp add: text_time_def time_text_def split: option.split)
qed

definition claims_texts :: "Claims \<Rightarrow> string list" where
  "claims_texts c =
     [clID c, clSubject c, clIssuer c, time_text (clIssuedAt c), time_text (clNotBefore c),
      time_text (clExpiresAt c), clRole c, clTokenType c]"

definition texts_claims :: "string list \<Rightarrow> Claims" where
  "texts_claims ss =
     \<lparr>clID = ss ! 0, clSubject = ss ! 1, clIssuer = ss ! 2, clIssuedAt = text_time (ss ! 3),
      clNotBefore = text_time (ss ! 4), clExpiresAt = text_time (ss ! 5), clRole = ss ! 6,
      clTokenType = ss ! 7\<rparr>"

lemma texts_claims_texts [simp]: "texts_claims (claims_texts c) = c"
  by (simp add: texts_claims_def claims_texts_def)

definition demo_sign :: "string \<Rightarrow> Claims \<Rightarrow> goerr + string" where
  "demo_sign secret c = Inr (put_text secret (put_texts (claims_texts c) []))"

definition demo_decode :: "string \<Rightarrow> (jwt_method \<times> Claims) option" where
  "demo_decode raw =
     (case take_text raw of None \<Rightarrow> None
      | Some (_, r) \<Rightarrow>
          (case take_texts (length r) r of None \<Rightarrow> None
           | Some (ss, _) \<Rightarrow> Some (SigningMethodHMAC ''HS256'', texts_claims ss)))"

definition demo_verified :: "string \<Rightarrow> string \<Rightarrow> bool" where
  "demo_verified secret raw = (case take_text raw of None \<Rightarrow> False | Some (s, _) \<Rightarrow> s = secret)"

definition demo_parse :: "jwt_options \<Rightarrow> (jwt_method \<Rightarrow> goerr + string) \<Rightarrow> string \<Rightarrow> goerr + Claims" where
  "demo_parse opts key raw =
     (case demo_decode raw of
        Some (SigningMethodHMAC alg, c) \<Rightarrow>
          (case key (SigningMethodHMAC alg) of
             Inr secret \<Rightarrow>
               if alg \<in> set (joMethods opts) \<and> demo_verified secret raw
               then if claims_valid opts c then Inr c
                    else if (case clExpiresAt c of Some x \<Rightarrow> x \<le> joNow opts | None \<Rightarrow> False)
                    then Inl (Sentinel JwtErrTokenExpired)
                    else Inl (Opaque ''token has invalid claims'')
               else Inl (Opaque ''token signature is invalid'')
           | Inl e \<Rightarrow> Inl e)
      | _ \<Rightarrow> Inl (Opaque ''token is malformed''))"

definition meta_texts :: "WordMeta \<Rightarrow> string" where
  "meta_texts m = put_texts (wmSynonyms m) (put_texts (wmAntonyms m) (put_texts (wmOtherWaysToSay m) []))"

definition texts_meta :: "string \<Rightarrow> goerr + WordMeta" where
  "texts_meta t =
     (case take_texts (length t) t of None \<Rightarrow> Inl (Opaque ''invalid character'')
      | Some (a, t1) \<Rightarrow>
         (case take_texts (length t) t1 of None \<Rightarrow> Inl (Opaque ''invalid character'')
          | Some (b, t2) \<Rightarrow>
             (case take_texts (length t) t2 of None \<Rightarrow> Inl (Opaque ''invalid character'')
              | Some (c, _) \<Rightarrow> Inr \<lparr>wmSynonyms = a, wmAntonyms = b, wmOtherWaysToSay = c\<rparr>)))"

definition demo_ext :: ext where
  "demo_ext =
     \<lparr>x_uuid = of_nat,
      x_random = (\<lambda>n k. replicate k (char_of n)),
      x_uuid_string = (\<lambda>u. show_nat (unat u)),
      x_uuid_parse = (\<lambda>s. map_option of_nat (parse_digits s)),
      x_unicode_lower = (\<lambda>s. s), x_unicode_quote = (\<lambda>s. s),
      x_pg_lower = (\<lambda>s. s), x_pg_le = (\<lambda>a b. length a \<le> length b),
      x_bcrypt_generate = (\<lambda>n cost p. Inr p),
      x_bcrypt_compare = (\<lambda>h p. if h = p then None else Some (Sentinel BcryptErrMismatch)),
      x_bcrypt_cost = (\<lambda>h. Some 10),
      x_numeric_date = (\<lambda>t. Unix t * Second),
      x_jwt_sign = demo_sign, x_jwt_parse = demo_parse, x_jwt_decode = demo_decode,
      x_jwt_verified = demo_verified,
      x_id_token = (\<lambda>raw. None),
      x_meta_marshal = (\<lambda>m. Inr (meta_texts m)), x_meta_unmarshal = texts_meta,
      x_jsonb = Some,
      x_state_marshal = (\<lambda>d. Inr (put_text (osCodeVerifier d) (put_text (osReturnTo d) (int_text (osCreatedAt d))))),
      x_state_unmarshal = (\<lambda>t.
        case take_text t of None \<Rightarrow> Inl (Opaque ''invalid character'')
        | Some (v, t1) \<Rightarrow>
            (case take_text t1 of None \<Rightarrow> Inl (Opaque ''invalid character'')
             | Some (r, t2) \<Rightarrow> Inr \<lparr>osCodeVerifier = v, osReturnTo = r, osCreatedAt = text_int t2\<rparr>)),
      x_http = (\<lambda>n q. Inl (Opaque ''connection refused'')),
      x_cwd = ''/srv'', x_temp = show_nat\<rparr>"

section \<open>The laws hold\<close>

lemma demo_uuid_law: "uuid_law demo_ext"
  by (simp add: uuid_law_def demo_ext_def parse_show_nat show_nat_nonempty)

lemma demo_bcrypt_law: "bcrypt_law demo_ext"
  by (simp add: bcrypt_law_def demo_ext_def)

lemma demo_numeric_date_law: "numeric_date_law demo_ext"
  by (simp add: numeric_date_law_def demo_ext_def)

lemma demo_sign_decode:
  assumes "demo_sign secret c = Inr raw"
  shows "demo_decode raw = Some (SigningMethodHMAC ''HS256'', c)" and "demo_verified secret raw"
proof -
  from assms have raw: "raw = put_text secret (put_texts (claims_texts c) [])" by (simp add: demo_sign_def)
  show "demo_decode raw = Some (SigningMethodHMAC ''HS256'', c)"
    by (simp add: raw demo_decode_def take_put_texts [OF length_put_texts])
  show "demo_verified secret raw" by (simp add: raw demo_verified_def)
qed

lemma demo_parse_iff:
  "demo_parse opts key raw = Inr c \<longleftrightarrow>
     claims_valid opts c \<and>
     (\<exists>secret alg. demo_decode raw = Some (SigningMethodHMAC alg, c) \<and> alg \<in> set (joMethods opts) \<and>
        key (SigningMethodHMAC alg) = Inr secret \<and> demo_verified secret raw)"
  by (auto simp: demo_parse_def split: option.splits jwt_method.splits sum.splits if_splits)

lemma demo_jwt_law: "jwt_law demo_ext"
  using demo_sign_decode by (simp add: jwt_law_def demo_ext_def demo_parse_iff)

lemma demo_fields [simp]:
  "x_uuid demo_ext n = of_nat n" "x_random demo_ext n k = replicate k (char_of n)"
  "x_uuid_string demo_ext u = show_nat (unat u)"
  "x_bcrypt_generate demo_ext n cost p = Inr p"
  "x_bcrypt_compare demo_ext h p = (if h = p then None else Some (Sentinel BcryptErrMismatch))"
  "x_numeric_date demo_ext t = Unix t * Second" "x_jwt_sign demo_ext = demo_sign"
  "x_unicode_lower demo_ext s = s" "x_pg_lower demo_ext s = s"
  by (simp_all add: demo_ext_def)

section \<open>A service and a world\<close>

definition demo_config :: Config where
  "demo_config =
     load_config (\<lambda>s. s) (\<lambda>k. if k = ''JWT_SECRET'' then replicate 32 (CHR ''a'')
       else if k = ''REFRESH_SECRET'' then replicate 32 (CHR ''b'')
       else if k = ''DATABASE_URL'' then ''postgres://db'' else if k = ''REDIS_URL'' then ''redis://cache''
       else [])"

definition demo_service :: authService where
  "demo_service =
     \<lparr>asHasher = \<lparr>bhCost = 12, bhDummyHash = ''dummy''\<rparr>,
      asTokens = \<lparr>jmAccessSecret = ''access-key'', jmRefreshSecret = ''refresh-key'',
                  jmAccessTTL = 15 * Minute, jmRefreshTTL = 720 * Hour, jmIssuer = ''backend-api''\<rparr>,
      asSessions = \<lparr>ssRefreshTTL = 720 * Hour\<rparr>,
      asCfg = demo_config\<rparr>"

definition demo_user :: dbUser where
  "demo_user =
     \<lparr>duID = 7, duEmail = ''ada@example.com'', duPasswordHash = Some ''correct horse'',
      duFullName = ''Ada'', duRole = ''user'', duAvatarUrl = None, duIsActive = True,
      duEmailVerifiedAt = Some 0, duLastLoginAt = None, duCreatedAt = 0, duUpdatedAt = 0\<rparr>"

definition demo_world :: world where
  "demo_world =
     \<lparr>w_db = empty_database\<lparr>tUsers := [demo_user]\<rparr>, w_redis = (\<lambda>_. None), w_files = (\<lambda>_. None),
      w_clock = 1700000000 * Second, w_txnow = None, w_rng = 100, w_sched = [], w_log = []\<rparr>"

lemma demo_world_fields [simp]:
  "w_redis demo_world k = None" "w_clock demo_world = 1700000000 * Second" "w_txnow demo_world = None"
  "w_rng demo_world = 100" "w_sched demo_world = []" "w_log demo_world = []"
  "w_db demo_world = empty_database\<lparr>tUsers := [demo_user]\<rparr>" "calm demo_world"
  by (simp_all add: demo_world_def calm_def)

lemma demo_world_ok: "world_ok demo_ext demo_world"
  by (simp add: world_ok_def db_ok_def table_defs empty_database_def demo_user_def user_check_def)

lemma demo_good_sessions: "good_sessions demo_ext (asSessions demo_service) demo_world"
  by (simp add: good_sessions_def demo_uuid_law sessions_ok_def demo_service_def Hour_def Minute_def Second_def)

lemma demo_sign_law: "sign_law demo_ext"
  by (simp add: sign_law_def demo_sign_def)

lemma demo_service_ok: "service_ok demo_ext demo_service"
  by (simp add: service_ok_def demo_uuid_law demo_jwt_law demo_sign_law demo_numeric_date_law
      demo_service_def Hour_def Minute_def Second_def)

lemma demo_ready: "ready demo_ext demo_service demo_world"
proof -
  have "Unix (1700000000 * Second + 720 * Hour) < 2 ^ 63"
    by (simp add: Unix_def Hour_def Minute_def Second_def)
  then show ?thesis
    using demo_good_sessions by (simp add: ready_def horizon_def demo_service_def Second_def)
qed

end
