(* ===== verification/AuthProps.thy ===== *)
theory AuthProps
  imports AuthSpec Demo
begin

text \<open>
  Properties of the authentication service. A statement without \<open>ready\<close> or \<open>calm\<close> holds for every
  schedule of outside calls, failing ones included.
\<close>

section \<open>Signing in\<close>

lemma Users_GetByEmail_Inr:
  assumes "Users_GetByEmail E m w = (Inr user, w')"
  shows "\<exists>u\<in>set (tUsers (w_db w)). citext_eq E (duEmail u) m \<and> user = toDomainUser u"
  using assms
  by (auto simp: Users_GetByEmail_def attempt_def run_stmt_def external_def GetUserByEmail_def query_def
      one_row_def go_run split: option.splits prod.splits sum.splits if_splits dest: find_SomeD)

lemma issueSession_user:
  assumes "issueSession E s u w = (Inr r, w')"
  shows "arUser r = u"
  using assms unfolding issueSession_def
  by (elim attempt_fail_InrE) (simp add: ret_def, metis AuthResult.select_convs(1))

text \<open>Users are found by their keys.\<close>

lemma find_user_id:
  assumes "world_ok E w" and "u \<in> set (tUsers (w_db w))"
  shows "find (\<lambda>v. duID v = duID u) (tUsers (w_db w)) = Some u"
  using find_distinct_key [of duID "tUsers (w_db w)" u] assms
  by (simp add: world_ok_def db_ok_def users_ok_def)

lemma find_user_email:
  assumes "world_ok E w" and "u \<in> set (tUsers (w_db w))" and "citext_eq E (duEmail u) m"
  shows "find (\<lambda>v. citext_eq E (duEmail v) m) (tUsers (w_db w)) = Some u"
proof -
  have "find (\<lambda>v. pg_lower E (duEmail v) = pg_lower E (duEmail u)) (tUsers (w_db w)) = Some u"
    using find_distinct_key [of "\<lambda>v. pg_lower E (duEmail v)" "tUsers (w_db w)" u] assms
    by (simp add: world_ok_def db_ok_def users_ok_def)
  then show ?thesis using assms(3) by (simp add: citext_eq_def)
qed

lemma toDomainUser_simps [simp]:
  "uID (toDomainUser u) = duID u" "uRole (toDomainUser u) = duRole u"
  "uIsActive (toDomainUser u) = duIsActive u" "uEmailVerifiedAt (toDomainUser u) = duEmailVerifiedAt u"
  "uPasswordHash (toDomainUser u) = COALESCE (duPasswordHash u) []"
  "uAvatarURL (toDomainUser u) = duAvatarUrl u" "uEmail (toDomainUser u) = duEmail u"
  by (simp_all add: toDomainUser_def COALESCE_def)

text \<open>
  Claim C1. Login only ever succeeds for an account of the database whose address equals the
  normalised input, which is active, has a verified address and a hash that the password matches;
  the account in the result is that one. No assumption is made on the outside calls.
\<close>

theorem Login_sound:
  assumes "Login E s inp w = (Inr r, w')"
  shows "\<exists>u\<in>set (tUsers (w_db w)).
     citext_eq E (duEmail u) (normalizeEmail E (liEmail inp)) \<and> duIsActive u \<and>
     duEmailVerifiedAt u \<noteq> None \<and>
     x_bcrypt_compare E (COALESCE (duPasswordHash u) []) (liPassword inp) = None \<and>
     arUser r = toDomainUser u"
proof -
  let ?m = "normalizeEmail E (liEmail inp)"
  from assms obtain user w1 where get: "Users_GetByEmail E ?m w = (Inr user, w1)"
    and rest: "(case Verify E (uPasswordHash user) (liPassword inp) of
        Some e \<Rightarrow>
          if Is e ErrPasswordMismatch
          then ignore (log_at LevelInfo ''failed login'' [(''user_id'', x_uuid_string E (uID user))])
                 (fail invalidCredentials)
          else fail (Internal e)
      | None \<Rightarrow>
          if \<not> uIsActive user then fail (Forbidden ''This account has been deactivated'')
          else if uEmailVerifiedAt user = None
          then fail (Forbidden ''Please verify your email before signing in'')
          else
            attempt (Users_TouchLastLogin E (uID user))
              (\<lambda>e. ignore (log_at LevelWarn ''could not update last login'' [(''error'', error_text e)])
                     (issueSession E s user))
              (\<lambda>_. issueSession E s user)) w1 = (Inr r, w')"
    unfolding Login_def Let_def
    by (elim attempt_InrE) (auto simp: ignore_run fail_run split: if_splits)
  then have checks: "x_bcrypt_compare E (uPasswordHash user) (liPassword inp) = None"
    "uIsActive user" "uEmailVerifiedAt user \<noteq> None"
    and "\<exists>v. issueSession E s user v = (Inr r, w')"
    by (auto simp: Verify_None ignore_run fail_run split: option.splits if_splits elim!: attempt_InrE)
  then have "arUser r = user" using issueSession_user by blast
  with checks Users_GetByEmail_Inr [OF get] show ?thesis
    by (auto simp: toDomainUser_def COALESCE_def)
qed

text \<open>The successful run, up to the session it issues.\<close>

definition logged_in_db :: "uuid \<Rightarrow> world \<Rightarrow> database" where
  "logged_in_db k w =
     (let t = NOW (tick (after w (w_db w))) in
      set_user k (touch_user t (\<lambda>u. u\<lparr>duLastLoginAt := Some t\<rparr>)) (w_db w))"

lemma Login_run:
  assumes "calm w" and "world_ok E w" and "u \<in> set (tUsers (w_db w))"
    and "citext_eq E (duEmail u) (normalizeEmail E (liEmail inp))"
    and "x_bcrypt_compare E (COALESCE (duPasswordHash u) []) (liPassword inp) = None"
    and "duIsActive u" and "duEmailVerifiedAt u \<noteq> None"
  shows "Login E s inp w =
     issueSession E s (toDomainUser u) (after (after w (w_db w)) (logged_in_db (duID u) w))"
  using assms find_user_email [OF assms(2,3,4)]
  by (auto simp: Login_def Let_def attempt_def repo_run Verify_def logged_in_db_def)

lemma demo_email: "normalizeEmail demo_ext '' Ada@Example.com'' = ''ada@example.com''"
proof -
  have "ToLower (\<lambda>s. s) (TrimSpace '' Ada@Example.com'') = ''ada@example.com''" by code_simp
  then show ?thesis by (simp add: normalizeEmail_def demo_ext_def)
qed

definition demo_login :: LoginInput where
  "demo_login = \<lparr>liEmail = '' Ada@Example.com'', liPassword = ''correct horse''\<rparr>"

lemma demo_user_in: "demo_user \<in> set (tUsers (w_db demo_world))"
  by simp

lemma demo_login_checks:
  "citext_eq demo_ext (duEmail demo_user) (normalizeEmail demo_ext (liEmail demo_login))"
  "x_bcrypt_compare demo_ext (COALESCE (duPasswordHash demo_user) []) (liPassword demo_login) = None"
  "duIsActive demo_user" "duEmailVerifiedAt demo_user \<noteq> None"
  by (simp_all add: demo_login_def demo_email citext_eq_def) (simp_all add: demo_user_def COALESCE_def)

lemma demo_login_returns: "\<exists>r w'. Login demo_ext demo_service demo_login demo_world = (Inr r, w')"
  using Login_run [OF _ demo_world_ok demo_user_in demo_login_checks, of demo_service]
    issueSession_spec [OF demo_service_ok]
    demo_ready by (metis demo_world_fields(8) ready_after)

lemma Login_sound_witness:
  "\<exists>r w'. Login demo_ext demo_service demo_login demo_world = (Inr r, w') \<and>
     (\<exists>u\<in>set (tUsers (w_db demo_world)). duIsActive u \<and> duEmailVerifiedAt u \<noteq> None \<and> arUser r = toDomainUser u)"
  using demo_login_returns Login_sound by blast

text \<open>
  Claim C13. In a world where no outside call fails, the right password of an active account with a
  verified address always signs in: the caller gets a pair of tokens for that account, the refresh
  token is live exactly until the expiry the pair names, no other session changes, and the sign-in
  is recorded on the account.
\<close>

theorem Login_complete:
  assumes "service_ok E s" and "ready E s w" and "world_ok E w" and "u \<in> set (tUsers (w_db w))"
    and "citext_eq E (duEmail u) (normalizeEmail E (liEmail inp))"
    and "x_bcrypt_compare E (COALESCE (duPasswordHash u) []) (liPassword inp) = None"
    and "duIsActive u" and "duEmailVerifiedAt u \<noteq> None"
  shows "\<exists>p w' t. Login E s inp w = (Inr \<lparr>arUser = toDomainUser u, arTokens = p\<rparr>, w') \<and> ready E s w' \<and>
     w_clock w \<le> t \<and> t \<le> w_clock w' \<and> pair_for E (asTokens s) (duID u) (duRole u) t p \<and>
     (\<exists>v\<in>set (tUsers (w_db w')). duID v = duID u \<and> duLastLoginAt v \<noteq> None) \<and>
     (\<forall>t\<ge>w_clock w'. \<forall>v k. live_in E w' t v k =
        (if v = duID u \<and> k = tpRefreshJTI p then Unix t < Unix (tpRefreshExpiresAt p)
         else live_in E w t v k))"
proof -
  let ?w = "after (after w (w_db w)) (logged_in_db (duID u) w)"
  obtain p w' where p: "issueSession E s (toDomainUser u) ?w = (Inr \<lparr>arUser = toDomainUser u, arTokens = p\<rparr>, w')"
    "ready E s w'" "w_db w' = logged_in_db (duID u) w" "w_clock ?w \<le> w_clock w'"
    "pair_for E (asTokens s) (duID u) (duRole u) (w_clock ?w) p"
    "\<forall>t\<ge>w_clock w'. \<forall>v k. live_in E w' t v k =
        (if v = duID u \<and> k = tpRefreshJTI p then Unix t < Unix (tpRefreshExpiresAt p) else live_in E ?w t v k)"
    using issueSession_spec [OF assms(1), of ?w "toDomainUser u"] assms(2) by auto
  have "w_clock w \<le> w_clock ?w"
    using tick_clock [of w] tick_clock [of "after w (w_db w)"] by simp
  moreover have "\<exists>v\<in>set (tUsers (logged_in_db (duID u) w)). duID v = duID u \<and> duLastLoginAt v \<noteq> None"
    unfolding logged_in_db_def Let_def
    by (rule bexI [OF _ set_user_mem [OF assms(4)]]) (simp add: touch_user_def)
  ultimately show ?thesis
    using p Login_run [OF ready_calm [OF assms(2)] assms(3-8), of s] by auto
qed

lemma Login_complete_witness:
  "\<exists>p w'. Login demo_ext demo_service demo_login demo_world
      = (Inr \<lparr>arUser = toDomainUser demo_user, arTokens = p\<rparr>, w')"
  using Login_complete [OF demo_service_ok demo_ready demo_world_ok demo_user_in demo_login_checks] by blast

text \<open>
  Claim C14. Login does not tell an unknown address from a wrong password: on the same input, the
  answer for an address without account and the answer for an account whose password does not
  match are the same error, and neither touches the database.
\<close>

theorem Login_no_enumeration:
  assumes "calm w" and "calm w'"
    and unknown: "\<not> (\<exists>u\<in>set (tUsers (w_db w)). citext_eq E (duEmail u) (normalizeEmail E (liEmail inp)))"
    and known: "world_ok E w'" "u \<in> set (tUsers (w_db w'))"
      "citext_eq E (duEmail u) (normalizeEmail E (liEmail inp))"
      "x_bcrypt_compare E (COALESCE (duPasswordHash u) []) (liPassword inp) = Some e" "Is e BcryptErrMismatch"
  shows "fst (Login E s inp w) = fst (Login E s inp w') \<and>
     w_db (snd (Login E s inp w)) = w_db w \<and> w_db (snd (Login E s inp w')) = w_db w'"
proof -
  have "find (\<lambda>u. citext_eq E (duEmail u) (normalizeEmail E (liEmail inp))) (tUsers (w_db w)) = None"
    using unknown by (auto simp: find_None_iff)
  then have "Login E s inp w = (Inl invalidCredentials, after w (w_db w))"
    using \<open>calm w\<close> by (simp add: Login_def Let_def attempt_def repo_run ignore_run DummyVerify_run fail_run)
  moreover have "\<exists>v. Login E s inp w' = (Inl invalidCredentials, v) \<and> w_db v = w_db w'"
    using find_user_email [OF known(1-3)] known(4,5) \<open>calm w'\<close>
    by (simp add: Login_def Let_def attempt_def repo_run Verify_def ignore_run log_at_run fail_run)
  ultimately show ?thesis by auto
qed

lemma Login_no_enumeration_witness:
  "fst (Login demo_ext demo_service (demo_login\<lparr>liPassword := ''guess''\<rparr>) (demo_world\<lparr>w_db := empty_database\<rparr>)) =
   fst (Login demo_ext demo_service (demo_login\<lparr>liPassword := ''guess''\<rparr>) demo_world)"
proof -
  have "x_bcrypt_compare demo_ext (COALESCE (duPasswordHash demo_user) []) ''guess'' = Some (Sentinel BcryptErrMismatch)"
    by (simp add: demo_user_def COALESCE_def)
  then show ?thesis
    using Login_no_enumeration [of "demo_world\<lparr>w_db := empty_database\<rparr>" demo_world demo_ext
        "demo_login\<lparr>liPassword := ''guess''\<rparr>" demo_user "Sentinel BcryptErrMismatch" demo_service]
      demo_world_ok demo_user_in demo_login_checks(1) by (simp add: empty_database_def)
qed

end
