(* ===== verification/SessionProps.thy ===== *)
theory SessionProps
  imports AuthProps
begin

text \<open>
  Properties of the life of a session: rotation of refresh tokens, the answer to a replayed one,
  sign-out, and the acceptance of access tokens.
\<close>

section \<open>Rotation\<close>

lemma ParseRefreshToken_run [go_run]:
  "ParseRefreshToken E m raw w = (jwt_parse E m raw (jmRefreshSecret m) TokenTypeRefresh (w_clock w), w)"
  by (auto simp: ParseRefreshToken_def attempt_def go_run of_result_def split: sum.split)

lemma ParseAccessToken_run [go_run]:
  "ParseAccessToken E m raw w = (jwt_parse E m raw (jmAccessSecret m) TokenTypeAccess (w_clock w), w)"
  by (auto simp: ParseAccessToken_def attempt_def go_run of_result_def split: sum.split)

text \<open>A refresh token that parses, with the account it names.\<close>

definition refresh_for :: "ext \<Rightarrow> authService \<Rightarrow> gotime \<Rightarrow> string \<Rightarrow> uuid \<Rightarrow> string \<Rightarrow> bool" where
  "refresh_for E s t raw user jti \<longleftrightarrow>
     (\<exists>c. jwt_parse E (asTokens s) raw (jmRefreshSecret (asTokens s)) TokenTypeRefresh t = Inr c \<and>
          Claims_UserID E c = Inr user \<and> clID c = jti)"

lemma Refresh_live_run:
  assumes ok: "service_ok E s" and ready: "ready E s w" and wok: "world_ok E w"
    and tok: "refresh_for E s (w_clock w) raw (duID u) jti"
    and live: "live_in E w (w_clock (tick w)) (duID u) jti"
    and u: "u \<in> set (tUsers (w_db w))" "duIsActive u"
    and fresh: "x_uuid_string E (x_uuid E (w_rng w + 2)) \<noteq> jti"
  shows "\<exists>p w' t. Refresh E s raw w = (Inr \<lparr>arUser = toDomainUser u, arTokens = p\<rparr>, w') \<and> ready E s w' \<and>
     w_db w' = w_db w \<and> w_clock w \<le> t \<and> t \<le> w_clock w' \<and>
     pair_for E (asTokens s) (duID u) (duRole u) t p \<and> tpRefreshJTI p \<noteq> jti \<and>
     (\<forall>t\<ge>w_clock w'. \<forall>v k. live_in E w' t v k =
        (if v = duID u \<and> k = jti then False
         else if v = duID u \<and> k = tpRefreshJTI p then Unix t < Unix (tpRefreshExpiresAt p)
         else live_in E w t v k))"
proof -
  obtain c where c: "jwt_parse E (asTokens s) raw (jmRefreshSecret (asTokens s)) TokenTypeRefresh (w_clock w) = Inr c"
    "Claims_UserID E c = Inr (duID u)" "clID c = jti"
    using tok unfolding refresh_for_def by blast
  define w1 where "w1 = after_redis w (w_redis w)"
  have a: "IsRefreshTokenActive E (duID u) jti w = (Inr True, w1)" "ready E s w1" "w_db w1 = w_db w"
    "w_clock w \<le> w_clock w1" "w_rng w1 = w_rng w" "live_in E w1 = live_in E w"
    using IsRefreshTokenActive_ready [OF ready, of "duID u" jti] live
    by (auto simp: w1_def live_in_def)
  define w2 where "w2 = after w1 (w_db w1)"
  have g: "Users_GetByID E (duID u) w1 = (Inr (toDomainUser u), w2)" "ready E s w2" "w_db w2 = w_db w"
    "w_clock w \<le> w_clock w2" "w_rng w2 = Suc (w_rng w)" "live_in E w2 = live_in E w"
    using find_user_id [OF wok u(1)] a tick_clock [of w1]
    by (auto simp: repo_run w2_def)
  obtain w3 where r: "RevokeRefreshToken E (duID u) jti w2 = (Inr (), w3)" "ready E s w3" "w_db w3 = w_db w"
    "w_clock w2 \<le> w_clock w3" "w_rng w3 = w_rng w2"
    "\<forall>t\<ge>w_clock w3. \<forall>v k. live_in E w3 t v k = (\<not> (v = duID u \<and> k = jti) \<and> live_in E w t v k)"
    using RevokeRefreshToken_ready [OF g(2), of "duID u" jti] g by auto
  obtain p w' where i: "issueSession E s (toDomainUser u) w3 = (Inr \<lparr>arUser = toDomainUser u, arTokens = p\<rparr>, w')"
    "ready E s w'" "w_db w' = w_db w" "w_clock w3 \<le> w_clock w'"
    "pair_for E (asTokens s) (duID u) (duRole u) (w_clock w3) p"
    "tpRefreshJTI p = x_uuid_string E (x_uuid E (Suc (w_rng w3)))"
    "\<forall>t\<ge>w_clock w'. \<forall>v k. live_in E w' t v k =
        (if v = duID u \<and> k = tpRefreshJTI p then Unix t < Unix (tpRefreshExpiresAt p)
         else live_in E w3 t v k)"
    using issueSession_spec [OF ok r(2), of "toDomainUser u"] r(3) by auto
  have "tpRefreshJTI p \<noteq> jti" using fresh i(6) r(5) g(5) by simp
  moreover have "Refresh E s raw w = (Inr \<lparr>arUser = toDomainUser u, arTokens = p\<rparr>, w')"
    using c a(1) g(1) r(1) i(1) u(2) by (simp add: Refresh_def attempt_def go_run of_result_def)
  ultimately show ?thesis
    using i r g by (intro exI [of _ p] exI [of _ w'] exI [of _ "w_clock w3"]) auto
qed

lemma Refresh_dead_run:
  assumes ready: "ready E s w" and tok: "refresh_for E s (w_clock w) raw user jti"
    and dead: "\<not> live_in E w (w_clock (tick w)) user jti"
  shows "\<exists>w' t. Refresh E s raw w = (Inl (Unauthorized ''Session expired, please sign in again''), w') \<and>
     ready E s w' \<and> w_db w' = w_db w \<and> w_clock w \<le> t \<and> t \<le> w_clock w' \<and>
     w_redis w' (revokedKey E user) = Some (epoch_entry (asSessions s) t (w_clock w')) \<and>
     (\<forall>t\<ge>w_clock w'. \<forall>v k. live_in E w' t v k = (v \<noteq> user \<and> live_in E w t v k))"
proof -
  obtain c where c: "jwt_parse E (asTokens s) raw (jmRefreshSecret (asTokens s)) TokenTypeRefresh (w_clock w) = Inr c"
    "Claims_UserID E c = Inr user" "clID c = jti"
    using tok unfolding refresh_for_def by blast
  obtain w1 where a: "IsRefreshTokenActive E user jti w = (Inr False, w1)" "ready E s w1" "w_db w1 = w_db w"
    "w_clock w \<le> w_clock w1" "\<forall>t\<ge>w_clock w1. \<forall>v k. live_in E w1 t v k = live_in E w t v k"
    using IsRefreshTokenActive_ready [OF ready, of user jti] dead by auto
  define w2 where "w2 = w1\<lparr>w_log := w_log w1 @
      [\<lparr>leLevel = LevelWarn, leMessage = ''refresh token reuse detected, revoking all sessions'',
        leAttrs = [(''user_id'', x_uuid_string E user), (''jti'', jti)]\<rparr>]\<rparr>"
  have r2: "ready E s w2" "w_db w2 = w_db w" "w_clock w2 = w_clock w1" "live_in E w2 = live_in E w1"
    using a by (simp_all add: w2_def)
  obtain w' where r: "RevokeAllSessions E (asSessions s) user w2 = (Inr (), w')" "ready E s w'" "w_db w' = w_db w"
    "w_clock w1 \<le> w_clock w'"
    "w_redis w' (revokedKey E user) = Some (epoch_entry (asSessions s) (w_clock w1) (w_clock w'))"
    "\<forall>t v k. live_in E w' t v k = (v \<noteq> user \<and> live_in E w1 t v k)"
    using RevokeAllSessions_ready [OF r2(1), of user] r2 by auto
  have "Refresh E s raw w = (Inl (Unauthorized ''Session expired, please sign in again''), w')"
    using c a(1) r(1) by (simp add: Refresh_def attempt_def go_run of_result_def ignore_def w2_def)
  then show ?thesis
    using r a by (intro exI [of _ w'] exI [of _ "w_clock w1"]) auto
qed

text \<open>
  Claim C15. Refresh rotates: a refresh token that parses, is registered and belongs to an active
  account is exchanged for a new pair; afterwards the presented token is retired, the new one is
  live until the expiry of the pair, and every other session of every user is as it was. The
  database is not touched. The last hypothesis says that the identifier drawn for the new refresh
  token is not the old one.
\<close>

theorem Refresh_rotates:
  assumes "service_ok E s" and "ready E s w" and "world_ok E w"
    and "refresh_for E s (w_clock w) raw (duID u) jti"
    and "live_in E w (w_clock (tick w)) (duID u) jti"
    and "u \<in> set (tUsers (w_db w))" and "duIsActive u"
    and "x_uuid_string E (x_uuid E (w_rng w + 2)) \<noteq> jti"
  shows "\<exists>p w' t. Refresh E s raw w = (Inr \<lparr>arUser = toDomainUser u, arTokens = p\<rparr>, w') \<and>
     w_db w' = w_db w \<and> w_clock w \<le> t \<and> t \<le> w_clock w' \<and>
     pair_for E (asTokens s) (duID u) (duRole u) t p \<and>
     (\<forall>t\<ge>w_clock w'. \<forall>v k. live_in E w' t v k =
        (if v = duID u \<and> k = jti then False
         else if v = duID u \<and> k = tpRefreshJTI p then Unix t < Unix (tpRefreshExpiresAt p)
         else live_in E w t v k))"
  using Refresh_live_run [OF assms] by blast

text \<open>A demonstration world with one registered session.\<close>

definition demo_refresh :: string where
  "demo_refresh = put_text ''refresh-key'' (put_texts (claims_texts
     (claims_at demo_ext (asTokens demo_service) 7 ''user'' ''old'' TokenTypeRefresh
       (1700000000 * Second) (720 * Hour))) [])"

definition demo_session_world :: world where
  "demo_session_world = demo_world\<lparr>w_redis := [sessionsKey demo_ext 7 \<mapsto>
     \<lparr>reValue = RHash [(''old'', FormatInt 1700001000)], reExpires = Some (1700001000 * Second)\<rparr>]\<rparr>"

lemma demo_session_fields [simp]:
  "w_clock demo_session_world = 1700000000 * Second" "w_rng demo_session_world = 100"
  "w_sched demo_session_world = []" "w_db demo_session_world = empty_database\<lparr>tUsers := [demo_user]\<rparr>"
  "calm demo_session_world" "tick demo_session_world = demo_session_world"
  by (simp_all add: demo_session_world_def tick_idle)

lemma demo_session_ok: "world_ok demo_ext demo_session_world"
  using demo_world_ok by (simp add: world_ok_def)

lemma demo_session_good: "good_sessions demo_ext (asSessions demo_service) demo_session_world"
proof -
  have "key_ttl (asSessions demo_service) = 721 * Hour"
    by (simp add: key_ttl_def format_sec_def demo_service_def Hour_def Minute_def Second_def)
  then show ?thesis
    using demo_uuid_law
    by (auto simp: good_sessions_def sessions_ok_def demo_session_world_def hash_ok_def
        demo_service_def Hour_def Minute_def Second_def intro!: exI [of _ 1700001000])
qed

lemma demo_session_ready: "ready demo_ext demo_service demo_session_world"
  using demo_ready demo_session_good by (simp add: ready_def horizon_def)

lemma demo_refresh_for: "refresh_for demo_ext demo_service (1700000000 * Second) demo_refresh (duID demo_user) ''old''"
proof -
  let ?m = "asTokens demo_service" and ?t = "1700000000 * Second"
  let ?c = "claims_at demo_ext ?m 7 ''user'' ''old'' TokenTypeRefresh ?t (720 * Hour)"
  have "x_jwt_sign demo_ext (jmRefreshSecret ?m) ?c = Inr demo_refresh"
    by (simp add: demo_sign_def demo_service_def demo_refresh_def)
  moreover have "?t < Unix (?t + 720 * Hour) * Second"
    by (simp add: Unix_def Hour_def Minute_def Second_def)
  ultimately have "jwt_parse demo_ext ?m demo_refresh (jmRefreshSecret ?m) TokenTypeRefresh ?t = Inr ?c"
    by (intro jwt_parse_minted demo_jwt_law demo_uuid_law demo_numeric_date_law) (simp_all add: Role_Valid_def RoleUser_def RoleAdmin_def)
  moreover have "Claims_UserID demo_ext ?c = Inr (duID demo_user)"
    using demo_uuid_law [unfolded uuid_law_def, rule_format, of 7]
    by (simp add: Claims_UserID_def claims_at_def demo_user_def)
  ultimately show ?thesis unfolding refresh_for_def by (intro exI [of _ ?c]) (simp add: claims_at_def)
qed

lemma demo_session_live: "live_in demo_ext demo_session_world t (duID demo_user) ''old'' \<longleftrightarrow> Unix t < 1700001000"
  by (simp add: live_in_def live_session_def demo_session_world_def demo_user_def ParseInt_FormatInt)

lemma demo_user_in_session: "demo_user \<in> set (tUsers (w_db demo_session_world))"
  by simp

lemma demo_user_simps: "duIsActive demo_user" "duID demo_user = 7" "duRole demo_user = ''user''"
  by (simp_all add: demo_user_def)

lemma demo_session_now: "live_in demo_ext demo_session_world (w_clock (tick demo_session_world)) (duID demo_user) ''old''"
  unfolding demo_session_live by (simp add: Unix_def Second_def)

lemma demo_fresh: "x_uuid_string demo_ext (x_uuid demo_ext (w_rng demo_session_world + 2)) \<noteq> ''old''"
proof -
  have "show_nat 102 = ''102''" by code_simp
  then show ?thesis by simp
qed

lemma demo_refresh_now:
  "refresh_for demo_ext demo_service (w_clock demo_session_world) demo_refresh (duID demo_user) ''old''"
  using demo_refresh_for by simp

lemma Refresh_rotates_witness:
  "\<exists>p w'. Refresh demo_ext demo_service demo_refresh demo_session_world
       = (Inr \<lparr>arUser = toDomainUser demo_user, arTokens = p\<rparr>, w') \<and>
     (\<forall>t\<ge>w_clock w'. \<not> live_in demo_ext w' t (duID demo_user) ''old'')"
proof -
  note * = Refresh_rotates [OF demo_service_ok demo_session_ready demo_session_ok demo_refresh_now
      demo_session_now demo_user_in_session demo_user_simps(1) demo_fresh]
  show ?thesis using * by (elim exE conjE) (intro exI conjI, assumption, simp)
qed

text \<open>
  Claim C2. A refresh token works once: presenting it again after a successful refresh is answered
  with 401 and signs the user out everywhere, the session that the first use created included,
  while the sessions of the other users stay.
\<close>

theorem Refresh_replay:
  assumes "service_ok E s" and "ready E s w" and "world_ok E w"
    and "refresh_for E s (w_clock w) raw (duID u) jti"
    and "live_in E w (w_clock (tick w)) (duID u) jti"
    and "u \<in> set (tUsers (w_db w))" and "duIsActive u"
    and "x_uuid_string E (x_uuid E (w_rng w + 2)) \<noteq> jti"
    and first: "Refresh E s raw w = (r, w1)" and again: "refresh_for E s (w_clock w1) raw (duID u) jti"
  shows "\<exists>w2. Refresh E s raw w1 = (Inl (Unauthorized ''Session expired, please sign in again''), w2) \<and>
     w_db w2 = w_db w \<and>
     (\<forall>t\<ge>w_clock w2. \<forall>v k. live_in E w2 t v k = (v \<noteq> duID u \<and> live_in E w t v k))"
proof -
  have r1: "ready E s w1" "w_db w1 = w_db w"
    and live1: "\<forall>t\<ge>w_clock w1. \<forall>v k. v \<noteq> duID u \<longrightarrow> live_in E w1 t v k = live_in E w t v k"
    and dead: "\<forall>t\<ge>w_clock w1. \<not> live_in E w1 t (duID u) jti"
    using Refresh_live_run [OF assms(1-8)] first by auto
  obtain w2 where w2: "Refresh E s raw w1 = (Inl (Unauthorized ''Session expired, please sign in again''), w2)"
    "w_db w2 = w_db w1" "w_clock w1 \<le> w_clock w2"
    "\<forall>t\<ge>w_clock w2. \<forall>v k. live_in E w2 t v k = (v \<noteq> duID u \<and> live_in E w1 t v k)"
    using Refresh_dead_run [OF r1(1) again] dead tick_clock [of w1] by (meson order_trans)
  have "live_in E w2 t v k = (v \<noteq> duID u \<and> live_in E w t v k)" if "w_clock w2 \<le> t" for t v k
  proof -
    have "w_clock w1 \<le> t" using w2(3) that by simp
    then show ?thesis using w2(4) live1 that by auto
  qed
  with w2 r1 show ?thesis by auto
qed

text \<open>The demonstration run takes no time.\<close>

definition idle_at :: "gotime \<Rightarrow> world \<Rightarrow> bool" where
  "idle_at t w \<longleftrightarrow> w_sched w = [] \<and> w_clock w = t"

lemma idle_external [pres_intros]:
  assumes "pres (idle_at t) f"
  shows "pres (idle_at t) (external f)"
  using assms by (rule pres_external [rotated]) (simp add: idle_at_def tick_idle)

lemma idle_basic [pres_intros]:
  "pres (idle_at t) time_now" "pres (idle_at t) (uuid_NewString E)" "pres (idle_at t) (log_at l m as)"
  "pres (idle_at t) (redis c)" "pres (idle_at t) (run_stmt E q)" "pres (idle_at t) (of_result r)"
  by (auto simp: pres_def idle_at_def go_run redis_def external_def run_stmt_def tick_idle of_result_def
      split: option.split prod.split sum.split)

lemma idle_Refresh: "pres (idle_at t) (Refresh E s raw)"
  unfolding Refresh_def ParseRefreshToken_def IsRefreshTokenActive_def RevokeAllSessions_def
    RevokeRefreshToken_def Users_GetByID_def issueSession_def GenerateTokenPair_def StoreRefreshToken_def
  by (intro pres_intros)+

lemma Refresh_replay_witness:
  "\<exists>w2. Refresh demo_ext demo_service demo_refresh (snd (Refresh demo_ext demo_service demo_refresh demo_session_world))
     = (Inl (Unauthorized ''Session expired, please sign in again''), w2) \<and>
     (\<forall>t\<ge>w_clock w2. \<forall>k. \<not> live_in demo_ext w2 t (duID demo_user) k)"
proof -
  obtain r w1 where run: "Refresh demo_ext demo_service demo_refresh demo_session_world = (r, w1)" by fastforce
  have "idle_at (1700000000 * Second) w1"
    by (rule pres_run [OF idle_Refresh _ run]) (simp add: idle_at_def)
  then have again: "refresh_for demo_ext demo_service (w_clock w1) demo_refresh (duID demo_user) ''old''"
    using demo_refresh_for by (simp add: idle_at_def)
  note * = Refresh_replay [OF demo_service_ok demo_session_ready demo_session_ok demo_refresh_now
      demo_session_now demo_user_in_session demo_user_simps(1) demo_fresh run again]
  show ?thesis using * run by auto
qed

section \<open>Signing out\<close>

text \<open>The same state at a later instant, with nothing scheduled.\<close>

definition idle_until :: "gotime \<Rightarrow> world \<Rightarrow> world" where
  "idle_until t w = w\<lparr>w_clock := t, w_sched := []\<rparr>"

lemma idle_until_fields [simp]:
  "w_redis (idle_until t w) = w_redis w" "w_db (idle_until t w) = w_db w" "w_clock (idle_until t w) = t"
  "tick (idle_until t w) = idle_until t w" "calm (idle_until t w)" "live_in E (idle_until t w) = live_in E w"
  "blacklisted (idle_until t w) = blacklisted w" "revocation_epoch E (idle_until t w) = revocation_epoch E w"
  by (simp_all add: idle_until_def tick_idle calm_def live_in_def fun_eq_iff blacklisted_def revocation_epoch_def)

lemma good_idle_until: "good_sessions E s w \<Longrightarrow> w_clock w \<le> t \<Longrightarrow> good_sessions E s (idle_until t w)"
  by (auto simp: good_sessions_def intro: sessions_ok_later)

lemma access_at:
  assumes "good_sessions E s w" and "w_clock w \<le> t"
  shows "fst (IsAccessTokenValid E u jti iat (idle_until t w)) =
    Inr (\<not> blacklisted w t jti \<and> (case revocation_epoch E w t u of None \<Rightarrow> True | Some x \<Rightarrow> x < Unix iat))"
  using IsAccessTokenValid_run [OF good_idle_until [OF assms]] by simp

lemma ready_epoch:
  assumes "ready E s w" and "service_ok E s" and "w_redis v (revokedKey E u) = Some (epoch_entry (asSessions s) c0 c1)"
    and "w_clock w \<le> c0" and "c0 \<le> horizon w" and "t < c1 + jmRefreshTTL (asTokens s)"
  shows "revocation_epoch E v t u = Some (Unix c0 - 1)"
proof -
  have "0 \<le> jmRefreshTTL (asTokens s)" "ssRefreshTTL (asSessions s) = jmRefreshTTL (asTokens s)"
    using assms(2) by (auto simp: service_ok_def Second_def)
  moreover have "0 \<le> Unix c0"
    using assms(1,4) Unix_mono [of 0 c0] by (simp add: ready_def) (simp add: Unix_def)
  moreover have "Unix c0 < 2 ^ 63"
    using assms(1,5) Unix_mono [of c0 "horizon w + jmRefreshTTL (asTokens s)"] calculation(1)
    by (simp add: ready_def)
  ultimately show ?thesis
    using revocation_epoch_entry [OF assms(3), of t] assms(6) by simp
qed

text \<open>
  What LogoutAll does to the tokens of the user, to the second: access tokens are cut off by the
  second they were issued in, and those of the very second of the sign-out survive it.
\<close>

lemma LogoutAll_cutoff:
  assumes "service_ok E s" and "ready E s w"
  shows "\<exists>w'. LogoutAll E s u w = (Inr (), w') \<and> w_db w' = w_db w \<and>
     (\<forall>t v k. live_in E w' t v k = (v \<noteq> u \<and> live_in E w t v k)) \<and>
     (\<forall>t\<ge>w_clock w'. t < w_clock w' + jmRefreshTTL (asTokens s) \<longrightarrow>
        fst (IsAccessTokenValid E u jti iat (idle_until t w')) =
          Inr (\<not> blacklisted w t jti \<and> Unix (w_clock w) \<le> Unix iat))"
proof -
  obtain w1 where r: "RevokeAllSessions E (asSessions s) u w = (Inr (), w1)" "ready E s w1" "w_db w1 = w_db w"
    "w_redis w1 (revokedKey E u) = Some (epoch_entry (asSessions s) (w_clock w) (w_clock w1))"
    "\<forall>k. k \<noteq> sessionsKey E u \<longrightarrow> k \<noteq> revokedKey E u \<longrightarrow> w_redis w1 k = w_redis w k"
    "\<forall>t v k. live_in E w1 t v k = (v \<noteq> u \<and> live_in E w t v k)"
    using RevokeAllSessions_ready [OF assms(2), of u] by auto
  define w' where "w' = w1\<lparr>w_log := w_log w1 @ [\<lparr>leLevel = LevelInfo, leMessage = ''all sessions revoked'',
      leAttrs = [(''user_id'', x_uuid_string E u)]\<rparr>]\<rparr>"
  have w': "good_sessions E (asSessions s) w'" "w_redis w' = w_redis w1" "w_clock w' = w_clock w1"
    using r(2) by (simp_all add: w'_def ready_good)
  have "blacklisted w' t jti = blacklisted w t jti" for t
    using r(5) by (simp add: blacklisted_def live_entry_def w')
  moreover have "revocation_epoch E w' t u = Some (Unix (w_clock w) - 1)"
    if "t < w_clock w' + jmRefreshTTL (asTokens s)" for t
    using ready_epoch [OF assms(2,1) _ order_refl clock_le_horizon] r(4) that by (simp add: w')
  ultimately have "fst (IsAccessTokenValid E u jti iat (idle_until t w')) =
      Inr (\<not> blacklisted w t jti \<and> Unix (w_clock w) \<le> Unix iat)"
    if "w_clock w' \<le> t" "t < w_clock w' + jmRefreshTTL (asTokens s)" for t
    using access_at [OF w'(1) that(1)] that(2) by auto
  moreover have "LogoutAll E s u w = (Inr (), w')"
    using r(1) by (simp add: LogoutAll_def attempt_def ignore_run go_run w'_def)
  ultimately show ?thesis using r(3,6) by (intro exI [of _ w']) (simp add: w'_def)
qed

text \<open>
  Claim C16. LogoutAll drops every session of the user and no other, and for as long as a refresh token
  lives, the access tokens of that user that were issued in a second before that of the sign-out are
  refused, while those that are issued in a later second are accepted unless they are blacklisted.
\<close>

theorem LogoutAll_revokes:
  assumes "service_ok E s" and "ready E s w"
  shows "\<exists>w'. LogoutAll E s u w = (Inr (), w') \<and> w_db w' = w_db w \<and>
     (\<forall>t v k. live_in E w' t v k = (v \<noteq> u \<and> live_in E w t v k)) \<and>
     (\<forall>jti iat t. w_clock w' \<le> t \<and> t < w_clock w' + jmRefreshTTL (asTokens s) \<longrightarrow>
        (Unix iat < Unix (w_clock w) \<longrightarrow> fst (IsAccessTokenValid E u jti iat (idle_until t w')) = Inr False) \<and>
        (Unix (w_clock w) < Unix iat \<longrightarrow>
           fst (IsAccessTokenValid E u jti iat (idle_until t w')) = Inr (\<not> blacklisted w t jti)))"
proof -
  obtain w' where run: "LogoutAll E s u w = (Inr (), w')" using LogoutAll_cutoff [OF assms] by blast
  have "w_db w' = w_db w \<and> (\<forall>t v k. live_in E w' t v k = (v \<noteq> u \<and> live_in E w t v k)) \<and>
      (\<forall>t\<ge>w_clock w'. t < w_clock w' + jmRefreshTTL (asTokens s) \<longrightarrow>
        fst (IsAccessTokenValid E u jti iat (idle_until t w')) =
          Inr (\<not> blacklisted w t jti \<and> Unix (w_clock w) \<le> Unix iat))" for jti iat
    using LogoutAll_cutoff [OF assms, of u jti iat] run by simp
  then show ?thesis using run by (intro exI [of _ w']) (simp add: not_le)
qed

lemma LogoutAll_revokes_witness:
  "\<exists>w'. LogoutAll demo_ext demo_service (duID demo_user) demo_session_world = (Inr (), w') \<and>
     \<not> live_in demo_ext w' (1700000000 * Second) (duID demo_user) ''old''"
  using LogoutAll_revokes [OF demo_service_ok demo_session_ready, of "duID demo_user"] by blast

section \<open>What a pair of tokens is good for\<close>

lemma service_laws:
  assumes "service_ok E s"
  shows "uuid_law E" "jwt_law E" "sign_law E" "numeric_date_law E"
  using assms by (simp_all add: service_ok_def)

lemma jwt_parse_type:
  assumes "jwt_law E" and "x_jwt_sign E secret c = Inr raw" and "jwt_parse E m raw secret' want t = Inr c'"
  shows "c' = c \<and> clTokenType c = want"
  using assms unfolding jwt_parse_Inr jwt_law_def by fastforce

text \<open>What the claims of a minted token say.\<close>

definition minted_claims :: "ext \<Rightarrow> uuid \<Rightarrow> string \<Rightarrow> string \<Rightarrow> gotime \<Rightarrow> Claims \<Rightarrow> bool" where
  "minted_claims E user role jti t c \<longleftrightarrow> Claims_UserID E c = Inr user \<and> clRole c = role \<and> clID c = jti \<and>
     clIssuedAt c = Some (Unix t * Second)"

lemma minted_claims_at:
  "uuid_law E \<Longrightarrow> numeric_date_law E \<Longrightarrow> minted_claims E user role jti t (claims_at E m user role jti typ t ttl)"
  by (simp add: minted_claims_def claims_at_def Claims_UserID_def uuid_law_def numeric_date_law_def)

text \<open>
  Claim C28. Minting a pair succeeds for every role there is, and until they expire both tokens of the
  pair parse, each with the parser of its kind, to the user, the role, the identifier and the issue second
  they were minted with; neither of them is ever taken for the other kind, whatever the time and whatever
  the two secrets are.
\<close>

theorem minted_pair_roundtrip:
  assumes "service_ok E s" and "Role_Valid role"
  shows "\<exists>p w'. GenerateTokenPair E (asTokens s) user role w = (Inr p, w') \<and>
     (\<forall>v. w_clock w \<le> w_clock v \<and> w_clock v < Unix (tpExpiresAt p) * Second \<longrightarrow>
       (\<exists>c. ParseAccessToken E (asTokens s) (tpAccessToken p) v = (Inr c, v) \<and>
            minted_claims E user role (tpAccessJTI p) (w_clock w) c)) \<and>
     (\<forall>v. w_clock w \<le> w_clock v \<and> w_clock v < Unix (tpRefreshExpiresAt p) * Second \<longrightarrow>
       (\<exists>c. ParseRefreshToken E (asTokens s) (tpRefreshToken p) v = (Inr c, v) \<and>
            minted_claims E user role (tpRefreshJTI p) (w_clock w) c)) \<and>
     (\<forall>v c. fst (ParseRefreshToken E (asTokens s) (tpAccessToken p) v) \<noteq> Inr c) \<and>
     (\<forall>v c. fst (ParseAccessToken E (asTokens s) (tpRefreshToken p) v) \<noteq> Inr c) \<and>
     tpExpiresAt p = w_clock w + jmAccessTTL (asTokens s) \<and> tpRefreshExpiresAt p = w_clock w + jmRefreshTTL (asTokens s)"
proof -
  let ?m = "asTokens s" and ?t = "w_clock w"
  let ?i = "x_uuid_string E (x_uuid E (w_rng w))" and ?j = "x_uuid_string E (x_uuid E (Suc (w_rng w)))"
  let ?a = "claims_at E ?m user role ?i TokenTypeAccess ?t (jmAccessTTL ?m)"
  let ?r = "claims_at E ?m user role ?j TokenTypeRefresh ?t (jmRefreshTTL ?m)"
  note laws = service_laws [OF assms(1)]
  obtain acc rfr where signed: "x_jwt_sign E (jmAccessSecret ?m) ?a = Inr acc" "x_jwt_sign E (jmRefreshSecret ?m) ?r = Inr rfr"
    using laws(3) unfolding sign_law_def by metis
  have ids: "?i \<noteq> []" "?j \<noteq> []" using laws(1) by (simp_all add: uuid_law_def)
  note claims = minted_claims_at [OF laws(1,4)]
  have own: "\<exists>c. ParseAccessToken E ?m acc v = (Inr c, v) \<and> minted_claims E user role ?i ?t c"
    if "?t \<le> w_clock v" "w_clock v < Unix (?t + jmAccessTTL ?m) * Second" for v
    using jwt_parse_minted [OF laws(2,1,4) signed(1) assms(2) ids(1) that] claims by (auto simp: go_run)
  have own': "\<exists>c. ParseRefreshToken E ?m rfr v = (Inr c, v) \<and> minted_claims E user role ?j ?t c"
    if "?t \<le> w_clock v" "w_clock v < Unix (?t + jmRefreshTTL ?m) * Second" for v
    using jwt_parse_minted [OF laws(2,1,4) signed(2) assms(2) ids(2) that] claims by (auto simp: go_run)
  have "fst (ParseRefreshToken E ?m acc v) \<noteq> Inr c" "fst (ParseAccessToken E ?m rfr v) \<noteq> Inr c" for v c
    using jwt_parse_type [OF laws(2) signed(1), of ?m "jmRefreshSecret ?m" TokenTypeRefresh "w_clock v" c]
      jwt_parse_type [OF laws(2) signed(2), of ?m "jmAccessSecret ?m" TokenTypeAccess "w_clock v" c]
    by (auto simp: go_run claims_at_def TokenTypeAccess_def TokenTypeRefresh_def)
  then show ?thesis
    using own own' by (simp add: GenerateTokenPair_run [OF signed])
qed

definition demo_pair :: TokenPair where
  "demo_pair =
     \<lparr>tpAccessToken = put_text ''access-key'' (put_texts (claims_texts
        (claims_at demo_ext (asTokens demo_service) 7 ''user'' ''a'' TokenTypeAccess 0 (15 * Minute))) []),
      tpRefreshToken = put_text ''refresh-key'' (put_texts (claims_texts
        (claims_at demo_ext (asTokens demo_service) 7 ''user'' ''r'' TokenTypeRefresh 0 (720 * Hour))) []),
      tpTokenType = ''Bearer'', tpExpiresIn = 900, tpExpiresAt = 15 * Minute, tpAccessJTI = ''a'',
      tpRefreshJTI = ''r'', tpRefreshExpiresAt = 720 * Hour\<rparr>"

lemma minted_pair_roundtrip_witness:
  "\<exists>p w' c d. GenerateTokenPair demo_ext (asTokens demo_service) 7 ''user'' demo_world = (Inr p, w') \<and>
     ParseAccessToken demo_ext (asTokens demo_service) (tpAccessToken p) demo_world = (Inr c, demo_world) \<and>
     ParseRefreshToken demo_ext (asTokens demo_service) (tpRefreshToken p) demo_world = (Inr d, demo_world) \<and>
     Claims_UserID demo_ext c = Inr 7 \<and> Claims_UserID demo_ext d = Inr 7"
proof -
  have "Role_Valid ''user''" by (simp add: Role_Valid_def RoleUser_def RoleAdmin_def)
  from minted_pair_roundtrip [OF demo_service_ok this, of 7 demo_world] obtain p w' where
    p: "GenerateTokenPair demo_ext (asTokens demo_service) 7 ''user'' demo_world = (Inr p, w')"
      "tpExpiresAt p = w_clock demo_world + jmAccessTTL (asTokens demo_service)"
      "tpRefreshExpiresAt p = w_clock demo_world + jmRefreshTTL (asTokens demo_service)"
    and parse: "w_clock demo_world < Unix (tpExpiresAt p) * Second \<longrightarrow>
       (\<exists>c. ParseAccessToken demo_ext (asTokens demo_service) (tpAccessToken p) demo_world = (Inr c, demo_world) \<and>
            minted_claims demo_ext 7 ''user'' (tpAccessJTI p) (w_clock demo_world) c)"
      "w_clock demo_world < Unix (tpRefreshExpiresAt p) * Second \<longrightarrow>
       (\<exists>c. ParseRefreshToken demo_ext (asTokens demo_service) (tpRefreshToken p) demo_world = (Inr c, demo_world) \<and>
            minted_claims demo_ext 7 ''user'' (tpRefreshJTI p) (w_clock demo_world) c)"
    by blast
  have "w_clock demo_world < Unix (tpExpiresAt p) * Second" "w_clock demo_world < Unix (tpRefreshExpiresAt p) * Second"
    by (simp_all add: p(2,3) demo_world_def demo_service_def Unix_def Minute_def Hour_def Second_def)
  then show ?thesis using p(1) parse by (auto simp: minted_claims_def)
qed

lemma set_ttl_ge:
  assumes "0 < d"
  shows "\<exists>x. set_ttl d = Some x \<and> d - Millisecond < x"
proof -
  have "d - Millisecond < d div Millisecond * Millisecond"
    using div_mult_mod_eq [of d Millisecond] pos_mod_bound [of Millisecond d]
    by (simp add: Millisecond_def)
  then show ?thesis using assms by (simp add: set_ttl_def Millisecond_def)
qed

lemma BlacklistAccessToken_ready:
  assumes ready: "ready E s w" and "0 < d"
  shows "\<exists>w'. BlacklistAccessToken jti d w = (Inr (), w') \<and> ready E s w' \<and> w_db w' = w_db w \<and>
     w_clock w \<le> w_clock w' \<and> live_in E w' = live_in E w \<and>
     (\<forall>t. t < w_clock w + d - Millisecond \<longrightarrow> blacklisted w' t jti)"
proof -
  obtain x where x: "set_ttl d = Some x" "d - Millisecond < x" using set_ttl_ge [OF \<open>0 < d\<close>] by blast
  let ?st = "(w_redis w)(blacklistKey jti \<mapsto> \<lparr>reValue = RString ''1'', reExpires = Some (w_clock (tick w) + x)\<rparr>)"
  have run: "BlacklistAccessToken jti d w = (Inr (), after_redis w ?st)"
    using ready \<open>0 < d\<close> x(1) by (simp add: BlacklistAccessToken_def attempt_def redis_calm SET_def go_run)
  moreover have "good_sessions E (asSessions s) (after_redis w ?st)"
    using good_sessions_tick [OF ready_good [OF ready]] ready_good [OF ready]
    by (simp add: good_sessions_def sessions_ok_def)
  then have "ready E s (after_redis w ?st)" using ready tick_clock [of w] by (simp add: ready_def)
  moreover have "live_in E (after_redis w ?st) = live_in E w"
    by (simp add: live_in_def live_session_def fun_eq_iff)
  moreover have "blacklisted (after_redis w ?st) t jti" if "t < w_clock w + d - Millisecond" for t
    using that x(2) tick_clock [of w] by (simp add: blacklisted_def live_entry_def expired_def)
  ultimately show ?thesis using tick_clock [of w] by auto
qed

lemma revoke_presented_ready:
  assumes ready: "ready E s w" and tok: "refresh_for E s (w_clock w) (loRefreshToken inp) (loUserID inp) jti"
    and "loRefreshToken inp \<noteq> []"
  shows "\<exists>w'. revoke_presented E s inp w = (Inr (), w') \<and> ready E s w' \<and> w_db w' = w_db w \<and>
     w_clock w \<le> w_clock w' \<and>
     (\<forall>t\<ge>w_clock w'. \<forall>v k. live_in E w' t v k = (\<not> (v = loUserID inp \<and> k = jti) \<and> live_in E w t v k))"
proof -
  obtain c where c: "jwt_parse E (asTokens s) (loRefreshToken inp) (jmRefreshSecret (asTokens s)) TokenTypeRefresh (w_clock w) = Inr c"
    "Claims_UserID E c = Inr (loUserID inp)" "clID c = jti"
    using tok unfolding refresh_for_def by blast
  obtain w' where r: "RevokeRefreshToken E (loUserID inp) jti w = (Inr (), w')" "ready E s w'" "w_db w' = w_db w"
    "w_clock w \<le> w_clock w'"
    "\<forall>t\<ge>w_clock w'. \<forall>v k. live_in E w' t v k = (\<not> (v = loUserID inp \<and> k = jti) \<and> live_in E w t v k)"
    using RevokeRefreshToken_ready [OF ready, of "loUserID inp" jti] by blast
  then show ?thesis
    using c assms(3) by (intro exI [of _ w']) (simp add: revoke_presented_def attempt_def go_run)
qed

text \<open>
  Logout retires the presented refresh token of the caller and no other session, and
  blacklists the access token: until the millisecond before its expiry it is refused.
\<close>

lemma Logout_revokes:
  assumes ready: "ready E s w" and tok: "refresh_for E s (w_clock w) (loRefreshToken inp) (loUserID inp) jti"
    and "loRefreshToken inp \<noteq> []" and "loAccessJTI inp \<noteq> []"
  shows "\<exists>w'. Logout E s inp w = (Inr (), w') \<and> w_db w' = w_db w \<and>
     (\<forall>t\<ge>w_clock w'. \<forall>v k. live_in E w' t v k = (\<not> (v = loUserID inp \<and> k = jti) \<and> live_in E w t v k)) \<and>
     (\<forall>t\<ge>w_clock w'. t < loAccessExpiresAt inp - Millisecond \<longrightarrow>
        fst (IsAccessTokenValid E (loUserID inp) (loAccessJTI inp) iat (idle_until t w')) = Inr False)"
proof -
  obtain w1 where r: "revoke_presented E s inp w = (Inr (), w1)" "ready E s w1" "w_db w1 = w_db w"
    "\<forall>t\<ge>w_clock w1. \<forall>v k. live_in E w1 t v k = (\<not> (v = loUserID inp \<and> k = jti) \<and> live_in E w t v k)"
    using revoke_presented_ready [OF ready tok assms(3)] by blast
  let ?d = "loAccessExpiresAt inp - w_clock w1"
  have "\<exists>w2. BlacklistAccessToken (loAccessJTI inp) ?d w1 = (Inr (), w2) \<and> ready E s w2 \<and> w_db w2 = w_db w1 \<and>
     w_clock w1 \<le> w_clock w2 \<and> live_in E w2 = live_in E w1 \<and>
     (\<forall>t\<ge>w_clock w2. t < loAccessExpiresAt inp - Millisecond \<longrightarrow> blacklisted w2 t (loAccessJTI inp))"
  proof (cases "0 < ?d")
    case True
    then show ?thesis using BlacklistAccessToken_ready [OF r(2) True, of "loAccessJTI inp"] by auto
  next
    case False
    then show ?thesis
      using r(2) by (intro exI [of _ w1]) (simp add: BlacklistAccessToken_def go_run Millisecond_def)
  qed
  then obtain w2 where b: "BlacklistAccessToken (loAccessJTI inp) ?d w1 = (Inr (), w2)" "ready E s w2"
    "w_db w2 = w_db w1" "w_clock w1 \<le> w_clock w2" "live_in E w2 = live_in E w1"
    "\<forall>t\<ge>w_clock w2. t < loAccessExpiresAt inp - Millisecond \<longrightarrow> blacklisted w2 t (loAccessJTI inp)"
    by blast
  define w' where "w' = w2\<lparr>w_log := w_log w2 @ [\<lparr>leLevel = LevelInfo, leMessage = ''user logged out'',
      leAttrs = [(''user_id'', x_uuid_string E (loUserID inp))]\<rparr>]\<rparr>"
  have w': "good_sessions E (asSessions s) w'" "w_clock w' = w_clock w2" "w_db w' = w_db w"
    "live_in E w' = live_in E w1" "blacklisted w' = blacklisted w2"
    using b r(3) by (simp_all add: w'_def ready_good blacklisted_def fun_eq_iff)
  have "Logout E s inp w = (Inr (), w')"
    using r(1) b(1) assms(4) by (simp add: Logout_def attempt_def ignore_run go_run w'_def)
  moreover have "fst (IsAccessTokenValid E (loUserID inp) (loAccessJTI inp) iat (idle_until t w')) = Inr False"
    if "w_clock w' \<le> t" "t < loAccessExpiresAt inp - Millisecond" for t
    using access_at [OF w'(1) that(1)] b(6) that by (simp add: w')
  ultimately show ?thesis using r(4) b(4) w' by (intro exI [of _ w']) auto
qed

definition demo_logout :: LogoutInput where
  "demo_logout = \<lparr>loUserID = duID demo_user, loAccessJTI = ''a'', loAccessExpiresAt = 1700000900 * Second,
     loRefreshToken = demo_refresh\<rparr>"

lemma Logout_revokes_witness:
  "\<exists>w'. Logout demo_ext demo_service demo_logout demo_session_world = (Inr (), w') \<and>
     (\<forall>t\<ge>w_clock w'. \<not> live_in demo_ext w' t (duID demo_user) ''old'')"
proof -
  have "refresh_for demo_ext demo_service (w_clock demo_session_world) (loRefreshToken demo_logout)
      (loUserID demo_logout) ''old''"
    "loRefreshToken demo_logout \<noteq> []" "loAccessJTI demo_logout \<noteq> []" "loUserID demo_logout = duID demo_user"
    using demo_refresh_for by (simp_all add: demo_logout_def demo_refresh_def)
  then show ?thesis using Logout_revokes [OF demo_session_ready, of demo_logout "''old''"] by force
qed

end
