(* ===== verification/PasswordProps.thy ===== *)
theory PasswordProps
  imports SessionProps
begin

text \<open>
  Properties of the password and email flows: resetting and changing a password, verifying an
  address, registering.
\<close>

section \<open>Statements leave everything but the database alone\<close>

definition db_frame_of :: "world \<Rightarrow> world \<Rightarrow> bool" where
  "db_frame_of w v \<longleftrightarrow> (calm w \<longrightarrow> calm v) \<and> horizon v = horizon w \<and> w_clock w \<le> w_clock v \<and>
     w_redis v = w_redis w \<and> w_log v = w_log w \<and> w_files v = w_files w"

lemma db_frame_refl [simp]: "db_frame_of w w"
  by (simp add: db_frame_of_def)

lemma db_frame_tick: "db_frame_of w v \<Longrightarrow> db_frame_of w (tick v)"
  using tick_clock [of v] by (auto simp: db_frame_of_def)

lemma pres_db_external:
  assumes "pres (db_frame_of w) f"
  shows "pres (db_frame_of w) (external f)"
  by (rule pres_external [OF db_frame_tick assms])

lemma db_frame_modify:
  assumes "\<And>v. db_frame_of w v \<Longrightarrow> db_frame_of w (f v)"
  shows "pres (db_frame_of w) (modify f)"
  using assms by (simp add: pres_def modify_def)

lemma pres_db_frame [pres_intros]: "pres (db_frame_of w) (run_stmt E q)"
  unfolding run_stmt_def
  by (rule pres_db_external, rule presI) (simp add: db_frame_of_def split: prod.split)

lemma pres_db_frame_basic [pres_intros]:
  "pres (db_frame_of w) time_now" "pres (db_frame_of w) Begin" "pres (db_frame_of w) Commit"
  "pres (db_frame_of w) (bcrypt_GenerateFromPassword E c p)" "pres (db_frame_of w) (rand_Read E n)"
  "pres (db_frame_of w) (rollback d)" "pres (db_frame_of w) (rollback_open d)"
  unfolding Begin_def Commit_def rand_Read_def rollback_def rollback_open_def
  by (intro pres_intros pres_db_external db_frame_modify presI;
    simp add: time_now_run bcrypt_GenerateFromPassword_def db_frame_of_def go_run)+

lemma pres_db_frame_InTx [pres_intros]:
  "pres (db_frame_of w) fn \<Longrightarrow> pres (db_frame_of w) (InTx fn)"
  unfolding InTx_def by (intro pres_intros)

lemma db_frame_repositories [pres_intros]:
  "pres (db_frame_of w) (Users_GetByID E k)" "pres (db_frame_of w) (Users_GetByEmail E m)"
  "pres (db_frame_of w) (Users_EmailExists E m)" "pres (db_frame_of w) (Users_Create E inp)"
  "pres (db_frame_of w) (Users_UpdatePassword E k h)" "pres (db_frame_of w) (Users_MarkEmailVerified E k)"
  "pres (db_frame_of w) (PasswordResets_GetByTokenHash E h)" "pres (db_frame_of w) (PasswordResets_MarkUsed E k)"
  "pres (db_frame_of w) (PasswordResets_Create E k h x)" "pres (db_frame_of w) (PasswordResets_InvalidateForUser E k)"
  "pres (db_frame_of w) (EmailVerifications_GetByTokenHash E h)" "pres (db_frame_of w) (EmailVerifications_MarkUsed E k)"
  "pres (db_frame_of w) (EmailVerifications_Create E k h x)"
  "pres (db_frame_of w) (Hash E hs p)" "pres (db_frame_of w) (generateToken E)"
  unfolding Users_GetByID_def Users_GetByEmail_def Users_EmailExists_def Users_Create_def
    Users_UpdatePassword_def Users_MarkEmailVerified_def PasswordResets_GetByTokenHash_def
    PasswordResets_MarkUsed_def PasswordResets_Create_def PasswordResets_InvalidateForUser_def
    EmailVerifications_GetByTokenHash_def EmailVerifications_MarkUsed_def EmailVerifications_Create_def
    Hash_def generateToken_def
  by (intro pres_intros)+

lemma ready_db_frame:
  assumes "pres (db_frame_of w) m" and "m w = (r, v)" and "ready E s w"
  shows "ready E s v \<and> w_redis v = w_redis w \<and> w_clock w \<le> w_clock v \<and> w_log v = w_log w"
proof -
  have "db_frame_of w v" using pres_run [OF assms(1) db_frame_refl assms(2)] .
  then show ?thesis
    using assms(3) good_idle_until [of E "asSessions s" w "w_clock v"]
    by (simp add: ready_def db_frame_of_def good_sessions_def)
qed

text \<open>A committed transaction of a body that succeeds.\<close>

definition begun :: "world \<Rightarrow> world" where
  "begun w = (tick w)\<lparr>w_txnow := Some (w_clock (tick w))\<rparr>"

lemma begun_fields [simp]:
  "w_db (begun w) = w_db w" "w_redis (begun w) = w_redis w" "w_log (begun w) = w_log w"
  "calm w \<Longrightarrow> calm (begun w)" "ready E s w \<Longrightarrow> ready E s (begun w)"
  by (simp_all add: begun_def)

lemma WithTx_ready:
  assumes "ready E s w" and "pres (db_frame_of (begun w)) (fn TxStore)"
    and "fn TxStore (begun w) = (Inr a, v)"
  shows "\<exists>w'. WithTx PoolStore fn w = (Inr a, w') \<and> ready E s w' \<and> w_redis w' = w_redis w \<and>
     w_clock w \<le> w_clock w' \<and> w_db w' = w_db v \<and> w_log w' = w_log w"
proof -
  have b: "ready E s (begun w)" "w_redis (begun w) = w_redis w" "w_clock w \<le> w_clock (begun w)" "w_log (begun w) = w_log w"
    using assms(1) tick_clock [of w] by (simp_all add: begun_def)
  have v: "ready E s v" "w_redis v = w_redis w" "w_clock w \<le> w_clock v" "w_log v = w_log w"
    using ready_db_frame [OF assms(2,3) b(1)] b by auto
  have "InTx (fn TxStore) w = (Inr a, (tick v)\<lparr>w_txnow := None\<rparr>)"
    using assms v by (intro InTx_calm_ok) (auto simp: begun_def)
  then show ?thesis using v tick_clock [of v] by simp
qed

section \<open>Resetting a password\<close>

text \<open>The hasher of a service: its cost is in range, and bcrypt hashes what fits.\<close>

definition hasher_ok :: "ext \<Rightarrow> authService \<Rightarrow> bool" where
  "hasher_ok E s \<longleftrightarrow> bcrypt_law E \<and> MinCost \<le> bhCost (asHasher s) \<and> bhCost (asHasher s) \<le> MaxCost \<and>
     (\<forall>n cost plain. MinCost \<le> cost \<longrightarrow> cost \<le> MaxCost \<longrightarrow> length plain \<le> 72 \<longrightarrow>
        (\<exists>h. x_bcrypt_generate E n cost plain = Inr h))"

lemma Hash_ready:
  assumes "hasher_ok E s" and "length plain \<le> 72" and "ready E s w"
  shows "\<exists>h w'. Hash E (asHasher s) plain w = (Inr h, w') \<and> x_bcrypt_compare E h plain = None \<and>
     ready E s w' \<and> w_db w' = w_db w \<and> w_redis w' = w_redis w \<and> w_clock w' = w_clock w \<and> w_log w' = w_log w"
proof -
  obtain h where "x_bcrypt_generate E (w_rng w) (bhCost (asHasher s)) plain = Inr h"
    using assms(1,2) unfolding hasher_ok_def by blast
  then show ?thesis using Hash_run [OF assms(2)] assms by (auto simp: hasher_ok_def bcrypt_law_def)
qed

text \<open>The database after a reset: the token consumed, the hash replaced.\<close>

definition reset_db :: "gotime \<Rightarrow> SingleUseToken \<Rightarrow> string \<Rightarrow> database \<Rightarrow> database" where
  "reset_db n t h d =
     set_user (tkUserID t) (touch_user n (\<lambda>v. v\<lparr>duPasswordHash := Some h\<rparr>))
       (d\<lparr>tResets := consume (\<lambda>r. tkID r = tkID t) n (tResets d)\<rparr>)"

lemma reset_tx:
  assumes ready: "ready E s w" and t: "t \<in> set (tResets (w_db w))" "tkUsedAt t = None"
  shows "\<exists>w' n. WithTx PoolStore (\<lambda>tx. attempt (PasswordResets_MarkUsed E (tkID t)) fail (\<lambda>_.
         Users_UpdatePassword E (tkUserID t) h)) w = (Inr (), w') \<and> ready E s w' \<and> w_redis w' = w_redis w \<and>
     w_clock w \<le> w_clock w' \<and> w_db w' = reset_db n t h (w_db w) \<and> w_log w' = w_log w"
proof -
  let ?b = "begun w" and ?n = "pg_time (w_clock (tick w))"
  have now: "NOW (tick (begun w)) = ?n" "NOW (tick (after (begun w) d)) = ?n" for d
    by (simp_all add: begun_def NOW_def)
  have u: "\<exists>r\<in>set (tResets (w_db ?b)). tkID r = tkID t \<and> tkUsedAt r = None" using t by auto
  have c: "calm ?b" "calm (after ?b d)" for d using ready by simp_all
  have "attempt (PasswordResets_MarkUsed E (tkID t)) fail (\<lambda>_. Users_UpdatePassword E (tkUserID t) h) ?b =
    (Inr (), after (after ?b ((w_db w)\<lparr>tResets := consume (\<lambda>r. tkID r = tkID t) ?n (tResets (w_db w))\<rparr>))
       (reset_db ?n t h (w_db w)))"
    using u c by (simp add: attempt_def PasswordResets_MarkUsed_run Users_UpdatePassword_run Let_def now reset_db_def)
  moreover have "pres (db_frame_of ?b) (attempt (PasswordResets_MarkUsed E (tkID t)) fail (\<lambda>_. Users_UpdatePassword E (tkUserID t) h))"
    by (intro pres_intros)
  ultimately show ?thesis
    using WithTx_ready [OF ready, of "\<lambda>_. attempt (PasswordResets_MarkUsed E (tkID t)) fail (\<lambda>_. Users_UpdatePassword E (tkUserID t) h)"]
    by force
qed

lemma find_reset:
  assumes "world_ok E w" and "t \<in> set (tResets (w_db w))"
  shows "find (\<lambda>r. tkTokenHash r = tkTokenHash t) (tResets (w_db w)) = Some t"
  using find_distinct_key [of tkTokenHash "tResets (w_db w)" t] assms
  by (simp add: world_ok_def db_ok_def tokens_ok_def)

lemma ResetPassword_used:
  assumes "calm w" and "world_ok E w" and "t \<in> set (tResets (w_db w))" and "tkTokenHash t = hashToken token"
    and "tkUsedAt t \<noteq> None \<or> tkExpiresAt t \<le> w_clock (tick w)"
  shows "\<exists>w'. ResetPassword E s token p w = (Inl (BadRequest ''This reset link is invalid or has expired''), w') \<and>
     w_db w' = w_db w"
  using find_reset [OF assms(2,3)] assms(1,4,5)
  by (auto simp: ResetPassword_def Let_def attempt_def repo_run go_run PasswordResetToken_IsUsable_def)

lemma tkID_unique:
  assumes "world_ok E w" and "t \<in> set (tResets (w_db w))" and "r \<in> set (tResets (w_db w))" and "tkID r = tkID t"
  shows "r = t"
  using assms by (auto simp: world_ok_def db_ok_def tokens_ok_def distinct_map dest: inj_onD)

lemma consume_mem:
  assumes "t \<in> set ts" and "P t" and "tkUsedAt t = None"
  shows "use_token n t \<in> set (consume P n ts)"
  using assms by (auto simp: consume_def set_update_rows image_iff intro!: bexI [of _ t])

lemma ResetPassword_run:
  assumes ready: "ready E s w" and hasher: "hasher_ok E s" and wok: "world_ok E w"
    and t: "t \<in> set (tResets (w_db w))" "tkTokenHash t = hashToken token" "tkUsedAt t = None"
      "w_clock (tick w) < tkExpiresAt t"
    and p: "length p \<le> 72"
  shows "\<exists>h n w'. ResetPassword E s token p w = (Inr (), w') \<and> ready E s w' \<and>
     x_bcrypt_compare E h p = None \<and> w_db w' = reset_db n t h (w_db w) \<and>
     (\<forall>x v k. live_in E w' x v k = (v \<noteq> tkUserID t \<and> live_in E w x v k))"
proof -
  define w1 where "w1 = after w (w_db w)"
  have g: "PasswordResets_GetByTokenHash E (hashToken token) w = (Inr t, w1)"
    using find_reset [OF wok t(1)] t(2) ready by (simp add: repo_run w1_def)
  have u: "PasswordResetToken_IsUsable t (w_clock w1)"
    using t(3,4) by (simp add: PasswordResetToken_IsUsable_def w1_def)
  have r1: "ready E s w1" "w_db w1 = w_db w" "w_redis w1 = w_redis w" using ready by (simp_all add: w1_def)
  obtain h w2 where h: "Hash E (asHasher s) p w1 = (Inr h, w2)" "x_bcrypt_compare E h p = None"
    "ready E s w2" "w_db w2 = w_db w" "w_redis w2 = w_redis w"
    using Hash_ready [OF hasher p r1(1)] r1 by auto
  obtain w3 n where x: "WithTx PoolStore (\<lambda>tx. attempt (PasswordResets_MarkUsed E (tkID t)) fail (\<lambda>_.
         Users_UpdatePassword E (tkUserID t) h)) w2 = (Inr (), w3)" "ready E s w3" "w_redis w3 = w_redis w"
     "w_db w3 = reset_db n t h (w_db w)"
    using reset_tx [OF h(3), of t h] h(4,5) t(1,3) by auto
  obtain w4 where a: "RevokeAllSessions E (asSessions s) (tkUserID t) w3 = (Inr (), w4)" "ready E s w4"
    "w_db w4 = w_db w3" "\<forall>x v k. live_in E w4 x v k = (v \<noteq> tkUserID t \<and> live_in E w3 x v k)"
    using RevokeAllSessions_ready [OF x(2), of "tkUserID t"] by blast
  have l3: "live_in E w3 = live_in E w" using x(3) by (simp add: live_in_def)
  show ?thesis
    using g u h(1,2) x(1,4) a by (intro exI [of _ h] exI [of _ n] exI [of _ "snd (ResetPassword E s token p w)"])
      (simp add: ResetPassword_def Let_def attempt_def go_run ignore_run l3 del: WithTx.simps)
qed

text \<open>
  Claim C3. A usable reset link works, and once: the new password then matches the account, no
  other account changes, every session of the account is dropped and no other, and a second use of
  the link is refused without touching the database.
\<close>

theorem ResetPassword_once:
  assumes "ready E s w" and "hasher_ok E s" and wok: "world_ok E w"
    and t: "t \<in> set (tResets (w_db w))" "tkTokenHash t = hashToken token" "tkUsedAt t = None"
      "w_clock (tick w) < tkExpiresAt t"
    and "length p \<le> 72" and u: "u \<in> set (tUsers (w_db w))" "duID u = tkUserID t"
  shows "\<exists>w'. ResetPassword E s token p w = (Inr (), w') \<and> world_ok E w' \<and>
     (\<exists>v\<in>set (tUsers (w_db w')). duID v = duID u \<and> duEmail v = duEmail u \<and>
        x_bcrypt_compare E (COALESCE (duPasswordHash v) []) p = None) \<and>
     (\<forall>v\<in>set (tUsers (w_db w)). duID v \<noteq> duID u \<longrightarrow> v \<in> set (tUsers (w_db w'))) \<and>
     (\<forall>x v k. live_in E w' x v k = (v \<noteq> duID u \<and> live_in E w x v k)) \<and>
     (\<exists>w''. ResetPassword E s token q w' =
        (Inl (BadRequest ''This reset link is invalid or has expired''), w'') \<and> w_db w'' = w_db w')"
proof -
  obtain h n w' where r: "ResetPassword E s token p w = (Inr (), w')" "ready E s w'"
    "x_bcrypt_compare E h p = None" "w_db w' = reset_db n t h (w_db w)"
    "\<forall>x v k. live_in E w' x v k = (v \<noteq> tkUserID t \<and> live_in E w x v k)"
    using ResetPassword_run [OF assms(1-8)] by blast
  have ok: "world_ok E w'" using pres_run [OF consistent.auth_service_kept(8) wok r(1)] .
  define u' where "u' = touch_user n (\<lambda>v. v\<lparr>duPasswordHash := Some h\<rparr>) u"
  have "u' \<in> set (tUsers (w_db w'))"
    using set_user_mem [of u "(w_db w)\<lparr>tResets := consume (\<lambda>r. tkID r = tkID t) n (tResets (w_db w))\<rparr>"] u
    by (simp add: r(4) reset_db_def u'_def)
  moreover have "duID u' = duID u" "duEmail u' = duEmail u" "duPasswordHash u' = Some h"
    by (simp_all add: u'_def touch_user_def)
  moreover have "v \<in> set (tUsers (w_db w'))" if "v \<in> set (tUsers (w_db w))" "duID v \<noteq> duID u" for v
    using that u by (auto simp: r(4) reset_db_def set_user_def set_update_rows image_iff intro!: bexI [of _ v])
  moreover have "use_token n t \<in> set (tResets (w_db w'))"
    using consume_mem [OF t(1) _ t(3), of "\<lambda>r. tkID r = tkID t" n] by (simp add: r(4) reset_db_def)
  then have "\<exists>w''. ResetPassword E s token q w' =
        (Inl (BadRequest ''This reset link is invalid or has expired''), w'') \<and> w_db w'' = w_db w'"
    using ResetPassword_used [OF ready_calm [OF r(2)] ok, of "use_token n t" token] t(2) by simp
  ultimately show ?thesis
    using r ok u(2) by (rule_tac x = w' in exI, intro conjI bexI [of _ u']) (auto simp: COALESCE_def)
qed

text \<open>A demonstration world with one pending reset link.\<close>

definition demo_token :: SingleUseToken where
  "demo_token = new_token 3 7 (hashToken ''abc'') (1700003600 * Second) (1700000000 * Second)"

definition demo_reset_world :: world where
  "demo_reset_world = demo_session_world\<lparr>w_db := (empty_database\<lparr>tUsers := [demo_user], tResets := [demo_token]\<rparr>)\<rparr>"

lemma demo_reset_world_simps:
  "ready demo_ext demo_service demo_reset_world" "world_ok demo_ext demo_reset_world"
  "demo_token \<in> set (tResets (w_db demo_reset_world))" "demo_user \<in> set (tUsers (w_db demo_reset_world))"
  "duID demo_user = tkUserID demo_token" "tkUsedAt demo_token = None"
  "tkTokenHash demo_token = hashToken ''abc''" "w_clock (tick demo_reset_world) < tkExpiresAt demo_token"
proof -
  show "ready demo_ext demo_service demo_reset_world" using demo_session_ready by (simp add: demo_reset_world_def)
  show "world_ok demo_ext demo_reset_world"
    by (simp add: demo_reset_world_def world_ok_def db_ok_def table_defs empty_database_def demo_user_def
        user_check_def demo_token_def new_token_def user_ids_def)
  show "w_clock (tick demo_reset_world) < tkExpiresAt demo_token"
    by (simp add: demo_reset_world_def tick_idle demo_token_def new_token_def pg_time_def Second_def)
qed (simp_all add: demo_reset_world_def demo_token_def new_token_def demo_user_def)

lemma demo_hasher_ok: "hasher_ok demo_ext demo_service"
  by (simp add: hasher_ok_def demo_bcrypt_law demo_service_def MinCost_def MaxCost_def)

lemma ResetPassword_once_witness:
  "\<exists>w'. ResetPassword demo_ext demo_service ''abc'' ''brand new pass'' demo_reset_world = (Inr (), w') \<and>
     (\<exists>v\<in>set (tUsers (w_db w')). duID v = 7 \<and>
        x_bcrypt_compare demo_ext (COALESCE (duPasswordHash v) []) ''brand new pass'' = None)"
proof -
  have "length ''brand new pass'' \<le> 72" by simp
  note * = ResetPassword_once [OF demo_reset_world_simps(1) demo_hasher_ok demo_reset_world_simps(2,3,7,6,8)
      this demo_reset_world_simps(4,5)]
  show ?thesis using * demo_user_simps(2) by fastforce
qed

section \<open>Verifying an address\<close>

definition verify_db :: "gotime \<Rightarrow> SingleUseToken \<Rightarrow> database \<Rightarrow> database" where
  "verify_db n t d =
     set_user (tkUserID t) (touch_user n (\<lambda>v. v\<lparr>duEmailVerifiedAt := Some n\<rparr>))
       (d\<lparr>tVerifications := consume (\<lambda>r. tkID r = tkID t) n (tVerifications d)\<rparr>)"

lemma verify_tx:
  assumes ready: "ready E s w" and t: "t \<in> set (tVerifications (w_db w))" "tkUsedAt t = None"
  shows "\<exists>w' n. WithTx PoolStore (\<lambda>tx. attempt (EmailVerifications_MarkUsed E (tkID t)) fail (\<lambda>_.
         Users_MarkEmailVerified E (tkUserID t))) w = (Inr (), w') \<and> ready E s w' \<and> w_redis w' = w_redis w \<and>
     w_clock w \<le> w_clock w' \<and> w_db w' = verify_db n t (w_db w) \<and> w_log w' = w_log w"
proof -
  let ?b = "begun w" and ?n = "pg_time (w_clock (tick w))"
  have now: "NOW (tick (begun w)) = ?n" "NOW (tick (after (begun w) d)) = ?n" for d
    by (simp_all add: begun_def NOW_def)
  have u: "\<exists>r\<in>set (tVerifications (w_db ?b)). tkID r = tkID t \<and> tkUsedAt r = None" using t by auto
  have c: "calm ?b" "calm (after ?b d)" for d using ready by simp_all
  have "attempt (EmailVerifications_MarkUsed E (tkID t)) fail (\<lambda>_. Users_MarkEmailVerified E (tkUserID t)) ?b =
    (Inr (), after (after ?b ((w_db w)\<lparr>tVerifications := consume (\<lambda>r. tkID r = tkID t) ?n (tVerifications (w_db w))\<rparr>))
       (verify_db ?n t (w_db w)))"
    using u c by (simp add: attempt_def EmailVerifications_MarkUsed_run Users_MarkEmailVerified_run Let_def now verify_db_def)
  moreover have "pres (db_frame_of ?b) (attempt (EmailVerifications_MarkUsed E (tkID t)) fail (\<lambda>_. Users_MarkEmailVerified E (tkUserID t)))"
    by (intro pres_intros)
  ultimately show ?thesis
    using WithTx_ready [OF ready, of "\<lambda>_. attempt (EmailVerifications_MarkUsed E (tkID t)) fail (\<lambda>_. Users_MarkEmailVerified E (tkUserID t))"]
    by force
qed

lemma find_verification:
  assumes "world_ok E w" and "t \<in> set (tVerifications (w_db w))"
  shows "find (\<lambda>r. tkTokenHash r = tkTokenHash t) (tVerifications (w_db w)) = Some t"
  using find_distinct_key [of tkTokenHash "tVerifications (w_db w)" t] assms
  by (simp add: world_ok_def db_ok_def tokens_ok_def)

lemma VerifyEmail_run:
  assumes ready: "ready E s w" and wok: "world_ok E w"
    and t: "t \<in> set (tVerifications (w_db w))" "tkTokenHash t = hashToken token" "tkUsedAt t = None"
      "w_clock (tick w) < tkExpiresAt t"
  shows "\<exists>n w'. VerifyEmail E s token w = (Inr (), w') \<and> ready E s w' \<and> w_redis w' = w_redis w \<and>
     w_db w' = verify_db n t (w_db w)"
proof -
  define w1 where "w1 = after w (w_db w)"
  have g: "EmailVerifications_GetByTokenHash E (hashToken token) w = (Inr t, w1)"
    using find_verification [OF wok t(1)] t(2) ready by (simp add: repo_run w1_def)
  have u: "EmailVerificationToken_IsUsable t (w_clock w1)"
    using t(3,4) by (simp add: EmailVerificationToken_IsUsable_def w1_def)
  have r1: "ready E s w1" "w_db w1 = w_db w" "w_redis w1 = w_redis w" using ready by (simp_all add: w1_def)
  obtain w3 n where x: "WithTx PoolStore (\<lambda>tx. attempt (EmailVerifications_MarkUsed E (tkID t)) fail (\<lambda>_.
         Users_MarkEmailVerified E (tkUserID t))) w1 = (Inr (), w3)" "ready E s w3" "w_redis w3 = w_redis w"
     "w_db w3 = verify_db n t (w_db w)"
    using verify_tx [OF r1(1), of t] r1(2,3) t(1,3) by auto
  show ?thesis
    using g u x by (intro exI [of _ n] exI [of _ "snd (VerifyEmail E s token w)"])
      (simp add: VerifyEmail_def Let_def attempt_def go_run ignore_run del: WithTx.simps)
qed

lemma VerifyEmail_used:
  assumes "calm w" and "world_ok E w" and "t \<in> set (tVerifications (w_db w))" and "tkTokenHash t = hashToken token"
    and "tkUsedAt t \<noteq> None \<or> tkExpiresAt t \<le> w_clock (tick w)"
  shows "\<exists>w'. VerifyEmail E s token w = (Inl (BadRequest ''This verification link is invalid or has expired''), w') \<and>
     w_db w' = w_db w"
  using find_verification [OF assms(2,3)] assms(1,4,5)
  by (auto simp: VerifyEmail_def Let_def attempt_def repo_run go_run EmailVerificationToken_IsUsable_def)

lemma verify_db_user:
  assumes "u \<in> set (tUsers d)" and "duID u = tkUserID t"
  shows "u\<lparr>duEmailVerifiedAt := Some n, duUpdatedAt := n\<rparr> \<in> set (tUsers (verify_db n t d))"
  using set_user_mem [of u "d\<lparr>tVerifications := consume (\<lambda>r. tkID r = tkID t) n (tVerifications d)\<rparr>"
      "touch_user n (\<lambda>v. v\<lparr>duEmailVerifiedAt := Some n\<rparr>)"] assms
  by (simp add: verify_db_def touch_user_def)

text \<open>
  A usable verification link marks the address of its account as verified, changes no
  other account and no session, and works once: a second use is refused without touching the
  database.
\<close>

lemma VerifyEmail_once:
  assumes "ready E s w" and wok: "world_ok E w"
    and t: "t \<in> set (tVerifications (w_db w))" "tkTokenHash t = hashToken token" "tkUsedAt t = None"
      "w_clock (tick w) < tkExpiresAt t"
    and u: "u \<in> set (tUsers (w_db w))" "duID u = tkUserID t"
  shows "\<exists>w' n. VerifyEmail E s token w = (Inr (), w') \<and> world_ok E w' \<and> w_redis w' = w_redis w \<and>
     u\<lparr>duEmailVerifiedAt := Some n, duUpdatedAt := n\<rparr> \<in> set (tUsers (w_db w')) \<and>
     (\<forall>v\<in>set (tUsers (w_db w)). duID v \<noteq> duID u \<longrightarrow> v \<in> set (tUsers (w_db w'))) \<and>
     (\<exists>w''. VerifyEmail E s token w' =
        (Inl (BadRequest ''This verification link is invalid or has expired''), w'') \<and> w_db w'' = w_db w')"
proof -
  obtain n w' where r: "VerifyEmail E s token w = (Inr (), w')" "ready E s w'" "w_redis w' = w_redis w"
    "w_db w' = verify_db n t (w_db w)"
    using VerifyEmail_run [OF assms(1-6)] by blast
  have ok: "world_ok E w'" using pres_run [OF consistent.auth_service_kept(9) wok r(1)] .
  have "v \<in> set (tUsers (w_db w'))" if "v \<in> set (tUsers (w_db w))" "duID v \<noteq> duID u" for v
    using that u by (auto simp: r(4) verify_db_def set_user_def set_update_rows image_iff intro!: bexI [of _ v])
  moreover have "use_token n t \<in> set (tVerifications (w_db w'))"
    using consume_mem [OF t(1) _ t(3), of "\<lambda>r. tkID r = tkID t" n] by (simp add: r(4) verify_db_def)
  then have "\<exists>w''. VerifyEmail E s token w' =
        (Inl (BadRequest ''This verification link is invalid or has expired''), w'') \<and> w_db w'' = w_db w'"
    using VerifyEmail_used [OF ready_calm [OF r(2)] ok, of "use_token n t" token] t(2) by simp
  ultimately show ?thesis
    using r ok verify_db_user [OF u] by (rule_tac x = w' in exI, rule_tac x = n in exI) auto
qed

lemma VerifyEmail_once_witness:
  "\<exists>w' v. VerifyEmail demo_ext demo_service ''abc''
       (demo_reset_world\<lparr>w_db := (w_db demo_reset_world)\<lparr>tVerifications := [demo_token]\<rparr>\<rparr>) = (Inr (), w') \<and>
     v \<in> set (tUsers (w_db w')) \<and> duEmailVerifiedAt v \<noteq> None"
proof -
  let ?w = "demo_reset_world\<lparr>w_db := (w_db demo_reset_world)\<lparr>tVerifications := [demo_token]\<rparr>\<rparr>"
  have "world_ok demo_ext ?w"
    using demo_reset_world_simps(2) by (simp add: world_ok_def db_ok_def demo_reset_world_def tokens_ok_def
        user_ids_def word_ids_def)
  moreover have "ready demo_ext demo_service ?w" using demo_reset_world_simps(1) by simp
  moreover have "w_clock (tick ?w) < tkExpiresAt demo_token"
    using demo_reset_world_simps(8) by (simp add: demo_reset_world_def tick_idle)
  moreover have "demo_token \<in> set (tVerifications (w_db ?w))" "demo_user \<in> set (tUsers (w_db ?w))"
    using demo_reset_world_simps(4) by simp_all
  ultimately show ?thesis
    using VerifyEmail_once [of demo_ext demo_service ?w demo_token "''abc''" demo_user]
      demo_reset_world_simps(5-7) by fastforce
qed

section \<open>Changing a password\<close>

lemma ChangePassword_run:
  assumes ok: "service_ok E s" and ready: "ready E s w" and hasher: "hasher_ok E s" and wok: "world_ok E w"
    and u: "u \<in> set (tUsers (w_db w))"
    and cur: "x_bcrypt_compare E (COALESCE (duPasswordHash u) []) current = None" "current \<noteq> p"
    and p: "length p \<le> 72"
  shows "\<exists>h n q w' t0 c1 t1. ChangePassword E s (duID u) current p w = (Inr \<lparr>arUser = toDomainUser u, arTokens = q\<rparr>, w') \<and>
     ready E s w' \<and> x_bcrypt_compare E h p = None \<and>
     w_db w' = set_user (duID u) (touch_user n (\<lambda>v. v\<lparr>duPasswordHash := Some h\<rparr>)) (w_db w) \<and>
     w_clock w \<le> t0 \<and> t0 \<le> c1 \<and> c1 \<le> t1 \<and> t1 \<le> w_clock w' \<and> t0 \<le> horizon w \<and>
     pair_for E (asTokens s) (duID u) (duRole u) t1 q \<and>
     w_redis w' (revokedKey E (duID u)) = Some (epoch_entry (asSessions s) t0 c1) \<and>
     (\<forall>j. w_redis w' (blacklistKey j) = w_redis w (blacklistKey j)) \<and>
     (\<forall>t\<ge>w_clock w'. \<forall>v k. live_in E w' t v k =
        (if v = duID u then k = tpRefreshJTI q \<and> Unix t < Unix (tpRefreshExpiresAt q) else live_in E w t v k))"
proof -
  define w1 where "w1 = after w (w_db w)"
  have g: "Users_GetByID E (duID u) w = (Inr (toDomainUser u), w1)"
    using find_user_id [OF wok u] ready by (simp add: repo_run w1_def)
  have r1: "ready E s w1" "w_db w1 = w_db w" "w_redis w1 = w_redis w" "w_clock w \<le> w_clock w1"
    using ready tick_clock [of w] by (simp_all add: w1_def)
  obtain h w2 where h: "Hash E (asHasher s) p w1 = (Inr h, w2)" "x_bcrypt_compare E h p = None"
    "ready E s w2" "w_db w2 = w_db w" "w_redis w2 = w_redis w" "w_clock w2 = w_clock w1"
    using Hash_ready [OF hasher p r1(1)] r1 by auto
  define f where "f = touch_user (NOW (tick w2)) (\<lambda>v. v\<lparr>duPasswordHash := Some h\<rparr>)"
  define w3 where "w3 = after w2 (set_user (duID u) f (w_db w))"
  have x: "Users_UpdatePassword E (duID u) h w2 = (Inr (), w3)"
    using h(3,4) by (simp add: repo_run w3_def f_def)
  have r3: "ready E s w3" "w_redis w3 = w_redis w" "w_clock w \<le> w_clock w3" "live_in E w3 = live_in E w"
    using h(3,5,6) r1(4) tick_clock [of w2] by (simp_all add: w3_def live_in_def)
  have hz: "horizon w3 = horizon w"
  proof -
    have "db_frame_of w1 w2" using pres_run [OF db_frame_repositories(14) db_frame_refl h(1)] .
    then show ?thesis by (simp add: w3_def db_frame_of_def) (simp add: w1_def)
  qed
  obtain w4 where a: "RevokeAllSessions E (asSessions s) (duID u) w3 = (Inr (), w4)" "ready E s w4"
    "w_db w4 = w_db w3" "w_clock w3 \<le> w_clock w4"
    "w_redis w4 (revokedKey E (duID u)) = Some (epoch_entry (asSessions s) (w_clock w3) (w_clock w4))"
    "\<forall>k. k \<noteq> sessionsKey E (duID u) \<longrightarrow> k \<noteq> revokedKey E (duID u) \<longrightarrow> w_redis w4 k = w_redis w k"
    "\<forall>t v k. live_in E w4 t v k = (v \<noteq> duID u \<and> live_in E w t v k)"
    using RevokeAllSessions_ready [OF r3(1), of "duID u"] r3(2,4) by auto
  define w5 where "w5 = w4\<lparr>w_log := w_log w4 @ [\<lparr>leLevel = LevelInfo, leMessage = ''password changed'',
      leAttrs = [(''user_id'', x_uuid_string E (duID u))]\<rparr>]\<rparr>"
  have r5: "ready E s w5" "w_clock w5 = w_clock w4" "w_redis w5 = w_redis w4" "w_db w5 = w_db w3"
    "live_in E w5 = live_in E w4"
    using a by (simp_all add: w5_def)
  obtain q w6 where i: "issueSession E s (toDomainUser u) w5 = (Inr \<lparr>arUser = toDomainUser u, arTokens = q\<rparr>, w6)"
    "ready E s w6" "w_db w6 = w_db w3" "w_clock w4 \<le> w_clock w6"
    "pair_for E (asTokens s) (duID u) (duRole u) (w_clock w4) q"
    "\<forall>k. k \<noteq> sessionsKey E (duID u) \<longrightarrow> w_redis w6 k = w_redis w4 k"
    "\<forall>t\<ge>w_clock w6. \<forall>v k. live_in E w6 t v k =
        (if v = duID u \<and> k = tpRefreshJTI q then Unix t < Unix (tpRefreshExpiresAt q) else live_in E w4 t v k)"
    using issueSession_spec [OF ok r5(1), of "toDomainUser u"] r5 by auto
  have "Verify E (uPasswordHash (toDomainUser u)) current = None" using cur(1) by (simp add: Verify_None)
  then have "ChangePassword E s (duID u) current p w = (Inr \<lparr>arUser = toDomainUser u, arTokens = q\<rparr>, w6)"
    using g cur(2) h(1) x a(1) i(1) by (simp add: ChangePassword_def attempt_def ignore_run go_run w5_def)
  then show ?thesis
    using i a r3(3) h(2) hz clock_le_horizon [of w3]
    by (intro exI [of _ h] exI [of _ "NOW (tick w2)"] exI [of _ q] exI [of _ w6] exI [of _ "w_clock w3"]
        exI [of _ "w_clock w4"]) (auto simp: w3_def f_def)
qed

text \<open>
  Claim C34. A change of password with the right current one signs out every session of the account
  and signs the caller in again: afterwards the one live refresh token of the account is the new
  one, the new password matches, and the new access token is not caught by the revocation that the
  change itself wrote, for as long as a refresh token lives.
\<close>

theorem ChangePassword_keeps_caller:
  assumes ok: "service_ok E s" and ready: "ready E s w" and "hasher_ok E s" and wok: "world_ok E w"
    and u: "u \<in> set (tUsers (w_db w))"
    and "x_bcrypt_compare E (COALESCE (duPasswordHash u) []) current = None" and "current \<noteq> p"
    and "length p \<le> 72"
  shows "\<exists>q w'. ChangePassword E s (duID u) current p w = (Inr \<lparr>arUser = toDomainUser u, arTokens = q\<rparr>, w') \<and>
     (\<exists>v\<in>set (tUsers (w_db w')). duID v = duID u \<and>
        x_bcrypt_compare E (COALESCE (duPasswordHash v) []) p = None) \<and>
     (\<forall>t\<ge>w_clock w'. \<forall>v k. live_in E w' t v k =
        (if v = duID u then k = tpRefreshJTI q \<and> Unix t < Unix (tpRefreshExpiresAt q) else live_in E w t v k)) \<and>
     (\<exists>iat. pair_for E (asTokens s) (duID u) (duRole u) iat q \<and>
       (\<forall>t\<ge>w_clock w'. t < w_clock w + jmRefreshTTL (asTokens s) \<longrightarrow>
          fst (IsAccessTokenValid E (duID u) (tpAccessJTI q) (Unix iat * Second) (idle_until t w')) =
            Inr (\<not> blacklisted w t (tpAccessJTI q))))"
proof -
  obtain h n q w' t0 c1 t1 where r: "ChangePassword E s (duID u) current p w = (Inr \<lparr>arUser = toDomainUser u, arTokens = q\<rparr>, w')"
    "ready E s w'" "x_bcrypt_compare E h p = None"
    and db: "w_db w' = set_user (duID u) (touch_user n (\<lambda>v. v\<lparr>duPasswordHash := Some h\<rparr>)) (w_db w)"
    and t: "w_clock w \<le> t0" "t0 \<le> c1" "c1 \<le> t1" "t0 \<le> horizon w"
    and q: "pair_for E (asTokens s) (duID u) (duRole u) t1 q"
    and e: "w_redis w' (revokedKey E (duID u)) = Some (epoch_entry (asSessions s) t0 c1)"
    and b: "\<forall>j. w_redis w' (blacklistKey j) = w_redis w (blacklistKey j)"
    and live: "\<forall>t\<ge>w_clock w'. \<forall>v k. live_in E w' t v k =
        (if v = duID u then k = tpRefreshJTI q \<and> Unix t < Unix (tpRefreshExpiresAt q) else live_in E w t v k)"
    using ChangePassword_run [OF assms] by blast
  have "blacklisted w' x j = blacklisted w x j" for x j
    using b by (simp add: blacklisted_def live_entry_def)
  moreover have "Unix (Unix t1 * Second) = Unix t1" by (simp add: Unix_def Second_def)
  ultimately have "fst (IsAccessTokenValid E (duID u) (tpAccessJTI q) (Unix t1 * Second) (idle_until x w')) =
            Inr (\<not> blacklisted w x (tpAccessJTI q))"
    if "w_clock w' \<le> x" "x < w_clock w + jmRefreshTTL (asTokens s)" for x
    using access_at [OF ready_good [OF r(2)] that(1)] ready_epoch [OF ready ok e t(1,4), of x] that(2) t
      Unix_mono [of t0 t1] by simp
  moreover have "\<exists>v\<in>set (tUsers (w_db w')). duID v = duID u \<and>
        x_bcrypt_compare E (COALESCE (duPasswordHash v) []) p = None"
    unfolding db by (rule bexI [OF _ set_user_mem [OF u]]) (simp add: touch_user_def COALESCE_def r(3))
  ultimately show ?thesis using r(1) q live by blast
qed

lemma ChangePassword_keeps_caller_witness:
  "\<exists>q w'. ChangePassword demo_ext demo_service (duID demo_user) ''correct horse'' ''battery staple'' demo_session_world
      = (Inr \<lparr>arUser = toDomainUser demo_user, arTokens = q\<rparr>, w') \<and>
     (\<forall>t\<ge>w_clock w'. \<forall>k. live_in demo_ext w' t (duID demo_user) k \<longrightarrow> k = tpRefreshJTI q)"
proof -
  have "x_bcrypt_compare demo_ext (COALESCE (duPasswordHash demo_user) []) ''correct horse'' = None"
    "''correct horse'' \<noteq> ''battery staple''" "length ''battery staple'' \<le> 72"
    by (simp_all add: demo_user_def COALESCE_def)
  note * = ChangePassword_keeps_caller [OF demo_service_ok demo_session_ready demo_hasher_ok demo_session_ok
      demo_user_in_session this]
  show ?thesis using * by (elim exE conjE) (intro exI conjI, assumption, simp)
qed

end
