(* ===== verification/RegisterProps.thy ===== *)
theory RegisterProps
  imports PasswordProps
begin

text \<open>
  Properties of registration: what it creates, the way from a new account to the first sign-in, and
  what is left behind when it fails half-way.
\<close>

section \<open>What registration creates\<close>

definition registration :: "ext \<Rightarrow> RegisterInput \<Rightarrow> string \<Rightarrow> CreateUserInput" where
  "registration E inp h =
     \<lparr>cuEmail = normalizeEmail E (riEmail inp), cuPasswordHash = h, cuFullName = TrimSpace (riFullName inp),
      cuRole = RoleUser\<rparr>"

definition registered_user :: "ext \<Rightarrow> RegisterInput \<Rightarrow> string \<Rightarrow> gotime \<Rightarrow> uuid \<Rightarrow> dbUser" where
  "registered_user E inp h t i = new_user (registration E inp h) t i"

lemma registered_user_fields [simp]:
  "duEmail (registered_user E inp h t i) = normalizeEmail E (riEmail inp)"
  "duID (registered_user E inp h t i) = i" "duRole (registered_user E inp h t i) = RoleUser"
  "duPasswordHash (registered_user E inp h t i) = Some h" "duIsActive (registered_user E inp h t i)"
  "duEmailVerifiedAt (registered_user E inp h t i) = None" "user_check (registered_user E inp h t i)"
  by (simp_all add: registered_user_def registration_def new_user_def user_check_def RoleUser_def)

lemma generateToken_run:
  assumes "calm w"
  shows "generateToken E w =
    (Inr (token_at E (w_rng w), hashToken (token_at E (w_rng w))), (tick w)\<lparr>w_rng := Suc (w_rng w)\<rparr>)"
  using assms
  by (simp add: generateToken_def attempt_def rand_Read_def external_calm Let_def go_run token_at_def)

text \<open>The identifiers and the token that a registration starting here will draw are new.\<close>

definition fresh_for_register :: "ext \<Rightarrow> world \<Rightarrow> bool" where
  "fresh_for_register E w \<longleftrightarrow>
     (\<forall>v\<in>set (tUsers (w_db w)). duID v \<noteq> x_uuid E (w_rng w + 2)) \<and>
     (\<forall>t\<in>set (tVerifications (w_db w)). tkID t \<noteq> x_uuid E (w_rng w + 4) \<and>
        tkTokenHash t \<noteq> hashToken (token_at E (w_rng w + 3)))"

lemma Register_run:
  assumes ready: "ready E s w" and hasher: "hasher_ok E s"
    and new: "\<forall>v\<in>set (tUsers (w_db w)). \<not> citext_eq E (duEmail v) (normalizeEmail E (riEmail inp))"
    and fresh: "fresh_for_register E w" and p: "length (riPassword inp) \<le> 72"
  shows "\<exists>h n k t w'. let u = registered_user E inp h n (x_uuid E (w_rng w + 2));
      r = new_token (x_uuid E (w_rng w + 4)) (duID u) (hashToken (token_at E (w_rng w + 3)))
            (t + auEmailVerificationExpiry (cfAuth (asCfg s))) k in
     Register E s inp w = (Inr (toDomainUser u), w') \<and> ready E s w' \<and> horizon w' = horizon w \<and>
     w_clock w \<le> t \<and> x_bcrypt_compare E h (riPassword inp) = None \<and> w_redis w' = w_redis w \<and>
     w_db w' = (w_db w)\<lparr>tUsers := tUsers (w_db w) @ [u], tVerifications := tVerifications (w_db w) @ [r]\<rparr> \<and>
     (\<exists>l\<in>set (w_log w'). leAttrs l = [(''verify_url'', buildVerifyURL s (token_at E (w_rng w + 3)))])"
proof -
  let ?m = "normalizeEmail E (riEmail inp)"
  define w1 where "w1 = after w (w_db w)"
  have e: "Users_EmailExists E ?m w = (Inr False, w1)"
    using new ready by (simp add: repo_run w1_def list_ex_iff)
  have r1: "ready E s w1" "w_db w1 = w_db w" "w_redis w1 = w_redis w" "w_rng w1 = w_rng w + 1"
      "w_clock w \<le> w_clock w1" "horizon w1 = horizon w"
    using ready tick_clock [of w] by (simp_all add: w1_def)
  have "\<exists>h. x_bcrypt_generate E (w_rng w1) (bhCost (asHasher s)) (riPassword inp) = Inr h"
    using hasher p by (simp add: hasher_ok_def)
  then obtain h where gen: "x_bcrypt_generate E (w_rng w1) (bhCost (asHasher s)) (riPassword inp) = Inr h" by blast
  define w2 where "w2 = w1\<lparr>w_rng := Suc (w_rng w1)\<rparr>"
  have h: "Hash E (asHasher s) (riPassword inp) w1 = (Inr h, w2)" "x_bcrypt_compare E h (riPassword inp) = None"
    using Hash_run [OF p gen] hasher gen by (auto simp: w2_def hasher_ok_def bcrypt_law_def)
  define u where "u = registered_user E inp h (NOW (tick w2)) (x_uuid E (w_rng w + 2))"
  define w3 where "w3 = after w2 ((w_db w)\<lparr>tUsers := tUsers (w_db w) @ [u]\<rparr>)"
  have u2: "new_user (registration E inp h) (NOW (tick w2)) (x_uuid E (w_rng w2)) = u"
    by (simp add: u_def registered_user_def w2_def r1)
  have "calm w2" "w_db w2 = w_db w" using r1 by (simp_all add: w2_def)
  moreover have "user_check u" "\<not> list_ex (\<lambda>v. duID v = duID u \<or> citext_eq E (duEmail v) (duEmail u)) (tUsers (w_db w))"
    using fresh new by (auto simp: u_def list_ex_iff fresh_for_register_def)
  ultimately have c: "Users_Create E (registration E inp h) w2 = (Inr (toDomainUser u), w3)"
    using u2 by (simp add: Users_Create_run w3_def)
  define w4 where "w4 = (tick w3)\<lparr>w_rng := Suc (w_rng w3)\<rparr>"
  have n3: "w_rng w3 = w_rng w + 3" "calm w3" using r1 by (simp_all add: w3_def w2_def)
  then have g: "generateToken E w3 = (Inr (token_at E (w_rng w + 3), hashToken (token_at E (w_rng w + 3))), w4)"
    by (simp add: generateToken_run w4_def)
  let ?x = "w_clock w4 + auEmailVerificationExpiry (cfAuth (asCfg s))"
  define r where "r = new_token (x_uuid E (w_rng w + 4)) (duID u) (hashToken (token_at E (w_rng w + 3))) ?x (NOW (tick w4))"
  define w5 where "w5 = after w4 ((w_db w)\<lparr>tUsers := tUsers (w_db w) @ [u], tVerifications := tVerifications (w_db w) @ [r]\<rparr>)"
  have w4: "w_rng w4 = w_rng w + 4" "calm w4" "w_db w4 = (w_db w)\<lparr>tUsers := tUsers (w_db w) @ [u]\<rparr>"
    using n3 by (simp_all add: w4_def w3_def)
  have v: "EmailVerifications_Create E (duID u) (hashToken (token_at E (w_rng w + 3))) ?x w4 = (Inr r, w5)"
    using fresh w4 by (auto simp: EmailVerifications_Create_run Let_def list_ex_iff fresh_for_register_def
        r_def [symmetric] w5_def) (auto simp: r_def new_token_def)
  define w' where "w' = snd (Register E s inp w)"
  have run: "Register E s inp w = (Inr (toDomainUser u), w')" and log: "w_log w' = w_log w @
      [\<lparr>leLevel = LevelDebug, leMessage = ''email verification link'', leAttrs = [(''verify_url'', buildVerifyURL s (token_at E (w_rng w + 3)))]\<rparr>,
       \<lparr>leLevel = LevelInfo, leMessage = ''user registered'', leAttrs = [(''user_id'', x_uuid_string E (duID u))]\<rparr>]"
    and w': "w_db w' = w_db w5" "w_redis w' = w_redis w5" "horizon w' = horizon w5" "ready E s w' = ready E s w5"
    using e h(1) c g v by (simp_all add: w'_def Register_def Let_def attempt_def go_run ignore_run
        registration_def w5_def w4_def w3_def w2_def w1_def)
  have r5: "ready E s w5" "horizon w5 = horizon w" "w_redis w5 = w_redis w" "w_clock w \<le> w_clock w4"
    using r1 tick_clock [of w2] tick_clock [of w3] by (simp_all add: w5_def w4_def w3_def w2_def)
  have "w_db w' = (w_db w)\<lparr>tUsers := tUsers (w_db w) @ [u], tVerifications := tVerifications (w_db w) @ [r]\<rparr>"
    "horizon w' = horizon w" "w_redis w' = w_redis w" "ready E s w'"
    using w' r5 by (simp_all add: w5_def)
  moreover have "\<exists>l\<in>set (w_log w'). leAttrs l = [(''verify_url'', buildVerifyURL s (token_at E (w_rng w + 3)))]"
    using log by simp
  ultimately show ?thesis
    unfolding Let_def using run r5(4) h(2)
    by - (rule exI [of _ h], rule exI [of _ "NOW (tick w2)"], rule exI [of _ "NOW (tick w4)"],
       rule exI [of _ "w_clock w4"], rule exI [of _ w'], unfold u_def [symmetric], unfold r_def [symmetric], blast)
qed

section \<open>From registration to the first sign-in\<close>

lemma citext_refl [simp]: "citext_eq E m m"
  by (simp add: citext_eq_def)

text \<open>
  Claim C36. A new account cannot sign in before its address is verified and can afterwards: the
  password given at registration is refused with 403 first; the token whose link was logged
  verifies the address; then the same password signs in, with the user role.
\<close>

theorem Register_verify_login:
  assumes ok: "service_ok E s" and ready: "ready E s w" and hasher: "hasher_ok E s" and wok: "world_ok E w"
    and new: "\<forall>v\<in>set (tUsers (w_db w)). \<not> citext_eq E (duEmail v) (normalizeEmail E (riEmail inp))"
    and fresh: "fresh_for_register E w" and p: "length (riPassword inp) \<le> 72"
    and life: "horizon w + 1000 \<le> w_clock w + auEmailVerificationExpiry (cfAuth (asCfg s))"
    and li: "li = \<lparr>liEmail = riEmail inp, liPassword = riPassword inp\<rparr>"
  shows "\<exists>user token w1. Register E s inp w = (Inr user, w1) \<and>
     (\<exists>l\<in>set (w_log w1). leAttrs l = [(''verify_url'', buildVerifyURL s token)]) \<and>
     (\<exists>w2. Login E s li w1 = (Inl (Forbidden ''Please verify your email before signing in''), w2)) \<and>
     (\<exists>w2. VerifyEmail E s token w1 = (Inr (), w2) \<and>
        (\<exists>r w3. Login E s li w2 = (Inr r, w3) \<and> uID (arUser r) = uID user \<and> uRole (arUser r) = RoleUser))"
proof -
  let ?m = "normalizeEmail E (riEmail inp)" and ?k = "token_at E (w_rng w + 3)"
  obtain h n k t w1 u r where u: "u = registered_user E inp h n (x_uuid E (w_rng w + 2))"
    and r: "r = new_token (x_uuid E (w_rng w + 4)) (duID u) (hashToken ?k)
            (t + auEmailVerificationExpiry (cfAuth (asCfg s))) k"
    and run: "Register E s inp w = (Inr (toDomainUser u), w1)" "ready E s w1" "horizon w1 = horizon w"
      "w_clock w \<le> t" "x_bcrypt_compare E h (riPassword inp) = None"
      "w_db w1 = (w_db w)\<lparr>tUsers := tUsers (w_db w) @ [u], tVerifications := tVerifications (w_db w) @ [r]\<rparr>"
      "\<exists>l\<in>set (w_log w1). leAttrs l = [(''verify_url'', buildVerifyURL s ?k)]"
    using Register_run [OF ready hasher new fresh p] unfolding Let_def by blast
  have ok1: "world_ok E w1" using pres_run [OF consistent.auth_service_kept(1) wok run(1)] .
  have mem: "u \<in> set (tUsers (w_db w1))" "r \<in> set (tVerifications (w_db w1))" using run(6) by simp_all
  have refused: "\<exists>w2. Login E s li w1 = (Inl (Forbidden ''Please verify your email before signing in''), w2)"
    using find_user_email [OF ok1 mem(1), of ?m] run(2,5)
    by (simp add: Login_def Let_def attempt_def repo_run Verify_def go_run li u COALESCE_def)
  have "w_clock (tick w1) \<le> horizon w" using clock_le_horizon [of "tick w1"] run(3) by simp
  then have "w_clock (tick w1) < tkExpiresAt r"
    using life run(4) pg_time_gt [of "t + auEmailVerificationExpiry (cfAuth (asCfg s))"] by (simp add: r new_token_def)
  moreover have "tkTokenHash r = hashToken ?k" "tkUsedAt r = None" "duID u = tkUserID r"
    by (simp_all add: r new_token_def)
  ultimately obtain x w2 where v: "VerifyEmail E s ?k w1 = (Inr (), w2)" "ready E s w2"
      "w_db w2 = verify_db x r (w_db w1)"
    using VerifyEmail_run [OF run(2) ok1 mem(2)] by blast
  have ok2: "world_ok E w2" using pres_run [OF consistent.auth_service_kept(9) ok1 v(1)] .
  let ?u = "u\<lparr>duEmailVerifiedAt := Some x, duUpdatedAt := x\<rparr>"
  have mem2: "?u \<in> set (tUsers (w_db w2))"
    using verify_db_user [OF mem(1), of r x] by (simp add: v(3) r new_token_def)
  have "Login E s li w2 = issueSession E s (toDomainUser ?u) (after (after w2 (w_db w2)) (logged_in_db (duID ?u) w2))"
    using run(5) by (intro Login_run [OF ready_calm [OF v(2)] ok2 mem2]) (simp_all add: li u COALESCE_def)
  then have "\<exists>q w3. Login E s li w2 = (Inr \<lparr>arUser = toDomainUser ?u, arTokens = q\<rparr>, w3)"
    using issueSession_spec [OF ok, of "after (after w2 (w_db w2)) (logged_in_db (duID ?u) w2)" "toDomainUser ?u"] v(2)
    by auto
  then show ?thesis using run(1,7) refused v(1) by (fastforce simp: u)
qed

definition demo_registration :: RegisterInput where
  "demo_registration = \<lparr>riEmail = ''bob@example.com'', riPassword = ''hunter2hunter2'', riFullName = '' Bob ''\<rparr>"

lemma demo_new_email:
  "\<forall>v\<in>set (tUsers (w_db demo_world)). \<not> citext_eq demo_ext (duEmail v) (normalizeEmail demo_ext (riEmail demo_registration))"
proof -
  have "ToLower (\<lambda>s. s) ''ada@example.com'' \<noteq> ToLower (\<lambda>s. s) (ToLower (\<lambda>s. s) (TrimSpace ''bob@example.com''))"
    by code_simp
  then show ?thesis
    by (simp add: demo_registration_def normalizeEmail_def citext_eq_def pg_lower_def demo_user_def demo_ext_def)
qed

lemma demo_fresh_register: "fresh_for_register demo_ext demo_world"
  by (simp add: fresh_for_register_def empty_database_def demo_user_def)

lemma demo_verification_expiry: "auEmailVerificationExpiry (cfAuth (asCfg demo_service)) = 24 * Hour"
proof -
  have "TrimSpace [] = []" by code_simp
  then show ?thesis by (simp add: demo_service_def demo_config_def load_config_def getDuration_def)
qed

lemma Register_verify_login_witness:
  "\<exists>user w1. Register demo_ext demo_service demo_registration demo_world = (Inr user, w1) \<and>
     (\<exists>token w2. VerifyEmail demo_ext demo_service token w1 = (Inr (), w2))"
proof -
  have "length (riPassword demo_registration) \<le> 72" by (simp add: demo_registration_def)
  moreover have "horizon demo_world + 1000 \<le> w_clock demo_world + auEmailVerificationExpiry (cfAuth (asCfg demo_service))"
    by (simp add: demo_verification_expiry horizon_def Hour_def Minute_def Second_def)
  ultimately show ?thesis
    using Register_verify_login [OF demo_service_ok demo_ready demo_hasher_ok demo_world_ok demo_new_email
        demo_fresh_register _ _ refl] by blast
qed

section \<open>A registration that fails half-way\<close>

text \<open>
  Claim C37. Registration is not atomic: when the insertion of the verification token (the
  fourth outside call) fails without effect, the caller gets an error but the account stays, without any verification
  token; registering again is refused because the address is taken, and the owner of the right
  password is told to verify an address for which no link exists.
\<close>

theorem Register_partial:
  assumes sched: "w_sched w = [(a, None), (b, None), (c, None), (d, Some x)]" and x: "\<not> took_effect x" and hasher: "hasher_ok E s"
    and wok: "world_ok E w"
    and new: "\<forall>v\<in>set (tUsers (w_db w)). \<not> citext_eq E (duEmail v) (normalizeEmail E (riEmail inp))"
    and fresh: "fresh_for_register E w" and p: "length (riPassword inp) \<le> 72"
    and own: "\<forall>t\<in>set (tVerifications (w_db w)). tkUserID t \<noteq> x_uuid E (w_rng w + 2)"
  shows "\<exists>e w1 u. Register E s inp w = (Inl e, w1) \<and> u \<in> set (tUsers (w_db w1)) \<and>
     duEmail u = normalizeEmail E (riEmail inp) \<and>
     (\<forall>t\<in>set (tVerifications (w_db w1)). tkUserID t \<noteq> duID u) \<and>
     (\<exists>w2. Register E s inp w1 = (Inl (Conflict ''An account with this email already exists''), w2)) \<and>
     (\<exists>w2. Login E s \<lparr>liEmail = riEmail inp, liPassword = riPassword inp\<rparr> w1 =
        (Inl (Forbidden ''Please verify your email before signing in''), w2))"
proof -
  let ?m = "normalizeEmail E (riEmail inp)"
  define w1 where "w1 = after w (w_db w)"
  have s1: "w_sched w1 = [(b, None), (c, None), (d, Some x)]" using sched by (simp add: w1_def tick_def)
  have e: "Users_EmailExists E ?m w = (Inr False, w1)"
    using new sched by (simp add: Users_EmailExists_def attempt_def run_stmt_def external_def pending_fault_def
        EmailExistsQuery_def query_def go_run w1_def after_def list_ex_iff)
  obtain h where gen: "x_bcrypt_generate E (w_rng w1) (bhCost (asHasher s)) (riPassword inp) = Inr h"
    using hasher p unfolding hasher_ok_def by blast
  define w2 where "w2 = w1\<lparr>w_rng := Suc (w_rng w1)\<rparr>"
  have h: "Hash E (asHasher s) (riPassword inp) w1 = (Inr h, w2)" "x_bcrypt_compare E h (riPassword inp) = None"
    using Hash_run [OF p gen] hasher gen by (auto simp: w2_def hasher_ok_def bcrypt_law_def)
  define u where "u = registered_user E inp h (NOW (tick w2)) (x_uuid E (w_rng w + 2))"
  define w3 where "w3 = after w2 ((w_db w)\<lparr>tUsers := tUsers (w_db w) @ [u]\<rparr>)"
  have u2: "new_user (registration E inp h) (NOW (tick w2)) (x_uuid E (w_rng w2)) = u"
    by (simp add: u_def registered_user_def w2_def w1_def)
  have s2: "w_sched w2 = [(b, None), (c, None), (d, Some x)]" "w_db w2 = w_db w"
    using s1 by (simp_all add: w2_def w1_def)
  have "user_check u" "\<not> list_ex (\<lambda>v. duID v = duID u \<or> citext_eq E (duEmail v) (duEmail u)) (tUsers (w_db w))"
    using fresh new by (auto simp: u_def list_ex_iff fresh_for_register_def)
  then have c: "Users_Create E (registration E inp h) w2 = (Inr (toDomainUser u), w3)"
    using u2 s2 by (simp add: Users_Create_def attempt_def run_stmt_def external_def pending_fault_def CreateUser_def
        insert_user_def Let_def new_user_def [symmetric] go_run w3_def after_def) 
  have s3: "w_sched w3 = [(c, None), (d, Some x)]" using s2 by (simp add: w3_def tick_def)
  define w4 where "w4 = (tick w3)\<lparr>w_rng := Suc (w_rng w3)\<rparr>"
  have g: "generateToken E w3 = (Inr (token_at E (w_rng w3), hashToken (token_at E (w_rng w3))), w4)"
    using s3 by (simp add: generateToken_def attempt_def rand_Read_def external_def pending_fault_def Let_def
        go_run token_at_def w4_def)
  have s4: "w_sched w4 = [(d, Some x)]" using s3 by (simp add: w4_def tick_def)
  let ?e = "internal_error ''create email verification token'' (fault_error x)"
  have v: "EmailVerifications_Create E (duID u) k y w4 = (Inl ?e, tick w4)" for k y
    using s4 x by (simp add: EmailVerifications_Create_def attempt_def run_stmt_def external_def pending_fault_def go_run)
  have run: "Register E s inp w = (Inl ?e, tick w4)"
    using e h(1) c g v by (simp add: Register_def Let_def attempt_def go_run registration_def)
  let ?w = "tick w4"
  have db: "w_db ?w = (w_db w)\<lparr>tUsers := tUsers (w_db w) @ [u]\<rparr>" by (simp add: w4_def w3_def)
  have calm: "calm ?w" using s4 by (simp add: calm_def tick_def)
  have mem: "u \<in> set (tUsers (w_db ?w))" unfolding db by simp
  have u: "duEmail u = ?m" by (simp add: u_def)
  have ok: "world_ok E ?w" using pres_run [OF consistent.auth_service_kept(1) wok run] .
  have "\<exists>w2. Register E s inp ?w = (Inl (Conflict ''An account with this email already exists''), w2)"
    using mem u calm by (auto simp: Register_def Let_def attempt_def repo_run go_run list_ex_iff)
  moreover have "\<exists>w2. Login E s \<lparr>liEmail = riEmail inp, liPassword = riPassword inp\<rparr> ?w =
        (Inl (Forbidden ''Please verify your email before signing in''), w2)"
    using find_user_email [OF ok mem, of ?m] calm h(2)
    by (simp add: Login_def Let_def attempt_def repo_run Verify_def go_run u_def COALESCE_def)
  moreover have "\<forall>t\<in>set (tVerifications (w_db ?w)). tkUserID t \<noteq> duID u"
    using own unfolding db by (simp add: u_def)
  ultimately show ?thesis using run mem u by blast
qed

lemma Register_partial_witness:
  "\<exists>e w1 w2. Register demo_ext demo_service demo_registration
       (demo_world\<lparr>w_sched := [(0, None), (0, None), (0, None), (0, Some Canceled)]\<rparr>) = (Inl e, w1) \<and>
     Register demo_ext demo_service demo_registration w1 =
       (Inl (Conflict ''An account with this email already exists''), w2)"
proof -
  let ?w = "demo_world\<lparr>w_sched := [(0, None), (0, None), (0, None), (0, Some Canceled)]\<rparr>"
  have "length (riPassword demo_registration) \<le> 72" by (simp add: demo_registration_def)
  moreover have "world_ok demo_ext ?w" using demo_world_ok by (simp add: world_ok_def)
  moreover have "fresh_for_register demo_ext ?w" using demo_fresh_register by (simp add: fresh_for_register_def)
  moreover have "\<forall>t\<in>set (tVerifications (w_db ?w)). tkUserID t \<noteq> x_uuid demo_ext (w_rng ?w + 2)"
    by (simp add: empty_database_def)
  moreover have "w_sched ?w = [(0, None), (0, None), (0, None), (0, Some Canceled)]" "\<not> took_effect Canceled" by simp_all
  moreover have "\<forall>v\<in>set (tUsers (w_db ?w)). \<not> citext_eq demo_ext (duEmail v) (normalizeEmail demo_ext (riEmail demo_registration))"
    using demo_new_email by simp
  ultimately show ?thesis
    using Register_partial [of ?w 0 0 0 0 Canceled demo_ext demo_service demo_registration] demo_hasher_ok by blast
qed

end
