(* ===== verification/Storage.thy ===== *)
theory Storage
  imports Repositories
begin

text \<open>
  \<open>app/lib/storage\<close>: keys, the local provider and the S3 provider, and the choice between them.
  \<open>w_files\<close> maps absolute paths to the contents of regular files, and object names of the form
  \<open>s3://bucket/key\<close> to stored objects. Directories exist as soon as they are needed; a call that
  fails for any other reason (permissions, a directory in the way, the network) is a fault of the
  schedule. A reader is the bytes it yields and the error it ends with, if any.
\<close>

type_synonym reader = "string \<times> goerr option"

record Object =
  obKey :: string
  obURL :: string
  obSize :: int
  obContentType :: string
  obUploadedAt :: gotime

section \<open>Keys (storage.go)\<close>

definition cleanPrefix :: "string \<Rightarrow> string" where
  "cleanPrefix pre = Trim (path_Clean (CHR ''/'' # pre)) (CHR ''/'')"

definition BuildKey :: "ext \<Rightarrow> string \<Rightarrow> string \<Rightarrow> string act" where
  "BuildKey E pre filename =
     (let suffix = ToLower (x_unicode_lower E) (path_Ext filename);
          suffix = (if length suffix > 10 then [] else suffix) in
      attempt (uuid_NewString E) fail (\<lambda>u.
        let name = u @ suffix in
        ret (if pre = [] then name else path_Join [cleanPrefix pre, name])))"

abbreviation backslash :: char where
  "backslash \<equiv> CHR 0x5C"

definition validateKey :: "ext \<Rightarrow> string \<Rightarrow> goerr option" where
  "validateKey E key =
     (if key = [] then Some (Opaque ''storage: empty key'')
      else if Contains key ''..'' \<or> HasPrefix key ''/'' \<or> Contains key [backslash]
      then Some (Opaque (''storage: invalid key '' @ Quote (x_unicode_quote E) key))
      else None)"

section \<open>System calls\<close>

definition os_MkdirAll :: "string \<Rightarrow> unit act" where
  "os_MkdirAll dir = external (ret ())"

text \<open>\<open>os.CreateTemp\<close> draws names until one is free, ten thousand times at most.\<close>

fun temp_name :: "ext \<Rightarrow> nat \<Rightarrow> string \<Rightarrow> string act" where
  "temp_name E 0 stem w = (Inl (Opaque (''createtemp '' @ stem @ '': file exists'')), w)"
| "temp_name E (Suc n) stem w =
     (let name = stem @ x_temp E (w_rng w); w' = w\<lparr>w_rng := Suc (w_rng w)\<rparr> in
      if w_files w name = None then (Inr name, w'\<lparr>w_files := (w_files w)(name \<mapsto> [])\<rparr>)
      else temp_name E n stem w')"

definition os_CreateTemp :: "ext \<Rightarrow> string \<Rightarrow> string \<Rightarrow> string act" where
  "os_CreateTemp E dir stem = external (temp_name E 10000 (path_Join [dir, stem]))"

text \<open>\<open>io.Copy\<close> writes what the reader yields and reports the reader's error.\<close>

definition os_Copy :: "string \<Rightarrow> reader \<Rightarrow> int act" where
  "os_Copy name r = external (\<lambda>w.
     (case snd r of None \<Rightarrow> Inr (int (length (fst r))) | Some e \<Rightarrow> Inl e,
      w\<lparr>w_files := (w_files w)(name \<mapsto> fst r)\<rparr>))"

definition os_Close :: "unit act" where
  "os_Close = external (ret ())"

text \<open>\<open>Remove\<close>, \<open>Open\<close> and \<open>Stat\<close> give \<open>None\<close> or \<open>False\<close> for \<open>os.IsNotExist\<close>.\<close>

definition os_Remove :: "string \<Rightarrow> bool act" where
  "os_Remove name = external (\<lambda>w. (Inr (w_files w name \<noteq> None), w\<lparr>w_files := (w_files w)(name := None)\<rparr>))"

definition os_Rename :: "string \<Rightarrow> string \<Rightarrow> unit act" where
  "os_Rename old new = external (modify (\<lambda>w.
     w\<lparr>w_files := (w_files w)(old := None, new := w_files w old)\<rparr>))"

definition os_Chmod :: "string \<Rightarrow> unit act" where
  "os_Chmod name = external (ret ())"

definition os_Open :: "string \<Rightarrow> string option act" where
  "os_Open name = external (gets (\<lambda>w. w_files w name))"

definition os_Stat :: "string \<Rightarrow> bool act" where
  "os_Stat name = external (gets (\<lambda>w. w_files w name \<noteq> None))"

section \<open>Local files (local.go)\<close>

record Local =
  loRoot :: string
  loBaseURL :: string

definition filepath_Abs :: "ext \<Rightarrow> string \<Rightarrow> string" where
  "filepath_Abs E p = (if is_rooted p then path_Clean p else path_Join [x_cwd E, p])"

definition NewLocal :: "ext \<Rightarrow> StorageConfig \<Rightarrow> Local act" where
  "NewLocal E cfg =
     (let root = filepath_Abs E (sgLocalPath cfg) in
      attempt (os_MkdirAll root) (\<lambda>e. fail (Wrapf ''storage: create local root: '' e '''')) (\<lambda>_.
      ignore (log_at LevelInfo ''using local object storage'' [(''root'', root)])
      (ret \<lparr>loRoot = root, loBaseURL = TrimRight (sgPublicBaseURL cfg) (CHR ''/'')\<rparr>)))"

definition Local_URL :: "Local \<Rightarrow> string \<Rightarrow> string" where
  "Local_URL l key = loBaseURL l @ ''/'' @ TrimPrefix key ''/''"

definition Local_Root :: "Local \<Rightarrow> string" where
  "Local_Root l = loRoot l"

definition Local_resolve :: "ext \<Rightarrow> Local \<Rightarrow> string \<Rightarrow> goerr + string" where
  "Local_resolve E l key =
     (case validateKey E key of
        Some e \<Rightarrow> Inl e
      | None \<Rightarrow>
          let fullPath = path_Join [loRoot l, key] in
          if \<not> HasPrefix fullPath (loRoot l @ ''/'')
          then Inl (Opaque (''storage: key escapes root: '' @ Quote (x_unicode_quote E) key))
          else Inr fullPath)"

text \<open>\<open>errors.Join\<close> of two results; the chain followed further is that of the first error.\<close>

definition errors_Join :: "goerr + 'a \<Rightarrow> goerr + 'b \<Rightarrow> goerr option" where
  "errors_Join a b =
     (case a of
        Inl e \<Rightarrow> (case b of Inl f \<Rightarrow> Some (Wrapf '''' e (CHR 0x0A # error_text f)) | Inr _ \<Rightarrow> Some e)
      | Inr _ \<Rightarrow> (case b of Inl f \<Rightarrow> Some f | Inr _ \<Rightarrow> None))"

text \<open>A call whose error is kept as a value.\<close>

definition outcome :: "'a act \<Rightarrow> (goerr + 'a) act" where
  "outcome m = attempt m (\<lambda>e. ret (Inl e)) (\<lambda>a. ret (Inr a))"

definition Local_Put :: "ext \<Rightarrow> Local \<Rightarrow> string \<Rightarrow> reader \<Rightarrow> int \<Rightarrow> string \<Rightarrow> Object act" where
  "Local_Put E l key r nbytes contentType =
     attempt (of_result (Local_resolve E l key)) fail (\<lambda>fullPath.
     attempt (os_MkdirAll (path_Dir fullPath)) (\<lambda>e. fail (Wrapf ''storage: create directory: '' e '''')) (\<lambda>_.
     attempt (os_CreateTemp E (path_Dir fullPath) ''.upload-'')
       (\<lambda>e. fail (Wrapf ''storage: create temp file: '' e '''')) (\<lambda>tmpName.
     attempt (outcome (os_Copy tmpName r)) fail (\<lambda>written.
     attempt (outcome os_Close) fail (\<lambda>closed.
     case errors_Join written closed of
       Some e \<Rightarrow> ignore (os_Remove tmpName) (fail (Wrapf ''storage: write object: '' e ''''))
     | None \<Rightarrow>
         attempt (os_Rename tmpName fullPath)
           (\<lambda>e. ignore (os_Remove tmpName) (fail (Wrapf ''storage: finalise object: '' e ''''))) (\<lambda>_.
         attempt (os_Chmod fullPath) (\<lambda>e. fail (Wrapf ''storage: set permissions: '' e '''')) (\<lambda>_.
         attempt time_now fail (\<lambda>t.
         ret \<lparr>obKey = key, obURL = Local_URL l key, obSize = (case written of Inl _ \<Rightarrow> 0 | Inr n \<Rightarrow> n),
              obContentType = contentType, obUploadedAt = t\<rparr>))))))))"

definition Local_Get :: "ext \<Rightarrow> Local \<Rightarrow> string \<Rightarrow> string act" where
  "Local_Get E l key =
     attempt (of_result (Local_resolve E l key)) fail (\<lambda>fullPath.
     attempt (os_Open fullPath) (\<lambda>e. fail (Wrapf ''storage: open object: '' e '''')) (\<lambda>file.
     case file of None \<Rightarrow> fail (Sentinel ErrObjectNotFound) | Some content \<Rightarrow> ret content))"

definition Local_Delete :: "ext \<Rightarrow> Local \<Rightarrow> string \<Rightarrow> unit act" where
  "Local_Delete E l key =
     attempt (of_result (Local_resolve E l key)) fail (\<lambda>fullPath.
     attempt (os_Remove fullPath) (\<lambda>e. fail (Wrapf ''storage: delete object: '' e '''')) (\<lambda>_. ret ()))"

definition Local_Exists :: "ext \<Rightarrow> Local \<Rightarrow> string \<Rightarrow> bool act" where
  "Local_Exists E l key =
     attempt (of_result (Local_resolve E l key)) fail (\<lambda>fullPath.
     attempt (os_Stat fullPath) (\<lambda>e. fail (Wrapf ''storage: stat object: '' e '''')) ret)"

section \<open>S3 (s3.go)\<close>

record S3 =
  s3Bucket :: string
  s3BaseURL :: string

text \<open>The client stores the object \<open>key\<close> of \<open>bucket\<close> under this name.\<close>

definition s3_name :: "string \<Rightarrow> string \<Rightarrow> string" where
  "s3_name bucket key = ''s3://'' @ bucket @ ''/'' @ key"

definition s3_Upload :: "string \<Rightarrow> string \<Rightarrow> reader \<Rightarrow> unit act" where
  "s3_Upload bucket key r = external (\<lambda>w.
     (case snd r of
        Some e \<Rightarrow> (Inl e, w)
      | None \<Rightarrow> (Inr (), w\<lparr>w_files := (w_files w)(s3_name bucket key \<mapsto> fst r)\<rparr>)))"

definition bool_text :: "bool \<Rightarrow> string" where
  "bool_text b = (if b then ''true'' else ''false'')"

definition NewS3 :: "StorageConfig \<Rightarrow> S3 act" where
  "NewS3 cfg =
     attempt (external (ret ())) (\<lambda>e. fail (Wrapf ''storage: load aws config: '' e '''')) (\<lambda>_ :: unit.
     let baseURL = (if sgPublicBaseURL cfg = [] \<and> sgS3Endpoint cfg \<noteq> []
                    then TrimRight (sgS3Endpoint cfg) (CHR ''/'') @ ''/'' @ sgS3Bucket cfg
                    else sgPublicBaseURL cfg) in
     ignore (log_at LevelInfo ''using s3 object storage''
       [(''bucket'', sgS3Bucket cfg), (''region'', sgS3Region cfg),
        (''path_style'', bool_text (sgS3UsePathStyle cfg))])
     (ret \<lparr>s3Bucket = sgS3Bucket cfg, s3BaseURL = TrimRight baseURL (CHR ''/'')\<rparr>))"

definition S3_URL :: "S3 \<Rightarrow> string \<Rightarrow> string" where
  "S3_URL s key = s3BaseURL s @ ''/'' @ TrimPrefix key ''/''"

definition S3_Put :: "ext \<Rightarrow> S3 \<Rightarrow> string \<Rightarrow> reader \<Rightarrow> int \<Rightarrow> string \<Rightarrow> Object act" where
  "S3_Put E s key r nbytes contentType =
     (case validateKey E key of
        Some e \<Rightarrow> fail e
      | None \<Rightarrow>
          attempt (s3_Upload (s3Bucket s) key r) (\<lambda>e. fail (Wrapf ''storage: upload object: '' e '''')) (\<lambda>_.
          ret \<lparr>obKey = key, obURL = S3_URL s key, obSize = nbytes, obContentType = contentType,
               obUploadedAt = zero_time\<rparr>))"

text \<open>\<open>NoSuchKey\<close> and \<open>NotFound\<close> are the absence of the object.\<close>

definition S3_Get :: "ext \<Rightarrow> S3 \<Rightarrow> string \<Rightarrow> string act" where
  "S3_Get E s key =
     (case validateKey E key of
        Some e \<Rightarrow> fail e
      | None \<Rightarrow>
          attempt (external (gets (\<lambda>w. w_files w (s3_name (s3Bucket s) key))))
            (\<lambda>e. fail (Wrapf ''storage: get object: '' e ''''))
            (\<lambda>object. case object of None \<Rightarrow> fail (Sentinel ErrObjectNotFound) | Some content \<Rightarrow> ret content))"

definition S3_Delete :: "ext \<Rightarrow> S3 \<Rightarrow> string \<Rightarrow> unit act" where
  "S3_Delete E s key =
     (case validateKey E key of
        Some e \<Rightarrow> fail e
      | None \<Rightarrow>
          attempt (external (modify (\<lambda>w. w\<lparr>w_files := (w_files w)(s3_name (s3Bucket s) key := None)\<rparr>)))
            (\<lambda>e. fail (Wrapf ''storage: delete object: '' e '''')) ret)"

definition S3_Exists :: "ext \<Rightarrow> S3 \<Rightarrow> string \<Rightarrow> bool act" where
  "S3_Exists E s key =
     (case validateKey E key of
        Some e \<Rightarrow> fail e
      | None \<Rightarrow>
          attempt (external (gets (\<lambda>w. w_files w (s3_name (s3Bucket s) key) \<noteq> None)))
            (\<lambda>e. fail (Wrapf ''storage: head object: '' e '''')) ret)"

section \<open>The configured provider\<close>

datatype Storage = LocalStorage Local | S3Storage S3

definition NewStorage :: "ext \<Rightarrow> StorageConfig \<Rightarrow> Storage act" where
  "NewStorage E cfg =
     (let provider = ToLower (x_unicode_lower E) (sgProvider cfg) in
      if provider = ''local'' then attempt (NewLocal E cfg) fail (\<lambda>l. ret (LocalStorage l))
      else if provider = ''s3'' then attempt (NewS3 cfg) fail (\<lambda>s. ret (S3Storage s))
      else fail (Opaque (''storage: unknown provider '' @ Quote (x_unicode_quote E) (sgProvider cfg))))"

fun Storage_Put :: "ext \<Rightarrow> Storage \<Rightarrow> string \<Rightarrow> reader \<Rightarrow> int \<Rightarrow> string \<Rightarrow> Object act" where
  "Storage_Put E (LocalStorage l) = Local_Put E l"
| "Storage_Put E (S3Storage s) = S3_Put E s"

fun Storage_Get :: "ext \<Rightarrow> Storage \<Rightarrow> string \<Rightarrow> string act" where
  "Storage_Get E (LocalStorage l) = Local_Get E l"
| "Storage_Get E (S3Storage s) = S3_Get E s"

fun Storage_Delete :: "ext \<Rightarrow> Storage \<Rightarrow> string \<Rightarrow> unit act" where
  "Storage_Delete E (LocalStorage l) = Local_Delete E l"
| "Storage_Delete E (S3Storage s) = S3_Delete E s"

fun Storage_Exists :: "ext \<Rightarrow> Storage \<Rightarrow> string \<Rightarrow> bool act" where
  "Storage_Exists E (LocalStorage l) = Local_Exists E l"
| "Storage_Exists E (S3Storage s) = S3_Exists E s"

fun Storage_URL :: "Storage \<Rightarrow> string \<Rightarrow> string" where
  "Storage_URL (LocalStorage l) = Local_URL l"
| "Storage_URL (S3Storage s) = S3_URL s"

end
