(* ===== verification/UserService.thy ===== *)
theory UserService
  imports AuthService Storage
begin

text \<open>
  \<open>app/services/user.go\<close>: user management by the owner of an account and by administrators, and
  the avatar upload that spans the database and the object store.
\<close>

record Actor =
  acID :: uuid
  acRole :: string

definition Actor_IsAdmin :: "Actor \<Rightarrow> bool" where
  "Actor_IsAdmin a \<longleftrightarrow> acRole a = RoleAdmin"

record UserCreateInput =
  ciEmail :: string
  ciPassword :: string
  ciFullName :: string
  ciRole :: string

record UserUpdateInput =
  upFullName :: "string option"
  upRole :: "string option"
  upIsActive :: "bool option"

record AvatarInput =
  avFilename :: string
  avContentType :: string
  avSize :: int
  avContent :: reader

record userService =
  usHasher :: BcryptHasher
  usSessions :: SessionStore
  usFiles :: Storage
  usCfg :: Config

definition NewUserService :: "BcryptHasher \<Rightarrow> SessionStore \<Rightarrow> Storage \<Rightarrow> Config \<Rightarrow> userService" where
  "NewUserService hasher sessions files cfg =
     \<lparr>usHasher = hasher, usSessions = sessions, usFiles = files, usCfg = cfg\<rparr>"

definition allowedAvatarTypes :: "string list" where
  "allowedAvatarTypes = [''image/jpeg'', ''image/png'', ''image/webp'', ''image/gif'']"

definition authorize :: "Actor \<Rightarrow> uuid \<Rightarrow> goerr option" where
  "authorize actor target =
     (if Actor_IsAdmin actor \<or> acID actor = target then None else Some (Forbidden []))"

definition keyFromURL :: "userService \<Rightarrow> string \<Rightarrow> string" where
  "keyFromURL s rawURL =
     (let base = TrimRight (sgPublicBaseURL (cfStorage (usCfg s))) (CHR ''/'') @ ''/'' in
      if \<not> HasPrefix rawURL base then [] else TrimPrefix rawURL base)"

definition UserService_Get :: "ext \<Rightarrow> Actor \<Rightarrow> uuid \<Rightarrow> User act" where
  "UserService_Get E actor k =
     (case authorize actor k of Some e \<Rightarrow> fail e | None \<Rightarrow> Users_GetByID E k)"

definition UserService_List :: "ext \<Rightarrow> ListUsersFilter \<Rightarrow> User Page act" where
  "UserService_List E flt =
     attempt (Users_List E flt) fail (\<lambda>(users, total).
       ret \<lparr>pgItems = users, pgMeta = NewPageMeta (lufPage flt) total\<rparr>)"

definition UserService_Create :: "ext \<Rightarrow> userService \<Rightarrow> UserCreateInput \<Rightarrow> User act" where
  "UserService_Create E s inp =
     (let email = normalizeEmail E (ciEmail inp);
          role = (if ciRole inp = [] then RoleUser else ciRole inp) in
      if \<not> Role_Valid role
      then fail (WithFields (BadRequest ''Invalid role'')
             [\<lparr>feField = ''role'', feMessage = ''Must be one of: user, admin''\<rparr>])
      else
      attempt (Users_EmailExists E email) fail (\<lambda>exists.
      if exists then fail (Conflict ''An account with this email already exists'')
      else
      attempt (Hash E (usHasher s) (ciPassword inp)) (\<lambda>e. fail (Internal e)) (\<lambda>hash.
      Users_Create E
        \<lparr>cuEmail = email, cuPasswordHash = hash, cuFullName = TrimSpace (ciFullName inp), cuRole = role\<rparr>)))"

definition UserService_Update :: "ext \<Rightarrow> userService \<Rightarrow> Actor \<Rightarrow> uuid \<Rightarrow> UserUpdateInput \<Rightarrow> User act" where
  "UserService_Update E s actor k inp =
     (case authorize actor k of
        Some e \<Rightarrow> fail e
      | None \<Rightarrow>
      if \<not> Actor_IsAdmin actor \<and> (upRole inp \<noteq> None \<or> upIsActive inp \<noteq> None)
      then fail (Forbidden ''Only administrators can change role or activation status'')
      else if (case upRole inp of None \<Rightarrow> False | Some r \<Rightarrow> \<not> Role_Valid r)
      then fail (WithFields (BadRequest ''Invalid role'')
             [\<lparr>feField = ''role'', feMessage = ''Must be one of: user, admin''\<rparr>])
      else if acID actor = k \<and> upIsActive inp = Some False
      then fail (BadRequest ''You cannot deactivate your own account'')
      else
      attempt (Users_Update E k
         \<lparr>uuFullName = map_option TrimSpace (upFullName inp), uuAvatarURL = None, uuRole = upRole inp,
          uuIsActive = upIsActive inp\<rparr>) fail (\<lambda>user.
      if upIsActive inp = Some False \<or> upRole inp \<noteq> None
      then attempt (RevokeAllSessions E (usSessions s) k)
             (\<lambda>e. ignore (log_at LevelError ''revoke sessions after update failed'' [(''error'', error_text e)])
                    (ret user))
             (\<lambda>_. ret user)
      else ret user))"

text \<open>The best-effort removal of a stored avatar.\<close>

definition delete_avatar :: "ext \<Rightarrow> userService \<Rightarrow> string \<Rightarrow> string \<Rightarrow> unit act" where
  "delete_avatar E s key complaint =
     attempt (Storage_Delete E (usFiles s) key)
       (\<lambda>e. ignore (log_at LevelWarn complaint [(''error'', error_text e)]) (ret ())) ret"

definition UserService_Delete :: "ext \<Rightarrow> userService \<Rightarrow> Actor \<Rightarrow> uuid \<Rightarrow> unit act" where
  "UserService_Delete E s actor k =
     (if \<not> Actor_IsAdmin actor \<and> acID actor \<noteq> k then fail (Forbidden [])
      else if Actor_IsAdmin actor \<and> acID actor = k
      then fail (BadRequest ''Administrators cannot delete their own account'')
      else
      attempt (Users_GetByID E k) fail (\<lambda>user.
      attempt (Users_Delete E k) fail (\<lambda>_.
      attempt (attempt (RevokeAllSessions E (usSessions s) k)
          (\<lambda>e. log_at LevelError ''revoke sessions after delete failed'' [(''error'', error_text e)]) ret) fail (\<lambda>_.
      attempt (case uAvatarURL user of
            None \<Rightarrow> ret ()
          | Some url \<Rightarrow> (let key = keyFromURL s url in
              if key = [] then ret () else delete_avatar E s key ''delete avatar failed'')) fail (\<lambda>_.
      ignore (log_at LevelInfo ''user deleted'' [(''user_id'', x_uuid_string E k)]) (ret ()))))))"

definition UserService_UploadAvatar ::
    "ext \<Rightarrow> userService \<Rightarrow> Actor \<Rightarrow> uuid \<Rightarrow> AvatarInput \<Rightarrow> User act" where
  "UserService_UploadAvatar E s actor k inp =
     (case authorize actor k of
        Some e \<Rightarrow> fail e
      | None \<Rightarrow>
      let contentType = ToLower (x_unicode_lower E) (TrimSpace (SplitN2_0 (avContentType inp) (CHR '';''))) in
      if contentType \<notin> set allowedAvatarTypes
      then fail (UnsupportedMediaType ''Avatar must be a JPEG, PNG, WebP or GIF image'')
      else if avSize inp > sgMaxUploadBytes (cfStorage (usCfg s))
      then fail (PayloadTooLarge ''Avatar exceeds the maximum upload size'')
      else
      attempt (Users_GetByID E k) fail (\<lambda>existing.
      attempt (BuildKey E ''avatars'' (avFilename inp)) fail (\<lambda>key.
      attempt (Storage_Put E (usFiles s) key (avContent inp) (avSize inp) contentType)
        (\<lambda>e. fail (Internal e)) (\<lambda>object.
      attempt (Users_Update E k
          \<lparr>uuFullName = None, uuAvatarURL = Some (obURL object), uuRole = None, uuIsActive = None\<rparr>)
        (\<lambda>e. ignore (delete_avatar E s key ''orphaned avatar cleanup failed'') (fail e)) (\<lambda>user.
      attempt (case uAvatarURL existing of
            None \<Rightarrow> ret ()
          | Some url \<Rightarrow> (let oldKey = keyFromURL s url in
              if oldKey = [] \<or> oldKey = key then ret ()
              else delete_avatar E s oldKey ''previous avatar cleanup failed'')) fail (\<lambda>_.
      ret user))))))"

lemmas user_service_defs =
  UserService_Get_def UserService_List_def UserService_Create_def UserService_Update_def
  UserService_Delete_def UserService_UploadAvatar_def

end
