(* ===== verification/StorageSpec.thy ===== *)
theory StorageSpec
  imports Storage Demo
begin

text \<open>
  What the object stores promise. Paths first: which keys the local provider accepts and where they
  lead. Then the contract of a store as a locale, of which both providers are instances, and what
  an upload can leave behind when it fails.
\<close>

section \<open>Paths\<close>

definition clean_elem :: "string \<Rightarrow> bool" where
  "clean_elem e \<longleftrightarrow> e \<noteq> [] \<and> e \<noteq> ''.'' \<and> e \<noteq> ''..'' \<and> CHR ''/'' \<notin> set e"

lemma Split_append: "Split (a @ sep # b) sep = Split a sep @ Split b sep"
proof (induction a)
  case (Cons c a)
  then show ?case
    by (cases "Split a sep") (auto simp: Split_nonempty split: list.split)
qed simp

lemma Split_Join:
  assumes "ps \<noteq> []" and "\<forall>p\<in>set ps. sep \<notin> set p"
  shows "Split (Join ps [sep]) sep = ps"
  using assms
proof (induction ps)
  case (Cons p ps)
  then show ?case by (cases ps) (simp_all add: Split_no_occurrence Split_append)
qed simp

text \<open>A piece of a string is the string, its head up to a separator, or sits behind one.\<close>

lemma Split_sublist: "p \<in> set (Split s sep) \<Longrightarrow> sublist p s"
proof (induction s arbitrary: p)
  case (Cons c s)
  obtain q qs where q: "Split s sep = q # qs"
    using Split_nonempty [of s sep] by (cases "Split s sep") auto
  have "prefix q s"
  proof -
    have "s = Join (q # qs) [sep]" using Join_Split [of s sep] by (simp add: q)
    then show ?thesis by (cases qs) auto
  qed
  moreover from Cons.prems q have "p = [] \<or> p = c # q \<or> p \<in> set (Split s sep)"
    by (auto split: if_splits)
  ultimately show ?case
    using Cons.IH by (auto simp: sublist_Cons_right prefix_def sublist_code)
qed simp

lemma foldl_clean_step:
  assumes "\<forall>e\<in>set es. e \<noteq> ''..''"
  shows "foldl (clean_step r) acc es = rev (filter (\<lambda>e. e \<noteq> [] \<and> e \<noteq> ''.'') es) @ acc"
  using assms by (induction es arbitrary: acc) auto

lemma clean_elems_plain:
  assumes "\<forall>e\<in>set es. e \<noteq> ''..''"
  shows "clean_elems r es = filter (\<lambda>e. e \<noteq> [] \<and> e \<noteq> ''.'') es"
  using assms by (simp add: clean_elems_def foldl_clean_step)

lemma clean_step_clean:
  assumes "\<forall>x\<in>set acc. clean_elem x" and "CHR ''/'' \<notin> set e"
  shows "\<forall>x\<in>set (clean_step True acc e). clean_elem x"
  using assms by (cases acc) (auto simp: clean_elem_def)

lemma clean_elems_clean:
  assumes "\<forall>e\<in>set es. CHR ''/'' \<notin> set e"
  shows "\<forall>e\<in>set (clean_elems True es). clean_elem e"
proof -
  have "\<forall>e\<in>set (foldl (clean_step True) acc es). clean_elem e" if "\<forall>e\<in>set acc. clean_elem e" for acc
    using assms that
  proof (induction es arbitrary: acc)
    case (Cons e es)
    have "\<forall>x\<in>set (clean_step True acc e). clean_elem x"
      using clean_step_clean [OF Cons.prems(2), of e] Cons.prems(1) by simp
    then show ?case using Cons.IH Cons.prems(1) by simp
  qed simp
  from this [of "[]"] show ?thesis by (simp add: clean_elems_def)
qed

text \<open>The absolute roots: a slash and clean elements.\<close>

definition root_path :: "string list \<Rightarrow> string" where
  "root_path rs = CHR ''/'' # Join rs ''/''"

lemma path_Clean_rooted:
  assumes "is_rooted s"
  shows "\<exists>rs. path_Clean s = root_path rs \<and> (\<forall>r\<in>set rs. clean_elem r)"
proof -
  have "\<forall>e\<in>set (clean_elems True (Split s (CHR ''/''))). clean_elem e"
    by (rule clean_elems_clean) (auto dest: Split_no_sep)
  moreover have "s \<noteq> []" using assms by (auto simp: is_rooted_def)
  ultimately show ?thesis using assms by (auto simp: path_Clean_def root_path_def Let_def)
qed

lemma filepath_Abs_root:
  assumes "is_rooted (x_cwd E)"
  shows "\<exists>rs. filepath_Abs E p = root_path rs \<and> (\<forall>r\<in>set rs. clean_elem r)"
proof (cases "is_rooted p")
  case True
  then show ?thesis using path_Clean_rooted by (simp add: filepath_Abs_def)
next
  case False
  have "is_rooted (Join (x_cwd E # filter (\<lambda>e. e \<noteq> []) [p]) ''/'')" "x_cwd E \<noteq> []"
    using assms by (auto simp: is_rooted_def prefix_def)
  then show ?thesis using path_Clean_rooted False by (simp add: filepath_Abs_def path_Join_def)
qed

lemma Join_append: "Join (xs @ ys) sep = (if xs = [] then Join ys sep else if ys = [] then Join xs sep
    else Join xs sep @ sep @ Join ys sep)"
proof (induction xs)
  case (Cons x xs)
  then show ?case by (cases xs; cases ys) auto
qed simp

lemma root_elems:
  assumes "\<forall>r\<in>set rs. clean_elem r"
  shows "filter (\<lambda>e. e \<noteq> [] \<and> e \<noteq> ''.'') (Split (root_path rs) (CHR ''/'')) = rs"
    "\<forall>e\<in>set (Split (root_path rs) (CHR ''/'')). e \<noteq> ''..''"
proof -
  have "Split (root_path rs) (CHR ''/'') = [] # (if rs = [] then [[]] else rs)"
    using Split_Join [of rs "CHR ''/''"] assms by (auto simp: root_path_def clean_elem_def)
  moreover have "filter (\<lambda>e. e \<noteq> [] \<and> e \<noteq> ''.'') rs = rs"
    using assms by (simp add: clean_elem_def filter_id_conv)
  ultimately show "filter (\<lambda>e. e \<noteq> [] \<and> e \<noteq> ''.'') (Split (root_path rs) (CHR ''/'')) = rs"
    "\<forall>e\<in>set (Split (root_path rs) (CHR ''/'')). e \<noteq> ''..''"
    using assms by (auto simp: clean_elem_def)
qed

text \<open>The elements of a key.\<close>

definition key_elems :: "string \<Rightarrow> string list" where
  "key_elems key = filter (\<lambda>e. e \<noteq> [] \<and> e \<noteq> ''.'') (Split key (CHR ''/''))"

lemma validateKey_elems:
  assumes "validateKey E key = None"
  shows "key \<noteq> []" "\<forall>e\<in>set (Split key (CHR ''/'')). e \<noteq> ''..''"
  using assms Split_sublist [of "''..''" key "CHR ''/''"]
  by (auto simp: validateKey_def Contains_def split: if_splits)

lemma path_Join_root:
  assumes rs: "\<forall>r\<in>set rs. clean_elem r" and "validateKey E key = None"
  shows "path_Join [root_path rs, key] = root_path (rs @ key_elems key)"
proof -
  have key: "key \<noteq> []" "\<forall>e\<in>set (Split key (CHR ''/'')). e \<noteq> ''..''"
    using validateKey_elems [OF assms(2)] by auto
  have split: "Split (root_path rs @ CHR ''/'' # key) (CHR ''/'') = Split (root_path rs) (CHR ''/'') @ Split key (CHR ''/'')"
    by (rule Split_append)
  have "clean_elems True (Split (root_path rs @ CHR ''/'' # key) (CHR ''/'')) = rs @ key_elems key"
    unfolding split using root_elems [OF rs] key(2) by (subst clean_elems_plain) (auto simp: key_elems_def)
  then show ?thesis
    using key(1) by (simp add: path_Join_def path_Clean_def is_rooted_def root_path_def)
qed

lemma Local_resolve_root:
  assumes "loRoot l = root_path rs" and rs: "\<forall>r\<in>set rs. clean_elem r" "rs \<noteq> []" and v: "validateKey E key = None"
  shows "Local_resolve E l key =
    (if key_elems key = [] then Inl (Opaque (''storage: key escapes root: '' @ Quote (x_unicode_quote E) key))
     else Inr (root_path (rs @ key_elems key)))"
proof -
  have "prefix (root_path rs @ ''/'') (root_path (rs @ key_elems key)) \<longleftrightarrow> key_elems key \<noteq> []"
    using rs(2) by (auto simp: root_path_def Join_append prefix_def)
  then show ?thesis
    using path_Join_root [OF rs(1) v] v by (simp add: Local_resolve_def Let_def HasPrefix_def assms(1))
qed

lemma key_elems_clean:
  assumes "validateKey E key = None"
  shows "\<forall>e\<in>set (key_elems key). clean_elem e"
  using validateKey_elems [OF assms] Split_no_sep [of _ key "CHR ''/''"]
  by (auto simp: key_elems_def clean_elem_def)

section \<open>The contract of a store\<close>

text \<open>
  \<open>name\<close> gives the place of a key, if the store accepts it; \<open>files\<close> reads the stored objects. An
  upload that succeeds has stored exactly the bytes; one that fails has changed no object.
\<close>

locale object_storage =
  fixes put :: "string \<Rightarrow> reader \<Rightarrow> int \<Rightarrow> string \<Rightarrow> Object act"
    and get :: "string \<Rightarrow> string act"
    and delete :: "string \<Rightarrow> unit act"
    and exists :: "string \<Rightarrow> bool act"
    and name :: "string \<Rightarrow> string option"
    and files :: "world \<Rightarrow> string \<Rightarrow> string option"
  assumes put_ok:
    "put k r n c w = (Inr ob, w') \<Longrightarrow> calm w \<Longrightarrow>
     \<exists>p. name k = Some p \<and> snd r = None \<and> calm w' \<and> files w' = (files w)(p \<mapsto> fst r)"
    and put_err: "put k r n c w = (Inl e, w') \<Longrightarrow> calm w \<Longrightarrow> calm w' \<and> files w' = files w"
    and get_spec: "calm w \<Longrightarrow> name k = Some p \<Longrightarrow>
     \<exists>w'. get k w = ((case files w p of None \<Rightarrow> Inl (Sentinel ErrObjectNotFound) | Some s \<Rightarrow> Inr s), w') \<and>
       calm w' \<and> files w' = files w"
    and delete_spec: "calm w \<Longrightarrow> name k = Some p \<Longrightarrow>
     \<exists>w'. delete k w = (Inr (), w') \<and> calm w' \<and> files w' = (files w)(p := None)"
    and exists_spec: "calm w \<Longrightarrow> name k = Some p \<Longrightarrow>
     \<exists>w'. exists k w = (Inr (files w p \<noteq> None), w') \<and> calm w' \<and> files w' = files w"
begin

text \<open>What was uploaded can be read back, under every key with the same place.\<close>

lemma put_get:
  assumes "put k r n c w = (Inr ob, w1)" and "calm w" and "name k' = name k"
  shows "\<exists>w2. get k' w1 = (Inr (fst r), w2)"
proof -
  obtain p where p: "name k = Some p" "calm w1" "files w1 = (files w)(p \<mapsto> fst r)"
    using put_ok [OF assms(1,2)] by blast
  then show ?thesis using get_spec [of w1 k' p] assms(3) by auto
qed

text \<open>The other objects are not affected.\<close>

lemma put_other:
  assumes "put k r n c w = (res, w1)" and "calm w" and "name k' = Some p" and "name k \<noteq> Some p"
  shows "fst (get k' w1) = fst (get k' w)"
proof -
  have "calm w1 \<and> files w1 p = files w p"
    using assms put_ok [of k r n c w _ w1] put_err [of k r n c w _ w1] by (cases res) fastforce+
  then show ?thesis using get_spec [of w k' p] get_spec [of w1 k' p] assms(2,3) by force
qed

text \<open>A deleted object is gone, and deleting it again is no error.\<close>

lemma delete_gone:
  assumes "calm w" and "name k = Some p"
  shows "\<exists>w1. delete k w = (Inr (), w1) \<and> (\<exists>w2. get k w1 = (Inl (Sentinel ErrObjectNotFound), w2)) \<and>
     (\<exists>w2. exists k w1 = (Inr False, w2)) \<and> (\<exists>w2. delete k w1 = (Inr (), w2))"
proof -
  obtain w1 where d: "delete k w = (Inr (), w1)" "calm w1" "files w1 = (files w)(p := None)"
    using delete_spec [OF assms] by blast
  then show ?thesis
    using get_spec [OF d(2) assms(2)] exists_spec [OF d(2) assms(2)] delete_spec [OF d(2) assms(2)]
    by auto
qed

end

section \<open>S3\<close>

definition S3_place :: "ext \<Rightarrow> S3 \<Rightarrow> string \<Rightarrow> string option" where
  "S3_place E s key = (if validateKey E key = None then Some (s3_name (s3Bucket s) key) else None)"

interpretation s3_storage: object_storage
  "S3_Put E s" "S3_Get E s" "S3_Delete E s" "S3_Exists E s" "S3_place E s" w_files
  for E s
proof (unfold_locales, goal_cases)
  case (1 k r n c w ob w')
  then show ?case
    by (auto simp: S3_Put_def S3_place_def attempt_def s3_Upload_def external_calm go_run
        split: option.splits prod.splits sum.splits)
next
  case (2 k r n c w e w')
  then show ?case
    by (auto simp: S3_Put_def attempt_def s3_Upload_def external_calm go_run
        split: option.splits prod.splits sum.splits)
next
  case (3 w k p)
  then show ?case
    by (auto simp: S3_Get_def S3_place_def attempt_def external_calm go_run split: option.splits if_splits)
next
  case (4 w k p)
  then show ?case
    by (auto simp: S3_Delete_def S3_place_def attempt_def external_calm go_run split: option.splits if_splits)
next
  case (5 w k p)
  then show ?case
    by (auto simp: S3_Exists_def S3_place_def attempt_def external_calm go_run split: option.splits if_splits)
qed

section \<open>Local files\<close>

definition Local_place :: "ext \<Rightarrow> Local \<Rightarrow> string \<Rightarrow> string option" where
  "Local_place E l key = (case Local_resolve E l key of Inl _ \<Rightarrow> None | Inr p \<Rightarrow> Some p)"

lemma Local_place_Some: "Local_place E l key = Some p \<longleftrightarrow> Local_resolve E l key = Inr p"
  by (simp add: Local_place_def split: sum.split)

text \<open>The state after system calls that leave the files as \<open>f\<close>; the schedule only shrinks.\<close>

definition same_but_files :: "world \<Rightarrow> world \<Rightarrow> bool" where
  "same_but_files w v \<longleftrightarrow> (calm w \<longrightarrow> calm v) \<and> horizon v = horizon w \<and> w_clock w \<le> w_clock v \<and>
     w_db v = w_db w \<and> w_redis v = w_redis w \<and> w_log v = w_log w \<and> w_txnow v = w_txnow w \<and> w_rng w \<le> w_rng v"

lemma same_but_files_refl [simp]: "same_but_files w w"
  by (simp add: same_but_files_def)

lemma pres_same_external:
  assumes "pres (same_but_files w) f"
  shows "pres (same_but_files w) (external f)"
proof (rule pres_external [OF _ assms])
  fix v
  assume "same_but_files w v"
  then show "same_but_files w (tick v)"
    using tick_clock [of v] by (auto simp: same_but_files_def)
qed

lemma temp_name_frame: "pres (same_but_files w) (temp_name E n stem)"
proof (rule presI)
  fix v
  show "same_but_files w v \<Longrightarrow> same_but_files w (snd (temp_name E n stem v))"
    by (induction n arbitrary: v) (auto simp: Let_def same_but_files_def)
qed

lemma os_frame [pres_intros]:
  "pres (same_but_files w) (os_MkdirAll d)" "pres (same_but_files w) (os_CreateTemp E d stem)"
  "pres (same_but_files w) (os_Copy t r)" "pres (same_but_files w) os_Close"
  "pres (same_but_files w) (os_Remove t)" "pres (same_but_files w) (os_Rename t t')"
  "pres (same_but_files w) (os_Chmod t)" "pres (same_but_files w) (os_Open t)"
  "pres (same_but_files w) (os_Stat t)" "pres (same_but_files w) time_now"
  "pres (same_but_files w) (of_result res)" "pres (same_but_files w) (s3_Upload b k r)"
  unfolding os_MkdirAll_def os_CreateTemp_def os_Copy_def os_Close_def os_Remove_def os_Rename_def
    os_Chmod_def os_Open_def os_Stat_def s3_Upload_def of_result_def time_now_def
  by (intro pres_same_external temp_name_frame pres_ret pres_gets presI pres_intros;
      auto simp: modify_run same_but_files_def split: option.split)+

lemma storage_frame [pres_intros]:
  "pres (same_but_files w) (Local_Put E l k r n c)" "pres (same_but_files w) (Local_Get E l k)"
  "pres (same_but_files w) (Local_Delete E l k)" "pres (same_but_files w) (Local_Exists E l k)"
  unfolding Local_Put_def Local_Get_def Local_Delete_def Local_Exists_def outcome_def
  by (intro pres_intros)+

text \<open>A name for a temporary file is free when it is taken.\<close>

lemma temp_name_ok:
  "temp_name E n stem w = (Inr t, w') \<Longrightarrow> w_files w t = None \<and> w_files w' = (w_files w)(t \<mapsto> []) \<and> prefix stem t"
proof (induction n arbitrary: w)
  case (Suc n)
  then show ?case
    using Suc.IH [of "w\<lparr>w_rng := Suc (w_rng w)\<rparr>"] by (auto simp: Let_def split: if_splits)
qed simp

lemma temp_name_err: "temp_name E n stem w = (Inl e, w') \<Longrightarrow> w_files w' = w_files w"
proof (induction n arbitrary: w)
  case (Suc n)
  then show ?case
    using Suc.IH [of "w\<lparr>w_rng := Suc (w_rng w)\<rparr>"] by (auto simp: Let_def split: if_splits)
qed simp

lemma CreateTemp_ok:
  assumes "os_CreateTemp E d stem w = (Inr t, w')"
  shows "w_files w t = None \<and> w_files w' = (w_files w)(t \<mapsto> []) \<and> prefix (path_Join [d, stem]) t"
  using assms temp_name_ok by (fastforce simp: os_CreateTemp_def external_def split: option.splits)

lemma CreateTemp_err:
  assumes "os_CreateTemp E d stem w = (Inl e, w')"
  shows "w_files w' = w_files w \<or>
     (\<exists>t. w_files w t = None \<and> w_files w' = (w_files w)(t \<mapsto> []) \<and> prefix (path_Join [d, stem]) t)"
proof -
  obtain q v where run: "temp_name E 10000 (path_Join [d, stem]) (tick w) = (q, v)" by fastforce
  have "w_files v = w_files w \<or> (\<exists>t. w_files w t = None \<and> w_files v = (w_files w)(t \<mapsto> []) \<and> prefix (path_Join [d, stem]) t)"
    using temp_name_ok [of E 10000 "path_Join [d, stem]" "tick w" _ v] temp_name_err [of E 10000 "path_Join [d, stem]" "tick w" _ v] run
    by (cases q) auto
  then show ?thesis using assms run by (auto simp: os_CreateTemp_def external_def split: option.splits if_splits)
qed

text \<open>What a system call does to the files, as rules for weakest preconditions.\<close>

lemma wp_os:
  "(\<And>v. w_files v = w_files w \<Longrightarrow> Q () v) \<Longrightarrow> (\<And>e v. w_files v = w_files w \<Longrightarrow> R e v) \<Longrightarrow>
     wp (os_MkdirAll d) Q R w"
  "(\<And>v. w_files v = w_files w \<Longrightarrow> Q () v) \<Longrightarrow> (\<And>e v. w_files v = w_files w \<Longrightarrow> R e v) \<Longrightarrow>
     wp (os_Chmod d) Q R w"
  "(\<And>v. w_files v = w_files w \<Longrightarrow> Q () v) \<Longrightarrow> (\<And>e v. w_files v = w_files w \<Longrightarrow> R e v) \<Longrightarrow>
     wp os_Close Q R w"
  "(\<And>v. w_files v = (w_files w)(old := None, new := w_files w old) \<Longrightarrow> Q () v) \<Longrightarrow>
   (\<And>e v. w_files v = w_files w \<or> w_files v = (w_files w)(old := None, new := w_files w old) \<Longrightarrow> R e v) \<Longrightarrow>
     wp (os_Rename old new) Q R w"
  by (auto simp: os_MkdirAll_def os_Chmod_def os_Close_def os_Rename_def wp_rules ret_def modify_def split: option.split)

lemma wp_os_Remove:
  assumes "\<And>b v. w_files v = (w_files w)(t := None) \<Longrightarrow> Q b v"
    and "\<And>e v. w_files v = w_files w \<or> w_files v = (w_files w)(t := None) \<Longrightarrow> R e v"
  shows "wp (os_Remove t) Q R w"
  using assms by (auto simp: os_Remove_def external_def wp_def split: option.split)

lemma wp_os_Copy:
  assumes "\<And>v. snd r = None \<Longrightarrow> w_files v = (w_files w)(t \<mapsto> fst r) \<Longrightarrow> Q (int (length (fst r))) v"
    and "\<And>e v b. w_files v = w_files w \<or> w_files v = (w_files w)(t \<mapsto> b) \<Longrightarrow> R e v"
  shows "wp (os_Copy t r) Q R w"
proof (cases "pending_fault w")
  case None
  then show ?thesis
    using assms(1) assms(2) [of _ "fst r"]
    by (cases "snd r") (simp_all add: os_Copy_def external_def wp_def)
next
  case (Some x)
  then show ?thesis using assms(2) [of "tick w"] assms(2) [of "(tick w)\<lparr>w_files := (w_files w)(t \<mapsto> fst r)\<rparr>" "fst r"]
    by (simp add: os_Copy_def external_def wp_def)
qed

lemma wp_CreateTemp:
  assumes "\<And>t v. w_files w t = None \<Longrightarrow> w_files v = (w_files w)(t \<mapsto> []) \<Longrightarrow>
      prefix (path_Join [d, stem]) t \<Longrightarrow> Q t v"
    and "\<And>e v. w_files v = w_files w \<or> (\<exists>t. w_files w t = None \<and> w_files v = (w_files w)(t \<mapsto> []) \<and>
      prefix (path_Join [d, stem]) t) \<Longrightarrow> R e v"
  shows "wp (os_CreateTemp E d stem) Q R w"
proof (cases "os_CreateTemp E d stem w")
  case (Pair res v)
  then show ?thesis
    using assms CreateTemp_ok [of E d stem w _ v] CreateTemp_err [of E d stem w _ v]
    by (cases res) (auto simp: wp_def)
qed

lemma wp_outcome: "wp (outcome m) Q R w = wp m (\<lambda>a. Q (Inr a)) (\<lambda>e. Q (Inl e)) w"
  by (auto simp: outcome_def wp_def attempt_def ret_def split: prod.splits sum.splits)

lemma wp_of_result: "wp (of_result x) Q R w = (case x of Inl e \<Rightarrow> R e w | Inr a \<Rightarrow> Q a w)"
  by (cases x) (simp_all add: of_result_def wp_def)

text \<open>
  Every run of an upload: it succeeds only with the object stored; one that fails has changed
  nothing, has left its temporary file behind, or has failed after the object was complete.
\<close>

definition upload_trace :: "ext \<Rightarrow> Local \<Rightarrow> string \<Rightarrow> reader \<Rightarrow> (string \<Rightarrow> string option) \<Rightarrow> (string \<Rightarrow> string option) \<Rightarrow> bool" where
  "upload_trace E l k r f f' \<longleftrightarrow>
     (\<exists>p t b. Local_place E l k = Some p \<and> prefix (path_Join [path_Dir p, ''.upload-'']) t \<and> f t = None \<and>
        (f' = f(t \<mapsto> b) \<or> snd r = None \<and> f' = f(p \<mapsto> fst r)))"

lemma write_and_rename:
  assumes t: "f t = None" and w: "w_files w = f(t \<mapsto> [])"
    and p: "Local_place E l k = Some p" and pre: "prefix (path_Join [path_Dir p, ''.upload-'']) t"
  shows "wp (attempt (outcome (os_Copy t r)) fail (\<lambda>written.
     attempt (outcome os_Close) fail (\<lambda>closed.
     case errors_Join written closed of
       Some e \<Rightarrow> ignore (os_Remove t) (fail (Wrapf ''storage: write object: '' e ''''))
     | None \<Rightarrow>
         attempt (os_Rename t p)
           (\<lambda>e. ignore (os_Remove t) (fail (Wrapf ''storage: finalise object: '' e ''''))) (\<lambda>_.
         attempt (os_Chmod p) (\<lambda>e. fail (Wrapf ''storage: set permissions: '' e '''')) (\<lambda>_.
         attempt time_now fail (\<lambda>x.
         ret \<lparr>obKey = k, obURL = Local_URL l k, obSize = (case written of Inl _ \<Rightarrow> 0 | Inr n \<Rightarrow> n),
              obContentType = c, obUploadedAt = x\<rparr>))))))
     (\<lambda>ob v. snd r = None \<and> w_files v = f(p \<mapsto> fst r)) (\<lambda>e v. w_files v = f \<or> upload_trace E l k r f (w_files v)) w"
proof -
  have f: "f(t := None) = f" using t by auto
  have tr: "upload_trace E l k r f g" if "g = f(t \<mapsto> b)" for g b
    using that t p pre unfolding upload_trace_def by blast
  have tr': "upload_trace E l k r f g" if "snd r = None" "g = f(p \<mapsto> fst r)" for g
    using that t p pre unfolding upload_trace_def by blast
  have late: "f(p \<mapsto> fst r, t := None) = f" if "snd r = None" "\<not> upload_trace E l k r f (f(p \<mapsto> fst r, t := None))"
  proof (cases "t = p")
    case False
    then have "f(p \<mapsto> fst r, t := None) = f(p \<mapsto> fst r)" using t by auto
    then show ?thesis using tr' [OF that(1)] that(2) by simp
  qed (use f in auto)
  show ?thesis
    unfolding wp_attempt wp_outcome
    by ((rule wp_os_Copy; rule wp_os(3);
        auto simp: errors_Join_def wp_rules time_now_def w f tr tr' intro!: wp_os wp_os_Remove dest: tr), (rule late; assumption)+)
qed

lemma Local_Put_run:
  assumes "Local_Put E l k r n c w = (res, w')"
  shows "case res of
      Inr ob \<Rightarrow> (\<exists>p. Local_place E l k = Some p \<and> snd r = None \<and> w_files w' = (w_files w)(p \<mapsto> fst r))
    | Inl e \<Rightarrow> w_files w' = w_files w \<or> upload_trace E l k r (w_files w) (w_files w')"
proof -
  let ?Q = "\<lambda>ob v. \<exists>p. Local_place E l k = Some p \<and> snd r = None \<and> w_files v = (w_files w)(p \<mapsto> fst r)"
  let ?R = "\<lambda>e v. w_files v = w_files w \<or> upload_trace E l k r (w_files w) (w_files v)"
  have "wp (Local_Put E l k r n c) ?Q ?R w"
  proof (cases "Local_resolve E l k")
    case (Inl e)
    then show ?thesis by (simp add: Local_Put_def wp_attempt wp_of_result wp_fail)
  next
    case (Inr p)
    then have p: "Local_place E l k = Some p" by (simp add: Local_place_Some)
    show ?thesis
      unfolding Local_Put_def wp_attempt wp_of_result Inr sum.case
    proof (rule wp_os(1), rule wp_CreateTemp, goal_cases)
      case (1 v t u)
      have "wp (attempt (outcome (os_Copy t r)) fail (\<lambda>written. attempt (outcome os_Close) fail (\<lambda>closed.
         case errors_Join written closed of
           Some e \<Rightarrow> ignore (os_Remove t) (fail (Wrapf ''storage: write object: '' e ''''))
         | None \<Rightarrow> attempt (os_Rename t p)
             (\<lambda>e. ignore (os_Remove t) (fail (Wrapf ''storage: finalise object: '' e ''''))) (\<lambda>_.
             attempt (os_Chmod p) (\<lambda>e. fail (Wrapf ''storage: set permissions: '' e '''')) (\<lambda>_.
             attempt time_now fail (\<lambda>x. ret \<lparr>obKey = k, obURL = Local_URL l k,
               obSize = (case written of Inl _ \<Rightarrow> 0 | Inr n \<Rightarrow> n), obContentType = c, obUploadedAt = x\<rparr>))))))
          (\<lambda>ob v. snd r = None \<and> w_files v = (w_files w)(p \<mapsto> fst r)) ?R u"
        using 1 p by (intro write_and_rename) simp_all
      then show ?case unfolding wp_attempt [symmetric] by (rule wp_mono) (use p in auto)
    qed (use p in \<open>auto simp: wp_fail upload_trace_def\<close>)
  qed
  then show ?thesis using assms by (auto simp: wp_def split: sum.split)
qed

lemma os_calm:
  assumes "calm w"
  shows "os_MkdirAll d w = (Inr (), tick w)" "os_Close w = (Inr (), tick w)" "os_Chmod d w = (Inr (), tick w)"
    "os_CreateTemp E d stem w = temp_name E 10000 (path_Join [d, stem]) (tick w)"
    "os_Copy t r w = (case snd r of None \<Rightarrow> Inr (int (length (fst r))) | Some e \<Rightarrow> Inl e,
       (tick w)\<lparr>w_files := (w_files w)(t \<mapsto> fst r)\<rparr>)"
    "os_Remove t w = (Inr (w_files w t \<noteq> None), (tick w)\<lparr>w_files := (w_files w)(t := None)\<rparr>)"
    "os_Rename t p w = (Inr (), (tick w)\<lparr>w_files := (w_files w)(t := None, p := w_files w t)\<rparr>)"
    "os_Open p w = (Inr (w_files w p), tick w)" "os_Stat p w = (Inr (w_files w p \<noteq> None), tick w)"
  using assms
  by (simp_all add: os_MkdirAll_def os_Close_def os_Chmod_def os_CreateTemp_def os_Copy_def os_Remove_def
      os_Rename_def os_Open_def os_Stat_def external_calm go_run)

lemma Local_Put_calm_err:
  assumes "calm w" and "Local_Put E l k r n c w = (Inl e, w')"
  shows "w_files w' = w_files w"
proof (cases "Local_resolve E l k")
  case (Inl x)
  then show ?thesis using assms(2) by (simp add: Local_Put_def attempt_def of_result_def fail_def)
next
  case (Inr p)
  obtain res u where tmp: "temp_name E 10000 (path_Join [path_Dir p, ''.upload-'']) (tick (tick w)) = (res, u)"
    by fastforce
  have cu: "calm u"
    using pres_run [OF temp_name_frame same_but_files_refl tmp] assms(1) by (simp add: same_but_files_def)
  show ?thesis
  proof (cases res)
    case (Inl x)
    then show ?thesis
      using assms Inr tmp temp_name_err [of E 10000 "path_Join [path_Dir p, ''.upload-'']" "tick (tick w)" x u]
      by (simp add: Local_Put_def attempt_def of_result_def os_calm go_run)
  next
    case t: (Inr t)
    have f: "w_files w t = None" "w_files u = (w_files w)(t \<mapsto> [])"
      using temp_name_ok [of E 10000 "path_Join [path_Dir p, ''.upload-'']" "tick (tick w)" t u] tmp t by simp_all
    then have f': "(w_files w)(t := None) = w_files w" by auto
    show ?thesis
      using assms Inr tmp t cu f f'
      by (cases "snd r") (auto simp: Local_Put_def attempt_def of_result_def os_calm go_run outcome_def
          errors_Join_def ignore_run)
  qed
qed

lemma calm_storage:
  assumes "pres (same_but_files w) m" and "m w = (r, v)" and "calm w"
  shows "calm v"
  using pres_run [OF assms(1) same_but_files_refl assms(2)] assms(3) by (simp add: same_but_files_def)

interpretation local_storage: object_storage
  "Local_Put E l" "Local_Get E l" "Local_Delete E l" "Local_Exists E l" "Local_place E l" w_files
  for E l
proof (unfold_locales, goal_cases)
  case (1 k r n c w ob w')
  then show ?case using Local_Put_run [OF 1(1)] calm_storage [OF storage_frame(1) 1] by auto
next
  case (2 k r n c w e w')
  then show ?case using Local_Put_calm_err [OF 2(2,1)] calm_storage [OF storage_frame(1) 2] by auto
next
  case (3 w k p)
  then show ?case
    by (auto simp: Local_Get_def Local_place_Some attempt_def os_calm go_run of_result_def split: option.splits)
next
  case (4 w k p)
  then show ?case by (auto simp: Local_Delete_def Local_place_Some attempt_def os_calm go_run of_result_def)
next
  case (5 w k p)
  then show ?case by (auto simp: Local_Exists_def Local_place_Some attempt_def os_calm go_run of_result_def)
qed

section \<open>Properties\<close>

text \<open>
  Claim C12. The local provider stays inside its root: with the root that \<open>NewLocal\<close> computes (other
  than the file-system root), a validated key with at least one proper element is accepted and leads
  to the root followed by the key's elements, none of which is a dot, a double dot or empty; every
  other key is refused. For the root directory itself every key is refused.
\<close>

theorem Local_resolve_confined:
  assumes "is_rooted (x_cwd E)" and root: "loRoot l = filepath_Abs E p"
  shows "(Local_resolve E l key = Inr full \<longleftrightarrow>
      loRoot l \<noteq> ''/'' \<and> validateKey E key = None \<and> key_elems key \<noteq> [] \<and>
      full = loRoot l @ ''/'' @ Join (key_elems key) ''/'') \<and>
    (Local_resolve E l key = Inr full \<longrightarrow> (\<forall>e\<in>set (key_elems key). clean_elem e))"
proof -
  obtain rs where rs: "loRoot l = root_path rs" "\<forall>r\<in>set rs. clean_elem r"
    using filepath_Abs_root [OF assms(1)] root by metis
  show ?thesis
  proof (cases "validateKey E key")
    case (Some e)
    then show ?thesis by (simp add: Local_resolve_def)
  next
    case None
    note elems = key_elems_clean [OF None]
    show ?thesis
    proof (cases "rs = []")
      case True
      have "CHR ''/'' \<notin> set (hd (key_elems key))" "hd (key_elems key) \<noteq> []" if "key_elems key \<noteq> []"
        using elems that hd_in_set [OF that] by (auto simp: clean_elem_def)
      then have "\<not> prefix ''//'' (root_path (key_elems key))"
        by (cases "key_elems key"; cases "tl (key_elems key)") (auto simp: root_path_def neq_Nil_conv)
      then show ?thesis
        using path_Join_root [OF rs(2) None] rs(1) None True
        by (simp add: Local_resolve_def Let_def HasPrefix_def root_path_def)
    next
      case False
      then have "loRoot l \<noteq> ''/''" using rs by (cases rs; cases "tl rs") (auto simp: root_path_def clean_elem_def)
      then show ?thesis
        using Local_resolve_root [OF rs False None] elems None rs(1) False
        by (auto simp: root_path_def Join_append)
    qed
  qed
qed

definition demo_local :: Local where
  "demo_local = \<lparr>loRoot = filepath_Abs demo_ext ''uploads'', loBaseURL = ''/files''\<rparr>"

text \<open>
  Claim C40. An upload is never visible in part: whatever outside call fails, after \<open>Put\<close> every
  path outside the temporary files either has its old content or, at the place of the key alone,
  exactly the bytes of the reader; and if the call succeeded the object is there, complete.
\<close>

theorem Local_Put_atomic:
  assumes "Local_Put E l k r n c w = (res, w')"
  shows "(\<forall>q. w_files w' q = w_files w q \<or>
       Local_place E l k = Some q \<and> snd r = None \<and> w_files w' q = Some (fst r) \<or>
       (\<exists>p. Local_place E l k = Some p \<and> prefix (path_Join [path_Dir p, ''.upload-'']) q \<and> w_files w q = None)) \<and>
     (\<forall>ob. res = Inr ob \<longrightarrow>
       (\<exists>p. Local_place E l k = Some p \<and> w_files w' = (w_files w)(p \<mapsto> fst r) \<and> snd r = None))"
  using Local_Put_run [OF assms] by (cases res) (auto simp: upload_trace_def split: if_splits)

lemma demo_key: "validateKey demo_ext ''avatars/me.png'' = None" "key_elems ''avatars/me.png'' = [''avatars'', ''me.png'']"
  by (simp_all add: validateKey_def Contains_def HasPrefix_def key_elems_def sublist_code)

lemma demo_root: "filepath_Abs demo_ext ''uploads'' = ''/srv/uploads''" "is_rooted (x_cwd demo_ext)"
proof -
  have "path_Join [''/srv'', ''uploads''] = ''/srv/uploads''" by code_simp
  then show "filepath_Abs demo_ext ''uploads'' = ''/srv/uploads''"
    by (simp add: filepath_Abs_def demo_ext_def is_rooted_def)
qed (simp add: demo_ext_def is_rooted_def)

lemma Local_resolve_confined_witness:
  "Local_resolve demo_ext demo_local ''avatars/me.png'' = Inr ''/srv/uploads/avatars/me.png''"
proof -
  have "loRoot demo_local = filepath_Abs demo_ext ''uploads''" by (simp add: demo_local_def)
  from Local_resolve_confined [OF demo_root(2) this, of "''avatars/me.png''" "''/srv/uploads/avatars/me.png''"]
  show ?thesis by (simp add: demo_key demo_root demo_local_def)
qed

lemma temp_name_free:
  assumes "0 < n" and "w_files w (stem @ x_temp E (w_rng w)) = None"
  shows "temp_name E n stem w = (Inr (stem @ x_temp E (w_rng w)),
     w\<lparr>w_rng := Suc (w_rng w), w_files := (w_files w)(stem @ x_temp E (w_rng w) \<mapsto> [])\<rparr>)"
  using assms by (cases n) (simp_all add: Let_def)

lemma demo_upload:
  "\<exists>ob w'. Local_Put demo_ext demo_local ''avatars/me.png'' (''bytes'', None) 5 ''image/png'' demo_world = (Inr ob, w')"
proof -
  have r: "Local_resolve demo_ext demo_local ''avatars/me.png'' = Inr ''/srv/uploads/avatars/me.png''"
    using demo_key by (simp add: Local_resolve_def demo_local_def demo_root HasPrefix_def path_Join_def path_Clean_def
        is_rooted_def clean_elems_def)
  have "w_files demo_world q = None" for q by (simp add: demo_world_def)
  then obtain t u where tmp: "temp_name demo_ext 10000 (path_Join [path_Dir ''/srv/uploads/avatars/me.png'', ''.upload-'']) demo_world = (Inr t, u)"
      "calm u"
    using temp_name_free [of 10000 demo_world _ demo_ext] by simp
  show ?thesis
    using r tmp by (simp add: Local_Put_def attempt_def of_result_def os_calm go_run outcome_def errors_Join_def tick_idle)
qed

lemma Local_Put_atomic_witness:
  "\<exists>ob w' p. Local_Put demo_ext demo_local ''avatars/me.png'' (''bytes'', None) 5 ''image/png'' demo_world = (Inr ob, w') \<and>
     Local_place demo_ext demo_local ''avatars/me.png'' = Some p \<and> w_files w' p = Some ''bytes''"
  using demo_upload Local_Put_atomic [of demo_ext demo_local "''avatars/me.png''" "(''bytes'', None)" 5 "''image/png''" demo_world]
  by fastforce

end
