(* ===== verification/UserProps.thy ===== *)
theory UserProps
  imports UserService StorageSpec RegisterProps
begin

text \<open>
  Properties of user management: the invariant of the database, who may do what, and the life of
  avatar objects.
\<close>

section \<open>Invariants\<close>

lemma s3_frame [pres_intros]:
  "pres (same_but_files w) (S3_Put E s k r n c)" "pres (same_but_files w) (S3_Get E s k)"
  "pres (same_but_files w) (S3_Delete E s k)" "pres (same_but_files w) (S3_Exists E s k)"
  unfolding S3_Put_def S3_Get_def S3_Delete_def S3_Exists_def
  by (intro pres_intros pres_same_external pres_gets presI; simp add: modify_run same_but_files_def)+

lemma Storage_frame [pres_intros]:
  "pres (same_but_files w) (Storage_Put E st k r n c)" "pres (same_but_files w) (Storage_Get E st k)"
  "pres (same_but_files w) (Storage_Delete E st k)" "pres (same_but_files w) (Storage_Exists E st k)"
  by (cases st; simp; intro pres_intros)+

context world_invariant
begin

lemma kept_files:
  assumes "\<And>w. pres (same_but_files w) m"
  shows "pres I m"
proof (rule kept_frame)
  fix w
  have "same_but_files w (snd (m w))" using presD [OF assms [of w] same_but_files_refl] .
  then show "w_db (snd (m w)) = w_db w \<and> w_rng w \<le> w_rng (snd (m w))" by (simp add: same_but_files_def)
qed

lemma Storage_kept [pres_intros]:
  "pres I (Storage_Put F st k r n c)" "pres I (Storage_Get F st k)" "pres I (Storage_Delete F st k)"
  "pres I (Storage_Exists F st k)"
  by (rule kept_files, rule Storage_frame)+

lemma BuildKey_kept [pres_intros]: "pres I (BuildKey F p f)"
  unfolding BuildKey_def by (intro pres_intros)+

lemma delete_avatar_kept [pres_intros]: "pres I (delete_avatar F s k c)"
  unfolding delete_avatar_def by (intro pres_intros)

lemma user_service_kept [pres_intros]:
  "pres I (UserService_Get E a k)" "pres I (UserService_List E flt)" "pres I (UserService_Delete E s a k)"
  "pres I (UserService_UploadAvatar E s a k av)"
  unfolding user_service_defs by (intro pres_intros; simp)+

text \<open>Only an administrator gives an account a role or an activation of choice.\<close>

lemma UserService_Create_kept:
  assumes "\<And>cu. stmt_keeps E I (CreateUser E cu)"
  shows "pres I (UserService_Create E s ci)"
  unfolding UserService_Create_def by (intro pres_intros Users_Create_kept assms)

lemma UserService_Update_kept:
  assumes admin: "\<And>uu. Actor_IsAdmin a \<Longrightarrow> stmt_keeps E I (UpdateUser uu)"
  shows "pres I (UserService_Update E s a k up)"
proof -
  have upd: "pres I (Users_Update E k u)"
    if "\<not> (\<not> Actor_IsAdmin a \<and> (upRole up \<noteq> None \<or> upIsActive up \<noteq> None))" "uuRole u = upRole up" "uuIsActive u = upIsActive up" for u
    using that by (intro Users_Update_kept) (cases "Actor_IsAdmin a"; auto intro: admin profile_update)
  show ?thesis
    unfolding UserService_Update_def by (rule upd, assumption, simp, simp | rule pres_intros)+
qed

end

section \<open>Who may do what\<close>

text \<open>
  A caller who is not an administrator can only reach the own account: on every other
  account reading, updating, deleting and uploading are refused with 403 before anything happens.
\<close>

lemma user_operations_forbidden:
  assumes "\<not> Actor_IsAdmin actor" and "acID actor \<noteq> k"
  shows "UserService_Get E actor k w = (Inl (Forbidden []), w) \<and>
     UserService_Update E s actor k up w = (Inl (Forbidden []), w) \<and>
     UserService_Delete E s actor k w = (Inl (Forbidden []), w) \<and>
     UserService_UploadAvatar E s actor k av w = (Inl (Forbidden []), w)"
  using assms by (simp add: user_service_defs authorize_def fail_def)

definition demo_actor :: Actor where
  "demo_actor = \<lparr>acID = 7, acRole = ''user''\<rparr>"

definition demo_users :: userService where
  "demo_users = \<lparr>usHasher = asHasher demo_service, usSessions = asSessions demo_service,
     usFiles = LocalStorage demo_local, usCfg = demo_config\<rparr>"

lemma user_operations_forbidden_witness:
  "UserService_Delete demo_ext demo_users demo_actor 8 demo_world = (Inl (Forbidden []), demo_world)"
proof -
  have "\<not> Actor_IsAdmin demo_actor" "acID demo_actor \<noteq> 8"
    by (simp_all add: demo_actor_def Actor_IsAdmin_def RoleAdmin_def)
  from user_operations_forbidden [OF this] show ?thesis by blast
qed

text \<open>What a statement or command does to the columns that hold privileges.\<close>

definition privileges :: "database \<Rightarrow> (uuid \<times> string \<times> bool) list" where
  "privileges d = map (\<lambda>u. (duID u, duRole u, duIsActive u)) (tUsers d)"

lemma privileges_set_user:
  assumes "\<And>u. duID (f u) = duID u \<and> duRole (f u) = duRole u \<and> duIsActive (f u) = duIsActive u"
  shows "privileges (set_user k f d) = privileges d"
  using assms by (simp add: privileges_def set_user_def update_rows_def)

lemma Users_Update_privileges:
  assumes "uuRole inp = None" and "uuIsActive inp = None" and "Users_Update E k inp w = (r, w')"
  shows "privileges (w_db w') = privileges (w_db w) \<and>
     (\<forall>u\<in>set (tUsers (w_db w)). duID u \<noteq> k \<longrightarrow> u \<in> set (tUsers (w_db w')))"
proof -
  let ?f = "\<lambda>now. touch_user now (\<lambda>u. u\<lparr>duFullName := COALESCE (uuFullName inp) (duFullName u),
            duAvatarUrl := COALESCE_null (uuAvatarURL inp) (duAvatarUrl u),
            duRole := COALESCE None (duRole u), duIsActive := COALESCE None (duIsActive u)\<rparr>)"
  have "w_db w' = w_db w \<or> (\<exists>now. w_db w' = set_user k (?f now) (w_db w))"
    using assms by (auto simp: Users_Update_def attempt_def run_stmt_def external_def UpdateUser_def update_user_def
        reject_def Let_def go_run split: option.splits prod.splits sum.splits if_splits)
  moreover have "privileges (set_user k (?f now) (w_db w)) = privileges (w_db w)" for now
    by (rule privileges_set_user) (simp add: touch_user_def COALESCE_def)
  moreover have "u \<in> set (tUsers (set_user k f (w_db w)))" if "u \<in> set (tUsers (w_db w))" "duID u \<noteq> k" for u f
    using that by (auto simp: set_user_def set_update_rows image_iff intro!: bexI [of _ u])
  ultimately show ?thesis by auto
qed

text \<open>
  No caller without the admin role can change a role or an activation status, whatever
  the request says and whatever fails on the way: after an update of the own profile the
  identifiers, roles and activation flags of all accounts are as they were, and no other account
  has changed in any column.
\<close>

lemma Update_no_escalation:
  assumes "\<not> Actor_IsAdmin actor" and "UserService_Update E s actor k inp w = (r, w')"
  shows "privileges (w_db w') = privileges (w_db w) \<and>
     (\<forall>u\<in>set (tUsers (w_db w)). duID u \<noteq> acID actor \<longrightarrow> u \<in> set (tUsers (w_db w')))"
proof (cases "acID actor = k \<and> upRole inp = None \<and> upIsActive inp = None")
  case True
  let ?i = "\<lparr>uuFullName = map_option TrimSpace (upFullName inp), uuAvatarURL = None, uuRole = None, uuIsActive = None\<rparr>"
  obtain r1 w1 where "Users_Update E k ?i w = (r1, w1)" by fastforce
  moreover from this have "w' = w1"
    using assms True by (auto simp: UserService_Update_def authorize_def attempt_def go_run split: sum.splits)
  ultimately show ?thesis using Users_Update_privileges [of ?i E k w r1 w1] True by simp
next
  case False
  then have "w' = w"
    using assms by (auto simp: UserService_Update_def authorize_def fail_def split: if_splits)
  then show ?thesis by simp
qed

lemma Update_no_escalation_witness:
  "\<exists>r w'. UserService_Update demo_ext demo_users demo_actor 7
      \<lparr>upFullName = Some ''Ada Lovelace'', upRole = None, upIsActive = None\<rparr> demo_world = (r, w') \<and>
     privileges (w_db w') = privileges (w_db demo_world)"
proof -
  obtain r w' where run: "UserService_Update demo_ext demo_users demo_actor 7
      \<lparr>upFullName = Some ''Ada Lovelace'', upRole = None, upIsActive = None\<rparr> demo_world = (r, w')" by fastforce
  have "\<not> Actor_IsAdmin demo_actor" by (simp add: demo_actor_def Actor_IsAdmin_def RoleAdmin_def)
  from Update_no_escalation [OF this run] run show ?thesis by blast
qed

section \<open>Privileged changes end sessions\<close>

lemma Users_Update_redis:
  assumes "Users_Update E k inp w = (r, w')" and "calm w"
  shows "calm w' \<and> w_redis w' = w_redis w \<and> w_clock w \<le> w_clock w'"
proof -
  have "pres (db_frame_of w) (Users_Update E k inp)"
    unfolding Users_Update_def by (intro pres_intros)
  then have "db_frame_of w w'" using assms(1) pres_run [of "db_frame_of w" _ w r w'] by simp
  then show ?thesis using assms(2) by (simp add: db_frame_of_def)
qed

lemma good_sessions_same_redis:
  "good_sessions E s w \<Longrightarrow> w_redis w' = w_redis w \<Longrightarrow> w_clock w \<le> w_clock w' \<Longrightarrow> good_sessions E s w'"
  by (auto simp: good_sessions_def intro: sessions_ok_later)

text \<open>
  Claim C38. A change of role and a deactivation take effect at once on the sessions: when the
  update succeeds, every refresh token of the account is dropped and no other session is touched.
\<close>

theorem Update_privileged_revokes:
  assumes "calm w" and good: "good_sessions E (usSessions s) w"
    and up: "upIsActive up = Some False \<or> upRole up \<noteq> None"
    and run: "UserService_Update E s actor k up w = (Inr user, w')"
  shows "Actor_IsAdmin actor \<and> (\<forall>t v j. live_in E w' t v j = (v \<noteq> k \<and> live_in E w t v j))"
proof -
  let ?i = "\<lparr>uuFullName = map_option TrimSpace (upFullName up), uuAvatarURL = None, uuRole = upRole up,
      uuIsActive = upIsActive up\<rparr>"
  have admin: "Actor_IsAdmin actor"
    using run up by (auto simp: UserService_Update_def fail_def split: option.splits if_splits)
  define T :: "User \<Rightarrow> User act" where "T u = attempt (RevokeAllSessions E (usSessions s) k)
      (\<lambda>e. ignore (log_at LevelError ''revoke sessions after update failed'' [(''error'', error_text e)]) (ret u))
      (\<lambda>_. ret u)" for u
  have T: "fst (T u v) = Inr u" for u v
    by (auto simp: T_def attempt_def ignore_run ret_def split: sum.split prod.split)
  have "attempt (Users_Update E k ?i) fail T w = (Inr user, w')"
    using run up by (auto simp: UserService_Update_def fail_run T_def [abs_def] split: option.splits if_splits)
  then obtain w1 where w1: "Users_Update E k ?i w = (Inr user, w1)" and rest: "T user w1 = (Inr user, w')"
    using T by (elim attempt_InrE) (auto simp: fail_def, metis Inr_inject fst_conv)
  note frame = Users_Update_redis [OF w1 assms(1)]
  obtain w2 where w2: "RevokeAllSessions E (usSessions s) k w1 = (Inr (), w2)"
    "\<forall>t v j. live_in E w2 t v j = (v \<noteq> k \<and> live_in E w1 t v j)"
    using RevokeAllSessions_spec [OF good_sessions_same_redis [OF good], of w1 k] frame by blast
  then have "w' = w2" using rest by (simp add: T_def attempt_def ret_def)
  then show ?thesis using admin w2(2) frame by (simp add: live_in_def)
qed

definition demo_admin :: Actor where
  "demo_admin = \<lparr>acID = 1, acRole = ''admin''\<rparr>"

lemma Update_privileged_revokes_witness:
  "\<exists>user w'. UserService_Update demo_ext demo_users demo_admin 7
      \<lparr>upFullName = None, upRole = None, upIsActive = Some False\<rparr> demo_session_world = (Inr user, w') \<and>
     \<not> live_in demo_ext w' (1700000000 * Second) 7 ''old''"
proof -
  let ?up = "\<lparr>upFullName = None, upRole = None, upIsActive = Some False\<rparr>"
  have r: "\<exists>user w'. UserService_Update demo_ext demo_users demo_admin 7 ?up demo_session_world = (Inr user, w')"
  proof -
    have *: "\<exists>w1. Users_Update demo_ext 7 \<lparr>uuFullName = None, uuAvatarURL = None, uuRole = None, uuIsActive = Some False\<rparr>
        demo_session_world = (Inr (toDomainUser (touch_user (NOW demo_session_world) (\<lambda>u. u\<lparr>duFullName := duFullName u,
           duAvatarUrl := duAvatarUrl u, duRole := duRole u, duIsActive := False\<rparr>) demo_user)), w1)"
      by (simp add: Users_Update_run Let_def demo_user_def COALESCE_def COALESCE_null_def touch_user_def user_check_def)
    then show ?thesis
      by (auto simp: UserService_Update_def authorize_def Actor_IsAdmin_def demo_admin_def RoleAdmin_def attempt_def
          go_run ignore_run split: sum.split prod.split)
  qed
  have g: "good_sessions demo_ext (usSessions demo_users) demo_session_world"
    using demo_session_good by (simp add: demo_users_def)
  show ?thesis
    using r Update_privileged_revokes [OF demo_session_fields(5) g, of ?up demo_admin 7] by auto
qed

text \<open>Switching an account on leaves the sessions as they are.\<close>

lemma activation_keeps_sessions:
  assumes "calm w" and "upRole up = None" and "upIsActive up \<noteq> Some False" and "UserService_Update E s actor k up w = (r, w')"
  shows "w_redis w' = w_redis w"
proof -
  let ?i = "\<lparr>uuFullName = map_option TrimSpace (upFullName up), uuAvatarURL = None, uuRole = upRole up, uuIsActive = upIsActive up\<rparr>"
  obtain q w1 where "Users_Update E k ?i w = (q, w1)" by fastforce
  moreover from this have "w_redis w1 = w_redis w" using Users_Update_redis assms(1) by blast
  ultimately show ?thesis
    using assms(2-4) by (auto simp: UserService_Update_def authorize_def attempt_def fail_def ret_def
        split: sum.splits if_splits option.splits)
qed

section \<open>Accounts created by an administrator\<close>

text \<open>
  An account created through user management cannot be used: it has no verified address
  and no verification token is created for it, so the right password is answered with 403.
\<close>

lemma admin_created_cannot_login:
  assumes calm: "calm w" and wok: "world_ok E w" and hasher: "hasher_ok E a" and same: "usHasher s = asHasher a"
    and p: "length (ciPassword inp) \<le> 72"
    and run: "UserService_Create E s inp w = (Inr user, w1)"
  shows "(\<exists>w2. Login E a \<lparr>liEmail = ciEmail inp, liPassword = ciPassword inp\<rparr> w1 =
        (Inl (Forbidden ''Please verify your email before signing in''), w2)) \<and>
     tVerifications (w_db w1) = tVerifications (w_db w)"
proof -
  let ?m = "normalizeEmail E (ciEmail inp)" and ?role = "if ciRole inp = [] then RoleUser else ciRole inp"
  define w0 where "w0 = after w (w_db w)"
  have c0: "calm w0" "w_db w0 = w_db w" using calm by (simp_all add: w0_def)
  obtain h where gen: "x_bcrypt_generate E (w_rng w0) (bhCost (asHasher a)) (ciPassword inp) = Inr h"
    using hasher p unfolding hasher_ok_def by blast
  define v where "v = w0\<lparr>w_rng := Suc (w_rng w0)\<rparr>"
  have h: "Hash E (usHasher s) (ciPassword inp) w0 = (Inr h, v)" "x_bcrypt_compare E h (ciPassword inp) = None"
    using Hash_run [OF p gen] hasher gen by (auto simp: v_def same hasher_ok_def bcrypt_law_def)
  let ?inp = "\<lparr>cuEmail = ?m, cuPasswordHash = h, cuFullName = TrimSpace (ciFullName inp), cuRole = ?role\<rparr>"
  define u where "u = new_user ?inp (NOW (tick v)) (x_uuid E (w_rng v))"
  have cv: "calm v" "w_db v = w_db w" using c0 by (simp_all add: v_def)
  have "Users_Create E ?inp v = (Inr user, w1)"
    using run calm h(1)
    by (auto simp: UserService_Create_def Let_def attempt_def Users_EmailExists_run fail_def w0_def split: if_splits)
  then have w1: "w1 = after v ((w_db w)\<lparr>tUsers := tUsers (w_db w) @ [u]\<rparr>)"
    using cv by (auto simp: Users_Create_run Let_def u_def split: if_splits)
  have ok: "world_ok E w1" using pres_run [OF consistent.UserService_Create_kept [OF stmt_keeps_world_ok] wok run] keeps_db_intros by blast
  have mem: "u \<in> set (tUsers (w_db w1))" and c1: "calm w1" using cv by (simp_all add: w1)
  have u: "duEmail u = ?m" "duIsActive u" "duEmailVerifiedAt u = None" "duPasswordHash u = Some h"
    by (simp_all add: u_def new_user_def)
  show ?thesis
    using find_user_email [OF ok mem, of ?m] c1 h(2) u
    by (simp add: Login_def Let_def attempt_def repo_run Verify_def go_run COALESCE_def) (simp add: w1)
qed

lemma admin_created_cannot_login_witness:
  "\<exists>user w1 w2. UserService_Create demo_ext demo_users
      \<lparr>ciEmail = ''bob@example.com'', ciPassword = ''hunter2hunter2'', ciFullName = ''Bob'', ciRole = []\<rparr> demo_world
      = (Inr user, w1) \<and>
     Login demo_ext demo_service \<lparr>liEmail = ''bob@example.com'', liPassword = ''hunter2hunter2''\<rparr> w1
      = (Inl (Forbidden ''Please verify your email before signing in''), w2)"
proof -
  let ?i = "\<lparr>ciEmail = ''bob@example.com'', ciPassword = ''hunter2hunter2'', ciFullName = ''Bob'', ciRole = []\<rparr>"
  have r: "\<exists>user w1. UserService_Create demo_ext demo_users ?i demo_world = (Inr user, w1)"
    using demo_new_email
    by (simp add: UserService_Create_def Let_def attempt_def Users_EmailExists_run Hash_def go_run Users_Create_run
        Role_Valid_def RoleUser_def bcrypt_GenerateFromPassword_def user_check_def new_user_def demo_registration_def
        demo_user_simps(2) citext_eq_def)
  have s: "usHasher demo_users = asHasher demo_service" by (simp add: demo_users_def)
  have l: "length (ciPassword ?i) \<le> 72" by simp
  from r obtain user w1 where run: "UserService_Create demo_ext demo_users ?i demo_world = (Inr user, w1)" by blast
  from admin_created_cannot_login [OF demo_world_fields(8) demo_world_ok demo_hasher_ok s l run] run
  show ?thesis by auto
qed

section \<open>Avatars\<close>

lemma validateKey_head: "validateKey E key = None \<Longrightarrow> TrimPrefix key ''/'' = key"
  by (auto simp: validateKey_def TrimPrefix_def HasPrefix_def split: if_splits)

lemma NewLocal_URL:
  assumes "NewLocal E cfg w = (Inr l, w')"
  shows "loBaseURL l = TrimRight (sgPublicBaseURL cfg) (CHR ''/'')"
  using assms by (auto simp: NewLocal_def Let_def ignore_run ret_def elim!: attempt_fail_InrE)

lemma NewS3_URL:
  assumes "NewS3 cfg w = (Inr s3, w')"
  shows "s3BaseURL s3 = TrimRight (if sgPublicBaseURL cfg = [] \<and> sgS3Endpoint cfg \<noteq> []
      then TrimRight (sgS3Endpoint cfg) (CHR ''/'') @ ''/'' @ sgS3Bucket cfg else sgPublicBaseURL cfg) (CHR ''/'')"
  using assms by (auto simp: NewS3_def Let_def ignore_run ret_def elim!: attempt_fail_InrE split: if_splits)

text \<open>
  The address that an upload stores on the account leads back to the key of the object,
  for the local provider always and for S3 when a public base address is configured; this is what
  the clean-up of replaced and orphaned avatars relies on.
\<close>

lemma keyFromURL_roundtrip:
  assumes new: "NewStorage E (cfStorage (usCfg s)) w = (Inr st, w')" and key: "validateKey E key = None"
    and base: "sgPublicBaseURL (cfStorage (usCfg s)) \<noteq> [] \<or> (\<exists>l. st = LocalStorage l)"
  shows "keyFromURL s (Storage_URL st key) = key"
proof -
  let ?cfg = "cfStorage (usCfg s)"
  have "Storage_URL st key = TrimRight (sgPublicBaseURL ?cfg) (CHR ''/'') @ ''/'' @ key"
  proof (cases st)
    case (LocalStorage l)
    then have "\<exists>w1. NewLocal E ?cfg w = (Inr l, w1)"
      using new by (auto simp: NewStorage_def Let_def ret_def fail_def split: if_splits elim!: attempt_InrE)
    then show ?thesis using NewLocal_URL LocalStorage validateKey_head [OF key] by (auto simp: Local_URL_def)
  next
    case (S3Storage b)
    then have "\<exists>w1. NewS3 ?cfg w = (Inr b, w1)"
      using new by (auto simp: NewStorage_def Let_def ret_def fail_def split: if_splits elim!: attempt_InrE)
    then show ?thesis using NewS3_URL S3Storage validateKey_head [OF key] base by (auto simp: S3_URL_def)
  qed
  then show ?thesis by (simp add: keyFromURL_def HasPrefix_def TrimPrefix_def)
qed

lemma demo_provider: "sgProvider (cfStorage demo_config) = ''local''"
proof -
  have "TrimSpace [] = []" "ToLower (\<lambda>s. s) ''local'' = ''local''" by code_simp+
  then show ?thesis by (simp add: demo_config_def load_config_def getString_def)
qed

lemma keyFromURL_roundtrip_witness:
  "\<exists>st w'. NewStorage demo_ext (cfStorage (usCfg demo_users)) demo_world = (Inr st, w') \<and>
     keyFromURL demo_users (Storage_URL st ''avatars/me.png'') = ''avatars/me.png''"
proof -
  have "ToLower (x_unicode_lower demo_ext) (sgProvider (cfStorage demo_config)) = ''local''"
  proof -
    have "ToLower (\<lambda>s. s) ''local'' = ''local''" by code_simp
    then show ?thesis by (simp add: demo_provider demo_ext_def)
  qed
  then obtain l w' where new: "NewStorage demo_ext (cfStorage (usCfg demo_users)) demo_world = (Inr (LocalStorage l), w')"
    by (simp add: NewStorage_def NewLocal_def Let_def attempt_def os_calm ignore_run go_run demo_users_def)
  from keyFromURL_roundtrip [OF new demo_key(1)] new show ?thesis by blast
qed

section \<open>Deleting an account\<close>

lemma rows_matching_pos: "u \<in> set xs \<Longrightarrow> P u \<Longrightarrow> rows_matching P xs \<noteq> 0"
  by (auto simp: rows_matching_zero)

lemma log_frame [pres_intros]: "pres (\<lambda>v. w_db v = d) (log_at l m as)" "pres (\<lambda>v. w_db v = d) (redis c)"
  "pres (\<lambda>v. w_db v = d) time_now"
  by (auto simp: pres_def log_at_run redis_frame time_now_run)

lemma Storage_db [pres_intros]: "pres (\<lambda>v. w_db v = d) (Storage_Delete E st k)"
proof (rule presI)
  fix v
  show "w_db v = d \<Longrightarrow> w_db (snd (Storage_Delete E st k v)) = d"
    using presD [OF Storage_frame(3) same_but_files_refl, of v E st k] by (simp add: same_but_files_def)
qed

lemma cleanup_db [pres_intros]:
  "pres (\<lambda>v. w_db v = d) (RevokeAllSessions E ss k)" "pres (\<lambda>v. w_db v = d) (delete_avatar E s key c)"
  unfolding RevokeAllSessions_def delete_avatar_def by (intro pres_intros)+

text \<open>A word without its time stamps.\<close>

definition word_content :: "dbWord \<Rightarrow> uuid \<times> string \<times> string \<times> string option \<times> string list option \<times> uuid option" where
  "word_content x = (dwID x, dwTerm x, dwLanguage x, dwPronunciation x, dwTags x, dwCreatedBy x)"

lemma word_content_cleared:
  "map word_content (update_rows (\<lambda>x. dwCreatedBy x = Some k) (\<lambda>x. x\<lparr>dwCreatedBy := None, dwUpdatedAt := now\<rparr>) xs) =
   map (\<lambda>x. word_content (if dwCreatedBy x = Some k then x\<lparr>dwCreatedBy := None\<rparr> else x)) xs"
  by (induction xs) (simp_all add: word_content_def)

text \<open>
  Claim C39. A deletion that is reported as done has removed every trace of the account from the
  database, whatever failed after the row was gone: no account, token, linked identity or
  word-list entry refers to it, and no word names it as its creator. The vocabulary survives: every word
  is still there with its term, language, pronunciation and tags, the words of the account without a
  creator and all others with the one they had.
\<close>

theorem Delete_erases:
  assumes wok: "world_ok E w" and run: "UserService_Delete E s actor k w = (Inr (), w')"
  shows "(\<forall>u\<in>set (tUsers (w_db w')). duID u \<noteq> k) \<and> (\<forall>t\<in>set (tResets (w_db w')). tkUserID t \<noteq> k) \<and>
     (\<forall>t\<in>set (tVerifications (w_db w')). tkUserID t \<noteq> k) \<and> (\<forall>a\<in>set (tOAuth (w_db w')). oacUserID a \<noteq> k) \<and>
     (\<forall>x\<in>set (tUserWords (w_db w')). uwUserID x \<noteq> k) \<and> (\<forall>x\<in>set (tWords (w_db w')). dwCreatedBy x \<noteq> Some k) \<and>
     map word_content (tWords (w_db w')) = map (\<lambda>x. word_content (if dwCreatedBy x = Some k then x\<lparr>dwCreatedBy := None\<rparr> else x))
       (tWords (w_db w))"
proof -
  have ok: "world_ok E w'" using pres_run [OF consistent.user_service_kept(3) wok run] .
  define rest where "rest = (\<lambda>user :: User. attempt (attempt (RevokeAllSessions E (usSessions s) k)
          (\<lambda>e. log_at LevelError ''revoke sessions after delete failed'' [(''error'', error_text e)]) ret) fail (\<lambda>_.
      attempt (case uAvatarURL user of
            None \<Rightarrow> ret ()
          | Some url \<Rightarrow> (let key = keyFromURL s url in
              if key = [] then ret () else delete_avatar E s key ''delete avatar failed'')) fail (\<lambda>_.
      ignore (log_at LevelInfo ''user deleted'' [(''user_id'', x_uuid_string E k)]) (ret ()))))"
  have "attempt (Users_GetByID E k) fail (\<lambda>user. attempt (Users_Delete E k) fail (\<lambda>_. rest user)) w = (Inr (), w')"
    using run by (auto simp: UserService_Delete_def fail_run rest_def split: if_splits)
  then obtain user w1 w2 where g: "Users_GetByID E k w = (Inr user, w1)" and d: "Users_Delete E k w1 = (Inr (), w2)"
    and r: "rest user w2 = (Inr (), w')"
    by (elim attempt_fail_InrE [where f = "\<lambda>e. e"]) auto
  have "w_db w1 = w_db w"
    using g by (auto simp: Users_GetByID_def attempt_def run_stmt_def external_def GetUserByID_def query_def go_run
        split: option.splits prod.splits sum.splits if_splits)
  moreover have "map word_content (tWords (w_db w2)) =
      map (\<lambda>x. word_content (if dwCreatedBy x = Some k then x\<lparr>dwCreatedBy := None\<rparr> else x)) (tWords (w_db w1))"
    using d by (auto simp: Users_Delete_def attempt_def run_stmt_def external_def DeleteUser_def Let_def go_run
        word_content_cleared simp del: map_map split: option.splits prod.splits sum.splits if_splits)
  ultimately have words: "map word_content (tWords (w_db w2)) =
      map (\<lambda>x. word_content (if dwCreatedBy x = Some k then x\<lparr>dwCreatedBy := None\<rparr> else x)) (tWords (w_db w))" by simp
  have same: "w_db w2 = w_db w'"
  proof -
    have "pres (\<lambda>v. w_db v = w_db w2) (rest user)" unfolding rest_def by (intro pres_intros)
    from pres_run [OF this refl r] show ?thesis by simp
  qed
  have "\<forall>u\<in>set (tUsers (w_db w2)). duID u \<noteq> k"
    using d by (auto simp: Users_Delete_def attempt_def run_stmt_def external_def DeleteUser_def Let_def go_run
        delete_rows_def split: option.splits prod.splits sum.splits if_splits)
  then have "k \<notin> user_ids (w_db w')" by (auto simp: user_ids_def same)
  then have "(\<forall>u\<in>set (tUsers (w_db w')). duID u \<noteq> k) \<and> (\<forall>t\<in>set (tResets (w_db w')). tkUserID t \<noteq> k) \<and>
     (\<forall>t\<in>set (tVerifications (w_db w')). tkUserID t \<noteq> k) \<and> (\<forall>a\<in>set (tOAuth (w_db w')). oacUserID a \<noteq> k) \<and>
     (\<forall>x\<in>set (tUserWords (w_db w')). uwUserID x \<noteq> k) \<and> (\<forall>x\<in>set (tWords (w_db w')). dwCreatedBy x \<noteq> Some k)"
    using ok by (fastforce simp: world_ok_def db_ok_def table_defs user_ids_def split: option.splits)
  then show ?thesis using words by (simp add: same)
qed

lemma demo_delete: "\<exists>w'. UserService_Delete demo_ext demo_users demo_admin 7 demo_world = (Inr (), w')"
proof -
  define w1 where "w1 = after demo_world (w_db demo_world)"
  define w2 where "w2 = after w1 (snd (DeleteUser 7 (NOW (tick w1)) (x_uuid demo_ext (w_rng w1)) (w_db w1)))"
  have g: "Users_GetByID demo_ext 7 demo_world = (Inr (toDomainUser demo_user), w1)"
    by (simp add: Users_GetByID_run w1_def demo_user_simps(2))
  have c1: "calm w1" "w_db w1 = w_db demo_world" by (simp_all add: w1_def)
  have d: "Users_Delete demo_ext 7 w1 = (Inr (), w2)"
    using c1 by (simp add: Users_Delete_run w2_def rows_matching_def demo_user_simps(2))
  have "good_sessions demo_ext (asSessions demo_service) w2"
    using demo_good_sessions by (simp add: w2_def w1_def good_sessions_after)
  moreover have "calm w2" using c1 by (simp add: w2_def)
  ultimately obtain w3 where "RevokeAllSessions demo_ext (usSessions demo_users) 7 w2 = (Inr (), w3)"
    using RevokeAllSessions_spec [of demo_ext "asSessions demo_service" w2 7] by (auto simp: demo_users_def)
  then show ?thesis
    using g d by (simp add: UserService_Delete_def Actor_IsAdmin_def demo_admin_def RoleAdmin_def attempt_def go_run
        ignore_run demo_user_def)
qed

lemma Delete_erases_witness:
  "\<exists>w'. UserService_Delete demo_ext demo_users demo_admin 7 demo_world = (Inr (), w') \<and>
     (\<forall>u\<in>set (tUsers (w_db w')). duID u \<noteq> 7)"
  using demo_delete Delete_erases [OF demo_world_ok] by blast

end
