(* ===== verification/Logger.thy ===== *)
theory Logger
  imports World
begin

text \<open>
  \<open>app/lib/logger.go\<close>: the logger of the application. Its handler puts the request ID of the
  context on every record that it passes to the handler of \<open>log/slog\<close> below.
\<close>

section \<open>Levels\<close>

text \<open>The severities of \<open>slog\<close> are the integers -4, 0, 4 and 8.\<close>

definition level_value :: "log_level \<Rightarrow> int" where
  "level_value l = (case l of LevelDebug \<Rightarrow> - 4 | LevelInfo \<Rightarrow> 0 | LevelWarn \<Rightarrow> 4 | LevelError \<Rightarrow> 8)"

instantiation log_level :: linorder
begin

definition less_eq_log_level :: "log_level \<Rightarrow> log_level \<Rightarrow> bool" where
  "less_eq_log_level a b \<longleftrightarrow> level_value a \<le> level_value b"

definition less_log_level :: "log_level \<Rightarrow> log_level \<Rightarrow> bool" where
  "less_log_level a b \<longleftrightarrow> level_value a < level_value b"

instance
proof
  fix a b c :: log_level
  show "a < b \<longleftrightarrow> a \<le> b \<and> \<not> b \<le> a" by (auto simp: less_log_level_def less_eq_log_level_def)
  show "a \<le> a" by (simp add: less_eq_log_level_def)
  show "a \<le> b \<Longrightarrow> b \<le> c \<Longrightarrow> a \<le> c" by (simp add: less_eq_log_level_def)
  show "a \<le> b \<Longrightarrow> b \<le> a \<Longrightarrow> a = b"
    by (cases a; cases b; simp add: less_eq_log_level_def level_value_def)
  show "a \<le> b \<or> b \<le> a" by (auto simp: less_eq_log_level_def)
qed

end

definition parseLevel :: "(string \<Rightarrow> string) \<Rightarrow> string \<Rightarrow> log_level" where
  "parseLevel lower level =
     (let l = ToLower lower (TrimSpace level) in
      if l = ''debug'' then LevelDebug
      else if l = ''warn'' \<or> l = ''warning'' then LevelWarn
      else if l = ''error'' then LevelError
      else LevelInfo)"

section \<open>Contexts\<close>

text \<open>
  A context is a chain of values under keys; a nil context is \<open>None\<close>. The key of the request ID has
  a type of its own, so that the keys of other packages differ from it.
\<close>

datatype ctx_key = ctxKey nat | ForeignKey string string

datatype gocontext = Background | WithValue gocontext ctx_key string

fun ctx_Value :: "gocontext \<Rightarrow> ctx_key \<Rightarrow> string option" where
  "ctx_Value Background k = None"
| "ctx_Value (WithValue c k v) k' = (if k = k' then Some v else ctx_Value c k')"

definition requestIDKey :: ctx_key where
  "requestIDKey = ctxKey 0"

definition WithRequestID :: "gocontext option \<Rightarrow> string \<Rightarrow> gocontext" where
  "WithRequestID c k = WithValue (case c of None \<Rightarrow> Background | Some c \<Rightarrow> c) requestIDKey k"

definition RequestIDFromContext :: "gocontext option \<Rightarrow> string" where
  "RequestIDFromContext c =
     (case c of None \<Rightarrow> []
      | Some c \<Rightarrow> (case ctx_Value c requestIDKey of None \<Rightarrow> [] | Some k \<Rightarrow> k))"

section \<open>The handlers of slog\<close>

text \<open>
  The text and the JSON handler of \<open>log/slog\<close> keep a threshold, the attributes added so far, each
  under the groups that were open when it was added, and the open groups. A record is written with
  its own attributes under the open groups.
\<close>

record slog_handler =
  shJSON :: bool
  shLevel :: log_level
  shAttrs :: "(string list \<times> string \<times> string) list"
  shGroups :: "string list"

record line =
  lnJSON :: bool
  lnLevel :: log_level
  lnMessage :: string
  lnAttrs :: "(string list \<times> string \<times> string) list"

definition under :: "string list \<Rightarrow> (string \<times> string) list \<Rightarrow> (string list \<times> string \<times> string) list" where
  "under gs as = map (\<lambda>a. (gs, a)) as"

definition slog_WithAttrs :: "slog_handler \<Rightarrow> (string \<times> string) list \<Rightarrow> slog_handler" where
  "slog_WithAttrs h as = h\<lparr>shAttrs := shAttrs h @ under (shGroups h) as\<rparr>"

definition slog_WithGroup :: "slog_handler \<Rightarrow> string \<Rightarrow> slog_handler" where
  "slog_WithGroup h g = h\<lparr>shGroups := shGroups h @ [g]\<rparr>"

definition slog_Enabled :: "slog_handler \<Rightarrow> log_level \<Rightarrow> bool" where
  "slog_Enabled h l \<longleftrightarrow> shLevel h \<le> l"

definition slog_Handle :: "slog_handler \<Rightarrow> log_entry \<Rightarrow> line" where
  "slog_Handle h r =
     \<lparr>lnJSON = shJSON h, lnLevel = leLevel r, lnMessage = leMessage r,
      lnAttrs = shAttrs h @ under (shGroups h) (leAttrs r)\<rparr>"

section \<open>The handler of the application\<close>

text \<open>The embedded handler also answers \<open>Enabled\<close>.\<close>

record contextHandler =
  chHandler :: slog_handler

definition contextHandler_Handle :: "contextHandler \<Rightarrow> gocontext option \<Rightarrow> log_entry \<Rightarrow> line" where
  "contextHandler_Handle h c r =
     (let k = RequestIDFromContext c;
          r = (if k \<noteq> [] then r\<lparr>leAttrs := leAttrs r @ [(''request_id'', k)]\<rparr> else r) in
      slog_Handle (chHandler h) r)"

definition contextHandler_WithAttrs :: "contextHandler \<Rightarrow> (string \<times> string) list \<Rightarrow> contextHandler" where
  "contextHandler_WithAttrs h as = \<lparr>chHandler = slog_WithAttrs (chHandler h) as\<rparr>"

definition contextHandler_WithGroup :: "contextHandler \<Rightarrow> string \<Rightarrow> contextHandler" where
  "contextHandler_WithGroup h g = \<lparr>chHandler = slog_WithGroup (chHandler h) g\<rparr>"

text \<open>The output is standard output; \<open>EqualFold\<close> against \<open>json\<close> also takes the long s, U+017F.\<close>

definition is_json :: "string \<Rightarrow> bool" where
  "is_json f \<longleftrightarrow>
     EqualFoldAscii f ''json'' \<or>
     (\<exists>j\<in>{CHR ''j'', CHR ''J''}. \<exists>o'\<in>{CHR ''o'', CHR ''O''}. \<exists>n\<in>{CHR ''n'', CHR ''N''}.
        f = [j, CHR 0xC5, CHR 0xBF, o', n])"

definition NewLogger :: "(string \<Rightarrow> string) \<Rightarrow> Log \<Rightarrow> contextHandler" where
  "NewLogger lower cfg =
     \<lparr>chHandler = \<lparr>shJSON = is_json (lgFormat cfg), shLevel = parseLevel lower (lgLevel cfg),
                  shAttrs = [], shGroups = []\<rparr>\<rparr>"

section \<open>The logger\<close>

text \<open>
  \<open>slog.Logger\<close> asks the handler whether a level is enabled before it makes the record. \<open>With\<close>
  without attributes and \<open>WithGroup\<close> with an empty name return the logger itself.
\<close>

datatype derivation = With "(string \<times> string) list" | WithGroup string

fun derive :: "contextHandler \<Rightarrow> derivation \<Rightarrow> contextHandler" where
  "derive h (With as) = (if as = [] then h else contextHandler_WithAttrs h as)"
| "derive h (WithGroup g) = (if g = [] then h else contextHandler_WithGroup h g)"

definition Logger_log :: "contextHandler \<Rightarrow> gocontext option \<Rightarrow> log_entry \<Rightarrow> line option" where
  "Logger_log h c r =
     (if slog_Enabled (chHandler h) (leLevel r) then Some (contextHandler_Handle h c r) else None)"

section \<open>The request ID is on every line\<close>

text \<open>Groups opened, and attributes added under them, by a list of derivations.\<close>

fun opened :: "derivation list \<Rightarrow> string list" where
  "opened [] = []"
| "opened (With as # ds) = opened ds"
| "opened (WithGroup g # ds) = (if g = [] then opened ds else g # opened ds)"

fun added :: "string list \<Rightarrow> derivation list \<Rightarrow> (string list \<times> string \<times> string) list" where
  "added gs [] = []"
| "added gs (With as # ds) = under gs as @ added gs ds"
| "added gs (WithGroup g # ds) = added (if g = [] then gs else gs @ [g]) ds"

lemma under_Nil [simp]: "under gs [] = []"
  by (simp add: under_def)

lemma derive_handler:
  "chHandler (foldl derive h ds) =
     (chHandler h)\<lparr>shAttrs := shAttrs (chHandler h) @ added (shGroups (chHandler h)) ds,
       shGroups := shGroups (chHandler h) @ opened ds\<rparr>"
proof (induction ds arbitrary: h)
  case (Cons d ds)
  then show ?case
    by (cases d) (simp_all add: contextHandler_WithAttrs_def contextHandler_WithGroup_def slog_WithAttrs_def slog_WithGroup_def)
qed simp

lemma RequestIDFromContext_With [simp]: "RequestIDFromContext (Some (WithRequestID c k)) = k"
  by (simp add: RequestIDFromContext_def WithRequestID_def)

lemma Logger_log_derived:
  "Logger_log (foldl derive (NewLogger lower cfg) ds) c r =
     (if parseLevel lower (lgLevel cfg) \<le> leLevel r
      then Some \<lparr>lnJSON = is_json (lgFormat cfg), lnLevel = leLevel r, lnMessage = leMessage r,
        lnAttrs = added [] ds @ under (opened ds)
          (leAttrs r @ (if RequestIDFromContext c = [] then [] else [(''request_id'', RequestIDFromContext c)]))\<rparr>
      else None)"
  by (simp add: Logger_log_def slog_Enabled_def derive_handler NewLogger_def contextHandler_Handle_def
      slog_Handle_def Let_def)

end
