(* ===== verification/Validation.thy ===== *)
theory Validation
  imports Models
begin

text \<open>
  \<open>app/lib/validation/validator.go\<close>: the struct tags of the request bodies, the project's own
  rules and the field messages. A struct is handed over as the list of its tagged fields. The two
  pattern rules of the package (\<open>email\<close> and \<open>bcp47_language_tag\<close>) and the Unicode classes of runes
  outside ASCII are parameters.
\<close>

section \<open>Runes\<close>

text \<open>
  \<open>utf8.DecodeRuneInString\<close> on a non-empty string: the rune and its width. A byte that starts no
  well-formed sequence is the replacement character, one byte wide.
\<close>

definition cont_byte :: "nat \<Rightarrow> nat \<Rightarrow> char \<Rightarrow> bool" where
  "cont_byte lo hi c \<longleftrightarrow> lo \<le> byte c \<and> byte c \<le> hi"

definition decode_rune :: "string \<Rightarrow> nat \<times> nat" where
  "decode_rune s =
     (let bad = (65533, 1) in
      case s of
        [] \<Rightarrow> bad
      | a # r \<Rightarrow>
          let b = byte a in
          if b < 128 then (b, 1)
          else if 194 \<le> b \<and> b \<le> 223 then
            (case r of c # _ \<Rightarrow> if cont_byte 128 191 c then ((b - 192) * 64 + (byte c - 128), 2) else bad
             | [] \<Rightarrow> bad)
          else if 224 \<le> b \<and> b \<le> 239 then
            (case r of
               c # d # _ \<Rightarrow>
                 if cont_byte (if b = 224 then 160 else 128) (if b = 237 then 159 else 191) c \<and> cont_byte 128 191 d
                 then (((b - 224) * 64 + (byte c - 128)) * 64 + (byte d - 128), 3) else bad
             | _ \<Rightarrow> bad)
          else if 240 \<le> b \<and> b \<le> 244 then
            (case r of
               c # d # e # _ \<Rightarrow>
                 if cont_byte (if b = 240 then 144 else 128) (if b = 244 then 143 else 191) c \<and>
                    cont_byte 128 191 d \<and> cont_byte 128 191 e
                 then ((((b - 240) * 64 + (byte c - 128)) * 64 + (byte d - 128)) * 64 + (byte e - 128), 4) else bad
             | _ \<Rightarrow> bad)
          else bad)"

lemma decode_rune_width: "0 < snd (decode_rune s)"
  by (auto simp: decode_rune_def Let_def split: list.split)

text \<open>What \<open>for _, r := range s\<close> visits; \<open>utf8.RuneCountInString\<close> is the length.\<close>

function runes :: "string \<Rightarrow> nat list" where
  "runes [] = []"
| "runes (a # s) = fst (decode_rune (a # s)) # runes (drop (snd (decode_rune (a # s))) (a # s))"
  by pat_completeness auto

termination
  by (relation "measure length") (auto simp: decode_rune_width)

lemma runes_ascii: "is_ascii s \<Longrightarrow> runes s = map byte s"
  by (induction s) (simp_all add: is_ascii_def decode_rune_def)

lemma length_runes: "length (runes s) \<le> length s"
proof (induction s rule: runes.induct)
  case (2 a s)
  have "length (drop (snd (decode_rune (a # s))) (a # s)) \<le> length s"
    using decode_rune_width [of "a # s"] by simp
  then show ?case using 2 by simp
qed simp

section \<open>Rules\<close>

record validator_ext =
  vx_email :: "string \<Rightarrow> bool"
  vx_bcp47 :: "string \<Rightarrow> bool"
  vx_upper :: "nat \<Rightarrow> bool"
  vx_lower :: "nat \<Rightarrow> bool"
  vx_digit :: "nat \<Rightarrow> bool"

definition IsUpper :: "validator_ext \<Rightarrow> nat \<Rightarrow> bool" where
  "IsUpper V r \<longleftrightarrow> (if r < 128 then 65 \<le> r \<and> r \<le> 90 else vx_upper V r)"

definition IsLower :: "validator_ext \<Rightarrow> nat \<Rightarrow> bool" where
  "IsLower V r \<longleftrightarrow> (if r < 128 then 97 \<le> r \<and> r \<le> 122 else vx_lower V r)"

definition IsDigit :: "validator_ext \<Rightarrow> nat \<Rightarrow> bool" where
  "IsDigit V r \<longleftrightarrow> (if r < 128 then 48 \<le> r \<and> r \<le> 57 else vx_digit V r)"

text \<open>The loop of \<open>strongPassword\<close> with its three flags.\<close>

fun password_classes :: "validator_ext \<Rightarrow> nat list \<Rightarrow> bool \<times> bool \<times> bool \<Rightarrow> bool \<times> bool \<times> bool" where
  "password_classes V [] flags = flags"
| "password_classes V (r # rs) (hasUpper, hasLower, hasDigit) =
     password_classes V rs
       (if IsUpper V r then (True, hasLower, hasDigit)
        else if IsLower V r then (hasUpper, True, hasDigit)
        else if IsDigit V r then (hasUpper, hasLower, True)
        else (hasUpper, hasLower, hasDigit))"

definition strongPassword :: "validator_ext \<Rightarrow> string \<Rightarrow> bool" where
  "strongPassword V password =
     (case password_classes V (runes password) (False, False, False) of
        (hasUpper, hasLower, hasDigit) \<Rightarrow> hasUpper \<and> hasLower \<and> hasDigit)"

definition validRole :: "string \<Rightarrow> bool" where
  "validRole s = Role_Valid s"

datatype rule =
    Required | OmitEmpty | Email | MinLength nat | MaxLength nat | StrongPassword | RoleRule | Bcp47LanguageTag

text \<open>The tag of a rule and its parameter, as a failed rule reports them.\<close>

fun rule_tag :: "rule \<Rightarrow> string \<times> string" where
  "rule_tag Required = (''required'', [])"
| "rule_tag OmitEmpty = (''omitempty'', [])"
| "rule_tag Email = (''email'', [])"
| "rule_tag (MinLength n) = (''min'', show_nat n)"
| "rule_tag (MaxLength n) = (''max'', show_nat n)"
| "rule_tag StrongPassword = (''strongpassword'', [])"
| "rule_tag RoleRule = (''role'', [])"
| "rule_tag Bcp47LanguageTag = (''bcp47_language_tag'', [])"

fun rule_holds :: "validator_ext \<Rightarrow> rule \<Rightarrow> string \<Rightarrow> bool" where
  "rule_holds V Required s \<longleftrightarrow> s \<noteq> []"
| "rule_holds V OmitEmpty s \<longleftrightarrow> True"
| "rule_holds V Email s \<longleftrightarrow> vx_email V s"
| "rule_holds V (MinLength n) s \<longleftrightarrow> n \<le> length (runes s)"
| "rule_holds V (MaxLength n) s \<longleftrightarrow> length (runes s) \<le> n"
| "rule_holds V StrongPassword s \<longleftrightarrow> strongPassword V s"
| "rule_holds V RoleRule s \<longleftrightarrow> validRole s"
| "rule_holds V Bcp47LanguageTag s \<longleftrightarrow> vx_bcp47 V s"

text \<open>
  A field holds a string or a pointer to one. The rules run from left to right and the first that
  fails is reported; \<open>omitempty\<close> ends the run at an empty string or a nil pointer.
\<close>

datatype field_value = StringField string | StringPtr "string option"

fun first_failure :: "validator_ext \<Rightarrow> field_value \<Rightarrow> rule list \<Rightarrow> rule option" where
  "first_failure V v [] = None"
| "first_failure V (StringField s) (r # rs) =
     (if r = OmitEmpty \<and> s = [] then None
      else if rule_holds V r s then first_failure V (StringField s) rs else Some r)"
| "first_failure V (StringPtr None) (r # rs) = (if r = OmitEmpty then None else Some r)"
| "first_failure V (StringPtr (Some s)) (r # rs) =
     (if r = Required \<or> rule_holds V r s then first_failure V (StringPtr (Some s)) rs else Some r)"

record tagged_field =
  tfName :: string
  tfValue :: field_value
  tfRules :: "rule list"

text \<open>\<open>%s\<close> of a parameter, and the sentence of a failed rule.\<close>

definition message :: "(string \<Rightarrow> string) \<Rightarrow> string \<Rightarrow> bool \<Rightarrow> string \<Rightarrow> string" where
  "message uni tag is_string param =
     (if tag = ''required'' then ''This field is required''
      else if tag = ''email'' then ''Must be a valid email address''
      else if tag = ''min'' then
        (if is_string then ''Must be at least '' @ param @ '' characters'' else ''Must be at least '' @ param)
      else if tag = ''max'' then
        (if is_string then ''Must be at most '' @ param @ '' characters'' else ''Must be at most '' @ param)
      else if tag = ''strongpassword'' then ''Must contain an uppercase letter, a lowercase letter and a digit''
      else if tag = ''role'' then ''Must be one of: user, admin''
      else if tag = ''oneof'' then ''Must be one of: '' @ ReplaceAll param (CHR '' '') '', ''
      else if tag = ''uuid'' \<or> tag = ''uuid4'' then ''Must be a valid UUID''
      else if tag = ''eqfield'' then ''Must match '' @ param
      else if tag = ''url'' then ''Must be a valid URL''
      else if tag = ''gte'' then ''Must be greater than or equal to '' @ param
      else if tag = ''lte'' then ''Must be less than or equal to '' @ param
      else ''Failed the '' @ Quote uni tag @ '' rule'')"

definition field_failures :: "validator_ext \<Rightarrow> tagged_field list \<Rightarrow> (string \<times> rule) list" where
  "field_failures V fs =
     concat (map (\<lambda>f. case first_failure V (tfValue f) (tfRules f) of
                        None \<Rightarrow> [] | Some r \<Rightarrow> [(tfName f, r)]) fs)"

text \<open>\<open>Validator.Struct\<close>; a struct is never an invalid argument of the package.\<close>

definition Validator_Struct :: "(string \<Rightarrow> string) \<Rightarrow> validator_ext \<Rightarrow> tagged_field list \<Rightarrow> goerr option" where
  "Validator_Struct uni V fs =
     (case field_failures V fs of
        [] \<Rightarrow> None
      | failures \<Rightarrow>
          Some (Validation (map (\<lambda>(name, r). case rule_tag r of (tag, param) \<Rightarrow>
                 \<lparr>feField = name, feMessage = message uni tag True param\<rparr>) failures)))"

lemma Validator_Struct_None:
  "Validator_Struct uni V fs = None \<longleftrightarrow> (\<forall>f\<in>set fs. first_failure V (tfValue f) (tfRules f) = None)"
proof -
  have "field_failures V fs = [] \<longleftrightarrow> (\<forall>f\<in>set fs. first_failure V (tfValue f) (tfRules f) = None)"
    by (auto simp: field_failures_def split: option.splits)
  then show ?thesis by (cases "field_failures V fs") (auto simp: Validator_Struct_def)
qed

lemma first_failure_string:
  "OmitEmpty \<notin> set rs \<Longrightarrow>
   first_failure V (StringField s) rs = None \<longleftrightarrow> (\<forall>r\<in>set rs. rule_holds V r s)"
  by (induction rs) auto

text \<open>The flags are independent of the order of the runes.\<close>

lemma password_classes_flags:
  "password_classes V rs (u, l, d) =
     (u \<or> (\<exists>r\<in>set rs. IsUpper V r),
      l \<or> (\<exists>r\<in>set rs. \<not> IsUpper V r \<and> IsLower V r),
      d \<or> (\<exists>r\<in>set rs. \<not> IsUpper V r \<and> \<not> IsLower V r \<and> IsDigit V r))"
  by (induction rs arbitrary: u l d) auto

lemma strongPassword_iff:
  "strongPassword V s \<longleftrightarrow>
     (\<exists>r\<in>set (runes s). IsUpper V r) \<and> (\<exists>r\<in>set (runes s). \<not> IsUpper V r \<and> IsLower V r) \<and>
     (\<exists>r\<in>set (runes s). \<not> IsUpper V r \<and> \<not> IsLower V r \<and> IsDigit V r)"
  by (simp add: strongPassword_def password_classes_flags)

end
