(* ===== verification/Serializers.thy ===== *)
theory Serializers
  imports Validation AuthService
begin

text \<open>
  \<open>app/serializers\<close>: the request bodies with their struct tags, and the public projections of
  accounts, words and sessions.
\<close>

section \<open>Requests (auth.go)\<close>

record RegisterRequest =
  rrEmail :: string
  rrPassword :: string
  rrFullName :: string

definition tagged :: "string \<Rightarrow> string \<Rightarrow> rule list \<Rightarrow> tagged_field" where
  "tagged name value rules = \<lparr>tfName = name, tfValue = StringField value, tfRules = rules\<rparr>"

definition optional :: "string \<Rightarrow> string option \<Rightarrow> rule list \<Rightarrow> tagged_field" where
  "optional name value rules = \<lparr>tfName = name, tfValue = StringPtr value, tfRules = rules\<rparr>"

definition RegisterRequest_fields :: "RegisterRequest \<Rightarrow> tagged_field list" where
  "RegisterRequest_fields r =
     [tagged ''email'' (rrEmail r) [Required, Email, MaxLength 254],
      tagged ''password'' (rrPassword r) [Required, MinLength 6, MaxLength 15, StrongPassword],
      tagged ''full_name'' (rrFullName r) [Required, MinLength 2, MaxLength 120]]"

record LoginRequest =
  lrEmail :: string
  lrPassword :: string

definition LoginRequest_fields :: "LoginRequest \<Rightarrow> tagged_field list" where
  "LoginRequest_fields r =
     [tagged ''email'' (lrEmail r) [Required, Email, MaxLength 254],
      tagged ''password'' (lrPassword r) [Required, MaxLength 72]]"

record RefreshRequest =
  rqRefreshToken :: string

record LogoutRequest =
  lqRefreshToken :: string

record ChangePasswordRequest =
  cqCurrentPassword :: string
  cqNewPassword :: string

definition ChangePasswordRequest_fields :: "ChangePasswordRequest \<Rightarrow> tagged_field list" where
  "ChangePasswordRequest_fields r =
     [tagged ''current_password'' (cqCurrentPassword r) [Required, MaxLength 72],
      tagged ''new_password'' (cqNewPassword r) [Required, MinLength 12, MaxLength 72, StrongPassword]]"

record ForgotPasswordRequest =
  fqEmail :: string

definition ForgotPasswordRequest_fields :: "ForgotPasswordRequest \<Rightarrow> tagged_field list" where
  "ForgotPasswordRequest_fields r = [tagged ''email'' (fqEmail r) [Required, Email, MaxLength 254]]"

record ResetPasswordRequest =
  pqToken :: string
  pqNewPassword :: string

definition ResetPasswordRequest_fields :: "ResetPasswordRequest \<Rightarrow> tagged_field list" where
  "ResetPasswordRequest_fields r =
     [tagged ''token'' (pqToken r) [Required, MinLength 16, MaxLength 256],
      tagged ''new_password'' (pqNewPassword r) [Required, MinLength 12, MaxLength 72, StrongPassword]]"

record VerifyEmailRequest =
  vqToken :: string

definition VerifyEmailRequest_fields :: "VerifyEmailRequest \<Rightarrow> tagged_field list" where
  "VerifyEmailRequest_fields r = [tagged ''token'' (vqToken r) [Required, MinLength 16, MaxLength 256]]"

section \<open>Requests (user.go and word.go)\<close>

record CreateUserRequest =
  urEmail :: string
  urPassword :: string
  urFullName :: string
  urRole :: string

definition CreateUserRequest_fields :: "CreateUserRequest \<Rightarrow> tagged_field list" where
  "CreateUserRequest_fields r =
     [tagged ''email'' (urEmail r) [Required, Email, MaxLength 254],
      tagged ''password'' (urPassword r) [Required, MinLength 12, MaxLength 72, StrongPassword],
      tagged ''full_name'' (urFullName r) [Required, MinLength 2, MaxLength 120],
      tagged ''role'' (urRole r) [OmitEmpty, RoleRule]]"

record UpdateUserRequest =
  ueFullName :: "string option"
  ueRole :: "string option"
  ueIsActive :: "bool option"

definition UpdateUserRequest_fields :: "UpdateUserRequest \<Rightarrow> tagged_field list" where
  "UpdateUserRequest_fields r =
     [optional ''full_name'' (ueFullName r) [OmitEmpty, MinLength 2, MaxLength 120],
      optional ''role'' (ueRole r) [OmitEmpty, RoleRule]]"

record CreateWordRequest =
  wqTerm :: string
  wqLanguage :: string

definition CreateWordRequest_fields :: "CreateWordRequest \<Rightarrow> tagged_field list" where
  "CreateWordRequest_fields r =
     [tagged ''term'' (wqTerm r) [Required, MinLength 1, MaxLength 200],
      tagged ''language'' (wqLanguage r) [OmitEmpty, Bcp47LanguageTag]]"

section \<open>Responses\<close>

record UserResponse =
  xuID :: uuid
  xuEmail :: string
  xuFullName :: string
  xuRole :: string
  xuAvatarURL :: "string option"
  xuIsActive :: bool
  xuEmailVerifiedAt :: "gotime option"
  xuLastLoginAt :: "gotime option"
  xuCreatedAt :: gotime
  xuUpdatedAt :: gotime

definition ToUserResponse :: "User \<Rightarrow> UserResponse" where
  "ToUserResponse u =
     \<lparr>xuID = uID u, xuEmail = uEmail u, xuFullName = uFullName u, xuRole = uRole u, xuAvatarURL = uAvatarURL u,
      xuIsActive = uIsActive u, xuEmailVerifiedAt = uEmailVerifiedAt u, xuLastLoginAt = uLastLoginAt u,
      xuCreatedAt = uCreatedAt u, xuUpdatedAt = uUpdatedAt u\<rparr>"

definition ToUserResponses :: "User list \<Rightarrow> UserResponse list" where
  "ToUserResponses users = map ToUserResponse users"

record TokensResponse =
  xtAccessToken :: string
  xtRefreshToken :: string
  xtTokenType :: string
  xtExpiresIn :: int
  xtExpiresAt :: gotime

definition ToTokensResponse :: "TokenPair \<Rightarrow> TokensResponse" where
  "ToTokensResponse pair =
     \<lparr>xtAccessToken = tpAccessToken pair, xtRefreshToken = tpRefreshToken pair, xtTokenType = tpTokenType pair,
      xtExpiresIn = tpExpiresIn pair, xtExpiresAt = tpExpiresAt pair\<rparr>"

record AuthResponse =
  xaUser :: UserResponse
  xaTokens :: TokensResponse

definition ToAuthResponse :: "AuthResult \<Rightarrow> AuthResponse" where
  "ToAuthResponse result =
     \<lparr>xaUser = ToUserResponse (arUser result), xaTokens = ToTokensResponse (arTokens result)\<rparr>"

record WordMetaResponse =
  xmSynonyms :: "string list"
  xmAntonyms :: "string list"
  xmOtherWaysToSay :: "string list"

record WordSenseResponse =
  xsID :: uuid
  xsPartOfSpeech :: "string option"
  xsDefinition :: string
  xsExample :: "string option"
  xsMeta :: WordMetaResponse

record WordResponse =
  xwID :: uuid
  xwTerm :: string
  xwLanguage :: string
  xwPronunciation :: "string option"
  xwTags :: "string list option"
  xwSenses :: "WordSenseResponse list"
  xwCreatedAt :: gotime
  xwUpdatedAt :: gotime

definition ToWordSenseResponse :: "WordSense \<Rightarrow> WordSenseResponse" where
  "ToWordSenseResponse s =
     \<lparr>xsID = wsID s, xsPartOfSpeech = wsPartOfSpeech s, xsDefinition = wsDefinition s, xsExample = wsExample s,
      xsMeta = \<lparr>xmSynonyms = wmSynonyms (wsMeta s), xmAntonyms = wmAntonyms (wsMeta s),
                xmOtherWaysToSay = wmOtherWaysToSay (wsMeta s)\<rparr>\<rparr>"

definition ToWordResponse :: "Word \<Rightarrow> WordResponse" where
  "ToWordResponse w =
     \<lparr>xwID = wID w, xwTerm = wTerm w, xwLanguage = wLanguage w, xwPronunciation = wPronunciation w,
      xwTags = wTags w, xwSenses = map ToWordSenseResponse (wSenses w), xwCreatedAt = wCreatedAt w,
      xwUpdatedAt = wUpdatedAt w\<rparr>"

definition ToWordResponses :: "Word list \<Rightarrow> WordResponse list" where
  "ToWordResponses words = map ToWordResponse words"

end
