(* ===== verification/Enrichment.thy ===== *)
theory Enrichment
  imports Identity Storage
begin

text \<open>
  \<open>app/lib/openai\<close> and \<open>app/lib/dictionary\<close>: the chat-completions client with its request log, and
  the look-up of a term's senses. The JSON texts and the calendar are parameters, collected in
  \<open>openai_codec\<close>. The copy of the reply that \<open>GetInitialWordData\<close> prints to standard output is not
  part of the world.
\<close>

section \<open>Messages (openai/client.go)\<close>

record ChatMessage =
  cmRole :: string
  cmContent :: string

definition JSONObjectResponseFormat :: string where
  "JSONObjectResponseFormat = ''json_object''"

record chatRequest =
  crModel :: string
  crMessages :: "ChatMessage list"
  crResponseFormat :: "string option"
  crTemperature :: rat

record chatResponse =
  cpChoices :: "ChatMessage list"
  cpError :: "string option"

text \<open>One line of a day's log (request_logger.go).\<close>

record requestLogEntry =
  rlTimestamp :: gotime
  rlModel :: string
  rlMessages :: "ChatMessage list"
  rlResponse :: string
  rlError :: string
  rlDurationMS :: int

record openai_codec =
  ocRequest :: "chatRequest \<Rightarrow> goerr + string"
  ocURL :: "string \<Rightarrow> goerr option"
  ocResponse :: "string \<Rightarrow> goerr + chatResponse"
  ocSenses :: "string \<Rightarrow> goerr + Sense list"
  ocLogLine :: "requestLogEntry \<Rightarrow> goerr + string"
  ocDate :: "gotime \<Rightarrow> string"

section \<open>The request log (request_logger.go)\<close>

text \<open>A logger without a directory is nil, and so is the option here.\<close>

record requestLogger =
  rgDir :: string

definition newRequestLogger :: "string \<Rightarrow> requestLogger option" where
  "newRequestLogger dir = (if dir = [] then None else Some \<lparr>rgDir = dir\<rparr>)"

definition requestLogger_warn :: "string \<Rightarrow> goerr \<Rightarrow> unit act" where
  "requestLogger_warn action e =
     log_at LevelWarn (''openai request log: '' @ action @ '' failed'') [(''error'', error_text e)]"

text \<open>Opening for append creates the file; a line is appended in one write.\<close>

definition os_OpenAppend :: "string \<Rightarrow> unit act" where
  "os_OpenAppend name = external (modify (\<lambda>w.
     if w_files w name = None then w\<lparr>w_files := (w_files w)(name \<mapsto> [])\<rparr> else w))"

definition os_Append :: "string \<Rightarrow> string \<Rightarrow> unit act" where
  "os_Append name line = external (modify (\<lambda>w.
     w\<lparr>w_files := (w_files w)(name \<mapsto> (case w_files w name of None \<Rightarrow> [] | Some s \<Rightarrow> s) @ line)\<rparr>))"

definition log_file :: "ext \<Rightarrow> openai_codec \<Rightarrow> requestLogger \<Rightarrow> gotime \<Rightarrow> string" where
  "log_file E J l t = filepath_Abs E (path_Join [rgDir l, ocDate J t @ ''.log''])"

definition requestLogger_write ::
    "ext \<Rightarrow> openai_codec \<Rightarrow> requestLogger option \<Rightarrow> requestLogEntry \<Rightarrow> unit act" where
  "requestLogger_write E J logger entry =
     (case logger of
        None \<Rightarrow> ret ()
      | Some l \<Rightarrow>
          attempt (os_MkdirAll (rgDir l)) (requestLogger_warn ''create log dir'') (\<lambda>_.
          let path = log_file E J l (rlTimestamp entry) in
          attempt (os_OpenAppend path) (requestLogger_warn ''open log file'') (\<lambda>_.
          attempt (of_result (ocLogLine J entry)) (requestLogger_warn ''marshal log entry'') (\<lambda>line.
          attempt (os_Append path (line @ [CHR 0x0A])) (requestLogger_warn ''write log entry'') ret))))"

section \<open>The client\<close>

record Client =
  ctAPIKey :: string
  ctModel :: string
  ctBaseURL :: string
  ctReqLogger :: "requestLogger option"

definition NewClient :: "OpenAI \<Rightarrow> Client" where
  "NewClient cfg =
     \<lparr>ctAPIKey = oaAPIKey cfg, ctModel = oaModel cfg, ctBaseURL = oaBaseURL cfg,
      ctReqLogger = newRequestLogger (oaLogDir cfg)\<rparr>"

text \<open>The exchange itself. Reading the body is a call of its own, which may fail.\<close>

definition chatCompletion ::
    "ext \<Rightarrow> openai_codec \<Rightarrow> Client \<Rightarrow> ChatMessage list \<Rightarrow> string option \<Rightarrow> rat \<Rightarrow> string act" where
  "chatCompletion E J c messages format temperature =
     attempt (of_result (ocRequest J
         \<lparr>crModel = ctModel c, crMessages = messages, crResponseFormat = format, crTemperature = temperature\<rparr>))
       (\<lambda>e. fail (Wrapf ''marshal request: '' e '''')) (\<lambda>payload.
     case ocURL J (ctBaseURL c @ ''/chat/completions'') of
       Some e \<Rightarrow> fail (Wrapf ''build request: '' e '''')
     | None \<Rightarrow>
     attempt (http_Do E
         \<lparr>hqMethod = ''POST'', hqURL = ctBaseURL c @ ''/chat/completions'',
          hqHeaders = [(''Content-Type'', ''application/json''), (''Authorization'', ''Bearer '' @ ctAPIKey c)],
          hqBody = payload\<rparr>)
       (\<lambda>e. fail (Wrapf ''call openai: '' e '''')) (\<lambda>resp.
     attempt (external (ret (hrBody resp))) (\<lambda>e. fail (Wrapf ''read openai response: '' e '''')) (\<lambda>raw.
     attempt (of_result (ocResponse J raw)) (\<lambda>e. fail (Wrapf ''decode openai response: '' e '''')) (\<lambda>parsed.
     if hrStatus resp \<noteq> 200
     then (case cpError parsed of
             Some m \<Rightarrow> fail (Opaque (''openai error ('' @ FormatInt (hrStatus resp) @ ''): '' @ m))
           | None \<Rightarrow> fail (Opaque (''openai error ('' @ FormatInt (hrStatus resp) @ ''): '' @ raw)))
     else (case cpChoices parsed of
             [] \<Rightarrow> fail (Opaque ''openai response had no choices'')
           | m # _ \<Rightarrow> ret (cmContent m))))))"

text \<open>The call with its log line, which is written whatever the outcome.\<close>

definition ChatCompletion ::
    "ext \<Rightarrow> openai_codec \<Rightarrow> Client \<Rightarrow> ChatMessage list \<Rightarrow> string option \<Rightarrow> rat \<Rightarrow> string act" where
  "ChatCompletion E J c messages format temperature =
     attempt time_now fail (\<lambda>started.
     attempt (outcome (chatCompletion E J c messages format temperature)) fail (\<lambda>res.
     attempt time_now fail (\<lambda>finished.
     ignore (requestLogger_write E J (ctReqLogger c)
        \<lparr>rlTimestamp = started, rlModel = ctModel c, rlMessages = messages,
         rlResponse = (case res of Inl _ \<Rightarrow> [] | Inr content \<Rightarrow> content),
         rlError = (case res of Inl e \<Rightarrow> error_text e | Inr _ \<Rightarrow> []),
         rlDurationMS = (finished - started) div 1000000\<rparr>)
       (of_result res))))"

section \<open>The senses of a term (dictionary)\<close>

definition getInitialWordDataSystemPrompt :: string where \<open>getInitialWordDataSystemPrompt =
  ''You are a lexicographer. Given a term, respond with a JSON object of the shape:'' @ [CHR 0x0A] @
  ''{"senses": [{"part_of_speech": "noun|verb|adjective|adverb|pronoun|preposition|conjunction|interjection|phrase", '' @
  ''"definition": "...", "example": "a sentence using the term in this sense", "synonyms": ["..."], '' @
  ''"antonyms": ["..."], "other_ways_to_say": ["..."]}]}'' @ [CHR 0x0A] @
  ''List one entry per distinct meaning, most common first. synonyms/antonyms/other_ways_to_say may be empty '' @
  ''arrays but must be present. Respond with only the JSON object, nothing else.''\<close>

definition GetInitialWordData ::
    "ext \<Rightarrow> openai_codec \<Rightarrow> Client \<Rightarrow> string \<Rightarrow> string \<Rightarrow> Sense list act" where
  "GetInitialWordData E J client term language =
     attempt (ChatCompletion E J client
        [\<lparr>cmRole = ''system'', cmContent = getInitialWordDataSystemPrompt\<rparr>,
         \<lparr>cmRole = ''user'', cmContent = ''Language: '' @ language @ [CHR 0x0A] @ ''Term: '' @ term\<rparr>]
        (Some JSONObjectResponseFormat) (fl (3 / 10)))
       (\<lambda>e. fail (Wrapf ''get initial word data: '' e '''')) (\<lambda>content.
     attempt (of_result (ocSenses J content)) (\<lambda>e. fail (Wrapf ''decode senses: '' e '''')) ret)"

text \<open>The \<open>Enricher\<close> interface as a function of the term and the language.\<close>

type_synonym Enricher = "string \<Rightarrow> string \<Rightarrow> Sense list act"

definition NewOpenAIEnricher :: "ext \<Rightarrow> openai_codec \<Rightarrow> OpenAI \<Rightarrow> Enricher" where
  "NewOpenAIEnricher E J cfg = GetInitialWordData E J (NewClient cfg)"

end
