(* ===== verification/WordService.thy ===== *)
theory WordService
  imports Enrichment UserService
begin

text \<open>
  \<open>app/services/word.go\<close>: the vocabulary catalogue. A word and its senses are created in one
  transaction from what the enricher returns.
\<close>

record WordCreateInput =
  wiTerm :: string
  wiLanguage :: string

record wordService =
  wvEnricher :: "Enricher option"
  wvCfg :: Config

definition NewWordService :: "Enricher option \<Rightarrow> Config \<Rightarrow> wordService" where
  "NewWordService enricher cfg = \<lparr>wvEnricher = enricher, wvCfg = cfg\<rparr>"

text \<open>What becomes of one sense; a sense without a definition is skipped.\<close>

definition sense_input :: "uuid \<Rightarrow> int \<Rightarrow> Sense \<Rightarrow> CreateWordSenseInput option" where
  "sense_input word i sense =
     (let trimmed = TrimSpace (snExample sense); definition' = TrimSpace (snDefinition sense) in
      if definition' = [] then None
      else Some
        \<lparr>csWordID = word,
         csPartOfSpeech = (if PartOfSpeech_Valid (snPartOfSpeech sense) then Some (snPartOfSpeech sense) else None),
         csDefinition = definition',
         csExample = (if trimmed = [] then None else Some trimmed),
         csMeta = Some \<lparr>wmSynonyms = snSynonyms sense, wmAntonyms = snAntonyms sense,
                        wmOtherWaysToSay = snOtherWaysToSay sense\<rparr>,
         csSenseOrder = int16 i\<rparr>)"

fun create_senses :: "ext \<Rightarrow> uuid \<Rightarrow> int \<Rightarrow> Sense list \<Rightarrow> unit act" where
  "create_senses E word i [] = ret ()"
| "create_senses E word i (sense # senses) =
     (case sense_input word i sense of
        None \<Rightarrow> create_senses E word (i + 1) senses
      | Some inp \<Rightarrow> attempt (WordSenses_Create E inp) fail (\<lambda>_. create_senses E word (i + 1) senses))"

definition WordService_Get :: "ext \<Rightarrow> uuid \<Rightarrow> uuid \<Rightarrow> Word act" where
  "WordService_Get E k owner =
     attempt (Words_GetByID E k) fail (\<lambda>word.
     if wCreatedBy word \<noteq> Some owner then fail (NotFound ''Word'')
     else attempt (WordSenses_ListByWord E k) fail (\<lambda>senses. ret (word\<lparr>wSenses := senses\<rparr>)))"

text \<open>The transaction that adds the word and its senses.\<close>

definition add_word :: "ext \<Rightarrow> Actor \<Rightarrow> string \<Rightarrow> string \<Rightarrow> Sense list \<Rightarrow> uuid act" where
  "add_word E actor term language senses =
     WithTx PoolStore (\<lambda>tx.
       attempt (Words_Create E
          \<lparr>cwTerm = term, cwLanguage = language, cwPronunciation = None, cwTags = None,
           cwCreatedBy = Some (acID actor)\<rparr>) fail (\<lambda>word.
       attempt (create_senses E (wID word) 0 senses) fail (\<lambda>_. ret (wID word))))"

definition CreateAndEnrich :: "ext \<Rightarrow> wordService \<Rightarrow> Actor \<Rightarrow> WordCreateInput \<Rightarrow> Word act" where
  "CreateAndEnrich E s actor inp =
     (let term = TrimSpace (wiTerm inp);
          language = ToLower (x_unicode_lower E) (TrimSpace (wiLanguage inp));
          language = (if language = [] then ''en'' else language) in
      attempt (outcome (Words_GetByTerm E language term)) fail (\<lambda>found.
      case found of
        Inr _ \<Rightarrow> fail (Conflict ''This word already exists'')
      | Inl e \<Rightarrow>
          if \<not> has_code e CodeNotFound then fail e
          else
          (case (if OpenAI_Enabled (cfOpenAI (wvCfg s)) then wvEnricher s else None) of
             None \<Rightarrow> fail (Unavailable ''Word enrichment is not configured'' None)
           | Some enrich \<Rightarrow>
               attempt (enrich term language) (\<lambda>e. fail (Internal (Wrapf ''enrich word: '' e ''''))) (\<lambda>senses.
               if senses = []
               then fail (Internal (Opaque (''enrichment returned no senses for '' @
                                            Quote (x_unicode_quote E) term)))
               else
               attempt (add_word E actor term language senses) fail (\<lambda>wordID.
               ignore (log_at LevelInfo ''word created and enriched''
                  [(''word_id'', x_uuid_string E wordID), (''term'', term)])
               (WordService_Get E wordID (acID actor)))))))"

definition WordService_List :: "ext \<Rightarrow> ListWordsFilter \<Rightarrow> PageParams \<Rightarrow> Word Page act" where
  "WordService_List E flt page =
     attempt (Words_List E flt page) fail (\<lambda>(words, total).
     attempt (WordSenses_ListByWords E (map wID words)) fail (\<lambda>senses.
     ret \<lparr>pgItems = map (\<lambda>w. w\<lparr>wSenses := (case senses (wID w) of None \<Rightarrow> [] | Some ss \<Rightarrow> ss)\<rparr>) words,
          pgMeta = NewPageMeta page total\<rparr>))"

lemmas word_service_defs = WordService_Get_def CreateAndEnrich_def WordService_List_def

end
