(* ===== verification/Http.thy ===== *)
theory Http
  imports Logger Serializers UserService WordService
begin

text \<open>
  The HTTP transport: one request and the response under construction (\<open>fiber.Ctx\<close>), the handlers as
  programs over that context and the world, the envelopes of \<open>app/lib/utils.go\<close> and the helpers of
  \<open>app/handlers/handler.go\<close>. What the framework computes (routing, decoding of bodies, its own
  middleware) is collected in \<open>http_ext\<close>.
\<close>

section \<open>Requests and responses\<close>

text \<open>A file of a multipart form. Opening it may fail.\<close>

record FileHeader =
  fhFilename :: string
  fhContentType :: string
  fhSize :: int
  fhOpen :: "goerr + reader"

text \<open>Absent headers, query parameters and cookies read as the empty string.\<close>

record request =
  rqMethod :: string
  rqPath :: string
  rqIP :: string
  rqHeader :: "string \<Rightarrow> string"
  rqQuery :: "string \<Rightarrow> string"
  rqQueryString :: string
  rqCookie :: "string \<Rightarrow> string"
  rqBody :: string
  rqFormFile :: "string \<Rightarrow> goerr + FileHeader"

datatype payload =
    UserData UserResponse | UserList "UserResponse list" | AuthData AuthResponse
  | WordData WordResponse | WordList "WordResponse list" | MessageData string

record ErrorEnvelope =
  evMessage :: string
  evCode :: code
  evErrors :: "FieldError list"
  evRequestID :: string

datatype json = JString string | JObject "(string \<times> json) list"

datatype body =
    NoBody | SuccessEnvelope payload "PageMeta option" | ErrorBody ErrorEnvelope | JsonBody json
  | StreamBody string | FileBody string | TextBody string

record cookie =
  ckName :: string
  ckValue :: string
  ckPath :: string
  ckDomain :: string
  ckExpires :: gotime
  ckMaxAge :: int
  ckSecure :: bool
  ckHTTPOnly :: bool
  ckSameSite :: string

text \<open>\<open>cxContext\<close> is the context that the handlers pass on to the services.\<close>

record ctx =
  cxRequest :: request
  cxParams :: "string \<Rightarrow> string"
  cxRequestID :: "string option"
  cxContext :: gocontext
  cxClaims :: "Claims option"
  cxStatus :: int
  cxHeaders :: "string \<Rightarrow> string option"
  cxCookies :: "cookie list"
  cxBody :: body

definition new_ctx :: "request \<Rightarrow> ctx" where
  "new_ctx r =
     \<lparr>cxRequest = r, cxParams = (\<lambda>_. []), cxRequestID = None, cxContext = Background, cxClaims = None,
      cxStatus = 200, cxHeaders = (\<lambda>_. None), cxCookies = [], cxBody = NoBody\<rparr>"

type_synonym 'a hact = "(ctx \<times> world, goerr, 'a) go"

text \<open>A call into the layers below sees the world alone.\<close>

definition lift :: "'a act \<Rightarrow> 'a hact" where
  "lift m = (\<lambda>(c, w). case m w of (r, w') \<Rightarrow> (r, (c, w')))"

definition with_ctx :: "(ctx \<Rightarrow> 'a) \<Rightarrow> 'a hact" where
  "with_ctx f = gets (\<lambda>(c, w). f c)"

definition set_ctx :: "(ctx \<Rightarrow> ctx) \<Rightarrow> unit hact" where
  "set_ctx f = modify (\<lambda>(c, w). (f c, w))"

definition header :: "string \<Rightarrow> string hact" where
  "header k = with_ctx (\<lambda>c. rqHeader (cxRequest c) k)"

definition set_header :: "string \<Rightarrow> string \<Rightarrow> unit hact" where
  "set_header k v = set_ctx (\<lambda>c. c\<lparr>cxHeaders := (cxHeaders c)(k \<mapsto> v)\<rparr>)"

definition respond :: "int \<Rightarrow> body \<Rightarrow> unit hact" where
  "respond status b = set_ctx (\<lambda>c. c\<lparr>cxStatus := status, cxBody := b\<rparr>)"

definition of_res :: "goerr + 'a \<Rightarrow> 'a hact" where
  "of_res r = (\<lambda>s. (r, s))"

text \<open>
  The functions of the framework and the packages around it. The decoders give the value as far as
  it was filled and the error. \<open>hxMatch\<close> and \<open>hxUnder\<close> are the router's tests of a pattern and of a
  prefix, \<open>hxUnrouted\<close> is its error for a request no route answers, and \<open>hxAround\<close> is the panic
  recovery, the security headers, CORS and compression, in this order around the rest.
\<close>

record http_ext =
  hxRules :: validator_ext
  hxRegister :: "request \<Rightarrow> RegisterRequest \<times> goerr option"
  hxLogin :: "request \<Rightarrow> LoginRequest \<times> goerr option"
  hxRefresh :: "request \<Rightarrow> RefreshRequest \<times> goerr option"
  hxLogout :: "request \<Rightarrow> LogoutRequest \<times> goerr option"
  hxChangePassword :: "request \<Rightarrow> ChangePasswordRequest \<times> goerr option"
  hxForgotPassword :: "request \<Rightarrow> ForgotPasswordRequest \<times> goerr option"
  hxResetPassword :: "request \<Rightarrow> ResetPasswordRequest \<times> goerr option"
  hxVerifyEmail :: "request \<Rightarrow> VerifyEmailRequest \<times> goerr option"
  hxCreateUser :: "request \<Rightarrow> CreateUserRequest \<times> goerr option"
  hxUpdateUser :: "request \<Rightarrow> UpdateUserRequest \<times> goerr option"
  hxCreateWord :: "request \<Rightarrow> CreateWordRequest \<times> goerr option"
  hxMatch :: "string \<Rightarrow> string \<Rightarrow> (string \<Rightarrow> string) option"
  hxUnder :: "string \<Rightarrow> string \<Rightarrow> bool"
  hxUnrouted :: "request \<Rightarrow> goerr"
  hxAround :: "unit hact \<Rightarrow> unit hact"

section \<open>Envelopes (utils.go)\<close>

definition JSON :: "int \<Rightarrow> payload \<Rightarrow> unit hact" where
  "JSON status d = respond status (SuccessEnvelope d None)"

definition OK :: "payload \<Rightarrow> unit hact" where
  "OK d = JSON 200 d"

definition Created :: "payload \<Rightarrow> unit hact" where
  "Created d = JSON 201 d"

definition Message :: "int \<Rightarrow> string \<Rightarrow> unit hact" where
  "Message status m = JSON status (MessageData m)"

definition Paginated :: "('a list \<Rightarrow> payload) \<Rightarrow> 'a Page \<Rightarrow> unit hact" where
  "Paginated wrap page = respond 200 (SuccessEnvelope (wrap (pgItems page)) (Some (pgMeta page)))"

text \<open>\<open>lib.RequestID\<close>.\<close>

definition lib_RequestID :: "ctx \<Rightarrow> string" where
  "lib_RequestID c =
     (let k = RequestIDFromContext (Some (cxContext c)) in
      if k \<noteq> [] then k else rqHeader (cxRequest c) ''X-Request-ID'')"

text \<open>\<open>fiber.Query\<close> falls back to the default on an absent or malformed value.\<close>

definition query_int :: "request \<Rightarrow> string \<Rightarrow> int \<Rightarrow> int" where
  "query_int r k d = (case ParseInt (rqQuery r k) of None \<Rightarrow> d | Some n \<Rightarrow> n)"

definition query_text :: "request \<Rightarrow> string \<Rightarrow> string \<Rightarrow> string" where
  "query_text r k d = (if rqQuery r k = [] then d else rqQuery r k)"

definition page_params :: "ext \<Rightarrow> SortWhitelist \<Rightarrow> PageParams hact" where
  "page_params E w =
     attempt (with_ctx cxRequest) fail (\<lambda>r.
     of_res (ParsePageParams (x_unicode_lower E) (query_int r) (query_text r) w))"

section \<open>Claims of the caller (middleware/auth.go)\<close>

definition ClaimsFrom :: "Claims option hact" where
  "ClaimsFrom = with_ctx cxClaims"

definition UserID :: "ext \<Rightarrow> uuid hact" where
  "UserID E =
     attempt ClaimsFrom fail (\<lambda>found. case found of
        None \<Rightarrow> fail (Unauthorized [])
      | Some claims \<Rightarrow> of_res (Claims_UserID E claims))"

definition UserIDString :: "ctx \<Rightarrow> string" where
  "UserIDString c = (case cxClaims c of None \<Rightarrow> [] | Some claims \<Rightarrow> clSubject claims)"

definition UserRole :: "ctx \<Rightarrow> string" where
  "UserRole c = (case cxClaims c of None \<Rightarrow> [] | Some claims \<Rightarrow> clRole claims)"

section \<open>Decoding (handler.go)\<close>

definition bind :: "ext \<Rightarrow> http_ext \<Rightarrow> (request \<Rightarrow> 'a \<times> goerr option) \<Rightarrow> ('a \<Rightarrow> tagged_field list) \<Rightarrow> 'a hact" where
  "bind E X decode tags =
     attempt (with_ctx (\<lambda>c. decode (cxRequest c))) fail (\<lambda>(out, err). case err of
        Some e \<Rightarrow> fail (Wrap (BadRequest ''The request body is not valid JSON'') (Some e))
      | None \<Rightarrow>
          (case Validator_Struct (x_unicode_quote E) (hxRules X) (tags out) of
             Some e \<Rightarrow> fail e
           | None \<Rightarrow> ret out))"

definition uuidParam :: "ext \<Rightarrow> string \<Rightarrow> uuid hact" where
  "uuidParam E name =
     attempt (with_ctx (\<lambda>c. cxParams c name)) fail (\<lambda>raw. case x_uuid_parse E raw of
        None \<Rightarrow> fail (Wrap (WithFields (BadRequest ''Invalid identifier'')
                  [\<lparr>feField = name, feMessage = ''Must be a valid UUID''\<rparr>]) (Some (Opaque ''invalid UUID'')))
      | Some u \<Rightarrow> ret u)"

definition actorFrom :: "ext \<Rightarrow> Actor hact" where
  "actorFrom E =
     attempt ClaimsFrom fail (\<lambda>found. case found of
        None \<Rightarrow> fail (Unauthorized [])
      | Some claims \<Rightarrow>
          attempt (of_res (Claims_UserID E claims)) (\<lambda>e. fail (Wrap (Unauthorized []) (Some e)))
            (\<lambda>u. ret \<lparr>acID = u, acRole = clRole claims\<rparr>))"

lemmas http_defs = lift_def with_ctx_def set_ctx_def header_def set_header_def respond_def of_res_def

section \<open>Running and invariants\<close>

lemma lift_run: "lift m (c, w) = (case m w of (r, w') \<Rightarrow> (r, (c, w')))"
  by (simp add: lift_def)

lemma with_ctx_run [go_run]: "with_ctx f (c, w) = (Inr (f c), (c, w))"
  by (simp add: with_ctx_def gets_def)

lemma set_ctx_run [go_run]: "set_ctx f (c, w) = (Inr (), (f c, w))"
  by (simp add: set_ctx_def modify_def)

lemma of_res_run [go_run]: "of_res r s = (r, s)"
  by (simp add: of_res_def)

text \<open>
  What holds while a request is served: \<open>C\<close> of the request and the claims of its caller, and \<open>I\<close> of
  the world. A property of the world alone is the case where nothing is said of the caller.
\<close>

definition on_behalf :: "(request \<Rightarrow> Claims option \<Rightarrow> bool) \<Rightarrow> (world \<Rightarrow> bool) \<Rightarrow> ctx \<times> world \<Rightarrow> bool" where
  "on_behalf C I s \<longleftrightarrow> C (cxRequest (fst s)) (cxClaims (fst s)) \<and> I (snd s)"

lemma pres_lift [pres_intros]: "pres I m \<Longrightarrow> pres (on_behalf C I) (lift m)"
  by (auto simp: pres_def on_behalf_def lift_def split: prod.split)

lemma pres_set_ctx:
  "(\<And>c. cxRequest (g c) = cxRequest c \<and> cxClaims (g c) = cxClaims c) \<Longrightarrow> pres (on_behalf C I) (set_ctx g)"
  by (auto simp: pres_def on_behalf_def set_ctx_def modify_def)

lemma pres_on_ctx [pres_intros]:
  "pres (on_behalf C I) (with_ctx f)" "pres (on_behalf C I) (of_res r)"
  "pres (on_behalf C I) (set_ctx (\<lambda>c. c\<lparr>cxRequestID := q\<rparr>))" "pres (on_behalf C I) (set_ctx (\<lambda>c. c\<lparr>cxBody := b\<rparr>))"
  "pres (on_behalf C I) (set_ctx (\<lambda>c. c\<lparr>cxCookies := cs c\<rparr>))" "pres (on_behalf C I) (set_ctx (\<lambda>c. c\<lparr>cxHeaders := hs c\<rparr>))"
  "pres (on_behalf C I) (set_ctx (\<lambda>c. c\<lparr>cxContext := cx c\<rparr>))"
  "pres (on_behalf C I) (set_ctx (\<lambda>c. c\<lparr>cxStatus := st, cxBody := b\<rparr>))"
  by (rule pres_set_ctx, simp | simp add: pres_def with_ctx_def of_res_def gets_def)+

lemma pres_envelopes [pres_intros]:
  "pres (on_behalf C I) (header k)" "pres (on_behalf C I) (set_header k v)" "pres (on_behalf C I) (respond st b)"
  "pres (on_behalf C I) (JSON st d)" "pres (on_behalf C I) (OK d)" "pres (on_behalf C I) (Created d)"
  "pres (on_behalf C I) (Message st m)" "pres (on_behalf C I) (Paginated f p)" "pres (on_behalf C I) (page_params E wl)"
  unfolding header_def set_header_def respond_def JSON_def OK_def Created_def Message_def Paginated_def
    page_params_def by (intro pres_intros)+

lemma pres_claims [pres_intros]:
  "pres (on_behalf C I) ClaimsFrom" "pres (on_behalf C I) (UserID E)" "pres (on_behalf C I) (actorFrom E)"
  "pres (on_behalf C I) (uuidParam E n)" "pres (on_behalf C I) (bind E X dec tags)"
  unfolding ClaimsFrom_def UserID_def actorFrom_def uuidParam_def bind_def by (intro pres_intros)+

text \<open>The role an actor acts in is the one its claims name.\<close>

lemma pres_actorFrom:
  assumes "\<And>r cl a. C r (Some cl) \<Longrightarrow> acRole a = clRole cl \<Longrightarrow> pres (on_behalf C I) (k a)"
  shows "pres (on_behalf C I) (attempt (actorFrom E) fail k)"
proof (rule presI)
  fix s assume s: "on_behalf C I s"
  obtain c w where cw: "s = (c, w)" by fastforce
  show "on_behalf C I (snd (attempt (actorFrom E) fail k s))"
  proof (cases "fst (actorFrom E s)")
    case (Inl e)
    then show ?thesis using s
      by (auto simp: cw actorFrom_def ClaimsFrom_def attempt_def go_run split: option.splits sum.splits)
  next
    case (Inr a)
    then obtain cl where "cxClaims c = Some cl" "acRole a = clRole cl" "snd (actorFrom E s) = s"
      by (auto simp: cw actorFrom_def ClaimsFrom_def attempt_def go_run split: option.splits sum.splits)
    then show ?thesis
      using Inr s presD [OF assms [of "cxRequest c" cl a] s]
      by (cases "actorFrom E s") (auto simp: attempt_def cw on_behalf_def)
  qed
qed

end
