(* ===== verification/Middleware.thy ===== *)
theory Middleware
  imports Http
begin

text \<open>
  \<open>app/middleware\<close>: the correlation ID, the access log, authentication and roles, the rate limiter
  and the error handler. A middleware takes what the framework runs after it (\<open>c.Next\<close>).
\<close>

type_synonym middleware = "unit hact \<Rightarrow> unit hact"

section \<open>Correlation ID (requestid.go)\<close>

definition maxInboundRequestIDLen :: nat where
  "maxInboundRequestIDLen = 64"

definition RequestID :: "ext \<Rightarrow> middleware" where
  "RequestID E next =
     attempt (header ''X-Request-ID'') fail (\<lambda>inbound.
     attempt (if inbound = [] \<or> maxInboundRequestIDLen < length inbound then lift (uuid_NewString E) else ret inbound)
       fail (\<lambda>k.
     attempt (set_ctx (\<lambda>c. c\<lparr>cxRequestID := Some k\<rparr>)) fail (\<lambda>_.
     attempt (set_header ''X-Request-ID'' k) fail (\<lambda>_.
     attempt (set_ctx (\<lambda>c. c\<lparr>cxContext := WithRequestID (Some (cxContext c)) k\<rparr>)) fail (\<lambda>_.
     next)))))"

definition RequestIDFrom :: "ctx \<Rightarrow> string" where
  "RequestIDFrom c = (case cxRequestID c of None \<Rightarrow> [] | Some k \<Rightarrow> k)"

section \<open>Access log (logger.go)\<close>

text \<open>The error of the rest of the chain is kept as a value and returned in the end.\<close>

definition chain_result :: "unit hact \<Rightarrow> (goerr + unit) hact" where
  "chain_result next = attempt next (\<lambda>e. ret (Inl e)) (\<lambda>u. ret (Inr u))"

definition access_level :: "string list \<Rightarrow> string \<Rightarrow> int \<Rightarrow> log_level" where
  "access_level skip path status =
     (let level = (if 500 \<le> status then LevelError else if 400 \<le> status then LevelWarn else LevelInfo) in
      if path \<in> set skip \<and> level = LevelInfo then LevelDebug else level)"

definition access_attrs :: "ctx \<Rightarrow> duration \<Rightarrow> goerr + unit \<Rightarrow> (string \<times> string) list" where
  "access_attrs c elapsed res =
     [(''method'', rqMethod (cxRequest c)), (''path'', rqPath (cxRequest c)),
      (''status'', FormatInt (cxStatus c)), (''duration'', FormatInt elapsed), (''ip'', rqIP (cxRequest c)),
      (''user_agent'', rqHeader (cxRequest c) ''User-Agent'')] @
     (if rqQueryString (cxRequest c) = [] then [] else [(''query'', rqQueryString (cxRequest c))]) @
     (if UserIDString c = [] then [] else [(''user_id'', UserIDString c)]) @
     (case res of Inl e \<Rightarrow> [(''error'', error_text e)] | Inr _ \<Rightarrow> [])"

definition RequestLogger :: "string list \<Rightarrow> middleware" where
  "RequestLogger skip next =
     attempt (lift time_now) fail (\<lambda>start.
     attempt (chain_result next) fail (\<lambda>res.
     attempt (lift time_now) fail (\<lambda>finished.
     attempt (with_ctx (\<lambda>c. c)) fail (\<lambda>c.
     attempt (lift (log_at (access_level skip (rqPath (cxRequest c)) (cxStatus c)) ''http request''
        (access_attrs c (finished - start) res))) fail (\<lambda>_.
     of_res res)))))"

section \<open>Authentication (auth.go)\<close>

definition bearerPrefix :: string where
  "bearerPrefix = ''Bearer ''"

definition bearerToken :: "string \<Rightarrow> goerr + string" where
  "bearerToken h =
     (if h = [] then Inl (Unauthorized ''Authorization header is missing'')
      else if length h \<le> length bearerPrefix \<or> \<not> EqualFoldAscii (take (length bearerPrefix) h) bearerPrefix
      then Inl (Unauthorized ''Authorization header must use the Bearer scheme'')
      else let token = TrimSpace (drop (length bearerPrefix) h) in
        if token = [] then Inl (Unauthorized ''Bearer token is empty'') else Inr token)"

definition Authenticate :: "ext \<Rightarrow> JWTManager \<Rightarrow> middleware" where
  "Authenticate E tokens next =
     attempt (header ''Authorization'') fail (\<lambda>h.
     attempt (of_res (bearerToken h)) fail (\<lambda>raw.
     attempt (lift (ParseAccessToken E tokens raw))
       (\<lambda>e. if Is e ErrExpiredToken then fail (Wrap (Unauthorized ''Access token has expired'') (Some e))
            else fail (Wrap (Unauthorized ''Invalid access token'') (Some e))) (\<lambda>claims.
     attempt (of_res (Claims_UserID E claims))
       (\<lambda>e. fail (Wrap (Unauthorized ''Invalid access token'') (Some e))) (\<lambda>userID.
     attempt (lift (IsAccessTokenValid E userID (clID claims) (IssuedAtTime claims)))
       (\<lambda>e. fail (Internal e)) (\<lambda>valid.
     if \<not> valid then fail (Unauthorized ''Session is no longer valid, please sign in again'')
     else
     attempt (set_ctx (\<lambda>c. c\<lparr>cxClaims := Some claims\<rparr>)) fail (\<lambda>_.
     next))))))"

definition RequireRoles :: "string list \<Rightarrow> middleware" where
  "RequireRoles roles next =
     attempt ClaimsFrom fail (\<lambda>found. case found of
        None \<Rightarrow> fail (Unauthorized [])
      | Some claims \<Rightarrow> if clRole claims \<notin> set roles then fail (Forbidden []) else next)"

section \<open>Rate limiting (ratelimit.go)\<close>

text \<open>A client that is nil is None.\<close>

record RateLimitConfig =
  rcClient :: "unit option"
  rcEnabled :: bool
  rcMax :: int
  rcWindow :: duration
  rcKeyPrefix :: string

text \<open>The three commands of the pipeline in one transaction; \<open>Exec\<close> returns the first error.\<close>

definition multi3 :: "'a command \<Rightarrow> 'b command \<Rightarrow> 'c command \<Rightarrow> ('a \<times> 'b \<times> 'c) command" where
  "multi3 c1 c2 c3 = multi2 c1 (multi2 c2 c3)"

definition incrementWindow :: "string \<Rightarrow> duration \<Rightarrow> (int \<times> duration) act" where
  "incrementWindow key window =
     attempt (redis (multi3 (INCR key) (EXPIRE_NX key window) (TTL key))) fail (\<lambda>(count, _, ttl).
     ret (count, if ttl < 0 then window else ttl))"

definition rateLimitIdentity :: "ctx \<Rightarrow> string" where
  "rateLimitIdentity c =
     (if UserIDString c \<noteq> [] then ''user:'' @ UserIDString c else ''ip:'' @ rqIP (cxRequest c))"

text \<open>Go's quotient by a positive number truncates towards zero.\<close>

definition int_quot :: "int \<Rightarrow> int \<Rightarrow> int" where
  "int_quot a b = (if 0 \<le> a then a div b else - ((- a) div b))"

definition window_seconds :: "RateLimitConfig \<Rightarrow> int" where
  "window_seconds cfg = (let n = whole_seconds (rcWindow cfg) in if n < 1 then 1 else n)"

definition rate_key :: "RateLimitConfig \<Rightarrow> ctx \<Rightarrow> gotime \<Rightarrow> string" where
  "rate_key cfg c t =
     (if rcKeyPrefix cfg = [] then ''ratelimit:default'' else rcKeyPrefix cfg) @ '':'' @ rateLimitIdentity c @ '':'' @
     FormatInt (int_quot (Unix t) (window_seconds cfg))"

definition RateLimit :: "RateLimitConfig \<Rightarrow> middleware" where
  "RateLimit cfg next =
     (if \<not> rcEnabled cfg \<or> rcClient cfg = None \<or> rcMax cfg \<le> 0 then next
      else
      attempt (lift time_now) fail (\<lambda>t.
      attempt (with_ctx (\<lambda>c. rate_key cfg c t)) fail (\<lambda>key.
      attempt (lift (incrementWindow key (rcWindow cfg)))
        (\<lambda>e. attempt (lift (log_at LevelWarn ''rate limiter unavailable, allowing request''
                [(''error'', error_text e)])) fail (\<lambda>_. next)) (\<lambda>(count, ttl).
      attempt (set_header ''X-RateLimit-Limit'' (FormatInt (rcMax cfg))) fail (\<lambda>_.
      attempt (set_header ''X-RateLimit-Remaining'' (FormatInt (max 0 (rcMax cfg - count)))) fail (\<lambda>_.
      attempt (set_header ''X-RateLimit-Reset'' (FormatInt (whole_seconds ttl))) fail (\<lambda>_.
      if rcMax cfg < count
      then attempt (set_header ''Retry-After'' (FormatInt (whole_seconds ttl))) fail (\<lambda>_.
        fail (TooManyRequests []))
      else next)))))))"

section \<open>Errors (error.go)\<close>

definition translate :: "goerr \<Rightarrow> goerr" where
  "translate e =
     (case As e of
        Some a \<Rightarrow> a
      | None \<Rightarrow>
          (case AsFiber e of
             Some (status, m) \<Rightarrow>
               if status = 404 then NewError CodeNotFound 404 ''The requested endpoint does not exist''
               else if status = 405 then NewError CodeBadRequest 405 ''Method not allowed for this endpoint''
               else if status = 413 then PayloadTooLarge []
               else if status = 422 \<or> status = 400 then BadRequest ''The request body could not be parsed''
               else Wrap (NewError CodeInternal status m) (Some e)
           | None \<Rightarrow>
               if Is e ContextCanceled
               then Wrap (NewError CodeBadRequest 499 ''Client closed the request'') (Some e)
               else if Is e ContextDeadlineExceeded
               then Wrap (NewError CodeUnavailable 504 ''The request timed out'') (Some e)
               else Internal e))"

definition ErrorHandler :: "goerr \<Rightarrow> unit hact" where
  "ErrorHandler e =
     (let appErr = translate e in
      attempt (with_ctx (\<lambda>c. c)) fail (\<lambda>c.
      let attrs = [(''method'', rqMethod (cxRequest c)), (''path'', rqPath (cxRequest c)),
             (''status'', FormatInt (errStatus appErr)), (''code'', code_text (errCode appErr)),
             (''error'', error_text e)] in
      attempt (if 500 \<le> errStatus appErr then lift (log_at LevelError ''request failed'' attrs)
               else lift (log_at LevelDebug ''request rejected'' attrs)) fail (\<lambda>_.
      respond (errStatus appErr) (ErrorBody
        \<lparr>evMessage = errMessage appErr, evCode = errCode appErr, evErrors = errFields appErr,
         evRequestID = RequestIDFrom c\<rparr>))))"

lemma translate_is_app: "is_app (translate e)"
proof (cases "As e")
  case (Some a)
  then show ?thesis by (simp add: translate_def As_is_app)
next
  case None
  then show ?thesis by (auto simp: translate_def is_app_def error_defs split: option.split prod.split)
qed

section \<open>Invariants\<close>

lemma pres_chain [pres_intros]: "pres I next \<Longrightarrow> pres I (chain_result next)"
  unfolding chain_result_def by (intro pres_intros)

text \<open>
  Behind the authentication, the claims are ones that the token of the request has parsed to; behind
  the check of the roles, they name one of these roles.
\<close>

lemma pres_Authenticate:
  assumes parse: "\<And>raw. pres J (lift (ParseAccessToken E tokens raw))"
    and valid: "\<And>u j t. pres J (lift (IsAccessTokenValid E u j t))"
    and grant: "\<And>c w raw v cl. J (c, w) \<Longrightarrow> bearerToken (rqHeader (cxRequest c) ''Authorization'') = Inr raw \<Longrightarrow>
      fst (ParseAccessToken E tokens raw v) = Inr cl \<Longrightarrow> J (c\<lparr>cxClaims := Some cl\<rparr>, w) \<and> pres J next"
  shows "pres J (Authenticate E tokens next)"
proof (rule presI)
  fix s assume s: "J s"
  obtain c w where cw: "s = (c, w)" by fastforce
  show "J (snd (Authenticate E tokens next s))"
  proof (cases "bearerToken (rqHeader (cxRequest c) ''Authorization'')")
    case (Inl e)
    then show ?thesis using s by (simp add: Authenticate_def attempt_def header_def go_run cw)
  next
    case (Inr raw)
    obtain res w1 where p: "ParseAccessToken E tokens raw w = (res, w1)" by fastforce
    then have J1: "J (c, w1)" using presD [OF parse s, of raw] by (simp add: cw lift_run)
    have J2: "J (c, w2)" if "IsAccessTokenValid E u j t w1 = (q, w2)" for u j t q w2
      using presD [OF valid J1, of u j t] that by (simp add: lift_run)
    have J3: "J (snd (next (c\<lparr>cxClaims := Some cl\<rparr>, w2)))" if "res = Inr cl" "J (c, w2)" for cl w2
      using grant [OF that(2) Inr, of w cl] p that(1) presD by (metis fst_conv)
    show ?thesis
      using Inr p J1 J2 J3
      by (auto simp: Authenticate_def attempt_def header_def go_run lift_run cw split: sum.splits prod.splits)
  qed
qed

lemma pres_RequireRoles:
  assumes "\<And>r cl. C r (Some cl) \<Longrightarrow> clRole cl \<in> set roles \<Longrightarrow> pres (on_behalf C I) next"
  shows "pres (on_behalf C I) (RequireRoles roles next)"
  using assms
  by (auto simp: pres_def RequireRoles_def ClaimsFrom_def attempt_def go_run on_behalf_def split: option.split)

context world_invariant
begin

lemma middleware_kept [pres_intros]:
  assumes "pres (on_behalf C I) next"
  shows "pres (on_behalf C I) (RequestID F next)" "pres (on_behalf C I) (RequestLogger skip next)"
    "pres (on_behalf C I) (RateLimit cfg next)"
  unfolding RequestID_def RequestLogger_def RateLimit_def incrementWindow_def
  by (intro pres_intros assms; simp split: prod.split)+

lemma ErrorHandler_kept [pres_intros]: "pres (on_behalf C I) (ErrorHandler e)"
  unfolding ErrorHandler_def by (intro pres_intros)

end

end
