(* ===== verification/Handlers.thy ===== *)
theory Handlers
  imports Middleware
begin

text \<open>
  \<open>app/handlers\<close>: every endpoint. A handler decodes and validates its input, calls a service and
  encodes the result.
\<close>

section \<open>Authentication (auth.go)\<close>

definition refreshCookieName :: string where
  "refreshCookieName = ''refresh_token''"

definition session_cookie :: "Config \<Rightarrow> string \<Rightarrow> gotime \<Rightarrow> int \<Rightarrow> cookie" where
  "session_cookie cfg value expires maxAge =
     \<lparr>ckName = refreshCookieName, ckValue = value, ckPath = ''/api/v1/auth'',
      ckDomain = auCookieDomain (cfAuth cfg), ckExpires = expires, ckMaxAge = maxAge,
      ckSecure = auCookieSecure (cfAuth cfg), ckHTTPOnly = True, ckSameSite = auCookieSameSite (cfAuth cfg)\<rparr>"

definition setRefreshCookie :: "Config \<Rightarrow> AuthResult \<Rightarrow> unit hact" where
  "setRefreshCookie cfg result =
     (if \<not> auRefreshCookie (cfAuth cfg) then ret ()
      else set_ctx (\<lambda>c. c\<lparr>cxCookies := cxCookies c @
        [session_cookie cfg (tpRefreshToken (arTokens result)) (tpRefreshExpiresAt (arTokens result)) 0]\<rparr>))"

definition clearRefreshCookie :: "Config \<Rightarrow> unit hact" where
  "clearRefreshCookie cfg =
     (if \<not> auRefreshCookie (cfAuth cfg) then ret ()
      else set_ctx (\<lambda>c. c\<lparr>cxCookies := cxCookies c @ [session_cookie cfg [] 0 (- 1)]\<rparr>))"

definition AuthHandler_Register :: "ext \<Rightarrow> http_ext \<Rightarrow> authService \<Rightarrow> unit hact" where
  "AuthHandler_Register E X s =
     attempt (bind E X (hxRegister X) RegisterRequest_fields) fail (\<lambda>req.
     attempt (lift (Register E s
        \<lparr>riEmail = rrEmail req, riPassword = rrPassword req, riFullName = rrFullName req\<rparr>)) fail (\<lambda>user.
     Created (UserData (ToUserResponse user))))"

definition AuthHandler_Login :: "ext \<Rightarrow> http_ext \<Rightarrow> authService \<Rightarrow> unit hact" where
  "AuthHandler_Login E X s =
     attempt (bind E X (hxLogin X) LoginRequest_fields) fail (\<lambda>req.
     attempt (lift (Login E s \<lparr>liEmail = lrEmail req, liPassword = lrPassword req\<rparr>)) fail (\<lambda>result.
     attempt (setRefreshCookie (asCfg s) result) fail (\<lambda>_.
     OK (AuthData (ToAuthResponse result)))))"

text \<open>The token of the body, or else of the cookie; the error of the decoder is ignored.\<close>

definition presented_token :: "(request \<Rightarrow> 'a \<times> goerr option) \<Rightarrow> ('a \<Rightarrow> string) \<Rightarrow> string hact" where
  "presented_token decode token =
     with_ctx (\<lambda>c. let t = token (fst (decode (cxRequest c))) in
       if t = [] then rqCookie (cxRequest c) refreshCookieName else t)"

definition AuthHandler_Refresh :: "ext \<Rightarrow> http_ext \<Rightarrow> authService \<Rightarrow> unit hact" where
  "AuthHandler_Refresh E X s =
     attempt (presented_token (hxRefresh X) rqRefreshToken) fail (\<lambda>token.
     if token = []
     then fail (WithFields (Unauthorized ''Refresh token is missing'')
            [\<lparr>feField = ''refresh_token'', feMessage = ''This field is required''\<rparr>])
     else
     attempt (lift (Refresh E s token))
       (\<lambda>e. attempt (clearRefreshCookie (asCfg s)) fail (\<lambda>_. fail e)) (\<lambda>result.
     attempt (setRefreshCookie (asCfg s) result) fail (\<lambda>_.
     OK (AuthData (ToAuthResponse result)))))"

definition AuthHandler_Logout :: "ext \<Rightarrow> http_ext \<Rightarrow> authService \<Rightarrow> unit hact" where
  "AuthHandler_Logout E X s =
     attempt ClaimsFrom fail (\<lambda>found. case found of
        None \<Rightarrow> fail (Unauthorized [])
      | Some claims \<Rightarrow>
     attempt (of_res (Claims_UserID E claims)) (\<lambda>e. fail (Wrap (Unauthorized []) (Some e))) (\<lambda>userID.
     attempt (presented_token (hxLogout X) lqRefreshToken) fail (\<lambda>token.
     attempt (lift (Logout E s
        \<lparr>loUserID = userID, loAccessJTI = clID claims,
         loAccessExpiresAt = (case clExpiresAt claims of None \<Rightarrow> zero_time | Some t \<Rightarrow> t),
         loRefreshToken = token\<rparr>)) fail (\<lambda>_.
     attempt (clearRefreshCookie (asCfg s)) fail (\<lambda>_.
     Message 200 ''Signed out'')))))"

definition AuthHandler_LogoutAll :: "ext \<Rightarrow> authService \<Rightarrow> unit hact" where
  "AuthHandler_LogoutAll E s =
     attempt (UserID E) fail (\<lambda>userID.
     attempt (lift (LogoutAll E s userID)) fail (\<lambda>_.
     attempt (clearRefreshCookie (asCfg s)) fail (\<lambda>_.
     Message 200 ''Signed out of all sessions'')))"

definition AuthHandler_ChangePassword :: "ext \<Rightarrow> http_ext \<Rightarrow> authService \<Rightarrow> unit hact" where
  "AuthHandler_ChangePassword E X s =
     attempt (UserID E) fail (\<lambda>userID.
     attempt (bind E X (hxChangePassword X) ChangePasswordRequest_fields) fail (\<lambda>req.
     attempt (lift (ChangePassword E s userID (cqCurrentPassword req) (cqNewPassword req))) fail (\<lambda>result.
     attempt (setRefreshCookie (asCfg s) result) fail (\<lambda>_.
     OK (AuthData (ToAuthResponse result))))))"

definition AuthHandler_ForgotPassword :: "ext \<Rightarrow> http_ext \<Rightarrow> authService \<Rightarrow> unit hact" where
  "AuthHandler_ForgotPassword E X s =
     attempt (bind E X (hxForgotPassword X) ForgotPasswordRequest_fields) fail (\<lambda>req.
     attempt (lift (ForgotPassword E s (fqEmail req))) fail (\<lambda>_.
     Message 200 ''If an account exists for that address, a reset link has been sent''))"

definition AuthHandler_ResetPassword :: "ext \<Rightarrow> http_ext \<Rightarrow> authService \<Rightarrow> unit hact" where
  "AuthHandler_ResetPassword E X s =
     attempt (bind E X (hxResetPassword X) ResetPasswordRequest_fields) fail (\<lambda>req.
     attempt (lift (ResetPassword E s (pqToken req) (pqNewPassword req))) fail (\<lambda>_.
     attempt (clearRefreshCookie (asCfg s)) fail (\<lambda>_.
     Message 200 ''Password updated, please sign in again'')))"

definition AuthHandler_VerifyEmail :: "ext \<Rightarrow> http_ext \<Rightarrow> authService \<Rightarrow> unit hact" where
  "AuthHandler_VerifyEmail E X s =
     attempt (bind E X (hxVerifyEmail X) VerifyEmailRequest_fields) fail (\<lambda>req.
     attempt (lift (VerifyEmail E s (vqToken req))) fail (\<lambda>_.
     Message 200 ''Email verified, you can now sign in''))"

section \<open>Accounts (user.go)\<close>

definition userSortWhitelist :: SortWhitelist where
  "userSortWhitelist =
     \<lparr>swAllowed = [''created_at'', ''updated_at'', ''email'', ''full_name''], swDefault = ''created_at''\<rparr>"

definition UserHandler_Me :: "ext \<Rightarrow> unit hact" where
  "UserHandler_Me E =
     attempt (actorFrom E) fail (\<lambda>actor.
     attempt (lift (UserService_Get E actor (acID actor))) fail (\<lambda>user.
     OK (UserData (ToUserResponse user))))"

definition UserHandler_update :: "ext \<Rightarrow> http_ext \<Rightarrow> userService \<Rightarrow> Actor \<Rightarrow> uuid \<Rightarrow> unit hact" where
  "UserHandler_update E X s actor k =
     attempt (bind E X (hxUpdateUser X) UpdateUserRequest_fields) fail (\<lambda>req.
     attempt (lift (UserService_Update E s actor k
        \<lparr>upFullName = ueFullName req, upRole = ueRole req, upIsActive = ueIsActive req\<rparr>)) fail (\<lambda>user.
     OK (UserData (ToUserResponse user))))"

definition UserHandler_UpdateMe :: "ext \<Rightarrow> http_ext \<Rightarrow> userService \<Rightarrow> unit hact" where
  "UserHandler_UpdateMe E X s = attempt (actorFrom E) fail (\<lambda>actor. UserHandler_update E X s actor (acID actor))"

definition UserHandler_UploadAvatar :: "ext \<Rightarrow> userService \<Rightarrow> unit hact" where
  "UserHandler_UploadAvatar E s =
     attempt (actorFrom E) fail (\<lambda>actor.
     attempt (attempt (with_ctx (\<lambda>c. rqFormFile (cxRequest c) ''avatar'')) fail of_res)
       (\<lambda>e. fail (Wrap (WithFields (BadRequest ''An avatar file is required'')
               [\<lparr>feField = ''avatar'', feMessage = ''This field is required''\<rparr>]) (Some e))) (\<lambda>hd.
     if sgMaxUploadBytes (cfStorage (usCfg s)) < fhSize hd
     then fail (PayloadTooLarge ''Avatar exceeds the maximum upload size'')
     else
     attempt (of_res (fhOpen hd))
       (\<lambda>e. fail (Wrap (BadRequest ''The uploaded file could not be read'') (Some e))) (\<lambda>file.
     attempt (lift (UserService_UploadAvatar E s actor (acID actor)
        \<lparr>avFilename = fhFilename hd, avContentType = fhContentType hd, avSize = fhSize hd, avContent = file\<rparr>))
       fail (\<lambda>user.
     OK (UserData (ToUserResponse user))))))"

text \<open>The two filters of the listing.\<close>

definition role_filter :: "string \<Rightarrow> goerr + string option" where
  "role_filter raw =
     (if raw = [] then Inr None
      else if \<not> Role_Valid raw
      then Inl (Validation [\<lparr>feField = ''role'', feMessage = ''Must be one of: user, admin''\<rparr>])
      else Inr (Some raw))"

definition active_filter :: "string \<Rightarrow> goerr + bool option" where
  "active_filter raw =
     (if raw = [] then Inr None
      else if raw = ''true'' then Inr (Some True)
      else if raw = ''false'' then Inr (Some False)
      else Inl (Validation [\<lparr>feField = ''is_active'', feMessage = ''Must be true or false''\<rparr>]))"

definition UserHandler_List :: "ext \<Rightarrow> unit hact" where
  "UserHandler_List E =
     attempt (page_params E userSortWhitelist) fail (\<lambda>page.
     attempt (with_ctx cxRequest) fail (\<lambda>r.
     attempt (of_res (role_filter (rqQuery r ''role''))) fail (\<lambda>role.
     attempt (of_res (active_filter (rqQuery r ''is_active''))) fail (\<lambda>active.
     attempt (lift (UserService_List E \<lparr>lufPage = page, lufRole = role, lufIsActive = active\<rparr>)) fail (\<lambda>result.
     Paginated UserList \<lparr>pgItems = ToUserResponses (pgItems result), pgMeta = pgMeta result\<rparr>)))))"

definition UserHandler_Create :: "ext \<Rightarrow> http_ext \<Rightarrow> userService \<Rightarrow> unit hact" where
  "UserHandler_Create E X s =
     attempt (bind E X (hxCreateUser X) CreateUserRequest_fields) fail (\<lambda>req.
     attempt (lift (UserService_Create E s
        \<lparr>ciEmail = urEmail req, ciPassword = urPassword req, ciFullName = urFullName req, ciRole = urRole req\<rparr>))
       fail (\<lambda>user.
     Created (UserData (ToUserResponse user))))"

definition UserHandler_Get :: "ext \<Rightarrow> unit hact" where
  "UserHandler_Get E =
     attempt (actorFrom E) fail (\<lambda>actor.
     attempt (uuidParam E ''id'') fail (\<lambda>k.
     attempt (lift (UserService_Get E actor k)) fail (\<lambda>user.
     OK (UserData (ToUserResponse user)))))"

definition UserHandler_Update :: "ext \<Rightarrow> http_ext \<Rightarrow> userService \<Rightarrow> unit hact" where
  "UserHandler_Update E X s =
     attempt (actorFrom E) fail (\<lambda>actor.
     attempt (uuidParam E ''id'') fail (\<lambda>k. UserHandler_update E X s actor k))"

definition UserHandler_Delete :: "ext \<Rightarrow> userService \<Rightarrow> unit hact" where
  "UserHandler_Delete E s =
     attempt (actorFrom E) fail (\<lambda>actor.
     attempt (uuidParam E ''id'') fail (\<lambda>k.
     attempt (lift (UserService_Delete E s actor k)) fail (\<lambda>_.
     Message 200 ''User deleted'')))"

section \<open>Words (word.go)\<close>

definition wordSortWhitelist :: SortWhitelist where
  "wordSortWhitelist =
     \<lparr>swAllowed = [''created_at'', ''updated_at'', ''term'', ''random''], swDefault = ''created_at''\<rparr>"

definition WordHandler_Create :: "ext \<Rightarrow> http_ext \<Rightarrow> wordService \<Rightarrow> unit hact" where
  "WordHandler_Create E X s =
     attempt (actorFrom E) fail (\<lambda>actor.
     attempt (bind E X (hxCreateWord X) CreateWordRequest_fields) fail (\<lambda>req.
     attempt (lift (CreateAndEnrich E s actor \<lparr>wiTerm = wqTerm req, wiLanguage = wqLanguage req\<rparr>)) fail (\<lambda>word.
     Created (WordData (ToWordResponse word)))))"

definition WordHandler_Get :: "ext \<Rightarrow> unit hact" where
  "WordHandler_Get E =
     attempt (uuidParam E ''id'') fail (\<lambda>k.
     attempt (UserID E) fail (\<lambda>userID.
     attempt (lift (WordService_Get E k userID)) fail (\<lambda>word.
     OK (WordData (ToWordResponse word)))))"

definition word_filter :: "request \<Rightarrow> uuid \<Rightarrow> ListWordsFilter" where
  "word_filter r userID =
     (let some = (\<lambda>raw. if raw = [] then None else Some raw) in
      \<lparr>lwfSearch = some (rqQuery r ''search''), lwfLanguage = some (rqQuery r ''language''), lwfTags = None,
       lwfCreatedBy = Some userID\<rparr>)"

definition WordHandler_List :: "ext \<Rightarrow> unit hact" where
  "WordHandler_List E =
     attempt (page_params E wordSortWhitelist) fail (\<lambda>page.
     attempt (UserID E) fail (\<lambda>userID.
     attempt (with_ctx (\<lambda>c. word_filter (cxRequest c) userID)) fail (\<lambda>flt.
     attempt (lift (WordService_List E flt page)) fail (\<lambda>result.
     Paginated WordList \<lparr>pgItems = ToWordResponses (pgItems result), pgMeta = pgMeta result\<rparr>))))"

section \<open>Files (file.go)\<close>

definition FileHandler_Serve :: "ext \<Rightarrow> Storage \<Rightarrow> unit hact" where
  "FileHandler_Serve E files =
     attempt (with_ctx (\<lambda>c. TrimPrefix (cxParams c ''*'') ''/'')) fail (\<lambda>key.
     if key = [] then fail (NotFound ''File'')
     else
     attempt (lift (Storage_Get E files key))
       (\<lambda>e. if Is e ErrObjectNotFound then fail (NotFound ''File'')
            else fail (Wrap (BadRequest ''Invalid file key'') (Some e))) (\<lambda>content.
     attempt (set_header ''X-Content-Type-Options'' ''nosniff'') fail (\<lambda>_.
     attempt (set_header ''Cache-Control'' ''public, max-age=86400'') fail (\<lambda>_.
     attempt (set_header ''Content-Disposition'' ''inline'') fail (\<lambda>_.
     set_ctx (\<lambda>c. c\<lparr>cxBody := StreamBody content\<rparr>))))))"

section \<open>Health (health.go)\<close>

record HealthHandler =
  hhVersion :: string
  hhEnv :: string
  hhStartedAt :: gotime

definition NewHealthHandler :: "string \<Rightarrow> string \<Rightarrow> HealthHandler act" where
  "NewHealthHandler version env =
     attempt time_now fail (\<lambda>t. ret \<lparr>hhVersion = version, hhEnv = env, hhStartedAt = t\<rparr>)"

definition Health :: "unit hact" where
  "Health = set_ctx (\<lambda>c. c\<lparr>cxBody := JsonBody (JObject [(''status'', JString ''ok'')])\<rparr>)"

text \<open>\<open>Duration.Round(time.Second)\<close> on a non-negative duration, and its text in whole seconds.\<close>

definition round_seconds :: "duration \<Rightarrow> int" where
  "round_seconds d = (d + Second div 2) div Second"

definition seconds_text :: "int \<Rightarrow> string" where
  "seconds_text n =
     (if n < 60 then FormatInt n @ ''s''
      else if n < 3600 then FormatInt (n div 60) @ ''m'' @ FormatInt (n mod 60) @ ''s''
      else FormatInt (n div 3600) @ ''h'' @ FormatInt (n mod 3600 div 60) @ ''m'' @ FormatInt (n mod 60) @ ''s'')"

definition Live :: "HealthHandler \<Rightarrow> unit hact" where
  "Live h =
     attempt (lift time_now) fail (\<lambda>t.
     set_ctx (\<lambda>c. c\<lparr>cxBody := JsonBody (JObject
        [(''status'', JString ''ok''), (''version'', JString (hhVersion h)), (''env'', JString (hhEnv h)),
         (''uptime'', JString (seconds_text (round_seconds (t - hhStartedAt h))))])\<rparr>))"

text \<open>A ping answers or fails.\<close>

definition probe :: "bool hact" where
  "probe = attempt (lift (external (ret ()))) (\<lambda>_. ret False) (\<lambda>_. ret True)"

definition Ready :: "unit hact" where
  "Ready =
     attempt probe fail (\<lambda>postgres.
     attempt probe fail (\<lambda>redis.
     let said = (\<lambda>up. JString (if up then ''ok'' else ''unavailable'')); ready = postgres \<and> redis in
     respond (if ready then 200 else 503) (JsonBody (JObject
       [(''status'', JString (if ready then ''ok'' else ''degraded'')),
        (''checks'', JObject [(''postgres'', said postgres), (''redis'', said redis)])]))))"

section \<open>Invariants\<close>

lemmas handler_defs =
  AuthHandler_Register_def AuthHandler_Login_def AuthHandler_Refresh_def AuthHandler_Logout_def
  AuthHandler_LogoutAll_def AuthHandler_ChangePassword_def AuthHandler_ForgotPassword_def
  AuthHandler_ResetPassword_def AuthHandler_VerifyEmail_def UserHandler_Me_def UserHandler_update_def
  UserHandler_UpdateMe_def UserHandler_UploadAvatar_def UserHandler_List_def UserHandler_Create_def
  UserHandler_Get_def UserHandler_Update_def UserHandler_Delete_def WordHandler_Create_def
  WordHandler_Get_def WordHandler_List_def FileHandler_Serve_def Health_def Live_def Ready_def probe_def
  setRefreshCookie_def clearRefreshCookie_def presented_token_def

end
