(* ===== verification/Routes.thy ===== *)
theory Routes
  imports Handlers
begin

text \<open>
  \<open>app/routes/routes.go\<close>, \<open>app/server/server.go\<close>, the start-up in \<open>cmd/app_main.go\<close> and the
  heartbeat of \<open>app/lib/heartbeat.go\<close>: the stack of middleware and routes, what becomes of one
  request, and how the parts are built from the configuration.
\<close>

section \<open>The stack\<close>

text \<open>
  A handler that ends the chain ignores what comes after it. Fiber tries its entries in the order of
  registration: \<open>Use\<close> runs for every path under its prefix, a route for its method and pattern.
\<close>

definition stop :: "unit hact \<Rightarrow> middleware" where
  "stop h next = h"

datatype entry = Use string middleware | Route string string middleware

definition method_matches :: "string \<Rightarrow> string \<Rightarrow> bool" where
  "method_matches m used \<longleftrightarrow> m = used \<or> m = ''GET'' \<and> used = ''HEAD''"

definition route_params :: "http_ext \<Rightarrow> string \<Rightarrow> string \<Rightarrow> request \<Rightarrow> (string \<Rightarrow> string) option" where
  "route_params X m pat r = (if method_matches m (rqMethod r) then hxMatch X pat (rqPath r) else None)"

fun run_stack :: "http_ext \<Rightarrow> entry list \<Rightarrow> unit hact" where
  "run_stack X [] = attempt (with_ctx cxRequest) fail (\<lambda>r. fail (hxUnrouted X r))"
| "run_stack X (Use p mw # es) =
     attempt (with_ctx (\<lambda>c. hxUnder X p (rqPath (cxRequest c)))) fail (\<lambda>under.
       if under then mw (run_stack X es) else run_stack X es)"
| "run_stack X (Route m pat mw # es) =
     attempt (with_ctx (\<lambda>c. route_params X m pat (cxRequest c))) fail (\<lambda>found. case found of
        None \<Rightarrow> run_stack X es
      | Some params \<Rightarrow> attempt (set_ctx (\<lambda>c. c\<lparr>cxParams := params\<rparr>)) fail (\<lambda>_. mw (run_stack X es)))"

section \<open>Routes (routes.go)\<close>

record Dependencies =
  dpConfig :: Config
  dpRedis :: "unit option"
  dpTokens :: JWTManager
  dpSessions :: SessionStore
  dpAuth :: authService
  dpUsers :: userService
  dpHealth :: HealthHandler
  dpFiles :: "Storage option"
  dpWords :: wordService

definition openAPIPath :: string where
  "openAPIPath = ''./docs/openapi.yaml''"

definition docs_html :: string where \<open>docs_html =
  Join [
    ''<!doctype html>'',
    ''<html lang="en">'',
    ''  <head>'',
    ''    <meta charset="utf-8" />'',
    ''    <meta name="viewport" content="width=device-width, initial-scale=1" />'',
    ''    <title>API Documentation</title>'',
    ''    <link rel="stylesheet" href="https://unpkg.com/swagger-ui-dist@5/swagger-ui.css" />'',
    ''  </head>'',
    ''  <body>'',
    ''    <div id="swagger-ui"></div>'',
    ''    <script src="https://unpkg.com/swagger-ui-dist@5/swagger-ui-bundle.js" crossorigin></script>'',
    ''    <script>'',
    ''      window.onload = () => {'',
    ''        window.ui = SwaggerUIBundle({'',
    ''          url: "/openapi.yaml",'',
    ''          dom_id: "#swagger-ui",'',
    ''          deepLinking: true,'',
    ''          persistAuthorization: true,'',
    ''        });'',
    ''      };'',
    ''    </script>'',
    ''  </body>'',
    ''</html>''] [CHR 0x0A]\<close>

definition docsPage :: "unit hact" where
  "docsPage =
     attempt (set_header ''Content-Type'' ''text/html; charset=utf-8'') fail (\<lambda>_.
     set_ctx (\<lambda>c. c\<lparr>cxBody := TextBody docs_html\<rparr>))"

definition openapi :: "unit hact" where
  "openapi =
     attempt (set_header ''Content-Type'' ''application/yaml; charset=utf-8'') fail (\<lambda>_.
     set_ctx (\<lambda>c. c\<lparr>cxBody := FileBody openAPIPath\<rparr>))"

definition Get :: "string \<Rightarrow> middleware \<Rightarrow> entry" where "Get = Route ''GET''"
definition Post :: "string \<Rightarrow> middleware \<Rightarrow> entry" where "Post = Route ''POST''"
definition Patch :: "string \<Rightarrow> middleware \<Rightarrow> entry" where "Patch = Route ''PATCH''"
definition Delete :: "string \<Rightarrow> middleware \<Rightarrow> entry" where "Delete = Route ''DELETE''"

definition authLimiter :: "Dependencies \<Rightarrow> RateLimitConfig" where
  "authLimiter D =
     \<lparr>rcClient = dpRedis D, rcEnabled = rlEnabled (cfLimiter (dpConfig D)), rcMax = rlAuthMax (cfLimiter (dpConfig D)),
      rcWindow = rlAuthWindow (cfLimiter (dpConfig D)), rcKeyPrefix = ''ratelimit:auth''\<rparr>"

definition operational_routes :: "ext \<Rightarrow> Dependencies \<Rightarrow> entry list" where
  "operational_routes E D =
     [Get ''/health'' (stop Health), Get ''/health/live'' (stop (Live (dpHealth D))),
      Get ''/health/ready'' (stop Ready)] @
     (if IsProduction (cfApp (dpConfig D)) then []
      else [Get ''/openapi.yaml'' (stop openapi), Get ''/docs'' (stop docsPage)]) @
     (case dpFiles D of
        None \<Rightarrow> []
      | Some files \<Rightarrow>
          if sgProvider (cfStorage (dpConfig D)) = ''local''
          then [Get ''/files/*'' (stop (FileHandler_Serve E files))] else [])"

definition auth_routes :: "ext \<Rightarrow> http_ext \<Rightarrow> Dependencies \<Rightarrow> entry list" where
  "auth_routes E X D =
     (let limited = (\<lambda>h. RateLimit (authLimiter D) \<circ> stop h);
          authenticated = (\<lambda>mw. Authenticate E (dpTokens D) \<circ> mw) in
     [Post ''/api/v1/auth/register'' (limited (AuthHandler_Register E X (dpAuth D))),
      Post ''/api/v1/auth/login'' (limited (AuthHandler_Login E X (dpAuth D))),
      Post ''/api/v1/auth/refresh'' (limited (AuthHandler_Refresh E X (dpAuth D))),
      Post ''/api/v1/auth/forgot-password'' (limited (AuthHandler_ForgotPassword E X (dpAuth D))),
      Post ''/api/v1/auth/reset-password'' (limited (AuthHandler_ResetPassword E X (dpAuth D))),
      Post ''/api/v1/auth/verify-email'' (limited (AuthHandler_VerifyEmail E X (dpAuth D))),
      Post ''/api/v1/auth/logout'' (authenticated (stop (AuthHandler_Logout E X (dpAuth D)))),
      Post ''/api/v1/auth/logout-all'' (authenticated (stop (AuthHandler_LogoutAll E (dpAuth D)))),
      Post ''/api/v1/auth/change-password''
        (authenticated (limited (AuthHandler_ChangePassword E X (dpAuth D))))])"

definition user_routes :: "ext \<Rightarrow> http_ext \<Rightarrow> Dependencies \<Rightarrow> entry list" where
  "user_routes E X D =
     (let adminOnly = RequireRoles [RoleAdmin] in
     [Use ''/api/v1/users'' (Authenticate E (dpTokens D)),
      Get ''/api/v1/users/me'' (stop (UserHandler_Me E)),
      Patch ''/api/v1/users/me'' (stop (UserHandler_UpdateMe E X (dpUsers D))),
      Post ''/api/v1/users/me/avatar'' (stop (UserHandler_UploadAvatar E (dpUsers D))),
      Get ''/api/v1/users/'' (adminOnly \<circ> stop (UserHandler_List E)),
      Post ''/api/v1/users/'' (adminOnly \<circ> stop (UserHandler_Create E X (dpUsers D))),
      Get ''/api/v1/users/:id'' (stop (UserHandler_Get E)),
      Patch ''/api/v1/users/:id'' (stop (UserHandler_Update E X (dpUsers D))),
      Delete ''/api/v1/users/:id'' (stop (UserHandler_Delete E (dpUsers D)))])"

definition word_routes :: "ext \<Rightarrow> http_ext \<Rightarrow> Dependencies \<Rightarrow> entry list" where
  "word_routes E X D =
     [Use ''/api/v1/words'' (Authenticate E (dpTokens D)),
      Get ''/api/v1/words/'' (stop (WordHandler_List E)),
      Post ''/api/v1/words/'' (stop (WordHandler_Create E X (dpWords D))),
      Get ''/api/v1/words/:id'' (stop (WordHandler_Get E))]"

definition RegisterRoutes :: "ext \<Rightarrow> http_ext \<Rightarrow> Dependencies \<Rightarrow> entry list" where
  "RegisterRoutes E X D = operational_routes E D @ auth_routes E X D @ user_routes E X D @ word_routes E X D"

section \<open>The application (server.go)\<close>

definition registerMiddleware :: "ext \<Rightarrow> http_ext \<Rightarrow> Dependencies \<Rightarrow> entry list" where
  "registerMiddleware E X D =
     [Use ''/'' (RequestID E),
      Use ''/'' (RequestLogger [''/health'', ''/health/live'', ''/health/ready'']),
      Use ''/'' (hxAround X),
      Use ''/'' (RateLimit
        \<lparr>rcClient = dpRedis D, rcEnabled = rlEnabled (cfLimiter (dpConfig D)), rcMax = rlMax (cfLimiter (dpConfig D)),
         rcWindow = rlWindow (cfLimiter (dpConfig D)), rcKeyPrefix = ''ratelimit:global''\<rparr>)]"

definition NewApp :: "ext \<Rightarrow> http_ext \<Rightarrow> Dependencies \<Rightarrow> entry list" where
  "NewApp E X D = registerMiddleware E X D @ RegisterRoutes E X D"

text \<open>
  One request. Fiber calls the error handler on the error that the whole chain has returned.
\<close>

definition serve :: "ext \<Rightarrow> http_ext \<Rightarrow> Dependencies \<Rightarrow> request \<Rightarrow> world \<Rightarrow> ctx \<times> world" where
  "serve E X D r w =
     (case run_stack X (NewApp E X D) (new_ctx r, w) of
        (Inr _, s) \<Rightarrow> s
      | (Inl e, s) \<Rightarrow> snd (ErrorHandler e s))"

section \<open>Start-up (app_main.go)\<close>

text \<open>The settings of the two drivers. Statements are prepared once and kept in the cache of a connection.\<close>

datatype exec_mode = QueryExecModeCacheStatement

record PoolConfig =
  pcURL :: string
  pcMaxConns :: int
  pcMinConns :: int
  pcMaxConnLifetime :: duration
  pcMaxConnIdleTime :: duration
  pcHealthCheckPeriod :: duration
  pcExecMode :: exec_mode

record RedisOptions =
  roAddr :: string
  roDB :: int
  roDialTimeout :: duration
  roReadTimeout :: duration
  roWriteTimeout :: duration
  roMaxRetries :: int
  roMinIdleConns :: int

text \<open>
  The parser of the database address with the pool it configures, the parser of the Redis address
  (host and database number), the parser of addresses for the HTTP client, and the registration of a
  rule with the validator.
\<close>

record boot_ext =
  bxDatabaseURL :: "string \<Rightarrow> goerr option"
  bxNewPool :: "PoolConfig \<Rightarrow> goerr option"
  bxRedisURL :: "string \<Rightarrow> goerr + (string \<times> int)"
  bxURL :: "string \<Rightarrow> goerr option"
  bxRegisterRule :: "string \<Rightarrow> goerr option"

text \<open>
  A pool is opened lazily; the ping is the first contact with the server. When it fails, the pool is
  closed again, which shows in the process alone (\<open>Process\<close>).
\<close>

definition connect_pool :: "boot_ext \<Rightarrow> Database \<Rightarrow> goerr + PoolConfig" where
  "connect_pool B cfg =
     (case bxDatabaseURL B (dcURL cfg) of
        Some e \<Rightarrow> Inl (Wrapf ''parse database url: '' e '''')
      | None \<Rightarrow>
          (let poolCfg = \<lparr>pcURL = dcURL cfg, pcMaxConns = dcMaxConns cfg, pcMinConns = dcMinConns cfg,
                 pcMaxConnLifetime = dcMaxConnLifetime cfg, pcMaxConnIdleTime = dcMaxConnIdleTime cfg,
                 pcHealthCheckPeriod = Minute, pcExecMode = QueryExecModeCacheStatement\<rparr> in
           case bxNewPool B poolCfg of
             Some e \<Rightarrow> Inl (Wrapf ''create connection pool: '' e '''')
           | None \<Rightarrow> Inr poolCfg))"

definition ping_pool :: "PoolConfig \<Rightarrow> unit act" where
  "ping_pool poolCfg =
     attempt (external (ret ())) (\<lambda>e. fail (Wrapf ''ping database: '' e '''')) (\<lambda>_.
     log_at LevelInfo ''connected to postgres''
       [(''max_conns'', FormatInt (pcMaxConns poolCfg)), (''min_conns'', FormatInt (pcMinConns poolCfg))])"

definition NewPostgres :: "boot_ext \<Rightarrow> Database \<Rightarrow> unit act" where
  "NewPostgres B cfg = attempt (of_result (connect_pool B cfg)) fail ping_pool"

text \<open>
  The Redis client. Closing it is a call that may fail. That the client repeats a command up to
  \<open>roMaxRetries\<close> times is part of what the driver does within one call.
\<close>

definition connect_redis :: "boot_ext \<Rightarrow> string \<Rightarrow> goerr + RedisOptions" where
  "connect_redis B url =
     (case bxRedisURL B url of
        Inl e \<Rightarrow> Inl (Wrapf ''parse redis url: '' e '''')
      | Inr (addr, db) \<Rightarrow>
          Inr \<lparr>roAddr = addr, roDB = db, roDialTimeout = 5 * Second, roReadTimeout = 3 * Second,
               roWriteTimeout = 3 * Second, roMaxRetries = 3, roMinIdleConns = 2\<rparr>)"

definition redis_Close :: "unit act" where
  "redis_Close = external (ret ())"

definition ping_redis :: "RedisOptions \<Rightarrow> unit act" where
  "ping_redis opts =
     attempt (external (ret ())) (\<lambda>e. fail (Wrapf ''ping redis: '' e '''')) (\<lambda>_.
     log_at LevelInfo ''connected to redis'' [(''addr'', roAddr opts), (''db'', FormatInt (roDB opts))])"

definition NewRedis :: "boot_ext \<Rightarrow> string \<Rightarrow> unit act" where
  "NewRedis B url =
     attempt (of_result (connect_redis B url)) fail (\<lambda>opts.
     attempt (ping_redis opts) (\<lambda>e. ignore redis_Close (fail e)) ret)"

lemmas connection_defs =
  NewPostgres_def connect_pool_def ping_pool_def NewRedis_def connect_redis_def ping_redis_def redis_Close_def

definition NewValidator :: "boot_ext \<Rightarrow> unit act" where
  "NewValidator B =
     (case bxRegisterRule B ''strongpassword'' of
        Some e \<Rightarrow> fail (Wrapf ''register strongpassword: '' e '''')
      | None \<Rightarrow>
          (case bxRegisterRule B ''role'' of
             Some e \<Rightarrow> fail (Wrapf ''register role: '' e '''')
           | None \<Rightarrow> ret ()))"

text \<open>The domain wiring, once both servers have answered.\<close>

definition assemble ::
    "ext \<Rightarrow> openai_codec \<Rightarrow> boot_ext \<Rightarrow> string \<Rightarrow> Config \<Rightarrow> Dependencies act" where
  "assemble E J B version cfg =
     attempt (NewStorage E (cfStorage cfg)) fail (\<lambda>files.
     attempt (NewBcryptHasher E (auBcryptCost (cfAuth cfg))) fail (\<lambda>hasher.
     attempt (NewValidator B) fail (\<lambda>_.
     let tokens = NewJWTManager (cfAuth cfg); sessions = NewRedisSessionStore (auRefreshExpiry (cfAuth cfg));
         authService = NewAuthService hasher tokens sessions cfg;
         userService = NewUserService hasher sessions files cfg;
         enricher = (if OpenAI_Enabled (cfOpenAI cfg) then Some (NewOpenAIEnricher E J (cfOpenAI cfg)) else None);
         wordService = NewWordService enricher cfg in
     attempt (NewHealthHandler version (apEnv (cfApp cfg))) fail (\<lambda>health.
     ret \<lparr>dpConfig = cfg, dpRedis = Some (), dpTokens = tokens, dpSessions = sessions, dpAuth = authService,
          dpUsers = userService, dpHealth = health, dpFiles = Some files, dpWords = wordService\<rparr>))))"

lemmas constructor_defs = NewRedisSessionStore_def NewAuthService_def NewUserService_def NewWordService_def NewHealthHandler_def

definition wire ::
    "ext \<Rightarrow> openai_codec \<Rightarrow> boot_ext \<Rightarrow> string \<Rightarrow> Config \<Rightarrow> Dependencies act" where
  "wire E J B version cfg =
     attempt (NewPostgres B (cfDB cfg)) fail (\<lambda>_.
     attempt (NewRedis B (cfRedisURL cfg)) fail (\<lambda>_.
     assemble E J B version cfg))"

definition announce :: "string \<Rightarrow> string \<Rightarrow> Config \<Rightarrow> unit act" where
  "announce version buildTime cfg =
     log_at LevelInfo ''starting api''
       [(''version'', version), (''build_time'', buildTime), (''env'', apEnv (cfApp cfg)),
        (''addr'', Addr (cfApp cfg))]"

text \<open>What \<open>run\<close> does before it listens.\<close>

definition start :: "ext \<Rightarrow> openai_codec \<Rightarrow> boot_ext \<Rightarrow> string \<Rightarrow> string \<Rightarrow> goerr + Config \<Rightarrow> Dependencies act" where
  "start E J B version buildTime loaded =
     attempt (of_result loaded) fail (\<lambda>cfg.
     ignore (announce version buildTime cfg) (wire E J B version cfg))"

section \<open>Heartbeat (heartbeat.go)\<close>

definition pingHeartbeatTarget :: "ext \<Rightarrow> boot_ext \<Rightarrow> string \<Rightarrow> string \<Rightarrow> unit act" where
  "pingHeartbeatTarget E B name url =
     (if url = [] \<or> url = ''/'' then ret ()
      else
      case bxURL B url of
        Some e \<Rightarrow> log_at LevelError ''heartbeat request build failed'' [(''target'', name), (''error'', error_text e)]
      | None \<Rightarrow>
          attempt (http_Do E \<lparr>hqMethod = ''GET'', hqURL = url, hqHeaders = [], hqBody = []\<rparr>)
            (\<lambda>e. log_at LevelWarn ''heartbeat ping failed'' [(''target'', name), (''error'', error_text e)])
            (\<lambda>resp. log_at LevelDebug ''heartbeat ping ok''
               [(''target'', name), (''status'', FormatInt (hrStatus resp))]))"

definition heartbeat_tick :: "ext \<Rightarrow> boot_ext \<Rightarrow> Config \<Rightarrow> unit act" where
  "heartbeat_tick E B cfg =
     ignore (pingHeartbeatTarget E B ''backend'' (apBackendURL (cfApp cfg) @ ''/health/live''))
     (pingHeartbeatTarget E B ''frontend'' (apFrontendURL (cfApp cfg) @ ''/''))"

text \<open>The loop up to its cancellation, after \<open>n\<close> ticks.\<close>

primrec heartbeat_ticks :: "ext \<Rightarrow> boot_ext \<Rightarrow> Config \<Rightarrow> nat \<Rightarrow> unit act" where
  "heartbeat_ticks E B cfg 0 = ret ()"
| "heartbeat_ticks E B cfg (Suc n) = ignore (heartbeat_tick E B cfg) (heartbeat_ticks E B cfg n)"

definition StartHeartbeat :: "ext \<Rightarrow> boot_ext \<Rightarrow> Config \<Rightarrow> nat \<Rightarrow> unit act" where
  "StartHeartbeat E B cfg n =
     (if \<not> apHeartbeatEnabled (cfApp cfg) then ret ()
      else ignore (log_at LevelInfo ''heartbeat enabled''
             [(''interval'', FormatInt (apHeartbeatInterval (cfApp cfg)))])
           (heartbeat_ticks E B cfg n))"

end
