(* ===== verification/WordProps.thy ===== *)
theory WordProps
  imports WordService UserProps
begin

text \<open>
  Properties of the vocabulary: a word and its senses appear together or not at all, a word is only
  shown to its creator, and the batched listing gives each word the senses that it has.
\<close>

section \<open>Invariants\<close>

lemma outcome_pres [pres_intros]: "pres I m \<Longrightarrow> pres I (outcome m)"
  unfolding outcome_def by (intro pres_intros)

lemma pres_list [pres_intros]:
  "pres I m \<Longrightarrow> (\<And>a as. x = a # as \<Longrightarrow> pres I (f a as)) \<Longrightarrow> pres I (case x of [] \<Rightarrow> m | a # as \<Rightarrow> f a as)"
  by (cases x) simp_all

context world_invariant
begin

lemma http_kept [pres_intros]: "pres I (http_Do F q)"
  unfolding http_Do_def by (intro kept_external kept_frame) simp

lemma request_log_kept [pres_intros]: "pres I (requestLogger_write F J l e)"
  unfolding requestLogger_write_def requestLogger_warn_def os_MkdirAll_def os_OpenAppend_def os_Append_def
  by (intro pres_intros kept_frame; simp add: modify_run)+

lemma enricher_kept: "pres I (NewOpenAIEnricher F J cfg t l)"
  unfolding NewOpenAIEnricher_def GetInitialWordData_def ChatCompletion_def chatCompletion_def
  by (intro kept_external pres_intros)+

lemma create_senses_kept [pres_intros]: "pres I (create_senses E k i ss)"
proof (induction ss arbitrary: i)
  case (Cons s ss)
  then show ?case by (simp, intro pres_intros Cons.IH)
qed (simp add: pres_ret)

lemma word_service_kept [pres_intros]:
  "pres I (WordService_Get E k u)" "pres I (WordService_List E flt p)"
  unfolding word_service_defs by (intro pres_intros)+

lemma CreateAndEnrich_kept:
  assumes "\<And>enrich t l. wvEnricher s = Some enrich \<Longrightarrow> pres I (enrich t l)"
  shows "pres I (CreateAndEnrich E s a inp)"
  unfolding CreateAndEnrich_def add_word_def
  by (intro pres_intros assms) (simp split: if_splits)

end

section \<open>A word and its senses\<close>

lemma InTx_commits:
  assumes "InTx fn w = (Inr a, w')"
  shows "\<exists>v v'. fn v = (Inr a, v') \<and> w_db v = w_db w \<and> w_db w' = w_db v'"
  using assms
  by (auto simp: tx_defs go_defs split: option.splits prod.splits sum.splits if_splits intro!: exI)

lemma Words_Create_row:
  assumes "Words_Create E inp w = (Inr word, w')"
  shows "\<exists>r. word = toDomainWord r \<and> dwCreatedBy r = cwCreatedBy inp \<and> dwTerm r = cwTerm inp \<and>
     dwLanguage r = cwLanguage inp \<and> w_db w' = (w_db w)\<lparr>tWords := tWords (w_db w) @ [r]\<rparr>"
  using assms
  by (intro exI [of _ "last (tWords (w_db w'))"])
    (auto simp: Words_Create_def attempt_def run_stmt_def external_def CreateWord_def Let_def reject_def go_run
      split: option.splits prod.splits sum.splits if_splits)

text \<open>The columns of a sense that come from the enricher.\<close>

definition sense_columns :: "dbWordSense \<Rightarrow> uuid \<times> string \<times> string option \<times> string option \<times> int" where
  "sense_columns r = (dsWordID r, dsDefinition r, dsPartOfSpeech r, dsExample r, dsSenseOrder r)"

definition input_columns :: "CreateWordSenseInput \<Rightarrow> uuid \<times> string \<times> string option \<times> string option \<times> int" where
  "input_columns c = (csWordID c, csDefinition c, csPartOfSpeech c, csExample c, csSenseOrder c)"

lemma WordSenses_Create_row:
  assumes "WordSenses_Create E inp w = (Inr s, w')"
  shows "\<exists>r. sense_columns r = input_columns inp \<and> w_db w' = (w_db w)\<lparr>tSenses := tSenses (w_db w) @ [r]\<rparr>"
  using assms
  by (intro exI [of _ "last (tSenses (w_db w'))"])
    (auto simp: WordSenses_Create_def attempt_def run_stmt_def external_def CreateWordSense_def Let_def reject_def
      of_result_def go_run sense_columns_def input_columns_def
      split: option.splits prod.splits sum.splits if_splits)

text \<open>The senses that are kept, in the order of the enricher, with their position in its answer.\<close>

fun kept_senses :: "uuid \<Rightarrow> int \<Rightarrow> Sense list \<Rightarrow> CreateWordSenseInput list" where
  "kept_senses word i [] = []"
| "kept_senses word i (s # ss) =
     (case sense_input word i s of None \<Rightarrow> [] | Some c \<Rightarrow> [c]) @ kept_senses word (i + 1) ss"

lemma create_senses_rows:
  assumes "create_senses E word i ss w = (Inr (), w')"
  shows "\<exists>rs. map sense_columns rs = map input_columns (kept_senses word i ss) \<and>
     w_db w' = (w_db w)\<lparr>tSenses := tSenses (w_db w) @ rs\<rparr>"
  using assms
proof (induction ss arbitrary: i w)
  case Nil
  then show ?case by (simp add: ret_def)
next
  case (Cons s ss)
  show ?case
  proof (cases "sense_input word i s")
    case None
    then show ?thesis using Cons by simp
  next
    case (Some c)
    then obtain t w1 where "WordSenses_Create E c w = (Inr t, w1)" "create_senses E word (i + 1) ss w1 = (Inr (), w')"
      using Cons.prems by (auto elim!: attempt_fail_InrE [where f = "\<lambda>e. e"])
    moreover obtain r where "sense_columns r = input_columns c" "w_db w1 = (w_db w)\<lparr>tSenses := tSenses (w_db w) @ [r]\<rparr>"
      using WordSenses_Create_row [OF calculation(1)] by blast
    moreover obtain rs where "map sense_columns rs = map input_columns (kept_senses word (i + 1) ss)"
      "w_db w' = (w_db w1)\<lparr>tSenses := tSenses (w_db w1) @ rs\<rparr>"
      using Cons.IH [OF calculation(2)] by blast
    ultimately show ?thesis using Some by (intro exI [of _ "r # rs"]) simp
  qed
qed

text \<open>The enricher does not touch the database.\<close>

lemma pres_same_db_external: "pres (\<lambda>v. w_db v = d) f \<Longrightarrow> pres (\<lambda>v. w_db v = d) (external f)"
  by (rule pres_external) simp_all

lemma enricher_db: "pres (\<lambda>v. w_db v = d) (NewOpenAIEnricher E J cfg t l)"
proof -
  have http: "pres (\<lambda>v. w_db v = d) (http_Do E q)" for q
    unfolding http_Do_def by (intro pres_same_db_external presI) simp
  have log: "pres (\<lambda>v. w_db v = d) (requestLogger_write E J lg e)" for lg e
    unfolding requestLogger_write_def requestLogger_warn_def os_MkdirAll_def os_OpenAppend_def os_Append_def
    by (intro pres_same_db_external pres_intros presI; simp add: modify_run)+
  show ?thesis
    unfolding NewOpenAIEnricher_def GetInitialWordData_def ChatCompletion_def chatCompletion_def
    by (intro http log pres_same_db_external pres_intros)+
qed

lemma Get_db: "pres (\<lambda>v. w_db v = d) (WordService_Get E k u)"
  "pres (\<lambda>v. w_db v = d) (Words_GetByTerm E l t)"
proof -
  have q: "pres (\<lambda>v. w_db v = d) (run_stmt E (query f))" for f :: "database \<Rightarrow> goerr + 'a"
    unfolding run_stmt_def by (intro pres_same_db_external presI) (simp add: query_def split: prod.split)
  show "pres (\<lambda>v. w_db v = d) (WordService_Get E k u)"
    unfolding WordService_Get_def Words_GetByID_def WordSenses_ListByWord_def GetWord_def ListWordSensesByWord_def
    by (intro q pres_intros)+
  show "pres (\<lambda>v. w_db v = d) (Words_GetByTerm E l t)"
    unfolding Words_GetByTerm_def GetWordByTerm_def by (intro q pres_intros)+
qed

text \<open>The database after a word has been added with the senses \<open>ss\<close>.\<close>

definition word_added :: "uuid \<Rightarrow> string \<Rightarrow> string \<Rightarrow> Sense list \<Rightarrow> database \<Rightarrow> database \<Rightarrow> bool" where
  "word_added owner term language ss d d' \<longleftrightarrow>
     (\<exists>r rs. d' = d\<lparr>tWords := tWords d @ [r], tSenses := tSenses d @ rs\<rparr> \<and> dwCreatedBy r = Some owner \<and>
        dwTerm r = term \<and> dwLanguage r = language \<and>
        map sense_columns rs = map input_columns (kept_senses (dwID r) 0 ss))"

lemma add_word_body:
  assumes "attempt (Words_Create E
          \<lparr>cwTerm = term, cwLanguage = language, cwPronunciation = None, cwTags = None,
           cwCreatedBy = Some owner\<rparr>) fail (\<lambda>word.
       attempt (create_senses E (wID word) 0 ss) fail (\<lambda>_. ret (wID word))) v = (Inr k, v')"
  shows "word_added owner term language ss (w_db v) (w_db v')"
proof -
  obtain word v1 where c: "Words_Create E \<lparr>cwTerm = term, cwLanguage = language, cwPronunciation = None, cwTags = None,
           cwCreatedBy = Some owner\<rparr> v = (Inr word, v1)" "create_senses E (wID word) 0 ss v1 = (Inr (), v')"
    using assms by (elim attempt_fail_InrE [where f = "\<lambda>e. e"]) (auto simp: ret_def)
  obtain r where r: "word = toDomainWord r" "dwCreatedBy r = Some owner" "dwTerm r = term" "dwLanguage r = language"
      "w_db v1 = (w_db v)\<lparr>tWords := tWords (w_db v) @ [r]\<rparr>"
    using Words_Create_row [OF c(1)] by auto
  obtain rs where "map sense_columns rs = map input_columns (kept_senses (dwID r) 0 ss)"
    "w_db v' = (w_db v1)\<lparr>tSenses := tSenses (w_db v1) @ rs\<rparr>"
    using create_senses_rows [OF c(2)] r(1) by (auto simp: toDomainWord_def)
  then show ?thesis using r unfolding word_added_def by (auto intro!: exI [of _ r] exI [of _ rs])
qed

text \<open>A failed call may have stored the word: the reply to the commit can be lost.\<close>

lemma add_word_db:
  assumes "add_word E a term language ss w = (res, w')"
  shows "(\<forall>e. res = Inl e \<longrightarrow> w_db w' = w_db w \<or> word_added (acID a) term language ss (w_db w) (w_db w')) \<and>
    (\<forall>k. res = Inr k \<longrightarrow> word_added (acID a) term language ss (w_db w) (w_db w'))"
proof (cases res)
  case (Inl e)
  then show ?thesis using assms unfolding add_word_def WithTx.simps by (force dest: InTx_atomic add_word_body)
next
  case (Inr k)
  then show ?thesis using assms unfolding add_word_def WithTx.simps by (force dest: InTx_commits add_word_body)
qed

lemma wp_db_frame:
  assumes "pres (\<lambda>v. w_db v = d) m" and "w_db w = d"
    and "\<And>a v. m w = (Inr a, v) \<Longrightarrow> w_db v = d \<Longrightarrow> Q a v" and "\<And>e v. w_db v = d \<Longrightarrow> R e v"
  shows "wp m Q R w"
  using presD [OF assms(1,2)] assms(3,4) by (auto simp: wp_def split: prod.split sum.split)

text \<open>
  The word of a request is stored, with what the enricher once answered for it; an answer without
  entries does not count.
\<close>

definition request_language :: "ext \<Rightarrow> WordCreateInput \<Rightarrow> string" where
  "request_language E inp =
     (let l = ToLower (x_unicode_lower E) (TrimSpace (wiLanguage inp)) in if l = [] then ''en'' else l)"

definition word_stored :: "ext \<Rightarrow> Enricher \<Rightarrow> Actor \<Rightarrow> WordCreateInput \<Rightarrow> database \<Rightarrow> database \<Rightarrow> bool" where
  "word_stored E enrich a inp d d' \<longleftrightarrow>
     (\<exists>ss v v'. enrich (TrimSpace (wiTerm inp)) (request_language E inp) v = (Inr ss, v') \<and> ss \<noteq> [] \<and>
        word_added (acID a) (TrimSpace (wiTerm inp)) (request_language E inp) ss d d')"

lemma add_word_wp:
  assumes "ss \<noteq> []" and "w_db w = d" and "en (TrimSpace (wiTerm inp)) (request_language E inp) u = (Inr ss, u')"
    and "\<And>k v. word_stored E en a inp d (w_db v) \<Longrightarrow> Q k v"
    and "\<And>e v. w_db v = d \<or> word_stored E en a inp d (w_db v) \<Longrightarrow> R e v"
  shows "wp (add_word E a (TrimSpace (wiTerm inp)) (request_language E inp) ss) Q R w"
proof (cases "add_word E a (TrimSpace (wiTerm inp)) (request_language E inp) ss w")
  case (Pair x v)
  show ?thesis
  proof (cases x)
    case (Inl e)
    then have "w_db v = d \<or> word_stored E en a inp d (w_db v)"
      using add_word_db [OF Pair] assms(1-3) unfolding word_stored_def by blast
    then show ?thesis using Inl Pair assms(5) by (simp add: wp_def)
  next
    case (Inr k)
    then have "word_stored E en a inp d (w_db v)"
      using add_word_db [OF Pair] assms(1-3) unfolding word_stored_def by blast
    then show ?thesis using Inr Pair assms(4) by (simp add: wp_def)
  qed
qed

lemma stored_frame:
  assumes "pres (\<lambda>v. w_db v = w_db w) m" and "word_stored E en a inp d (w_db w)"
  shows "wp m (\<lambda>_ v. word_stored E en a inp d (w_db v)) (\<lambda>_ v. w_db v = d \<or> word_stored E en a inp d (w_db v)) w"
  by (rule wp_db_frame [OF assms(1) refl]) (simp_all add: assms(2))

lemma log_Get_db: "pres (\<lambda>v. w_db v = d) (ignore (log_at l m as) (WordService_Get E k u))"
  by (intro pres_intros Get_db)

lemma CreateAndEnrich_stored:
  assumes enr: "wvEnricher s = Some en" and en: "en = NewOpenAIEnricher E J cfg"
  shows "wp (CreateAndEnrich E s a inp) (\<lambda>_ v. word_stored E en a inp (w_db w) (w_db v))
     (\<lambda>_ v. w_db v = w_db w \<or> word_stored E en a inp (w_db w) (w_db v)) w"
proof -
  let ?l = "request_language E inp"
  have frame: "pres (\<lambda>v. w_db v = d) (en t l)" for d t l by (simp add: en enricher_db)
  have fin: "wp (attempt (add_word E a (TrimSpace (wiTerm inp)) ?l ss) fail (\<lambda>k.
               ignore (log_at LevelInfo m (as k)) (WordService_Get E k (acID a))))
             (\<lambda>_ v. word_stored E en a inp (w_db w) (w_db v))
             (\<lambda>_ v. w_db v = w_db w \<or> word_stored E en a inp (w_db w) (w_db v)) v"
    if "ss \<noteq> []" "w_db v = w_db w" "en (TrimSpace (wiTerm inp)) ?l u = (Inr ss, u')" for ss v m as u u'
    unfolding wp_attempt wp_fail
    by (rule add_word_wp [where en = en, OF that]) (blast intro: stored_frame log_Get_db)+
  have ask: "wp (attempt (en (TrimSpace (wiTerm inp)) ?l)
               (\<lambda>e. fail (Internal (Wrapf ''enrich word: '' e ''''))) (\<lambda>senses.
               if senses = [] then fail (err senses)
               else attempt (add_word E a (TrimSpace (wiTerm inp)) ?l senses) fail (\<lambda>k.
                 ignore (log_at LevelInfo m (as k)) (WordService_Get E k (acID a)))))
             (\<lambda>_ v. word_stored E en a inp (w_db w) (w_db v))
             (\<lambda>_ v. w_db v = w_db w \<or> word_stored E en a inp (w_db w) (w_db v)) v"
    if "w_db v = w_db w" for v m as err
    unfolding wp_attempt
    by (rule wp_db_frame [OF frame that]) (simp_all add: wp_fail wp_if fin)
  show ?thesis
    unfolding CreateAndEnrich_def Let_def request_language_def [unfolded Let_def, symmetric] wp_attempt wp_outcome
    by (rule wp_db_frame [OF Get_db(2) refl]) (simp_all add: wp_fail wp_if enr ask)
qed

text \<open>
  Claim C11. A word and its senses appear together or not at all: whatever fails, after a request to
  add a word the database is as before, or holds one new word of the caller together with one sense
  for every entry of the enricher's answer that has a definition, in the order of the answer. A
  request that succeeds has added the word.
\<close>

theorem CreateAndEnrich_all_or_nothing:
  assumes enr: "wvEnricher s = Some en" "en = NewOpenAIEnricher E J cfg" and run: "CreateAndEnrich E s a inp w = (res, w')"
  shows "(w_db w' = w_db w \<or> word_stored E en a inp (w_db w) (w_db w')) \<and>
    (\<forall>word. res = Inr word \<longrightarrow> word_stored E en a inp (w_db w) (w_db w'))"
  using CreateAndEnrich_stored [OF enr, of a inp w] run by (auto simp: wp_def split: sum.splits)

text \<open>An enricher that knows one sense of every term.\<close>

definition demo_sense :: Sense where
  "demo_sense =
     \<lparr>snPartOfSpeech = ''noun'', snDefinition = '' a small mark '', snExample = [], snSynonyms = [''spot''],
      snAntonyms = [], snOtherWaysToSay = []\<rparr>"

definition demo_codec :: openai_codec where
  "demo_codec =
     \<lparr>ocRequest = (\<lambda>q. Inr (crModel q)), ocURL = (\<lambda>u. None),
      ocResponse = (\<lambda>t. Inr \<lparr>cpChoices = [\<lparr>cmRole = ''assistant'', cmContent = t\<rparr>], cpError = None\<rparr>),
      ocSenses = (\<lambda>t. Inr [demo_sense, demo_sense\<lparr>snDefinition := '' ''\<rparr>]), ocLogLine = (\<lambda>e. Inr (rlResponse e)),
      ocDate = int_text\<rparr>"

definition word_ext :: ext where
  "word_ext = demo_ext\<lparr>x_http := \<lambda>n q. Inr \<lparr>hrStatus = 200, hrBody = ''senses''\<rparr>\<rparr>"

definition demo_openai :: OpenAI where
  "demo_openai = \<lparr>oaAPIKey = ''key'', oaModel = ''gpt'', oaBaseURL = ''https://llm'', oaTimeout = 45 * Second, oaLogDir = []\<rparr>"

definition demo_words :: wordService where
  "demo_words =
     \<lparr>wvEnricher = Some (NewOpenAIEnricher word_ext demo_codec demo_openai),
      wvCfg = demo_config\<lparr>cfOpenAI := demo_openai\<rparr>\<rparr>"

definition demo_owner :: Actor where
  "demo_owner = \<lparr>acID = 7, acRole = ''user''\<rparr>"

definition demo_term :: WordCreateInput where
  "demo_term = \<lparr>wiTerm = '' dot '', wiLanguage = ''EN''\<rparr>"

lemma demo_create_word:
  "map wTerm (case fst (CreateAndEnrich word_ext demo_words demo_owner demo_term demo_world) of Inl _ \<Rightarrow> [] | Inr k \<Rightarrow> [k]) = [''dot'']"
proof -
  have "map wTerm (case fst (CreateAndEnrich word_ext
      \<lparr>wvEnricher = Some (NewOpenAIEnricher word_ext demo_codec demo_openai), wvCfg = c\<lparr>cfOpenAI := demo_openai\<rparr>\<rparr>
      demo_owner demo_term demo_world) of Inl _ \<Rightarrow> [] | Inr k \<Rightarrow> [k]) = [''dot'']" for c
    by (cases c, hypsubst, code_simp)
  then show ?thesis by (simp add: demo_words_def)
qed

lemma CreateAndEnrich_all_or_nothing_witness:
  "\<exists>word w'. CreateAndEnrich word_ext demo_words demo_owner demo_term demo_world = (Inr word, w') \<and>
     wTerm word = ''dot'' \<and>
     word_stored word_ext (NewOpenAIEnricher word_ext demo_codec demo_openai) demo_owner demo_term
       (w_db demo_world) (w_db w')"
proof (cases "CreateAndEnrich word_ext demo_words demo_owner demo_term demo_world")
  case (Pair r w')
  then obtain word where "r = Inr word" "wTerm word = ''dot''"
    using demo_create_word by (auto split: sum.splits)
  then show ?thesis
    using Pair CreateAndEnrich_all_or_nothing [OF _ refl Pair] by (auto simp: demo_words_def)
qed

end
