(* ===== verification/System.thy ===== *)
theory System
  imports Routes WordProps
begin

text \<open>
  The running server as a state machine over the world: requests, ticks of the heartbeat, the passing
  of time and the arrival of faults. Every invariant of the world that the parts preserve holds in
  every reachable state.
\<close>

section \<open>Invariants of the stack\<close>

text \<open>
  What is relied on of the framework's own middleware: it runs the rest of the chain or not, and
  touches nothing but the status and the headers of the response.
\<close>

definition decoration :: "(ctx \<times> world \<Rightarrow> bool) \<Rightarrow> bool" where
  "decoration I \<longleftrightarrow>
     (\<forall>c w h st. I (c, w) \<longrightarrow> I (c\<lparr>cxHeaders := h\<rparr>, w) \<and> I (c\<lparr>cxStatus := st\<rparr>, w))"

definition around_law :: "http_ext \<Rightarrow> bool" where
  "around_law X \<longleftrightarrow> (\<forall>I next. decoration I \<longrightarrow> pres I next \<longrightarrow> pres I (hxAround X next))"

lemma around_pres: "around_law X \<Longrightarrow> decoration I \<Longrightarrow> pres I next \<Longrightarrow> pres I (hxAround X next)"
  by (simp add: around_law_def)

lemma decoration_on_behalf [simp]: "decoration (on_behalf C I)"
  by (simp add: decoration_def on_behalf_def)

definition keeps :: "(ctx \<times> world \<Rightarrow> bool) \<Rightarrow> middleware \<Rightarrow> bool" where
  "keeps I mw \<longleftrightarrow> (\<forall>next. pres I next \<longrightarrow> pres I (mw next))"

fun entry_mw :: "entry \<Rightarrow> middleware" where
  "entry_mw (Use p mw) = mw"
| "entry_mw (Route m pat mw) = mw"

text \<open>An invariant that does not look at the path parameters.\<close>

definition no_params :: "(ctx \<times> world \<Rightarrow> bool) \<Rightarrow> bool" where
  "no_params I \<longleftrightarrow> (\<forall>c w ps. I (c, w) \<longrightarrow> I (c\<lparr>cxParams := ps\<rparr>, w))"

lemma no_params_on_behalf [simp]: "no_params (on_behalf C I)"
  by (simp add: no_params_def on_behalf_def)

lemma pres_with_ctx_any: "pres I (with_ctx f)"
  by (auto simp: pres_def with_ctx_def gets_def)

lemma run_stack_pres:
  assumes "no_params I" and "\<And>e. e \<in> set es \<Longrightarrow> keeps I (entry_mw e)"
  shows "pres I (run_stack X es)"
  using assms(2)
proof (induction es)
  case Nil
  show ?case by (simp, intro pres_intros pres_with_ctx_any)
next
  case (Cons e es)
  have rest: "pres I (run_stack X es)" using Cons by simp
  moreover have "pres I (entry_mw e (run_stack X es))"
    using Cons.prems [of e] rest by (simp add: keeps_def)
  moreover have "pres I (set_ctx (\<lambda>c. c\<lparr>cxParams := ps\<rparr>))" for ps
    using assms(1) by (auto simp: pres_def set_ctx_def modify_def no_params_def)
  ultimately show ?case
    by (cases e; simp; intro pres_intros pres_with_ctx_any; simp)
qed

lemma keeps_stop [intro]: "pres I h \<Longrightarrow> keeps I (stop h)"
  by (simp add: keeps_def stop_def)

lemma keeps_comp [intro]: "keeps I f \<Longrightarrow> keeps I g \<Longrightarrow> keeps I (f \<circ> g)"
  by (simp add: keeps_def)

lemma serve_pres:
  assumes stack: "pres I (run_stack X (NewApp E X D))" and "\<And>e. pres I (ErrorHandler e)" and "I (new_ctx r, w)"
  shows "I (serve E X D r w)"
proof -
  obtain res s where run: "run_stack X (NewApp E X D) (new_ctx r, w) = (res, s)" by (metis surj_pair)
  then have "I s" using pres_run [OF stack assms(3)] by simp
  then show ?thesis using run presD [OF assms(2)] by (auto simp: serve_def split: sum.split)
qed

section \<open>Every part keeps the invariants of the world\<close>

definition enricher_of :: "ext \<Rightarrow> wordService \<Rightarrow> bool" where
  "enricher_of E s \<longleftrightarrow>
     (\<forall>en. wvEnricher s = Some en \<longrightarrow> (\<exists>J cfg. en = NewOpenAIEnricher E J cfg))"

lemmas route_defs = Get_def Post_def Patch_def Delete_def

lemma list_all_routes:
  "list_all P (NewApp E X D) \<longleftrightarrow> list_all P (registerMiddleware E X D) \<and> list_all P (operational_routes E D) \<and>
     list_all P (auth_routes E X D) \<and> list_all P (user_routes E X D) \<and> list_all P (word_routes E X D)"
  by (simp add: NewApp_def RegisterRoutes_def conj_assoc)

text \<open>
  An invariant of the world together with what holds of the callers. \<open>C\<close> is a relation between a
  request and the claims found so far; it admits every set of claims that the token of the request
  parses to, and if it lets an administrator through, then the invariant survives what an
  administrator does to accounts.
\<close>

locale request_invariant = service_invariant +
  fixes C :: "request \<Rightarrow> Claims option \<Rightarrow> bool" and tokens :: JWTManager
  assumes authenticated: "C r c \<Longrightarrow> bearerToken (rqHeader r ''Authorization'') = Inr raw \<Longrightarrow>
      fst (ParseAccessToken E tokens raw v) = Inr cl \<Longrightarrow> C r (Some cl)"
    and administration: "C r (Some cl) \<Longrightarrow> clRole cl = RoleAdmin \<Longrightarrow> stmt_keeps E I (CreateUser E cu)"
      "C r (Some cl) \<Longrightarrow> clRole cl = RoleAdmin \<Longrightarrow> stmt_keeps E I (UpdateUser uu)"
begin

lemma update_handler_kept:
  "pres (on_behalf C I) (UserHandler_UpdateMe E X us)" "pres (on_behalf C I) (UserHandler_Update E X us)"
proof -
  have "pres (on_behalf C I) (UserHandler_update E X us a k)" if "C r (Some cl)" "acRole a = clRole cl" for r cl a k
    unfolding UserHandler_update_def
    by (intro pres_intros UserService_Update_kept administration(2) [OF that(1)]) (use that(2) in \<open>simp add: Actor_IsAdmin_def\<close>)
  then show "pres (on_behalf C I) (UserHandler_UpdateMe E X us)" "pres (on_behalf C I) (UserHandler_Update E X us)"
    unfolding UserHandler_UpdateMe_def UserHandler_Update_def by (intro pres_actorFrom pres_intros; blast)+
qed

lemma create_route_kept: "keeps (on_behalf C I) (RequireRoles [RoleAdmin] \<circ> stop (UserHandler_Create E X us))"
  unfolding keeps_def
  by (auto simp: stop_def UserHandler_Create_def intro!: pres_RequireRoles pres_intros UserService_Create_kept
      intro: administration(1))

lemma handler_kept:
  "pres (on_behalf C I) (AuthHandler_Register E X s)" "pres (on_behalf C I) (AuthHandler_Login E X s)"
  "pres (on_behalf C I) (AuthHandler_Refresh E X s)" "pres (on_behalf C I) (AuthHandler_Logout E X s)"
  "pres (on_behalf C I) (AuthHandler_LogoutAll E s)" "pres (on_behalf C I) (AuthHandler_ChangePassword E X s)"
  "pres (on_behalf C I) (AuthHandler_ForgotPassword E X s)" "pres (on_behalf C I) (AuthHandler_ResetPassword E X s)"
  "pres (on_behalf C I) (AuthHandler_VerifyEmail E X s)" "pres (on_behalf C I) (UserHandler_Me E)"
  "pres (on_behalf C I) (UserHandler_UploadAvatar E us)" "pres (on_behalf C I) (UserHandler_List E)"
  "pres (on_behalf C I) (UserHandler_Get E)" "pres (on_behalf C I) (UserHandler_Delete E us)"
  "pres (on_behalf C I) (WordHandler_Get E)" "pres (on_behalf C I) (WordHandler_List E)"
  "pres (on_behalf C I) (FileHandler_Serve E st)" "pres (on_behalf C I) Health"
  "pres (on_behalf C I) (Live h)" "pres (on_behalf C I) Ready" "pres (on_behalf C I) docsPage" "pres (on_behalf C I) openapi"
  unfolding handler_defs docsPage_def openapi_def by (intro pres_intros)+

lemma word_create_kept:
  assumes "enricher_of E s"
  shows "pres (on_behalf C I) (WordHandler_Create E X s)"
proof -
  have "pres I (en t l)" if "wvEnricher s = Some en" for en t l
    using assms that by (auto simp: enricher_of_def enricher_kept)
  then have "pres I (CreateAndEnrich E s a inp)" for a inp by (rule CreateAndEnrich_kept)
  then show ?thesis unfolding WordHandler_Create_def by (intro pres_intros)
qed

lemma keeps_middleware:
  "keeps (on_behalf C I) (RequestID F)" "keeps (on_behalf C I) (RequestLogger skip)" "keeps (on_behalf C I) (RateLimit cfg)"
  "keeps (on_behalf C I) (RequireRoles roles)"
  by (simp_all add: keeps_def middleware_kept pres_RequireRoles)

lemma keeps_Authenticate: "keeps (on_behalf C I) (Authenticate E tokens)"
  unfolding keeps_def
  by (intro allI impI pres_Authenticate pres_intros) (auto simp: on_behalf_def intro: authenticated)

lemma stack_kept:
  assumes around: "around_law X" and words: "enricher_of E (dpWords D)" and tokens: "dpTokens D = tokens"
  shows "pres (on_behalf C I) (run_stack X (NewApp E X D))"
proof (rule run_stack_pres)
  let ?K = "\<lambda>e. keeps (on_behalf C I) (entry_mw e)"
  have "keeps (on_behalf C I) (hxAround X)" using around by (simp add: keeps_def around_pres)
  then have "list_all ?K (registerMiddleware E X D)"
    by (simp add: registerMiddleware_def keeps_middleware)
  moreover have "list_all ?K (operational_routes E D)"
    by (auto simp: operational_routes_def route_defs handler_kept split: option.split)
  moreover have "list_all ?K (auth_routes E X D)"
    by (simp add: auth_routes_def route_defs Let_def tokens)
      (intro conjI keeps_comp keeps_stop keeps_middleware keeps_Authenticate handler_kept)
  moreover have "list_all ?K (user_routes E X D)"
    by (simp add: user_routes_def route_defs Let_def tokens)
      (intro conjI create_route_kept keeps_comp keeps_stop keeps_middleware keeps_Authenticate handler_kept update_handler_kept)
  moreover have "list_all ?K (word_routes E X D)"
    by (simp add: word_routes_def route_defs tokens)
      (intro conjI keeps_comp keeps_stop keeps_middleware keeps_Authenticate handler_kept word_create_kept words)
  ultimately show "keeps (on_behalf C I) (entry_mw e)" if "e \<in> set (NewApp E X D)" for e
    using that list_all_routes [of ?K E X D] by (simp add: list_all_iff)
qed simp

lemma heartbeat_kept [pres_intros]: "pres I (heartbeat_tick F B cfg)"
  unfolding heartbeat_tick_def pingHeartbeatTarget_def by (intro pres_intros)

end

section \<open>The state machine\<close>

text \<open>
  One step of the running server when all requests come from \<open>A\<close>. The environment moves the clock
  forward and decides how long the next outside calls take and which of them fail.
\<close>

inductive step_by :: "(request \<Rightarrow> bool) \<Rightarrow> ext \<Rightarrow> http_ext \<Rightarrow> boot_ext \<Rightarrow> Dependencies \<Rightarrow> world \<Rightarrow> world \<Rightarrow> bool"
  for A E X B D where
  request: "A r \<Longrightarrow> serve E X D r w = (c, w') \<Longrightarrow> step_by A E X B D w w'"
| heartbeat: "apHeartbeatEnabled (cfApp (dpConfig D)) \<Longrightarrow>
    heartbeat_tick E B (dpConfig D) w = (res, w') \<Longrightarrow> step_by A E X B D w w'"
| time: "w_clock w \<le> t \<Longrightarrow> step_by A E X B D w (w\<lparr>w_clock := t\<rparr>)"
| environment: "step_by A E X B D w (w\<lparr>w_sched := sched\<rparr>)"

inductive reachable_by ::
    "(request \<Rightarrow> bool) \<Rightarrow> ext \<Rightarrow> http_ext \<Rightarrow> boot_ext \<Rightarrow> Dependencies \<Rightarrow> world \<Rightarrow> world \<Rightarrow> bool"
  for A E X B D w0 where
  initial: "reachable_by A E X B D w0 w0"
| next_state: "reachable_by A E X B D w0 w \<Longrightarrow> step_by A E X B D w w' \<Longrightarrow> reachable_by A E X B D w0 w'"

text \<open>Without a restriction on the requests.\<close>

abbreviation step :: "ext \<Rightarrow> http_ext \<Rightarrow> boot_ext \<Rightarrow> Dependencies \<Rightarrow> world \<Rightarrow> world \<Rightarrow> bool" where
  "step \<equiv> step_by (\<lambda>_. True)"

abbreviation reachable :: "ext \<Rightarrow> http_ext \<Rightarrow> boot_ext \<Rightarrow> Dependencies \<Rightarrow> world \<Rightarrow> world \<Rightarrow> bool" where
  "reachable \<equiv> reachable_by (\<lambda>_. True)"

context request_invariant
begin

lemma step_kept:
  assumes "around_law X" and "enricher_of E (dpWords D)" and "dpTokens D = tokens"
    and admitted: "\<And>r. A r \<Longrightarrow> C r None" and "step_by A E X B D w w'" and I: "I w"
  shows "I w'"
  using assms(5)
proof cases
  case (request r c)
  have "on_behalf C I (serve E X D r w)"
    by (rule serve_pres [OF stack_kept [OF assms(1-3)] ErrorHandler_kept])
      (simp add: on_behalf_def new_ctx_def I admitted request(1))
  then show ?thesis using request by (simp add: on_behalf_def)
next
  case (heartbeat res)
  then show ?thesis using pres_run [OF heartbeat_kept I] by blast
next
  case time
  then show ?thesis using frame [OF I, of w'] by simp
next
  case environment
  then show ?thesis using frame [OF I, of w'] by simp
qed

lemma reachable_kept:
  assumes "around_law X" and "enricher_of E (dpWords D)" and "dpTokens D = tokens"
    and admitted: "\<And>r. A r \<Longrightarrow> C r None" and "reachable_by A E X B D w0 w" and "I w0"
  shows "I w"
  using assms(5)
proof (induction rule: reachable_by.induct)
  case initial
  then show ?case by (rule assms(6))
next
  case (next_state w w')
  then show ?case using step_kept [OF assms(1-3) admitted] by blast
qed

end

text \<open>The constraints of the schema survive every caller.\<close>

interpretation consistent: request_invariant E 0 "world_ok E" "\<lambda>_ _. True" tokens for E tokens
  by unfold_locales (simp | rule stmt_keeps_world_ok keeps_db_intros)+

text \<open>
  Claim C10. The integrity of the database is an invariant of the running server: starting from a
  consistent database, after any requests, heartbeats, delays and failures of outside calls, every
  key is unique, every reference points at a row that exists and every check constraint holds.
\<close>

theorem reachable_world_ok:
  assumes "around_law X" and "enricher_of E (dpWords D)" and "world_ok E w0" and "reachable E X B D w0 w"
  shows "world_ok E w"
  by (rule consistent.reachable_kept [OF assms(1,2) refl TrueI assms(4,3)])

end
