(* ===== verification/HttpProps.thy ===== *)
theory HttpProps
  imports System
begin

text \<open>
  Properties of whole requests: what a caller without a token, or without the admin role, can reach;
  what an error response shows; and what the access log says about it.
\<close>

section \<open>A concrete server\<close>

text \<open>A router for paths without parameters, decoders that know one body each, and no decoration.\<close>

definition demo_request :: request where
  "demo_request =
     \<lparr>rqMethod = ''GET'', rqPath = ''/api/v1/users'', rqIP = ''10.0.0.1'', rqHeader = (\<lambda>_. []),
      rqQuery = (\<lambda>_. []), rqQueryString = [], rqCookie = (\<lambda>_. []), rqBody = [],
      rqFormFile = (\<lambda>_. Inl (Opaque ''there is no uploaded file associated with the given key''))\<rparr>"

definition no_json :: "'a \<Rightarrow> request \<Rightarrow> 'a \<times> goerr option" where
  "no_json x r = (x, Some (Opaque ''unexpected end of JSON input''))"

text \<open>The part of a pattern before its first parameter.\<close>

definition literal_part :: "string \<Rightarrow> string" where
  "literal_part pat = takeWhile (\<lambda>c. c \<noteq> CHR '':'' \<and> c \<noteq> CHR ''*'') pat"

definition demo_http :: http_ext where
  "demo_http =
     \<lparr>hxRules = \<lparr>vx_email = (\<lambda>s. CHR 0x40 \<in> set s), vx_bcp47 = (\<lambda>s. length s \<le> 8), vx_upper = (\<lambda>_. False),
        vx_lower = (\<lambda>_. False), vx_digit = (\<lambda>_. False)\<rparr>,
      hxRegister = no_json \<lparr>rrEmail = [], rrPassword = [], rrFullName = []\<rparr>,
      hxLogin = (\<lambda>r. (\<lparr>lrEmail = ''ada@example.com'', lrPassword = ''correct horse''\<rparr>, None)),
      hxRefresh = no_json \<lparr>rqRefreshToken = []\<rparr>, hxLogout = no_json \<lparr>lqRefreshToken = []\<rparr>,
      hxChangePassword = no_json \<lparr>cqCurrentPassword = [], cqNewPassword = []\<rparr>,
      hxForgotPassword = no_json \<lparr>fqEmail = []\<rparr>,
      hxResetPassword = no_json \<lparr>pqToken = [], pqNewPassword = []\<rparr>,
      hxVerifyEmail = no_json \<lparr>vqToken = []\<rparr>,
      hxCreateUser = no_json \<lparr>urEmail = [], urPassword = [], urFullName = [], urRole = []\<rparr>,
      hxUpdateUser = no_json \<lparr>ueFullName = None, ueRole = None, ueIsActive = None\<rparr>,
      hxCreateWord = no_json \<lparr>wqTerm = [], wqLanguage = []\<rparr>,
      hxMatch = (\<lambda>pat path. if literal_part pat = pat \<and> TrimRight path (CHR ''/'') = TrimRight pat (CHR ''/'')
                  then Some (\<lambda>_. []) else None),
      hxUnder = (\<lambda>g path. g = ''/'' \<or> path = g \<or> prefix (g @ ''/'') path),
      hxUnrouted = (\<lambda>r. FiberError 404 (''Cannot '' @ rqMethod r @ '' '' @ rqPath r)),
      hxAround = (\<lambda>next. next)\<rparr>"

definition demo_server :: Dependencies where
  "demo_server =
     \<lparr>dpConfig = demo_config, dpRedis = Some (), dpTokens = asTokens demo_service, dpSessions = asSessions demo_service,
      dpAuth = demo_service, dpUsers = demo_users,
      dpHealth = \<lparr>hhVersion = ''dev'', hhEnv = ''development'', hhStartedAt = 0\<rparr>,
      dpFiles = Some (LocalStorage demo_local), dpWords = \<lparr>wvEnricher = None, wvCfg = demo_config\<rparr>\<rparr>"

definition demo_boot :: boot_ext where
  "demo_boot =
     \<lparr>bxDatabaseURL = (\<lambda>_. None), bxNewPool = (\<lambda>_. None), bxRedisURL = (\<lambda>_. Inr (''localhost:6379'', 0)), bxURL = (\<lambda>_. None),
      bxRegisterRule = (\<lambda>_. None)\<rparr>"

lemma demo_around: "around_law demo_http"
  by (simp add: around_law_def demo_http_def)

lemma demo_enricher: "enricher_of E (dpWords demo_server)"
  by (simp add: enricher_of_def demo_server_def)

lemma reachable_world_ok_witness:
  "\<exists>w. reachable demo_ext demo_http demo_boot demo_server demo_world w \<and> w_clock w = 1800000000 * Second \<and>
     world_ok demo_ext w"
proof -
  obtain c w1 where run: "serve demo_ext demo_http demo_server demo_request
      (demo_world\<lparr>w_clock := 1800000000 * Second\<rparr>) = (c, w1)" by fastforce
  have "step demo_ext demo_http demo_boot demo_server demo_world (demo_world\<lparr>w_clock := 1800000000 * Second\<rparr>)"
    by (rule step_by.time) (simp add: Second_def)
  then have r: "reachable demo_ext demo_http demo_boot demo_server demo_world (demo_world\<lparr>w_clock := 1800000000 * Second\<rparr>)"
    by (rule reachable_by.next_state [OF reachable_by.initial])
  moreover have "reachable demo_ext demo_http demo_boot demo_server demo_world w1"
    by (rule reachable_by.next_state [OF r step_by.request [OF TrueI run]])
  ultimately show ?thesis
    using reachable_world_ok [OF demo_around demo_enricher demo_world_ok r] by (intro exI conjI) (assumption, simp_all)
qed

section \<open>Routing\<close>

text \<open>
  What is relied on of the router: the root prefix covers every path, a prefix covers the paths below
  it, a pattern without parameters matches its own path alone (up to trailing slashes), and a pattern
  with parameters only matches paths that start with its literal part, where a parameter at the end
  stands for one non-empty segment.
\<close>

definition router_law :: "http_ext \<Rightarrow> bool" where
  "router_law X \<longleftrightarrow>
     (\<forall>path. hxUnder X ''/'' path) \<and>
     (\<forall>g path. path = g \<or> prefix (g @ ''/'') path \<longrightarrow> hxUnder X g path) \<and>
     (\<forall>pat path. hxMatch X pat path \<noteq> None \<longrightarrow>
        (if literal_part pat = pat then TrimRight path (CHR ''/'') = TrimRight pat (CHR ''/'')
         else prefix (TrimRight (literal_part pat) (CHR ''/'')) path)) \<and>
     (\<forall>lit path. hxMatch X (lit @ '':id'') path \<noteq> None \<longrightarrow>
        (\<exists>seg. seg \<noteq> [] \<and> CHR ''/'' \<notin> set seg \<and> (path = lit @ seg \<or> path = lit @ seg @ ''/'')))"

lemma router_root: "router_law X \<Longrightarrow> hxUnder X ''/'' path"
  by (simp add: router_law_def)

lemma router_group: "router_law X \<Longrightarrow> path = g \<or> prefix (g @ ''/'') path \<Longrightarrow> hxUnder X g path"
  unfolding router_law_def by blast

lemma router_id:
  "router_law X \<Longrightarrow> hxMatch X (lit @ '':id'') path \<noteq> None \<Longrightarrow>
   \<exists>seg. seg \<noteq> [] \<and> CHR ''/'' \<notin> set seg \<and> (path = lit @ seg \<or> path = lit @ seg @ ''/'')"
  unfolding router_law_def by blast

lemma router_plain:
  "router_law X \<Longrightarrow> hxMatch X pat path \<noteq> None \<Longrightarrow> literal_part pat = pat \<Longrightarrow>
   TrimRight path (CHR ''/'') = TrimRight pat (CHR ''/'')"
  unfolding router_law_def by metis

lemma TrimRight_mem: "prefix p s \<Longrightarrow> p \<noteq> [] \<Longrightarrow> last p \<noteq> c \<Longrightarrow> prefix p (TrimRight s c)"
proof -
  assume p: "prefix p s" "p \<noteq> []" "last p \<noteq> c"
  then obtain q where q: "s = p @ q" by (auto simp: prefix_def)
  have "dropWhile (\<lambda>x. x = c) (rev q @ rev p) =
      (if \<forall>x\<in>set q. x = c then rev p else dropWhile (\<lambda>x. x = c) (rev q) @ rev p)"
  proof (cases "\<forall>x\<in>set q. x = c")
    case True
    moreover have "dropWhile (\<lambda>x. x = c) (rev p) = rev p"
      using p(2,3) by (cases p rule: rev_cases) auto
    ultimately show ?thesis by (subst dropWhile_append2) simp_all
  next
    case False
    then show ?thesis by (auto simp: dropWhile_append1)
  qed
  then show ?thesis by (auto simp: TrimRight_def q prefix_def)
qed

text \<open>A route elsewhere does not answer a request below a group.\<close>

lemma route_elsewhere:
  assumes "router_law X" and "prefix g path" and "g \<noteq> []" and "last g \<noteq> CHR ''/''"
    and "if literal_part pat = pat then \<not> prefix g (TrimRight pat (CHR ''/''))
      else \<not> prefix g (TrimRight (literal_part pat) (CHR ''/'')) \<and>
           \<not> prefix (TrimRight (literal_part pat) (CHR ''/'')) g"
  shows "hxMatch X pat path = None"
proof (rule ccontr)
  assume m: "hxMatch X pat path \<noteq> None"
  have "TrimRight path (CHR ''/'') = TrimRight pat (CHR ''/'') \<or>
      literal_part pat \<noteq> pat \<and> prefix (TrimRight (literal_part pat) (CHR ''/'')) path"
    using assms(1) m unfolding router_law_def by metis
  then show False
  proof
    assume "TrimRight path (CHR ''/'') = TrimRight pat (CHR ''/'')"
    moreover have "prefix g (TrimRight path (CHR ''/''))" using TrimRight_mem assms(2-4) by blast
    moreover have "prefix (TrimRight (literal_part pat) (CHR ''/'')) path" if "literal_part pat \<noteq> pat"
      using assms(1) m that unfolding router_law_def by metis
    ultimately show False using assms(2,5) prefix_same_cases by (auto split: if_splits)
  next
    assume "literal_part pat \<noteq> pat \<and> prefix (TrimRight (literal_part pat) (CHR ''/'')) path"
    then show False using assms(2,5) prefix_same_cases by (auto split: if_splits)
  qed
qed

section \<open>Requests that are turned away\<close>

text \<open>
  What stays true while a request is turned away: the database and the files are as they were, the
  response carries no data, and \<open>P\<close> holds of the claims.
\<close>

definition same_data :: "database \<Rightarrow> (string \<Rightarrow> string option) \<Rightarrow> world \<Rightarrow> bool" where
  "same_data d f w \<longleftrightarrow> w_db w = d \<and> w_files w = f"

definition no_data :: "body \<Rightarrow> bool" where
  "no_data b \<longleftrightarrow> (case b of NoBody \<Rightarrow> True | ErrorBody v \<Rightarrow> True | _ \<Rightarrow> False)"

definition turned_away ::
    "request \<Rightarrow> database \<Rightarrow> (string \<Rightarrow> string option) \<Rightarrow> (Claims option \<Rightarrow> bool) \<Rightarrow> ctx \<times> world \<Rightarrow> bool" where
  "turned_away r d f P s \<longleftrightarrow>
     cxRequest (fst s) = r \<and> same_data d f (snd s) \<and> no_data (cxBody (fst s)) \<and> P (cxClaims (fst s))"

lemma turned_away_frame [simp]: "decoration (turned_away r d f P)" "no_params (turned_away r d f P)"
  by (auto simp: decoration_def no_params_def turned_away_def)

lemma same_data_external [pres_intros]:
  "pres (same_data d f) m \<Longrightarrow> pres (same_data d f) (external m)"
  by (rule pres_external) (simp_all add: same_data_def)

lemma same_data_basic [pres_intros]:
  "pres (same_data d f) (uuid_NewString E)" "pres (same_data d f) time_now"
  "pres (same_data d f) (log_at l m as)" "pres (same_data d f) (redis c)"
  by (auto simp: pres_def same_data_def go_run redis_frame)

lemma turned_away_basic [pres_intros]:
  "pres (same_data d f) m \<Longrightarrow> pres (turned_away r d f P) (lift m)"
  "pres (turned_away r d f P) (with_ctx g)" "pres (turned_away r d f P) (of_res res)"
  "pres (turned_away r d f P) (header k)" "pres (turned_away r d f P) (set_header k v)"
  "pres (turned_away r d f P) (respond st (ErrorBody ev))" "pres (turned_away r d f P) ClaimsFrom"
  "pres (turned_away r d f P) (set_ctx (\<lambda>c. c\<lparr>cxRequestID := q\<rparr>))"
  "pres (turned_away r d f P) (set_ctx (\<lambda>c. c\<lparr>cxContext := WithRequestID (Some (cxContext c)) k\<rparr>))"
  unfolding ClaimsFrom_def
  by (auto simp: pres_def turned_away_def http_defs gets_def modify_def no_data_def split: prod.splits)

lemma turned_away_middleware:
  "keeps (turned_away r d f P) (RequestID E)" "keeps (turned_away r d f P) (RequestLogger skip)"
  "keeps (turned_away r d f P) (RateLimit cfg)"
  unfolding keeps_def RequestID_def RequestLogger_def RateLimit_def incrementWindow_def
  by (intro allI impI pres_intros; assumption)+

lemma turned_away_error: "pres (turned_away r d f P) (ErrorHandler e)"
  unfolding ErrorHandler_def by (intro pres_intros)

text \<open>A stack whose first entries do not answer the request, or only decorate it.\<close>

definition passes :: "http_ext \<Rightarrow> request \<Rightarrow> (ctx \<times> world \<Rightarrow> bool) \<Rightarrow> entry \<Rightarrow> bool" where
  "passes X r I e \<longleftrightarrow>
     (case e of Use p mw \<Rightarrow> keeps I mw | Route m pat mw \<Rightarrow> route_params X m pat r = None \<or> keeps I mw)"

lemma run_stack_skip:
  assumes "\<And>c w. I (c, w) \<Longrightarrow> cxRequest c = r" and "list_all (passes X r I) es"
    and "pres I (run_stack X rest)" and params: "no_params I"
  shows "pres I (run_stack X (es @ rest))"
  using assms(2)
proof (induction es)
  case Nil
  then show ?case by (simp add: assms(3))
next
  case (Cons e es)
  have rest: "pres I (run_stack X (es @ rest))" using Cons by simp
  show ?case
  proof (cases e)
    case (Use p mw)
    then have "pres I (mw (run_stack X (es @ rest)))" using Cons.prems rest by (simp add: passes_def keeps_def)
    then show ?thesis using Use rest by (simp, intro pres_intros pres_with_ctx_any; simp)
  next
    case (Route m pat mw)
    show ?thesis
    proof (cases "keeps I mw")
      case True
      then have "pres I (mw (run_stack X (es @ rest)))" using rest by (simp add: keeps_def)
      moreover have "pres I (set_ctx (\<lambda>c. c\<lparr>cxParams := ps\<rparr>))" for ps
        using params by (auto simp: pres_def set_ctx_def modify_def no_params_def)
      ultimately show ?thesis using Route rest by (simp, intro pres_intros pres_with_ctx_any; simp)
    next
      case False
      then have none: "route_params X m pat r = None" using Route Cons.prems by (simp add: passes_def)
      show ?thesis
      proof (rule presI)
      fix s assume I: "I s"
      obtain c w where s: "s = (c, w)" by fastforce
      have "run_stack X (e # es @ rest) (c, w) = run_stack X (es @ rest) (c, w)"
        using assms(1) [of c w] I none by (simp add: Route s attempt_def with_ctx_run)
      then show "I (snd (run_stack X ((e # es) @ rest) s))" using presD [OF rest I] s by simp
      qed
    qed
  qed
qed

lemma passes_elsewhere:
  assumes "router_law X" and "prefix g (rqPath r)" and "g \<noteq> []" and "last g \<noteq> CHR ''/''"
    and "if literal_part pat = pat then \<not> prefix g (TrimRight pat (CHR ''/''))
      else \<not> prefix g (TrimRight (literal_part pat) (CHR ''/'')) \<and>
           \<not> prefix (TrimRight (literal_part pat) (CHR ''/'')) g"
  shows "passes X r I (Route m pat mw)"
  using route_elsewhere [OF assms] by (simp add: passes_def route_params_def)

text \<open>The entries before the groups of accounts and words.\<close>

lemma front_passes:
  assumes router: "router_law X" and around: "around_law X" and "I = turned_away r d f P"
    and path: "prefix g (rqPath r)" and g: "g = ''/api/v1/users'' \<or> g = ''/api/v1/words''"
  shows "list_all (passes X r I) (registerMiddleware E X D)"
    and "list_all (passes X r I) (operational_routes E D)"
    and "list_all (passes X r I) (auth_routes E X D)"
proof -
  have "keeps I (hxAround X)"
    unfolding keeps_def assms(3) using around_pres [OF around] turned_away_frame(1) by blast
  then show "list_all (passes X r I) (registerMiddleware E X D)"
    by (simp add: registerMiddleware_def passes_def turned_away_middleware assms(3))
  have g': "g \<noteq> []" "last g \<noteq> CHR ''/''" using g by auto
  note away = passes_elsewhere [OF router path g']
  show "list_all (passes X r I) (operational_routes E D)"
    using g by (auto simp: operational_routes_def route_defs literal_part_def TrimRight_def
        intro!: away split: option.split)
  show "list_all (passes X r I) (auth_routes E X D)"
    using g by (auto simp: auth_routes_def route_defs Let_def literal_part_def TrimRight_def intro!: away)
qed

lemma jwt_parse_same [pres_intros]:
  "pres (same_data d f) (ParseAccessToken E m t)"
  by (rule presI) (simp add: ParseAccessToken_def jwt_parse_def same_data_def go_run attempt_def of_result_def)

lemma session_same [pres_intros]: "pres (same_data d f) (IsAccessTokenValid E u j t)"
  unfolding IsAccessTokenValid_def by (intro pres_intros; simp split: prod.split; intro impI conjI pres_intros)

text \<open>
  \<open>caller_claims\<close>: every set of claims that the bearer token of the request can parse to, at any
  time, satisfies \<open>Q\<close>. With \<open>Q\<close> false the request carries no valid token.
\<close>

definition caller_claims :: "ext \<Rightarrow> JWTManager \<Rightarrow> request \<Rightarrow> (Claims \<Rightarrow> bool) \<Rightarrow> bool" where
  "caller_claims E tokens r Q \<longleftrightarrow>
     (\<forall>raw v claims. bearerToken (rqHeader r ''Authorization'') = Inr raw \<longrightarrow>
        fst (ParseAccessToken E tokens raw v) = Inr claims \<longrightarrow> Q claims)"

lemma Authenticate_turned_away:
  assumes claims: "caller_claims E tokens r Q" and P: "\<And>c. Q c \<Longrightarrow> P (Some c)"
    and "\<And>c. Q c \<Longrightarrow> pres (turned_away r d f P) next"
  shows "pres (turned_away r d f P) (Authenticate E tokens next)"
proof (rule presI)
  fix s assume I: "turned_away r d f P s"
  let ?I = "turned_away r d f P"
  obtain c w where s: "s = (c, w)" by fastforce
  have r: "cxRequest c = r" using I s by (simp add: turned_away_def)
  show "?I (snd (Authenticate E tokens next s))"
  proof (cases "bearerToken (rqHeader r ''Authorization'')")
    case (Inl e)
    then show ?thesis using I by (simp add: Authenticate_def attempt_def header_def with_ctx_run s r go_run)
  next
    case (Inr raw)
    define rest where "rest claims = attempt (of_res (Claims_UserID E claims))
       (\<lambda>e. fail (Wrap (Unauthorized ''Invalid access token'') (Some e))) (\<lambda>userID.
     attempt (lift (IsAccessTokenValid E userID (clID claims) (IssuedAtTime claims)))
       (\<lambda>e. fail (Internal e)) (\<lambda>valid.
     if \<not> valid then fail (Unauthorized ''Session is no longer valid, please sign in again'')
     else
     attempt (set_ctx (\<lambda>c. c\<lparr>cxClaims := Some claims\<rparr>)) fail (\<lambda>_.
     next)))" for claims
    have rest: "pres ?I (rest claims)" if "Q claims" for claims
    proof -
      have "pres ?I (set_ctx (\<lambda>c. c\<lparr>cxClaims := Some claims\<rparr>))"
        using P [OF that] by (auto simp: pres_def turned_away_def set_ctx_def modify_def)
      then show ?thesis unfolding rest_def by (intro pres_intros assms(3) [OF that])
    qed
    obtain res w1 where p: "ParseAccessToken E tokens raw w = (res, w1)" by fastforce
    have I1: "?I (c, w1)"
      using presD [OF turned_away_basic(1) [OF jwt_parse_same] I, of E tokens raw] p s by (simp add: lift_def)
    show ?thesis
    proof (cases res)
      case (Inl e)
      then show ?thesis
        using I1 p Inr by (simp add: Authenticate_def attempt_def header_def with_ctx_run s r fail_run of_res_run lift_run)
    next
      case (Inr cl)
      then have "Q cl" using claims \<open>bearerToken _ = Inr raw\<close> p unfolding caller_claims_def by (metis fst_conv)
      from presD [OF rest [OF this] I1] show ?thesis
        using p Inr \<open>bearerToken _ = Inr raw\<close>
        by (simp add: Authenticate_def attempt_def header_def with_ctx_run s r fail_run of_res_run lift_run rest_def)
    qed
  qed
qed

lemma turned_away_request: "turned_away r d f P (c, w) \<Longrightarrow> cxRequest c = r"
  by (simp add: turned_away_def)

lemma turned_away_skip:
  "list_all (passes X r (turned_away r d f P)) es \<Longrightarrow> pres (turned_away r d f P) (run_stack X rest) \<Longrightarrow>
   pres (turned_away r d f P) (run_stack X (es @ rest))"
  by (rule run_stack_skip [OF turned_away_request]) simp_all

lemma turned_away_start:
  "P None \<Longrightarrow> turned_away r (w_db w) (w_files w) P (new_ctx r, w)"
  by (simp add: turned_away_def new_ctx_def same_data_def no_data_def)

text \<open>
  Claim C8. Accounts and words are out of reach without a valid access token: a request below one of
  the two groups whose bearer token parses at no time changes neither the database nor the files and
  gets no data, whatever the method, the rest of the request and the outside calls are.
\<close>

theorem token_required:
  assumes router: "router_law X" and around: "around_law X"
    and g: "g = ''/api/v1/users'' \<or> g = ''/api/v1/words''" and path: "rqPath r = g \<or> prefix (g @ ''/'') (rqPath r)"
    and token: "caller_claims E (dpTokens D) r (\<lambda>_. False)"
    and run: "serve E X D r w = (c, w')"
  shows "w_db w' = w_db w \<and> w_files w' = w_files w \<and> no_data (cxBody c)"
proof -
  let ?I = "turned_away r (w_db w) (w_files w) (\<lambda>_. True)"
  let ?A = "Authenticate E (dpTokens D)"
  have pre: "prefix g (rqPath r)" using path by (auto simp: prefix_def)
  note front = front_passes [OF router around refl pre g, where P = "\<lambda>_. True" and d = "w_db w" and f = "w_files w"]
  have A: "pres ?I (?A nx)" for nx
    by (rule Authenticate_turned_away [OF token]) simp_all
  have group: "pres ?I (run_stack X (Use g ?A # rest))" for rest
    using A router_group [OF router path]
    by (auto simp: pres_def attempt_def with_ctx_def gets_def turned_away_def)
  have "pres ?I (run_stack X (NewApp E X D))"
  proof (cases "g = ''/api/v1/users''")
    case True
    have "NewApp E X D = (registerMiddleware E X D @ operational_routes E D @ auth_routes E X D) @
        (Use g ?A # (tl (user_routes E X D) @ word_routes E X D))"
      by (simp add: NewApp_def RegisterRoutes_def user_routes_def Let_def True)
    then show ?thesis
      using turned_away_skip [OF _ group] front by (metis list_all_append)
  next
    case False
    then have gw: "g = ''/api/v1/words''" using g by simp
    have "list_all (passes X r ?I) (user_routes E X D)"
      using pre gw by (auto simp: user_routes_def route_defs Let_def literal_part_def TrimRight_def keeps_def passes_def [of X r ?I "Use _ _"] A
          intro!: passes_elsewhere [OF router pre])
    moreover have "NewApp E X D = (registerMiddleware E X D @ operational_routes E D @ auth_routes E X D @ user_routes E X D) @
        (Use g ?A # tl (word_routes E X D))"
      by (simp add: NewApp_def RegisterRoutes_def word_routes_def gw)
    ultimately show ?thesis
      using turned_away_skip [OF _ group] front by (metis list_all_append)
  qed
  from serve_pres [OF this turned_away_error turned_away_start]
  show ?thesis using run by (simp add: turned_away_def same_data_def)
qed

text \<open>
  Claim C9. Only an administrator lists or creates accounts: a request to the collection of accounts
  whose bearer token never parses to claims with the admin role changes neither the database nor the
  files and gets no data.
\<close>

theorem admin_required:
  assumes router: "router_law X" and around: "around_law X"
    and path: "rqPath r = ''/api/v1/users'' \<or> rqPath r = ''/api/v1/users/''"
    and token: "caller_claims E (dpTokens D) r (\<lambda>cl. clRole cl \<noteq> RoleAdmin)"
    and run: "serve E X D r w = (c, w')"
  shows "w_db w' = w_db w \<and> w_files w' = w_files w \<and> no_data (cxBody c)"
proof -
  let ?P = "\<lambda>x. case x of None \<Rightarrow> True | Some cl \<Rightarrow> clRole cl \<noteq> RoleAdmin"
  let ?I = "turned_away r (w_db w) (w_files w) ?P" and ?g = "''/api/v1/users''"
  have pre: "prefix ?g (rqPath r)" using path by (auto simp: prefix_def)
  have A: "keeps ?I (Authenticate E (dpTokens D))"
    unfolding keeps_def using Authenticate_turned_away [OF token] by simp
  have admin: "keeps ?I (RequireRoles [RoleAdmin] \<circ> stop h)" for h
    by (auto simp: keeps_def pres_def RequireRoles_def ClaimsFrom_def attempt_def with_ctx_def gets_def fail_def
        turned_away_def split: option.splits)
  have one: "route_params X m (''/api/v1/users/:id'') r = None" for m
  proof -
    have "\<not> (\<exists>seg. seg \<noteq> [] \<and> CHR ''/'' \<notin> set seg \<and>
        (rqPath r = ''/api/v1/users/'' @ seg \<or> rqPath r = ''/api/v1/users/'' @ seg @ ''/''))"
      using path by (auto simp: Cons_eq_append_conv)
    then have "hxMatch X (''/api/v1/users/'' @ '':id'') (rqPath r) = None"
      using router_id [OF router, of "''/api/v1/users/''"] by blast
    then show ?thesis by (simp add: route_params_def)
  qed
  have me: "route_params X m pat r = None" if "pat = ''/api/v1/users/me'' \<or> pat = ''/api/v1/users/me/avatar''" for m pat
  proof -
    have "literal_part pat = pat" "TrimRight pat (CHR ''/'') = pat" using that by (auto simp: literal_part_def TrimRight_def)
    moreover have "TrimRight (rqPath r) (CHR ''/'') \<noteq> pat" using path that by (auto simp: TrimRight_def)
    ultimately have "hxMatch X pat (rqPath r) = None" using router_plain [OF router, of pat] by force
    then show ?thesis by (simp add: route_params_def)
  qed
  have "list_all (passes X r ?I) (user_routes E X D)"
    by (simp add: user_routes_def route_defs Let_def passes_def A admin one me)
  moreover have "list_all (passes X r ?I) (word_routes E X D)"
    using A by (auto simp: word_routes_def route_defs literal_part_def TrimRight_def passes_def [of X r ?I "Use _ _"]
        intro!: passes_elsewhere [OF router pre])
  moreover have "pres ?I (run_stack X [])" by (simp, intro pres_intros)
  ultimately have "pres ?I (run_stack X (NewApp E X D @ []))"
    using front_passes [OF router around refl pre, where P = ?P and d = "w_db w" and f = "w_files w"]
    by (intro turned_away_skip) (simp_all add: NewApp_def RegisterRoutes_def)
  then have "pres ?I (run_stack X (NewApp E X D))" by simp
  from serve_pres [OF this turned_away_error turned_away_start]
  show ?thesis using run by (simp add: turned_away_def same_data_def)
qed

section \<open>Error responses\<close>

text \<open>The response that the error handler makes.\<close>

definition error_ctx :: "goerr \<Rightarrow> ctx \<Rightarrow> ctx" where
  "error_ctx e c =
     c\<lparr>cxStatus := errStatus (translate e), cxBody := ErrorBody
        \<lparr>evMessage = errMessage (translate e), evCode = errCode (translate e), evErrors = errFields (translate e),
         evRequestID = RequestIDFrom c\<rparr>\<rparr>"

lemma ErrorHandler_run:
  "fst (ErrorHandler e (c, w)) = Inr ()" "fst (snd (ErrorHandler e (c, w))) = error_ctx e c"
  by (simp_all add: ErrorHandler_def Let_def attempt_def with_ctx_run lift_run respond_def set_ctx_run go_run
      error_ctx_def)

text \<open>
  Claim C33. No cause of an error reaches the client: the response to an application error is the same
  whatever it wraps, it carries the status and the message the code chose, and an error that is
  neither an application error nor one of the framework is answered with one of three fixed messages
  and without fields.
\<close>

theorem error_response_hides_cause:
  assumes app: "is_app a" and foreign: "As e = None" "AsFiber e = None"
  shows "fst (snd (ErrorHandler (Wrap a (Some x)) (c, w))) = fst (snd (ErrorHandler (Wrap a (Some y)) (c, w))) \<and>
     cxStatus (fst (snd (ErrorHandler (Wrap a (Some x)) (c, w)))) = errStatus a \<and>
     (\<exists>m rid. cxBody (fst (snd (ErrorHandler e (c, w)))) =
        ErrorBody \<lparr>evMessage = m, evCode = errCode (translate e), evErrors = [], evRequestID = rid\<rparr> \<and>
        m \<in> {''An unexpected error occurred'', ''Client closed the request'', ''The request timed out''})"
proof -
  have "error_ctx (Wrap a (Some x)) c = error_ctx (Wrap a (Some y)) c" "cxStatus (error_ctx (Wrap a (Some x)) c) = errStatus a"
    using app by (cases a; simp add: error_ctx_def translate_def is_app_def)+
  moreover have "errFields (translate e) = [] \<and> errMessage (translate e) \<in>
      {''An unexpected error occurred'', ''Client closed the request'', ''The request timed out''}"
    using foreign by (simp add: translate_def error_defs)
  ultimately show ?thesis by (simp add: ErrorHandler_run) (simp add: error_ctx_def)
qed

lemma error_response_hides_cause_witness:
  "fst (snd (ErrorHandler (Internal (PgError ''08006'')) (new_ctx demo_request, demo_world))) =
     fst (snd (ErrorHandler (Internal (Opaque ''secret'')) (new_ctx demo_request, demo_world)))"
  using error_response_hides_cause [of "AppError CodeInternal 500 ''An unexpected error occurred'' [] None" "Opaque []"]
  by (simp add: Internal_def is_app_def)

section \<open>The access log\<close>

text \<open>
  The access log is written before the error handler: when the rest of the chain ends in an
  error, the line says the status that the response had until then and its level follows that status,
  while the client gets the status of the error. An error before any handler has set a status is
  logged as a success.
\<close>

lemma access_log_before_error:
  assumes fails: "next (c, w) = (Inl e, (c1, w1))"
  shows "\<exists>l. RequestLogger skip next (c, w) = (Inl e, (c1, w1\<lparr>w_log := w_log w1 @ [l]\<rparr>)) \<and>
     leMessage l = ''http request'' \<and> (''status'', FormatInt (cxStatus c1)) \<in> set (leAttrs l) \<and>
     leLevel l = access_level skip (rqPath (cxRequest c1)) (cxStatus c1) \<and>
     (cxStatus c1 = 200 \<longrightarrow> leLevel l \<in> {LevelInfo, LevelDebug}) \<and>
     cxStatus (fst (snd (ErrorHandler e (c1, w1\<lparr>w_log := w_log w1 @ [l]\<rparr>)))) = errStatus (translate e)"
proof -
  define l where "l = \<lparr>leLevel = access_level skip (rqPath (cxRequest c1)) (cxStatus c1), leMessage = ''http request'',
    leAttrs = access_attrs c1 (w_clock w1 - w_clock w) (Inl e)\<rparr>"
  have "RequestLogger skip next (c, w) = (Inl e, (c1, w1\<lparr>w_log := w_log w1 @ [l]\<rparr>))"
    by (simp add: RequestLogger_def chain_result_def attempt_def lift_run time_now_run go_run fails l_def)
  moreover have "(''status'', FormatInt (cxStatus c1)) \<in> set (leAttrs l)"
    by (simp add: l_def access_attrs_def)
  moreover have "cxStatus c1 = 200 \<longrightarrow> leLevel l \<in> {LevelInfo, LevelDebug}"
    by (simp add: l_def access_level_def)
  ultimately show ?thesis
    by (intro exI [of _ l]) (simp add: ErrorHandler_run, simp add: l_def error_ctx_def)
qed

section \<open>The theorems on the concrete server\<close>

lemma demo_router: "router_law demo_http"
proof -
  have "literal_part (lit @ '':id'') \<noteq> lit @ '':id''" for lit
    by (simp add: literal_part_def takeWhile_eq_all_conv)
  then show ?thesis by (auto simp: router_law_def demo_http_def)
qed

lemma demo_no_token: "caller_claims E tokens demo_request Q"
  by (simp add: caller_claims_def demo_request_def bearerToken_def)

lemma token_required_witness:
  "\<exists>c w'. serve demo_ext demo_http demo_server demo_request demo_world = (c, w') \<and> w_db w' = w_db demo_world \<and>
     no_data (cxBody c)"
proof -
  obtain c w' where run: "serve demo_ext demo_http demo_server demo_request demo_world = (c, w')" by fastforce
  have "rqPath demo_request = ''/api/v1/users''" by (simp add: demo_request_def)
  then show ?thesis
    using token_required [OF demo_router demo_around _ _ demo_no_token run, of "''/api/v1/users''"] run by blast
qed

text \<open>A caller with a token for the user role.\<close>

definition demo_caller :: request where
  "demo_caller =
     demo_request\<lparr>rqHeader := (\<lambda>k. if k = ''Authorization'' then ''Bearer '' @ tpAccessToken demo_pair else [])\<rparr>"

lemma trim_plain:
  assumes "byte a < (128 :: nat)" and "\<not> ascii_space a"
  shows "trim_left (a # s) = a # s" "trim_right_rev (a # s) = a # s"
  using assms by (cases s; cases "tl s"; auto simp: space2_def space3_def)+

lemma TrimSpace_plain:
  assumes "byte a < (128 :: nat)" "\<not> ascii_space a" "byte b < (128 :: nat)" "\<not> ascii_space b"
  shows "TrimSpace (a # s @ [b]) = a # s @ [b]"
  using trim_plain [OF assms(1,2)] trim_plain [OF assms(3,4)] by (simp add: TrimSpace_def)

lemma put_text_last: "\<exists>q. put_text s (put_texts ss []) = q @ ''.''"
proof -
  have "\<exists>q. put_text u r = q @ r" for u r by (induction u) (auto intro: exI [of _ "_ # _"])
  moreover have "\<exists>q. put_texts ss [] = q @ ''.''"
    using calculation by (induction ss) (auto, metis append_Cons append_assoc)
  ultimately show ?thesis by (metis append_assoc)
qed

lemma demo_caller_claims:
  "caller_claims demo_ext (dpTokens demo_server) demo_caller (\<lambda>cl. clRole cl \<noteq> RoleAdmin)"
proof -
  let ?c = "claims_at demo_ext (asTokens demo_service) 7 ''user'' ''a'' TokenTypeAccess 0 (15 * Minute)"
  let ?tok = "put_text ''access-key'' (put_texts (claims_texts ?c) [])"
  obtain q where q: "?tok = CHR ''x'' # q @ ''.''"
    using put_text_last [of "''ccess-key''" "claims_texts ?c"] by auto
  have trim: "TrimSpace ?tok = ?tok" unfolding q by (rule TrimSpace_plain) (simp_all add: ascii_space_def)
  have "bearerToken (''Bearer '' @ t) = Inr t" if "TrimSpace t = t" "t \<noteq> []" for t
    using that by (simp add: bearerToken_def bearerPrefix_def EqualFoldAscii_def)
  moreover have "rqHeader demo_caller ''Authorization'' = ''Bearer '' @ ?tok"
    unfolding demo_caller_def demo_pair_def by simp
  ultimately have bearer: "bearerToken (rqHeader demo_caller ''Authorization'') = Inr ?tok"
    using trim q by (metis list.distinct(1))
  have "demo_decode ?tok = Some (SigningMethodHMAC ''HS256'', ?c)"
    by (rule demo_sign_decode(1) [of "''access-key''"]) (simp add: demo_sign_def)
  then have "clRole cl = ''user''" if "fst (ParseAccessToken demo_ext (asTokens demo_service) ?tok v) = Inr cl" for v cl
    using that jwt_parse_Inr [of demo_ext]
    by (auto simp: ParseAccessToken_run jwt_parse_def demo_ext_def demo_parse_iff claims_at_def split: sum.splits if_splits)
  then show ?thesis using bearer by (auto simp: caller_claims_def demo_server_def RoleAdmin_def)
qed

lemma admin_required_witness:
  "\<exists>c w'. serve demo_ext demo_http demo_server demo_caller demo_world = (c, w') \<and> w_db w' = w_db demo_world \<and>
     no_data (cxBody c)"
proof -
  obtain c w' where run: "serve demo_ext demo_http demo_server demo_caller demo_world = (c, w')" by fastforce
  have "rqPath demo_caller = ''/api/v1/users''" by (simp add: demo_caller_def demo_request_def)
  then show ?thesis
    using admin_required [OF demo_router demo_around _ demo_caller_claims run] run by blast
qed

lemma access_log_before_error_witness:
  "\<exists>l. RequestLogger [] (Authenticate demo_ext (asTokens demo_service) (ret ())) (new_ctx demo_request, demo_world) =
      (Inl (Unauthorized ''Authorization header is missing''),
       (new_ctx demo_request, demo_world\<lparr>w_log := w_log demo_world @ [l]\<rparr>)) \<and>
     (''status'', ''200'') \<in> set (leAttrs l) \<and> leLevel l \<in> {LevelInfo, LevelDebug}"
proof -
  have "Authenticate demo_ext (asTokens demo_service) (ret ()) (new_ctx demo_request, demo_world) =
      (Inl (Unauthorized ''Authorization header is missing''), (new_ctx demo_request, demo_world))"
    by (simp add: Authenticate_def attempt_def header_def with_ctx_run new_ctx_def demo_request_def bearerToken_def go_run)
  note * = access_log_before_error [of "Authenticate demo_ext (asTokens demo_service) (ret ())", where skip = "[]", OF this]
  have "cxStatus (new_ctx demo_request) = 200" "FormatInt 200 = ''200''" by (simp add: new_ctx_def) code_simp
  then show ?thesis using * by metis
qed

end
