(* ===== verification/RateProps.thy ===== *)
theory RateProps
  imports HttpProps
begin

text \<open>
  The rate limiter as a counter: how many of the requests of one caller pass within a window.
\<close>

section \<open>One window\<close>

text \<open>
  The requests of one caller, each at its own time, in a world in which no outside call fails or takes
  time; the list tells which of them the limiter let through.
\<close>

fun limiter_run :: "RateLimitConfig \<Rightarrow> ctx \<Rightarrow> gotime list \<Rightarrow> world \<Rightarrow> bool list \<times> world" where
  "limiter_run cfg c [] w = ([], w)"
| "limiter_run cfg c (t # ts) w =
     (case RateLimit cfg (ret ()) (c, w\<lparr>w_clock := t, w_sched := []\<rparr>) of
        (res, (c', w')) \<Rightarrow>
          (case limiter_run cfg c ts w' of (passed, w'') \<Rightarrow> ((case res of Inl _ \<Rightarrow> False | Inr _ \<Rightarrow> True) # passed, w'')))"

definition whole_window :: "RateLimitConfig \<Rightarrow> bool" where
  "whole_window cfg \<longleftrightarrow>
     rcEnabled cfg \<and> rcClient cfg \<noteq> None \<and> 0 < rcMax cfg \<and> Second \<le> rcWindow cfg \<and> rcWindow cfg mod Second = 0"

definition in_window :: "RateLimitConfig \<Rightarrow> int \<Rightarrow> gotime \<Rightarrow> bool" where
  "in_window cfg k t \<longleftrightarrow> 0 \<le> t \<and> Unix t div window_seconds cfg = k"

text \<open>The counter of a window that has seen \<open>n\<close> requests and lives to its end.\<close>

definition counter_at :: "RateLimitConfig \<Rightarrow> string \<Rightarrow> int \<Rightarrow> int \<Rightarrow> world \<Rightarrow> bool" where
  "counter_at cfg key k n w \<longleftrightarrow>
     (if n = 0 then w_redis w key = None
      else (\<exists>x. w_redis w key = Some \<lparr>reValue = RString (FormatInt n), reExpires = Some x\<rparr> \<and>
                (k + 1) * window_seconds cfg * Second \<le> x))"

lemma whole_window_seconds:
  assumes "whole_window cfg"
  shows "window_seconds cfg = rcWindow cfg div Second" "1 \<le> window_seconds cfg"
    "format_sec (rcWindow cfg) = rcWindow cfg" "window_seconds cfg * Second = rcWindow cfg"
proof -
  have "1 \<le> rcWindow cfg div Second"
    using assms zdiv_mono1 [of Second "rcWindow cfg" Second] by (simp add: whole_window_def Second_def)
  then show w: "window_seconds cfg = rcWindow cfg div Second" "1 \<le> window_seconds cfg"
    using assms by (simp_all add: window_seconds_def whole_seconds_def whole_window_def Let_def Second_def)
  show "format_sec (rcWindow cfg) = rcWindow cfg" "window_seconds cfg * Second = rcWindow cfg"
    using assms by (auto simp: w format_sec_def whole_window_def Second_def)
qed

lemma in_window_bounds:
  assumes "whole_window cfg" and "in_window cfg k t"
  shows "k * window_seconds cfg * Second \<le> t" "t < (k + 1) * window_seconds cfg * Second"
proof -
  let ?n = "window_seconds cfg"
  have n: "1 \<le> ?n" by (rule whole_window_seconds(2) [OF assms(1)])
  have k: "k = Unix t div ?n" using assms(2) by (simp add: in_window_def)
  have "k * ?n \<le> Unix t" using n unfolding k by (metis div_mult_mod_eq le_add_same_cancel1 pos_mod_sign order_less_le_trans zero_less_one)
  then have "k * ?n * Second \<le> Unix t * Second" by (simp add: Second_def)
  then show "k * ?n * Second \<le> t" using Unix_mult_le [of t] by linarith
  have "Unix t < (k + 1) * ?n"
  proof -
    have "Unix t mod ?n < ?n" using n by simp
    moreover have "?n * (Unix t div ?n) + Unix t mod ?n = Unix t" by simp
    moreover have "(Unix t div ?n + 1) * ?n = ?n * (Unix t div ?n) + ?n" by (simp add: algebra_simps)
    ultimately show ?thesis unfolding k by linarith
  qed
  then show "t < (k + 1) * ?n * Second" by (simp add: Unix_less_iff)
qed

lemma rate_key_window:
  assumes "whole_window cfg" and "in_window cfg k t" and "in_window cfg k t'"
  shows "rate_key cfg c t = rate_key cfg c t'"
proof -
  have "0 \<le> Unix s" if "in_window cfg k s" for s
    using that Unix_mono [of 0 s] by (simp add: in_window_def Unix_def)
  then show ?thesis using assms(2,3) by (simp add: rate_key_def int_quot_def in_window_def)
qed

lemma incrementWindow_run:
  assumes cfg: "whole_window cfg" and win: "in_window cfg k t" and n: "0 \<le> n" "n < 2 ^ 63 - 1"
    and cnt: "counter_at cfg key k n w" and w: "w_clock w = t" "w_sched w = []"
  shows "\<exists>ttl w'. incrementWindow key (rcWindow cfg) w = (Inr (n + 1, ttl), w') \<and> counter_at cfg key k (n + 1) w'"
proof -
  have "pending_fault w = None" "tick w = w" using w by (simp_all add: pending_fault_def tick_def)
  note run = incrementWindow_def attempt_def redis_def external_def multi3_def multi2_def this w(1)
  note b = in_window_bounds [OF cfg win]
  note ws = whole_window_seconds [OF cfg]
  have W: "0 < rcWindow cfg" using cfg by (simp add: whole_window_def Second_def)
  have end_le: "(k + 1) * window_seconds cfg * Second \<le> t + rcWindow cfg"
    using b(1) ws(4) by (simp add: distrib_right)
  show ?thesis
  proof (cases "n = 0")
    case True
    then have none: "w_redis w key = None" using cnt by (simp add: counter_at_def)
    show ?thesis
      using none W end_le True
      by (simp add: run INCR_def EXPIRE_NX_def EXPIRE_def TTL_def live_entry_def expired_def ws(3) ret_def
          counter_at_def Let_def split: prod.split)
  next
    case False
    then obtain x where x: "w_redis w key = Some \<lparr>reValue = RString (FormatInt n), reExpires = Some x\<rparr>"
      "(k + 1) * window_seconds cfg * Second \<le> x" using cnt by (auto simp: counter_at_def)
    have "ParseInt (FormatInt n) = Some n" using n by (intro ParseInt_FormatInt) simp_all
    moreover have "t < x" using b(2) x(2) by linarith
    moreover have "n + 1 \<noteq> 0" "n \<noteq> 2 ^ 63 - 1" using n by simp_all
    ultimately show ?thesis
      using x False
      by (simp add: run INCR_def EXPIRE_NX_def TTL_def live_entry_def expired_def ret_def counter_at_def Let_def
          split: prod.split)
  qed
qed

lemma RateLimit_step:
  assumes cfg: "whole_window cfg" and win: "in_window cfg k t" and n: "0 \<le> n" "n < 2 ^ 63 - 1"
    and cnt: "counter_at cfg (rate_key cfg c t) k n w" and w: "w_clock w = t" "w_sched w = []"
  shows "\<exists>res c' w'. RateLimit cfg (ret ()) (c, w) = (res, (c', w')) \<and>
     (case res of Inl _ \<Rightarrow> False | Inr _ \<Rightarrow> True) = (n + 1 \<le> rcMax cfg) \<and>
     counter_at cfg (rate_key cfg c t) k (n + 1) w'"
proof -
  obtain ttl w' where "incrementWindow (rate_key cfg c t) (rcWindow cfg) w = (Inr (n + 1, ttl), w')"
    "counter_at cfg (rate_key cfg c t) k (n + 1) w'"
    using incrementWindow_run [OF cfg win n cnt w] by blast
  then show ?thesis
    using cfg w by (auto simp: RateLimit_def whole_window_def attempt_def lift_run with_ctx_run set_header_def set_ctx_run go_run)
qed

lemma limiter_run_counts:
  assumes cfg: "whole_window cfg" and win: "\<forall>t\<in>set ts. in_window cfg k t \<and> rate_key cfg c t = key"
    and n: "0 \<le> n" "n + int (length ts) < 2 ^ 63" and cnt: "counter_at cfg key k n w"
  shows "fst (limiter_run cfg c ts w) = map (\<lambda>i. n + int i < rcMax cfg) [0..<length ts]"
  using win n cnt
proof (induction ts arbitrary: n w)
  case Nil
  then show ?case by simp
next
  case (Cons t ts)
  let ?w = "w\<lparr>w_clock := t, w_sched := []\<rparr>"
  have key: "rate_key cfg c t = key" and t: "in_window cfg k t" using Cons.prems(1) by simp_all
  have "counter_at cfg (rate_key cfg c t) k n ?w" using Cons.prems(4) key by (simp add: counter_at_def)
  then obtain res c' w' where step: "RateLimit cfg (ret ()) (c, ?w) = (res, (c', w'))"
    "(case res of Inl _ \<Rightarrow> False | Inr _ \<Rightarrow> True) = (n + 1 \<le> rcMax cfg)" "counter_at cfg key k (n + 1) w'"
    using RateLimit_step [OF cfg t, of n c ?w] Cons.prems(2,3) key by auto
  have "fst (limiter_run cfg c ts w') = map (\<lambda>i. n + 1 + int i < rcMax cfg) [0..<length ts]"
    using Cons.IH [of "n + 1" w'] Cons.prems step(3) by simp
  moreover have "map (\<lambda>i. n + int i < rcMax cfg) [0..<length (t # ts)] =
      (n < rcMax cfg) # map (\<lambda>i. n + 1 + int i < rcMax cfg) [0..<length ts]"
    by (simp add: upt_conv_Cons map_Suc_upt [symmetric] algebra_simps del: upt_Suc)
  moreover have "(n + 1 \<le> rcMax cfg) = (n < rcMax cfg)" by linarith
  ultimately show ?case
    using step by (simp add: split_beta)
qed

lemma first_admitted:
  fixes m :: int
  shows "map (\<lambda>i. int i < m) [0..<n] = replicate (min n (nat m)) True @ replicate (n - nat m) False"
proof (rule nth_equalityI)
  show "length (map (\<lambda>i. int i < m) [0..<n]) = length (replicate (min n (nat m)) True @ replicate (n - nat m) False)"
    by simp
next
  fix i assume "i < length (map (\<lambda>i. int i < m) [0..<n])"
  then show "map (\<lambda>i. int i < m) [0..<n] ! i = (replicate (min n (nat m)) True @ replicate (n - nat m) False) ! i"
    by (cases "i < nat m") (auto simp: nth_append)
qed

lemma admits_first:
  assumes cfg: "whole_window cfg" and win: "\<forall>t\<in>set ts. in_window cfg k t"
    and fresh: "\<forall>t\<in>set ts. w_redis w (rate_key cfg c t) = None" and len: "int (length ts) < 2 ^ 63"
  shows "fst (limiter_run cfg c ts w) =
     replicate (min (length ts) (nat (rcMax cfg))) True @ replicate (length ts - nat (rcMax cfg)) False"
proof (cases ts)
  case Nil
  then show ?thesis by simp
next
  case (Cons t0 ts')
  have "\<forall>t\<in>set ts. in_window cfg k t \<and> rate_key cfg c t = rate_key cfg c t0"
  proof
    fix t assume "t \<in> set ts"
    then have "in_window cfg k t" using win by blast
    moreover have "in_window cfg k t0" using win Cons by simp
    ultimately show "in_window cfg k t \<and> rate_key cfg c t = rate_key cfg c t0"
      using rate_key_window [OF cfg, of k t t0 c] by simp
  qed
  moreover have "counter_at cfg (rate_key cfg c t0) k 0 w" using fresh Cons by (simp add: counter_at_def)
  ultimately have "fst (limiter_run cfg c ts w) = map (\<lambda>i. int i < rcMax cfg) [0..<length ts]"
    using limiter_run_counts [OF cfg, where ts = ts and n = 0 and w = w] len by simp
  then show ?thesis by (simp only: first_admitted)
qed

text \<open>
  Claim C17. Within one window the limiter admits exactly the first \<open>Max\<close> requests of a caller: if
  the window is a whole number of seconds and no outside call fails, of any number of requests in
  the same window the first \<open>Max\<close> pass and every further one is refused, no matter how they are
  spread over the window.
\<close>

theorem RateLimit_bound:
  assumes "whole_window cfg" and "\<forall>t\<in>set ts. in_window cfg k t"
    and "\<forall>t\<in>set ts. w_redis w (rate_key cfg c t) = None" and "int (length ts) < 2 ^ 63"
  shows "fst (limiter_run cfg c ts w) =
     replicate (min (length ts) (nat (rcMax cfg))) True @ replicate (length ts - nat (rcMax cfg)) False"
  using assms by (rule admits_first)

definition demo_limit :: RateLimitConfig where
  "demo_limit = \<lparr>rcClient = Some (), rcEnabled = True, rcMax = 2, rcWindow = Minute, rcKeyPrefix = ''ratelimit:auth''\<rparr>"

lemma RateLimit_bound_witness:
  "fst (limiter_run demo_limit (new_ctx demo_request) [0, 30 * Second, 30 * Second, 59 * Second] demo_world) =
     [True, True, False, False]"
proof -
  have w: "window_seconds demo_limit = 60"
    by (simp add: window_seconds_def whole_seconds_def demo_limit_def Minute_def Second_def)
  have "whole_window demo_limit" by (simp add: whole_window_def demo_limit_def Minute_def Second_def)
  moreover have "\<forall>t\<in>set [0, 30 * Second, 30 * Second, 59 * Second]. in_window demo_limit 0 t"
    by (simp add: in_window_def w Unix_def Second_def)
  ultimately show ?thesis
    by (subst RateLimit_bound [where k = 0]) (simp_all add: demo_limit_def numeral_2_eq_2)
qed

section \<open>The next window\<close>

lemma rate_key_other_window:
  assumes "whole_window cfg" and "0 \<le> s" "0 \<le> t" and "Unix s div window_seconds cfg \<noteq> Unix t div window_seconds cfg"
  shows "rate_key cfg c s \<noteq> rate_key cfg c t"
proof -
  have "0 \<le> Unix s" "0 \<le> Unix t" using assms(2,3) Unix_mono [of 0 s] Unix_mono [of 0 t] by (simp_all add: Unix_def)
  moreover have "1 \<le> window_seconds cfg" by (rule whole_window_seconds(2) [OF assms(1)])
  ultimately show ?thesis
    using assms(4) by (auto simp: rate_key_def int_quot_def pos_imp_zdiv_nonneg_iff dest: FormatInt_inj)
qed

lemma commands_other_key:
  assumes "k \<noteq> key"
  shows "snd (INCR key now st) k = st k" "snd (EXPIRE_NX key d now st) k = st k" "snd (TTL key now st) k = st k"
  using assms
  by (simp_all add: INCR_def EXPIRE_NX_def EXPIRE_def TTL_def split: option.split redis_value.split)

lemma snd_multi3: "snd (multi3 c1 c2 c3 now st) = snd (c3 now (snd (c2 now (snd (c1 now st)))))"
  by (simp add: multi3_def multi2_def Let_def split: prod.split)

lemma redis_other_key:
  assumes "\<And>now st. snd (c now st) k = st k"
  shows "w_redis (snd (redis c w)) k = w_redis w k"
  using assms [of "w_clock (tick w)" "w_redis w"]
  by (auto simp: redis_def external_def split: option.split prod.split)

lemma incrementWindow_other:
  assumes "k \<noteq> key"
  shows "w_redis (snd (incrementWindow key d w)) k = w_redis w k"
proof -
  have "w_redis (snd (redis (multi3 (INCR key) (EXPIRE_NX key d) (TTL key)) w)) k = w_redis w k"
    by (rule redis_other_key) (simp add: snd_multi3 commands_other_key [OF assms])
  then show ?thesis
    by (auto simp: incrementWindow_def attempt_def ret_def fail_def split: prod.splits sum.splits)
qed

lemma RateLimit_other_key:
  assumes "RateLimit cfg (ret ()) (c, w) = (res, (c', w'))" and "k \<noteq> rate_key cfg c (w_clock w)"
  shows "w_redis w' k = w_redis w k"
proof -
  have "w_redis (snd (snd (RateLimit cfg (ret ()) (c, w)))) k = w_redis w k"
    using incrementWindow_other [OF assms(2), of "rcWindow cfg" w]
    by (auto simp: RateLimit_def attempt_def lift_run with_ctx_run set_header_def set_ctx_run go_run time_now_run log_at_def
        split: prod.split sum.split)
  then show ?thesis using assms(1) by simp
qed

lemma limiter_run_append:
  "limiter_run cfg c (ts @ ts') w =
     (case limiter_run cfg c ts w of (p, w1) \<Rightarrow> (case limiter_run cfg c ts' w1 of (q, w2) \<Rightarrow> (p @ q, w2)))"
  by (induction ts arbitrary: w) (auto split: prod.split)

lemma limiter_run_other_key:
  assumes "\<forall>t\<in>set ts. k \<noteq> rate_key cfg c t" and "limiter_run cfg c ts w = (p, w')"
  shows "w_redis w' k = w_redis w k"
  using assms
proof (induction ts arbitrary: w p)
  case Nil
  then show ?case by simp
next
  case (Cons t ts)
  let ?w = "w\<lparr>w_clock := t, w_sched := []\<rparr>"
  obtain res c' w1 where one: "RateLimit cfg (ret ()) (c, ?w) = (res, (c', w1))" by (metis prod.exhaust)
  obtain q where "limiter_run cfg c ts w1 = (q, w')" using Cons.prems(2) one by (auto split: prod.splits)
  then show ?case using Cons.IH [of w1 q] Cons.prems(1) RateLimit_other_key [OF one] by simp
qed

text \<open>
  Claim C18. The limiter never locks a caller out: however many requests were made and refused in
  earlier windows, the first \<open>Max\<close> requests of a later window are admitted, since each window counts
  under a key of its own.
\<close>

theorem RateLimit_recovers:
  assumes cfg: "whole_window cfg" and earlier: "\<forall>t\<in>set ts. 0 \<le> t \<and> Unix t div window_seconds cfg < k"
    and win: "\<forall>t\<in>set ts'. in_window cfg k t" and fresh: "\<forall>t\<in>set ts'. w_redis w (rate_key cfg c t) = None"
    and len: "int (length ts') < 2 ^ 63"
  shows "fst (limiter_run cfg c (ts @ ts') w) = fst (limiter_run cfg c ts w) @
     replicate (min (length ts') (nat (rcMax cfg))) True @ replicate (length ts' - nat (rcMax cfg)) False"
proof (cases "limiter_run cfg c ts w")
  case (Pair p w1)
  have "w_redis w1 (rate_key cfg c t) = None" if t: "t \<in> set ts'" for t
  proof -
    have "0 \<le> t" "Unix t div window_seconds cfg = k" using win t by (auto simp: in_window_def)
    then have "\<forall>s\<in>set ts. rate_key cfg c t \<noteq> rate_key cfg c s"
      using earlier rate_key_other_window [OF cfg] by (metis order_less_irrefl)
    then show ?thesis using limiter_run_other_key [OF _ Pair] fresh t by simp
  qed
  then have "fst (limiter_run cfg c ts' w1) =
      replicate (min (length ts') (nat (rcMax cfg))) True @ replicate (length ts' - nat (rcMax cfg)) False"
    using admits_first [OF cfg win _ len] by blast
  then show ?thesis using Pair by (simp add: limiter_run_append split: prod.split) (metis fst_conv)
qed

lemma RateLimit_recovers_witness:
  "fst (limiter_run demo_limit (new_ctx demo_request) ([0, Second, 2 * Second] @ [60 * Second]) demo_world) =
     fst (limiter_run demo_limit (new_ctx demo_request) [0, Second, 2 * Second] demo_world) @ [True]"
proof -
  have w: "window_seconds demo_limit = 60"
    by (simp add: window_seconds_def whole_seconds_def demo_limit_def Minute_def Second_def)
  have "whole_window demo_limit" by (simp add: whole_window_def demo_limit_def Minute_def Second_def)
  moreover have "\<forall>t\<in>set [0, Second, 2 * Second]. 0 \<le> t \<and> Unix t div window_seconds demo_limit < 1"
    "\<forall>t\<in>set [60 * Second]. in_window demo_limit 1 t"
    by (simp_all add: in_window_def w Unix_def Second_def)
  ultimately show ?thesis
    by (subst RateLimit_recovers [where k = 1]) (simp_all add: demo_limit_def numeral_2_eq_2)
qed

end
