(* ===== verification/ListingProps.thy ===== *)
theory ListingProps
  imports HttpProps "HOL-Library.Multiset"
begin

text \<open>
  The listings: the batched look-up of senses against the look-up of one word, the pages of a
  listing against the whole result, the arithmetic of page numbers, and who sees which words.
\<close>

section \<open>Stable ordering\<close>

definition total_order :: "('a \<Rightarrow> 'a \<Rightarrow> bool) \<Rightarrow> bool" where
  "total_order le \<longleftrightarrow> (\<forall>x y. le x y \<or> le y x) \<and> (\<forall>x y z. le x y \<longrightarrow> le y z \<longrightarrow> le x z)"

lemma sorted_insert_by: "total_order le \<Longrightarrow> sorted_wrt le ys \<Longrightarrow> sorted_wrt le (insert_by le x ys)"
  by (induction ys) (auto simp: total_order_def)

lemma sorted_order_by: "total_order le \<Longrightarrow> sorted_wrt le (order_by le xs)"
  by (induction xs) (simp_all add: sorted_insert_by)

lemma filter_insert_by:
  assumes "total_order le" and "sorted_wrt le ys"
  shows "filter P (insert_by le x ys) = (if P x then insert_by le x (filter P ys) else filter P ys)"
  using assms(2)
proof (induction ys)
  case Nil
  then show ?case by simp
next
  case (Cons y ys)
  have front: "insert_by le x zs = x # zs" if "le x y" "zs = filter P ys" for zs
  proof -
    have "list_all (le x) zs"
      using Cons.prems that assms(1) by (auto simp: total_order_def list_all_iff)
    then show ?thesis by (cases zs) simp_all
  qed
  show ?case using Cons front by auto
qed

lemma filter_order_by: "total_order le \<Longrightarrow> filter P (order_by le xs) = order_by le (filter P xs)"
  by (induction xs) (simp_all add: filter_insert_by sorted_order_by)

lemma insert_by_cong: "(\<And>y. y \<in> set ys \<Longrightarrow> le x y = le' x y) \<Longrightarrow> insert_by le x ys = insert_by le' x ys"
  by (induction ys) auto

lemma order_by_cong:
  "(\<And>x y. x \<in> set xs \<Longrightarrow> y \<in> set xs \<Longrightarrow> le x y = le' x y) \<Longrightarrow> order_by le xs = order_by le' xs"
  by (induction xs) (auto intro: insert_by_cong)

section \<open>Senses of many words at once\<close>

definition word_sense_le :: "dbWordSense \<Rightarrow> dbWordSense \<Rightarrow> bool" where
  "word_sense_le a b \<longleftrightarrow> dsWordID a < dsWordID b \<or> dsWordID a = dsWordID b \<and> sense_le a b"

lemma total_word_sense_le: "total_order word_sense_le"
  by (auto simp: total_order_def word_sense_le_def sense_le_def)

text \<open>The rows of one word come out of both queries in the same order.\<close>

lemma rows_of_word:
  assumes "k \<in> set ks"
  shows "filter (\<lambda>s. dsWordID s = k) (order_by word_sense_le (filter (\<lambda>s. dsWordID s \<in> set ks) rows)) =
     order_by sense_le (filter (\<lambda>s. dsWordID s = k) rows)"
proof -
  have "filter (\<lambda>s. dsWordID s = k) (filter (\<lambda>s. dsWordID s \<in> set ks) rows) = filter (\<lambda>s. dsWordID s = k) rows"
    using assms by (auto simp: filter_filter intro!: filter_cong)
  moreover have "order_by word_sense_le (filter (\<lambda>s. dsWordID s = k) rows) = order_by sense_le (filter (\<lambda>s. dsWordID s = k) rows)"
    by (rule order_by_cong) (auto simp: word_sense_le_def)
  ultimately show ?thesis by (simp add: filter_order_by total_word_sense_le)
qed

definition senses_of :: "senses_by_word \<Rightarrow> uuid \<Rightarrow> WordSense list" where
  "senses_of m k = (case m k of None \<Rightarrow> [] | Some ss \<Rightarrow> ss)"

lemma toDomainWordSense_word: "toDomainWordSense E row = Inr s \<Longrightarrow> wsWordID s = dsWordID row"
  by (auto simp: toDomainWordSense_def split: sum.splits)

lemma senses_of_add: "senses_of (add_sense s m) k = (if wsWordID s = k then senses_of m k @ [s] else senses_of m k)"
  by (simp add: senses_of_def add_sense_def)

lemma group_senses_ok:
  assumes "group_senses E rows m = Inr m'"
  shows "\<exists>ss. decode_senses E (filter (\<lambda>r. dsWordID r = k) rows) = Inr ss \<and> senses_of m' k = senses_of m k @ ss"
  using assms
proof (induction rows arbitrary: m)
  case Nil
  then show ?case by simp
next
  case (Cons row rows)
  obtain s where s: "toDomainWordSense E row = Inr s" "group_senses E rows (add_sense s m) = Inr m'"
    using Cons.prems by (auto split: sum.splits)
  obtain ss where "decode_senses E (filter (\<lambda>r. dsWordID r = k) rows) = Inr ss"
    "senses_of m' k = senses_of (add_sense s m) k @ ss" using Cons.IH [OF s(2)] by blast
  then show ?case using s(1) toDomainWordSense_word [OF s(1)] by (simp add: senses_of_add)
qed

lemma group_senses_error:
  assumes "group_senses E rows m = Inl e"
  shows "\<exists>row\<in>set rows. decode_senses E (filter (\<lambda>r. dsWordID r = dsWordID row) rows) = Inl e"
  using assms
proof (induction rows arbitrary: m)
  case Nil
  then show ?case by simp
next
  case (Cons row rows)
  show ?case
  proof (cases "toDomainWordSense E row")
    case (Inl e')
    then show ?thesis using Cons.prems by simp
  next
    case (Inr s)
    then obtain r where "r \<in> set rows" "decode_senses E (filter (\<lambda>x. dsWordID x = dsWordID r) rows) = Inl e"
      using Cons by auto
    then show ?thesis using Inr by (intro bexI [of _ r]) simp_all
  qed
qed

lemma ListByWord_run:
  "calm w \<Longrightarrow> fst (WordSenses_ListByWord E k w) =
     decode_senses E (order_by sense_le (filter (\<lambda>s. dsWordID s = k) (tSenses (w_db w))))"
  by (simp add: WordSenses_ListByWord_def attempt_def run_stmt_after ListWordSensesByWord_def query_def of_result_def)

lemma ListByWords_run:
  "calm w \<Longrightarrow> ks \<noteq> [] \<Longrightarrow> fst (WordSenses_ListByWords E ks w) =
     group_senses E (order_by word_sense_le (filter (\<lambda>s. dsWordID s \<in> set ks) (tSenses (w_db w)))) Map.empty"
  by (simp add: WordSenses_ListByWords_def attempt_def run_stmt_after ListWordSensesByWordIDs_def query_def
      of_result_def word_sense_le_def [abs_def])

text \<open>
  Claim C23. The batched look-up of senses is equivalent to the look-up of every word on its own: when
  no outside call fails, its map has for each word the list that \<open>ListByWord\<close> returns, in the same
  order and empty where the word has no entry; and when a stored sense cannot be decoded, the error
  is the one that \<open>ListByWord\<close> gives for some word of the batch.
\<close>

theorem ListByWords_equals_ListByWord:
  assumes "calm w"
  shows "case fst (WordSenses_ListByWords E ks w) of
     Inr m \<Rightarrow> \<forall>k\<in>set ks. fst (WordSenses_ListByWord E k w) = Inr (case m k of None \<Rightarrow> [] | Some ss \<Rightarrow> ss)
   | Inl e \<Rightarrow> \<exists>k\<in>set ks. fst (WordSenses_ListByWord E k w) = Inl e"
proof (cases "ks = []")
  case True
  then show ?thesis by (simp add: WordSenses_ListByWords_def ret_def)
next
  case False
  let ?rows = "order_by word_sense_le (filter (\<lambda>s. dsWordID s \<in> set ks) (tSenses (w_db w)))"
  have one: "fst (WordSenses_ListByWord E k w) = decode_senses E (filter (\<lambda>s. dsWordID s = k) ?rows)"
    if "k \<in> set ks" for k using that by (simp add: ListByWord_run assms rows_of_word)
  show ?thesis
  proof (cases "group_senses E ?rows Map.empty")
    case (Inl e)
    then obtain row where "row \<in> set ?rows" "decode_senses E (filter (\<lambda>r. dsWordID r = dsWordID row) ?rows) = Inl e"
      using group_senses_error by blast
    then have "dsWordID row \<in> set ks \<and> fst (WordSenses_ListByWord E (dsWordID row) w) = Inl e"
      using one [of "dsWordID row"] by simp
    then show ?thesis using Inl False by (auto simp: ListByWords_run assms)
  next
    case (Inr m)
    then have "fst (WordSenses_ListByWord E k w) = Inr (senses_of m k)" if "k \<in> set ks" for k
      using group_senses_ok [OF Inr, of k] one [OF that] by (auto simp: senses_of_def)
    then show ?thesis using Inr False by (simp add: ListByWords_run assms senses_of_def)
  qed
qed

definition demo_rows :: world where
  "demo_rows = demo_world\<lparr>w_db := (w_db demo_world)\<lparr>tSenses :=
     [\<lparr>dsID = 1, dsWordID = 9, dsPartOfSpeech = None, dsDefinition = ''second'', dsExample = None, dsMeta = [],
       dsSenseOrder = 1, dsCreatedAt = 0, dsUpdatedAt = 0\<rparr>,
      \<lparr>dsID = 2, dsWordID = 8, dsPartOfSpeech = None, dsDefinition = ''other'', dsExample = None, dsMeta = [],
       dsSenseOrder = 0, dsCreatedAt = 0, dsUpdatedAt = 0\<rparr>,
      \<lparr>dsID = 3, dsWordID = 9, dsPartOfSpeech = None, dsDefinition = ''first'', dsExample = None, dsMeta = [],
       dsSenseOrder = 0, dsCreatedAt = 0, dsUpdatedAt = 0\<rparr>]\<rparr>\<rparr>"

lemma demo_rows_calm: "calm demo_rows"
  by (simp add: demo_rows_def demo_world_def calm_def)

lemma ListByWords_equals_ListByWord_witness:
  "case fst (WordSenses_ListByWords demo_ext [9, 8] demo_rows) of
     Inr m \<Rightarrow> \<forall>k\<in>set [9, 8]. fst (WordSenses_ListByWord demo_ext k demo_rows) = Inr (case m k of None \<Rightarrow> [] | Some ss \<Rightarrow> ss)
   | Inl e \<Rightarrow> \<exists>k\<in>set [9, 8]. fst (WordSenses_ListByWord demo_ext k demo_rows) = Inl e"
  by (rule ListByWords_equals_ListByWord [OF demo_rows_calm])

section \<open>Pages\<close>

lemma mset_insert_by [simp]: "mset (insert_by le x xs) = add_mset x (mset xs)"
  by (induction xs) auto

lemma mset_order_by [simp]: "mset (order_by le xs) = mset xs"
  by (induction xs) simp_all

lemma concat_pages: "concat (map (\<lambda>i. take l (drop (i * l) xs)) [0..<n]) = take (n * l) xs"
  by (induction n) (simp_all add: take_add [symmetric] add.commute)

lemma int32_int64: "int32 (int64 x) = int32 x"
  by (simp add: int32_def int64_def)

lemma int32_limit: "page_ok page \<Longrightarrow> int32 (ppLimit page) = ppLimit page"
  by (simp add: page_ok_def MaxLimit_def int32_id)

definition total_pages :: "PageParams \<Rightarrow> 'a list \<Rightarrow> nat" where
  "total_pages page xs = nat (pmTotalPages (NewPageMeta page (int (length xs))))"

lemma page_slice:
  assumes ok: "page_ok page" and small: "int (length xs) < 2 ^ 31" and i: "i < total_pages page xs"
  shows "limit_offset (int32 (ppLimit page)) (int32 (Offset (page\<lparr>ppPage := int i + 1\<rparr>))) xs =
     Inr (take (nat (ppLimit page)) (drop (i * nat (ppLimit page)) xs))"
proof -
  let ?l = "ppLimit page" and ?n = "int (length xs)"
  have l: "1 \<le> ?l" "?l < 2 ^ 53" using ok by (simp_all add: page_ok_def MaxLimit_def)
  have pages: "int (total_pages page xs) = max 1 ((?n + ?l - 1) div ?l)"
    using NewPageMeta_pages [OF l, of ?n] small by (simp add: total_pages_def)
  have bound: "int i * ?l < 2 ^ 31"
  proof (cases "i = 0")
    case False
    then have "int i + 1 \<le> (?n + ?l - 1) div ?l" using i pages by (simp add: max_def split: if_splits)
    then have "(int i + 1) * ?l \<le> (?n + ?l - 1) div ?l * ?l" using l by (intro mult_right_mono) simp_all
    also have "\<dots> \<le> ?n + ?l - 1" using l by (smt (verit) div_mult_mod_eq pos_mod_sign)
    finally show ?thesis using small by (simp add: algebra_simps)
  qed simp
  have "int32 (Offset (page\<lparr>ppPage := int i + 1\<rparr>)) = int i * ?l"
    using Offset_exact [of "page\<lparr>ppPage := int i + 1\<rparr>"] ok bound by (simp add: page_ok_def)
  moreover have "nat (int i * ?l) = i * nat ?l" using l by (simp add: nat_mult_distrib)
  ultimately show ?thesis using l ok by (simp add: limit_offset_def int32_limit mult_less_0_iff)
qed

lemma pages_cover:
  assumes ok: "page_ok page" and small: "int (length xs) < 2 ^ 31"
  shows "concat (map (\<lambda>i. take (nat (ppLimit page)) (drop (i * nat (ppLimit page)) xs)) [0..<total_pages page xs]) = xs"
proof -
  let ?l = "ppLimit page" and ?n = "int (length xs)"
  have l: "1 \<le> ?l" "?l < 2 ^ 53" using ok by (simp_all add: page_ok_def MaxLimit_def)
  have "int (total_pages page xs) = max 1 ((?n + ?l - 1) div ?l)"
    using NewPageMeta_pages [OF l, of ?n] small by (simp add: total_pages_def)
  then have "(?n + ?l - 1) div ?l * ?l \<le> int (total_pages page xs) * ?l"
    using l by (intro mult_right_mono) simp_all
  moreover have "?n \<le> (?n + ?l - 1) div ?l * ?l"
    using l by (smt (verit) div_mult_mod_eq pos_mod_bound)
  ultimately have "?n \<le> int (total_pages page xs) * ?l" by linarith
  then have "?n \<le> int (total_pages page xs) * int (nat ?l)" using l by simp
  then have "length xs \<le> total_pages page xs * nat ?l" by (metis of_nat_le_iff of_nat_mult)
  then show ?thesis by (simp add: concat_pages)
qed

text \<open>The rows behind a listing of words and of accounts.\<close>

definition matching_words :: "ext \<Rightarrow> ListWordsFilter \<Rightarrow> world \<Rightarrow> dbWord list" where
  "matching_words E flt w =
     filter (word_matches E \<lparr>wfpSearch = lwfSearch flt, wfpLanguage = lwfLanguage flt, wfpTags = lwfTags flt,
       wfpCreatedBy = lwfCreatedBy flt\<rparr>) (tWords (w_db w))"

definition word_order :: "ext \<Rightarrow> PageParams \<Rightarrow> dbWord \<Rightarrow> dbWord \<Rightarrow> bool" where
  "word_order E page = sort_le (word_columns E) (\<lambda>a b. dwID a \<le> dwID b) (ppSort page) (ppOrder page)"

lemma word_matches_params:
  "word_matches E \<lparr>wfpSearch = a, wfpLanguage = b, wfpTags = c, wfpCreatedBy = d, lwpSortBy = s, lwpSortOrder = t,
     lwpPageOffset = x, lwpPageLimit = y\<rparr> =
   word_matches E \<lparr>wfpSearch = a, wfpLanguage = b, wfpTags = c, wfpCreatedBy = d\<rparr>"
  by (simp add: word_matches_def fun_eq_iff)

lemma Words_List_run:
  assumes "calm w"
  shows "fst (Words_List E flt page w) =
    (case limit_offset (int32 (ppLimit page)) (int32 (Offset page)) (order_by (word_order E page) (matching_words E flt w)) of
       Inl e \<Rightarrow> Inl (internal_error ''list words'' e)
     | Inr rows \<Rightarrow> Inr (map toDomainWord rows, int (length (matching_words E flt w))))"
  using assms
  by (simp add: Words_List_def attempt_def run_stmt_after ListWords_def CountWords_def query_def go_run
      rows_matching_def matching_words_def word_order_def [abs_def] word_matches_params
      split: sum.split)

definition page_items :: "(goerr + 'a list \<times> int) \<Rightarrow> 'a list" where
  "page_items r = (case r of Inl _ \<Rightarrow> [] | Inr (xs, n) \<Rightarrow> xs)"

text \<open>The collation of the database orders the texts, and so every column of the listing orders the words.\<close>

definition collation_law :: "ext \<Rightarrow> bool" where
  "collation_law E \<longleftrightarrow> total_order (x_pg_le E)"

lemma total_word_columns:
  assumes "collation_law E" and "(column, le) \<in> set (word_columns E)"
  shows "total_order le"
  using assms unfolding collation_law_def total_order_def word_columns_def citext_le_def
  by (auto; blast)

text \<open>Sorted by a column in the requested direction, with the identifier deciding between equals.\<close>

definition listed_in_order :: "PageParams \<Rightarrow> (dbWord \<Rightarrow> dbWord \<Rightarrow> bool) \<Rightarrow> dbWord list \<Rightarrow> bool" where
  "listed_in_order page le = sorted_wrt (\<lambda>a b.
     if ppOrder page = SortAsc then le a b \<and> (le b a \<longrightarrow> dwID a \<le> dwID b) else le b a \<and> (le a b \<longrightarrow> dwID a \<le> dwID b))"

lemma listed_word_order:
  assumes "collation_law E" and column: "(ppSort page, le) \<in> set (word_columns E)" and ok: "page_ok page"
  shows "listed_in_order page le (order_by (word_order E page) xs)"
proof -
  have "map_of (word_columns E) (ppSort page) = Some le"
    using column by (auto simp: word_columns_def)
  then have order: "word_order E page = (\<lambda>a b. if ppOrder page = SortAsc then le a b \<and> (le b a \<longrightarrow> dwID a \<le> dwID b)
      else le b a \<and> (le a b \<longrightarrow> dwID a \<le> dwID b))"
    using ok by (auto simp: word_order_def sort_le_def fun_eq_iff page_ok_def SortOrder_Valid_def SortAsc_def SortDesc_def)
  have "total_order le" using total_word_columns assms(1) column .
  then have "total_order (word_order E page)"
    unfolding order total_order_def by (smt (verit) order.trans linear)
  from sorted_order_by [OF this] show ?thesis by (simp add: listed_in_order_def order)
qed

text \<open>
  Claim C22. The pages of a listing that is sorted by one of the columns, which random is not, partition
  its result: when no outside call fails and fewer than \<open>2 ^ 31\<close> words match, the pages from the first to
  the last that the page information announces hold every matching word exactly once, each of them comes
  with the number of matches, and all together are sorted by the requested column in the requested
  direction, with the identifier deciding between equals.
\<close>

theorem word_pages_partition:
  assumes calm: "calm w" and ok: "page_ok page" and small: "int (length (matching_words E flt w)) < 2 ^ 31"
    and column: "(ppSort page, le) \<in> set (word_columns E)" and law: "collation_law E"
    and n: "n = nat (pmTotalPages (NewPageMeta page (int (length (matching_words E flt w)))))"
  shows "(\<forall>i<n. \<exists>ws. fst (Words_List E flt (page\<lparr>ppPage := int i + 1\<rparr>) w) =
        Inr (ws, int (length (matching_words E flt w)))) \<and>
     concat (map (\<lambda>i. page_items (fst (Words_List E flt (page\<lparr>ppPage := int i + 1\<rparr>) w))) [0..<n]) =
        map toDomainWord (order_by (word_order E page) (matching_words E flt w)) \<and>
     mset (order_by (word_order E page) (matching_words E flt w)) = mset (matching_words E flt w) \<and>
     listed_in_order page le (order_by (word_order E page) (matching_words E flt w))"
proof -
  let ?rows = "order_by (word_order E page) (matching_words E flt w)"
  let ?l = "nat (ppLimit page)"
  have n': "n = total_pages page ?rows" by (simp add: n total_pages_def)
  have slice: "fst (Words_List E flt (page\<lparr>ppPage := int i + 1\<rparr>) w) =
      Inr (map toDomainWord (take ?l (drop (i * ?l) ?rows)), int (length (matching_words E flt w)))" if "i < n" for i
    using page_slice [OF ok, of ?rows i] small that
    by (simp add: Words_List_run calm n' word_order_def)
  have "concat (map (\<lambda>i. page_items (fst (Words_List E flt (page\<lparr>ppPage := int i + 1\<rparr>) w))) [0..<n]) =
      concat (map (\<lambda>i. map toDomainWord (take ?l (drop (i * ?l) ?rows))) [0..<n])"
    by (rule arg_cong [where f = concat]) (simp add: slice page_items_def)
  also have "\<dots> = map toDomainWord (concat (map (\<lambda>i. take ?l (drop (i * ?l) ?rows)) [0..<n]))"
    by (simp add: map_concat comp_def)
  also have "\<dots> = map toDomainWord ?rows"
    using pages_cover [OF ok, of ?rows] small by (simp add: n')
  finally show ?thesis using slice listed_word_order [OF law column ok] by simp
qed

definition demo_catalogue :: world where
  "demo_catalogue = demo_world\<lparr>w_db := (w_db demo_world)\<lparr>tWords :=
     [\<lparr>dwID = 5, dwTerm = ''dot'', dwLanguage = ''en'', dwPronunciation = None, dwTags = None, dwCreatedBy = Some 7,
       dwCreatedAt = 0, dwUpdatedAt = 0\<rparr>]\<rparr>\<rparr>"

definition demo_page :: PageParams where
  "demo_page = \<lparr>ppPage = 1, ppLimit = 20, ppSort = ''term'', ppOrder = ''asc'', ppSearch = []\<rparr>"

definition any_word :: ListWordsFilter where
  "any_word = \<lparr>lwfSearch = None, lwfLanguage = None, lwfTags = None, lwfCreatedBy = None\<rparr>"

lemma demo_page_ok: "page_ok demo_page"
  by (simp add: page_ok_def demo_page_def MaxLimit_def SortOrder_Valid_def SortAsc_def)

lemma demo_catalogue_calm: "calm demo_catalogue"
  by (simp add: demo_catalogue_def demo_world_def calm_def)

lemma word_pages_partition_witness:
  "\<exists>ws. fst (Words_List demo_ext any_word (demo_page\<lparr>ppPage := 1\<rparr>) demo_catalogue) = Inr (ws, 1)"
proof -
  have one: "length (matching_words demo_ext any_word demo_catalogue) = 1"
    by (simp add: matching_words_def any_word_def demo_catalogue_def word_matches_def null_or_def)
  moreover have "0 < nat (pmTotalPages (NewPageMeta demo_page 1))"
    by (simp add: NewPageMeta_def Let_def)
  moreover have "(ppSort demo_page, \<lambda>a b. citext_le demo_ext (dwTerm a) (dwTerm b)) \<in> set (word_columns demo_ext)"
    by (simp add: word_columns_def demo_page_def)
  moreover have "collation_law demo_ext" by (auto simp: collation_law_def total_order_def demo_ext_def)
  ultimately show ?thesis
    using word_pages_partition [OF demo_catalogue_calm demo_page_ok _ _ _ refl, of demo_ext any_word] by force
qed

section \<open>Large page numbers\<close>

lemma int32_wrap: "int32 (x + 2 ^ 32 * y) = int32 x"
proof -
  have "take_bit 32 (x + 2 ^ 32 * y) = take_bit 32 x" by (simp add: take_bit_eq_mod)
  then show ?thesis
    unfolding int32_def by (simp add: signed_take_bit_eq_iff_take_bit_eq)
qed

lemma int32_high: "2 ^ 31 \<le> x \<Longrightarrow> x < 2 ^ 32 \<Longrightarrow> int32 x < 0"
proof -
  assume x: "2 ^ 31 \<le> x" "x < 2 ^ 32"
  have "int32 x = int32 (x - 2 ^ 32)" using int32_wrap [of "x - 2 ^ 32" 1] by simp
  also have "\<dots> = x - 2 ^ 32" by (rule int32_id) (use x in simp_all)
  finally show ?thesis using x by simp
qed

lemma Offset_alias:
  assumes "1 \<le> ppPage page"
  shows "int32 (Offset (page\<lparr>ppPage := ppPage page + 2 ^ 32\<rparr>)) = int32 (Offset page)"
proof -
  have "(ppPage page + 2 ^ 32 - 1) * ppLimit page = (ppPage page - 1) * ppLimit page + 2 ^ 32 * ppLimit page"
    by (simp add: algebra_simps)
  then show ?thesis
    using assms int32_wrap [of "(ppPage page - 1) * ppLimit page" "ppLimit page"] by (simp add: Offset_def int32_int64)
qed

text \<open>
  Claim C26. Page numbers wrap: the offset is cut to 32 bits, so a page whose first row would lie
  between \<open>2 ^ 31\<close> and \<open>2 ^ 32\<close> is answered with an internal error, since the offset is negative, and
  page \<open>p + 2 ^ 32\<close> is answered with the words of page \<open>p\<close>; the parser of the query string accepts
  such pages.
\<close>

theorem word_pages_wrap:
  assumes ok: "page_ok page" and calm: "calm w"
  shows "Words_List E flt (page\<lparr>ppPage := ppPage page + 2 ^ 32\<rparr>) w = Words_List E flt page w \<and>
     (2 ^ 31 \<le> (ppPage page - 1) * ppLimit page \<and> (ppPage page - 1) * ppLimit page < 2 ^ 32 \<longrightarrow>
        fst (Words_List E flt page w) = Inl (internal_error ''list words'' (PgError ''2201X''))) \<and>
     page_ok (page\<lparr>ppPage := ppPage page + 2 ^ 32\<rparr>)"
proof (intro conjI impI)
  show "Words_List E flt (page\<lparr>ppPage := ppPage page + 2 ^ 32\<rparr>) w = Words_List E flt page w"
    using ok Offset_alias [of page] by (simp add: Words_List_def page_ok_def)
  show "page_ok (page\<lparr>ppPage := ppPage page + 2 ^ 32\<rparr>)" using ok by (simp add: page_ok_def)
next
  assume "2 ^ 31 \<le> (ppPage page - 1) * ppLimit page \<and> (ppPage page - 1) * ppLimit page < 2 ^ 32"
  then have "int32 (Offset page) < 0" using ok int32_high by (simp add: Offset_def page_ok_def int32_int64)
  then show "fst (Words_List E flt page w) = Inl (internal_error ''list words'' (PgError ''2201X''))"
    using ok by (simp add: Words_List_run calm limit_offset_def int32_limit page_ok_def)
qed

lemma word_pages_wrap_witness:
  "fst (Words_List demo_ext any_word (demo_page\<lparr>ppPage := 2 ^ 30\<rparr>) demo_catalogue) =
     fst (Words_List demo_ext any_word (demo_page\<lparr>ppPage := 2 ^ 30 + 2 ^ 32\<rparr>) demo_catalogue)"
  using word_pages_wrap [OF _ demo_catalogue_calm, of "demo_page\<lparr>ppPage := 2 ^ 30\<rparr>" demo_ext any_word] demo_page_ok
  by (simp add: page_ok_def)

section \<open>Who sees a word\<close>

lemma Words_GetByID_owner: "Words_GetByID E k w = (Inr word, w') \<Longrightarrow> wID word = k"
  by (auto simp: Words_GetByID_def attempt_def run_stmt_def external_def GetWord_def query_def one_row_def go_run
      toDomainWord_def dest!: find_SomeD split: option.splits prod.splits sum.splits if_splits)

lemma WordService_Get_owner:
  assumes "WordService_Get E k u w = (Inr word, w')"
  shows "wID word = k \<and> wCreatedBy word = Some u"
proof -
  obtain v w1 ss where "Words_GetByID E k w = (Inr v, w1)" "wCreatedBy v = Some u" "word = v\<lparr>wSenses := ss\<rparr>"
    using assms
    by (auto simp: WordService_Get_def fail_def ret_def elim!: attempt_fail_InrE [where f = "\<lambda>e. e"] split: if_splits)
  then show ?thesis using Words_GetByID_owner by auto
qed

lemma limit_offset_subset: "limit_offset l off xs = Inr ys \<Longrightarrow> set ys \<subseteq> set xs"
  by (auto simp: limit_offset_def split: if_splits dest!: in_set_takeD in_set_dropD)

lemma Words_List_created:
  assumes "Words_List E flt page w = (Inr (ws, n), w')" and "lwfCreatedBy flt = Some u" and "word \<in> set ws"
  shows "wCreatedBy word = Some u"
  using assms
  by (fastforce simp: Words_List_def attempt_def run_stmt_def external_def ListWords_def CountWords_def query_def go_run
      word_matches_def null_or_def toDomainWord_def dest!: limit_offset_subset
      split: option.splits prod.splits sum.splits if_splits)

lemma WordService_List_items:
  assumes "WordService_List E flt page w = (Inr result, w')"
  shows "\<exists>ws n w1. Words_List E flt page w = (Inr (ws, n), w1) \<and> map wCreatedBy (pgItems result) = map wCreatedBy ws"
  using assms
  by (fastforce simp: WordService_List_def ret_def elim!: attempt_fail_InrE [where f = "\<lambda>e. e"])

text \<open>
  Claim C21. Words are private: the service gives a single word only to its creator, and the listing
  of a caller, whose filter the handler builds from the verified claims, holds only words that the
  caller has created, whatever the query string asks for.
\<close>

theorem words_private:
  assumes "fst (WordService_Get E k u w) = Inr word"
    and "fst (WordService_List E (word_filter r u) page w) = Inr result" and "v \<in> set (pgItems result)"
  shows "wID word = k \<and> wCreatedBy word = Some u \<and> wCreatedBy v = Some u"
proof -
  have "wID word = k \<and> wCreatedBy word = Some u"
    using assms(1) WordService_Get_owner by (metis prod.collapse)
  moreover have "wCreatedBy v = Some u"
  proof -
    obtain w' where "WordService_List E (word_filter r u) page w = (Inr result, w')"
      using assms(2) by (metis prod.collapse)
    then obtain ws n w1 where l: "Words_List E (word_filter r u) page w = (Inr (ws, n), w1)"
      and "map wCreatedBy (pgItems result) = map wCreatedBy ws" using WordService_List_items by blast
    then have "wCreatedBy v \<in> wCreatedBy ` set ws" using assms(3) by (metis image_eqI image_set)
    moreover have "lwfCreatedBy (word_filter r u) = Some u" by (simp add: word_filter_def)
    ultimately show ?thesis using Words_List_created [OF l] by auto
  qed
  ultimately show ?thesis by blast
qed

lemma demo_catalogue_visible:
  "(case fst (WordService_Get demo_ext 5 7 demo_catalogue) of Inl _ \<Rightarrow> False | Inr word \<Rightarrow> wTerm word = ''dot'')"
  by code_simp

lemma WordService_List_senseless:
  assumes "calm w" and "tSenses (w_db w) = []"
    and "limit_offset (int32 (ppLimit page)) (int32 (Offset page)) (order_by (word_order E page) (matching_words E flt w)) = Inr rows"
  shows "\<exists>result. fst (WordService_List E flt page w) = Inr result \<and> map wTerm (pgItems result) = map dwTerm rows"
  using assms
  by (simp add: WordService_List_def Words_List_def attempt_def run_stmt_after ListWords_def CountWords_def query_def go_run
      word_order_def matching_words_def word_matches_params WordSenses_ListByWords_def ListWordSensesByWordIDs_def
      of_result_def toDomainWord_def comp_def)

lemma demo_catalogue_listed:
  "\<exists>result. fst (WordService_List demo_ext (word_filter demo_request 7) demo_page demo_catalogue) = Inr result \<and>
     map wTerm (pgItems result) = [''dot'']"
proof -
  have "limit_offset (int32 (ppLimit demo_page)) (int32 (Offset demo_page)) (order_by (word_order demo_ext demo_page)
      (matching_words demo_ext (word_filter demo_request 7) demo_catalogue)) = Inr (tWords (w_db demo_catalogue))"
    by code_simp
  then show ?thesis
    using WordService_List_senseless [OF demo_catalogue_calm, of demo_page demo_ext "word_filter demo_request 7"]
    by (simp add: demo_catalogue_def empty_database_def demo_world_def)
qed

lemma words_private_witness:
  "\<exists>word result. fst (WordService_Get demo_ext 5 7 demo_catalogue) = Inr word \<and>
     fst (WordService_List demo_ext (word_filter demo_request 7) demo_page demo_catalogue) = Inr result \<and>
     pgItems result \<noteq> [] \<and> wCreatedBy word = Some 7 \<and> wCreatedBy (hd (pgItems result)) = Some 7"
proof -
  obtain word where a: "fst (WordService_Get demo_ext 5 7 demo_catalogue) = Inr word"
    using demo_catalogue_visible by (auto split: sum.splits)
  obtain result where b: "fst (WordService_List demo_ext (word_filter demo_request 7) demo_page demo_catalogue) = Inr result"
    and c: "pgItems result \<noteq> []"
    using demo_catalogue_listed by auto
  show ?thesis using words_private [OF a b, of "hd (pgItems result)"] a b c by simp
qed

text \<open>
  Claim C27. A term belongs to the one who added it first: words are unique over all callers but shown
  to their creator alone, so a caller who adds a term that someone else has added is told that it
  exists, while the word and the listing stay out of reach.
\<close>

theorem taken_term_hidden:
  assumes calm: "calm w" and ok: "world_ok E w" and row: "row \<in> set (tWords (w_db w))" "dwCreatedBy row \<noteq> Some (acID a)"
    and same: "dwLanguage row = request_language E inp" "citext_eq E (dwTerm row) (TrimSpace (wiTerm inp))"
  shows "fst (CreateAndEnrich E s a inp w) = Inl (Conflict ''This word already exists'') \<and>
     fst (WordService_Get E (dwID row) (acID a) w) = Inl (NotFound ''Word'') \<and>
     row \<notin> set (matching_words E (word_filter r (acID a)) w)"
proof (intro conjI)
  obtain v where "find (\<lambda>w. dwLanguage w = request_language E inp \<and> citext_eq E (dwTerm w) (TrimSpace (wiTerm inp)))
      (tWords (w_db w)) = Some v" using row(1) same by (metis (mono_tags, lifting) find_None_iff not_None_eq)
  then show "fst (CreateAndEnrich E s a inp w) = Inl (Conflict ''This word already exists'')"
    using calm
    by (simp add: CreateAndEnrich_def request_language_def Let_def attempt_def outcome_def Words_GetByTerm_def
        run_stmt_after GetWordByTerm_def query_def one_row_def go_run)
  have "distinct (map dwID (tWords (w_db w)))" using ok by (simp add: world_ok_def db_ok_def table_defs)
  then have "find (\<lambda>w. dwID w = dwID row) (tWords (w_db w)) = Some row"
    using find_distinct_key row(1) by metis
  then show "fst (WordService_Get E (dwID row) (acID a) w) = Inl (NotFound ''Word'')"
    using calm row(2)
    by (simp add: WordService_Get_def attempt_def Words_GetByID_def run_stmt_after GetWord_def query_def one_row_def
        go_run toDomainWord_def)
  show "row \<notin> set (matching_words E (word_filter r (acID a)) w)"
    using row(2) by (simp add: matching_words_def word_matches_def word_filter_def null_or_def Let_def)
qed

definition demo_stranger :: Actor where
  "demo_stranger = \<lparr>acID = 8, acRole = ''user''\<rparr>"

lemma taken_term_hidden_witness:
  "fst (CreateAndEnrich demo_ext demo_words demo_stranger demo_term demo_catalogue) =
     Inl (Conflict ''This word already exists'')"
proof -
  have "world_ok demo_ext demo_catalogue"
    
    by (simp add: world_ok_def db_ok_def table_defs demo_catalogue_def demo_world_def empty_database_def demo_user_def
        user_check_def word_check_def user_ids_def word_ids_def language_ok_def lower_letter_def)
  moreover have "dwLanguage row = request_language demo_ext demo_term \<and>
      citext_eq demo_ext (dwTerm row) (TrimSpace (wiTerm demo_term))" if "row = hd (tWords (w_db demo_catalogue))" for row
    unfolding that by code_simp
  ultimately show ?thesis
    using taken_term_hidden [OF demo_catalogue_calm, of demo_ext "hd (tWords (w_db demo_catalogue))" demo_stranger demo_term]
    by (simp add: demo_catalogue_def demo_stranger_def)
qed

end
