(* ===== verification/StartProps.thy ===== *)
theory StartProps
  imports HttpProps
begin

text \<open>
  Start-up and heartbeat: what the services are when the program has started, and what the heartbeat
  requests.
\<close>

section \<open>A started program\<close>

lemma Load_ok: "Load lower quote de env = Inr cfg \<Longrightarrow> config_ok lower cfg"
  using Config_Validate_None [of lower quote cfg]
  by (auto simp: Load_def Let_def split: dotenv.splits option.splits)

lemma wire_parts:
  assumes "wire E J B v cfg w = (Inr D, w')"
  shows "dpConfig D = cfg \<and> asCfg (dpAuth D) = cfg \<and> asTokens (dpAuth D) = NewJWTManager (cfAuth cfg) \<and>
     dpTokens D = NewJWTManager (cfAuth cfg) \<and> asSessions (dpAuth D) = \<lparr>ssRefreshTTL = auRefreshExpiry (cfAuth cfg)\<rparr> \<and>
     usSessions (dpUsers D) = asSessions (dpAuth D) \<and> bhCost (asHasher (dpAuth D)) = auBcryptCost (cfAuth cfg) \<and>
     usHasher (dpUsers D) = asHasher (dpAuth D) \<and> dpFiles D = Some (usFiles (dpUsers D)) \<and>
     wvEnricher (dpWords D) =
       (if OpenAI_Enabled (cfOpenAI cfg) then Some (NewOpenAIEnricher E J (cfOpenAI cfg)) else None)"
  using assms
  by (auto simp: wire_def assemble_def constructor_defs NewValidator_def NewBcryptHasher_def Let_def ret_def fail_def
      elim!: attempt_fail_InrE [where f = "\<lambda>e. e"] attempt_fail_InrE split: if_splits)

text \<open>
  Claim C25. A program that starts is well configured: whatever the environment holds, the services
  that \<open>start\<close> wires satisfy what the theorems about sign-in, sessions and integrity ask of them.
  The secrets differ and have 32 characters or more, the refresh tokens and the session keys live
  equally long and longer than access tokens, the bcrypt cost is in range, the middleware and the
  services share tokens and sessions, and the enricher is the OpenAI one or absent. The one condition
  that validation does not enforce is that access tokens live for a second.
\<close>

theorem start_well_configured:
  assumes laws: "uuid_law E" "jwt_law E" "sign_law E" "numeric_date_law E"
    and run: "start E J B version buildTime (Load lower quote de env) w = (Inr D, w')"
    and second: "Second \<le> auJWTExpiry (cfAuth (dpConfig D))"
  shows "service_ok E (dpAuth D) \<and> enricher_of E (dpWords D) \<and> config_ok lower (dpConfig D) \<and>
     dpTokens D = asTokens (dpAuth D) \<and> usSessions (dpUsers D) = asSessions (dpAuth D) \<and>
     usHasher (dpUsers D) = asHasher (dpAuth D) \<and>
     10 \<le> bhCost (asHasher (dpAuth D)) \<and> bhCost (asHasher (dpAuth D)) \<le> 31 \<and>
     32 \<le> length (jmAccessSecret (dpTokens D)) \<and> 32 \<le> length (jmRefreshSecret (dpTokens D))"
proof -
  obtain cfg w1 where load: "Load lower quote de env = Inr cfg" and wired: "wire E J B version cfg w1 = (Inr D, w')"
    using run
    by (cases "Load lower quote de env") (auto simp: start_def attempt_def of_result_def fail_def ignore_run)
  note parts = wire_parts [OF wired]
  have ok: "config_ok lower cfg" by (rule Load_ok [OF load])
  then have auth: "32 \<le> length (auJWTSecret (cfAuth cfg))" "32 \<le> length (auRefreshSecret (cfAuth cfg))"
    "auJWTSecret (cfAuth cfg) \<noteq> auRefreshSecret (cfAuth cfg)" "auJWTExpiry (cfAuth cfg) < auRefreshExpiry (cfAuth cfg)"
    "10 \<le> auBcryptCost (cfAuth cfg)" "auBcryptCost (cfAuth cfg) \<le> 31"
    by (simp_all add: config_ok_def Let_def)
  have "service_ok E (dpAuth D)"
    using laws second parts auth by (simp add: service_ok_def NewJWTManager_def)
  moreover have "enricher_of E (dpWords D)" using parts by (auto simp: enricher_of_def)
  ultimately show ?thesis using parts auth ok by (simp add: NewJWTManager_def)
qed

lemma getters_absent:
  assumes "env k = []"
  shows "getString env k s = s" "getInt env k n = n" "getBool env k b = b" "getDuration env k d = d"
    "getStringSlice env k xs = xs"
  using assms
  by (simp_all add: getString_def getInt_def getBool_def getDuration_def getStringSlice_def TrimSpace_def)

definition demo_env :: environ where
  "demo_env k =
     (if k = ''JWT_SECRET'' then replicate 32 (CHR ''a'') else if k = ''REFRESH_SECRET'' then replicate 32 (CHR ''b'')
      else if k = ''DATABASE_URL'' then ''postgres://db'' else if k = ''REDIS_URL'' then ''redis://cache'' else [])"

lemma demo_env_strings:
  "getString demo_env ''JWT_SECRET'' d = replicate 32 (CHR ''a'')"
  "getString demo_env ''REFRESH_SECRET'' d = replicate 32 (CHR ''b'')"
  "getString demo_env ''DATABASE_URL'' d = ''postgres://db''" "getString demo_env ''REDIS_URL'' d = ''redis://cache''"
  by code_simp+

lemma lower_local: "ToLower (\<lambda>s. s) ''local'' = ''local''"
  by code_simp

lemma demo_load: "Load (\<lambda>s. s) q DotenvOk demo_env = Inr (load_config (\<lambda>s. s) demo_env)"
proof -
  have "config_ok (\<lambda>s. s) (load_config (\<lambda>s. s) demo_env)"
    by (simp add: config_ok_def load_config_def Let_def demo_env_strings getters_absent demo_env_def
        EnvDevelopment_def EnvTesting_def EnvProduction_def IsProduction_def Hour_def Minute_def Second_def TrimRight_def
        lower_local)
  then have "Config_Validate (\<lambda>s. s) q (load_config (\<lambda>s. s) demo_env) = None"
    by (simp only: Config_Validate_None)
  then show ?thesis by (simp add: Load_def Let_def)
qed

text \<open>Programs that return a value when no outside call fails.\<close>

definition returns :: "'a act \<Rightarrow> bool" where
  "returns m \<longleftrightarrow> (\<forall>w. w_sched w = [] \<longrightarrow> (\<exists>a. fst (m w) = Inr a) \<and> w_sched (snd (m w)) = [])"

lemma returns_attempt:
  assumes "returns m" and "\<And>a. returns (k a)"
  shows "returns (attempt m h k)"
  unfolding returns_def
proof (intro allI impI)
  fix w :: world
  assume "w_sched w = []"
  then obtain a v where "m w = (Inr a, v)" "w_sched v = []"
    using assms(1) unfolding returns_def by (metis prod.collapse)
  then show "(\<exists>b. fst (attempt m h k w) = Inr b) \<and> w_sched (snd (attempt m h k w)) = []"
    using assms(2) [of a] by (simp add: attempt_def returns_def)
qed

lemma returns_ignore: "returns m \<Longrightarrow> returns k \<Longrightarrow> returns (ignore m k)"
  by (simp add: ignore_def returns_attempt)

lemma returns_basic:
  "returns (ret a)" "returns (external (ret a))" "returns (log_at l m as)" "returns time_now" "returns (rand_Read E n)"
  "returns (bcrypt_GenerateFromPassword demo_ext c p)"
  by (simp_all add: returns_def external_def pending_fault_def tick_def go_run log_at_def time_now_run rand_Read_def
      bcrypt_GenerateFromPassword_def)

lemmas returns_intros = returns_attempt returns_ignore returns_basic

lemma attempt_known: "attempt (of_result (Inr a)) h k = k a"
  by (simp add: attempt_def of_result_def fun_eq_iff)

lemma demo_start:
  "\<exists>D w'. start demo_ext demo_codec demo_boot ''dev'' ''unknown'' (Load (\<lambda>s. s) q DotenvOk demo_env) demo_world = (Inr D, w')"
proof -
  let ?cfg = "load_config (\<lambda>s. s) demo_env"
  have fields: "sgProvider (cfStorage ?cfg) = ''local''" "auBcryptCost (cfAuth ?cfg) = 12"
    "x_unicode_lower demo_ext = (\<lambda>s. s)"
    by (simp_all add: load_config_def getters_absent demo_env_def lower_local demo_ext_def)
  have known: "attempt (of_result (Inr c)) fail k = k c" for c :: Config and k :: "Config \<Rightarrow> Dependencies act"
    by (simp add: attempt_def of_result_def fun_eq_iff)
  have "returns (NewPostgres demo_boot d)" "returns (NewRedis demo_boot u)" for d u
    by (simp_all add: connection_defs demo_boot_def attempt_known returns_intros)
  moreover have "returns (NewValidator demo_boot)" by (simp add: NewValidator_def demo_boot_def returns_basic)
  moreover have "returns (NewStorage demo_ext (cfStorage ?cfg))"
    by (simp add: NewStorage_def NewLocal_def os_MkdirAll_def fields lower_local Let_def returns_intros)
  moreover have "returns (NewBcryptHasher demo_ext (auBcryptCost (cfAuth ?cfg)))"
    unfolding fields NewBcryptHasher_def MinCost_def MaxCost_def by (simp add: returns_intros)
  ultimately have "returns (wire demo_ext demo_codec demo_boot ''dev'' ?cfg)"
    unfolding wire_def assemble_def constructor_defs Let_def by (intro returns_intros)
  then have "returns (start demo_ext demo_codec demo_boot ''dev'' ''unknown'' (Inr ?cfg))"
    unfolding start_def announce_def known by (intro returns_intros)
  then have "\<exists>D. fst (start demo_ext demo_codec demo_boot ''dev'' ''unknown'' (Inr ?cfg) demo_world) = Inr D"
    by (simp add: returns_def)
  then show ?thesis unfolding demo_load by (metis prod.collapse)
qed

lemma start_well_configured_witness:
  "\<exists>D w'. start demo_ext demo_codec demo_boot ''dev'' ''unknown'' (Load (\<lambda>s. s) (\<lambda>s. s) DotenvOk demo_env) demo_world = (Inr D, w') \<and>
     service_ok demo_ext (dpAuth D)"
proof -
  obtain D w' where run: "start demo_ext demo_codec demo_boot ''dev'' ''unknown'' (Load (\<lambda>s. s) (\<lambda>s. s) DotenvOk demo_env) demo_world = (Inr D, w')"
    using demo_start by blast
  have "dpConfig D = load_config (\<lambda>s. s) demo_env"
    using run wire_parts
    by (auto simp: demo_load start_def attempt_def of_result_def ignore_run)
  then have "Second \<le> auJWTExpiry (cfAuth (dpConfig D))"
    by (simp add: load_config_def getters_absent demo_env_def Minute_def Second_def)
  then show ?thesis
    using start_well_configured [OF demo_uuid_law demo_jwt_law demo_sign_law demo_numeric_date_law run] run by blast
qed

section \<open>The heartbeat\<close>

text \<open>
  The heartbeat never stops: a tick returns whatever the requests do and keeps database,
  sessions and files. And an empty backend address does not disable its half, since the path is
  appended before the test for emptiness: every tick requests \<open>/health/live\<close>, an address without a
  host, and logs the failure of the request as a warning.
\<close>

lemma heartbeat_empty_backend:
  assumes empty: "apBackendURL (cfApp cfg) = []" and parsed: "bxURL B ''/health/live'' = None"
    and no_host: "\<And>n. x_http E n \<lparr>hqMethod = ''GET'', hqURL = ''/health/live'', hqHeaders = [], hqBody = []\<rparr> = Inl e"
    and calm: "pending_fault w = None"
  shows "(\<exists>r. fst (heartbeat_tick E B cfg w) = Inr r) \<and>
     w_db (snd (heartbeat_tick E B cfg w)) = w_db w \<and> w_redis (snd (heartbeat_tick E B cfg w)) = w_redis w \<and>
     w_files (snd (heartbeat_tick E B cfg w)) = w_files w \<and>
     take 1 (drop (length (w_log w)) (w_log (snd (heartbeat_tick E B cfg w)))) =
       [\<lparr>leLevel = LevelWarn, leMessage = ''heartbeat ping failed'',
         leAttrs = [(''target'', ''backend''), (''error'', error_text e)]\<rparr>]"
  using assms
  by (auto simp: heartbeat_tick_def ignore_run pingHeartbeatTarget_def http_Do_def external_def log_at_def go_run attempt_def
      split: option.splits sum.splits prod.splits)

lemma heartbeat_empty_backend_witness:
  "take 1 (w_log (snd (heartbeat_tick demo_ext demo_boot (load_config (\<lambda>s. s) demo_env) demo_world))) =
     [\<lparr>leLevel = LevelWarn, leMessage = ''heartbeat ping failed'',
       leAttrs = [(''target'', ''backend''), (''error'', error_text (Opaque ''connection refused''))]\<rparr>]"
proof -
  have "apBackendURL (cfApp (load_config (\<lambda>s. s) demo_env)) = []"
    by (simp add: load_config_def getters_absent demo_env_def TrimRight_def)
  moreover have "x_http demo_ext n q = Inl (Opaque ''connection refused'')" for n q by (simp add: demo_ext_def)
  ultimately show ?thesis
    using heartbeat_empty_backend [of "load_config (\<lambda>s. s) demo_env" demo_boot demo_ext "Opaque ''connection refused''" demo_world]
    by (simp add: demo_boot_def pending_fault_def)
qed

end
