(* ===== verification/SessionRefine.thy ===== *)
theory SessionRefine
  imports SessionSpec Demo
begin

text \<open>
  The session store as a refinement: any sequence of its operations answers like a plain map from
  tokens to expiry times.
\<close>

section \<open>The abstract store\<close>

datatype session_op = Issue uuid string duration | Revoke uuid string | RevokeAll uuid | Ask uuid string

type_synonym token_map = "uuid \<Rightarrow> string \<Rightarrow> gotime option"

definition alive :: "token_map \<Rightarrow> gotime \<Rightarrow> uuid \<Rightarrow> string \<Rightarrow> bool" where
  "alive A t u j = (case A u j of None \<Rightarrow> False | Some x \<Rightarrow> Unix t < Unix x)"

fun abstract_step :: "token_map \<Rightarrow> session_op \<Rightarrow> gotime \<Rightarrow> token_map" where
  "abstract_step A (Issue u j d) t = (\<lambda>v k. if v = u \<and> k = j then Some (t + d) else A v k)"
| "abstract_step A (Revoke u j) t = (\<lambda>v k. if v = u \<and> k = j then None else A v k)"
| "abstract_step A (RevokeAll u) t = (\<lambda>v k. if v = u then None else A v k)"
| "abstract_step A (Ask u j) t = A"

fun abstract_answer :: "token_map \<Rightarrow> session_op \<Rightarrow> gotime \<Rightarrow> bool option" where
  "abstract_answer A (Ask u j) t = Some (alive A t u j)"
| "abstract_answer A _ t = None"

fun abstract_run :: "token_map \<Rightarrow> (session_op \<times> gotime) list \<Rightarrow> bool option list" where
  "abstract_run A [] = []"
| "abstract_run A ((p, t) # ps) = abstract_answer A p t # abstract_run (abstract_step A p t) ps"

section \<open>The concrete store\<close>

text \<open>One operation and its answer; a token is issued for some time from now. An error stops the run.\<close>

definition concrete_step ::
    "(uuid \<Rightarrow> string \<Rightarrow> gotime \<Rightarrow> unit act) \<Rightarrow> (uuid \<Rightarrow> string \<Rightarrow> bool act) \<Rightarrow> (uuid \<Rightarrow> string \<Rightarrow> unit act) \<Rightarrow>
     (uuid \<Rightarrow> unit act) \<Rightarrow> session_op \<Rightarrow> bool option act" where
  "concrete_step store active revoke revoke_all p =
     (case p of
        Issue u j d \<Rightarrow> attempt time_now fail (\<lambda>t. attempt (store u j (t + d)) fail (\<lambda>_. ret None))
      | Revoke u j \<Rightarrow> attempt (revoke u j) fail (\<lambda>_. ret None)
      | RevokeAll u \<Rightarrow> attempt (revoke_all u) fail (\<lambda>_. ret None)
      | Ask u j \<Rightarrow> attempt (active u j) fail (\<lambda>b. ret (Some b)))"

fun run_steps :: "('p \<Rightarrow> 'a act) \<Rightarrow> 'p list \<Rightarrow> 'a list act" where
  "run_steps f [] = ret []"
| "run_steps f (p # ps) = attempt (f p) fail (\<lambda>a. attempt (run_steps f ps) fail (\<lambda>as. ret (a # as)))"

definition op_ok :: "duration \<Rightarrow> session_op \<Rightarrow> bool" where
  "op_ok lifetime p = (case p of Issue u j d \<Rightarrow> 0 \<le> d \<and> d \<le> lifetime | _ \<Rightarrow> True)"

context session_contract
begin

definition represents :: "world \<Rightarrow> token_map \<Rightarrow> bool" where
  "represents w A \<longleftrightarrow> (\<forall>t\<ge>w_clock w. \<forall>v k. live w t v k = alive A t v k)"

lemma step_refines:
  assumes w: "good w" "calm w" "0 \<le> w_clock w" and rep: "represents w A" and p: "op_ok lifetime p"
    and range: "Unix (w_clock w + lifetime) < 2 ^ 63"
  shows "\<exists>t w'. concrete_step store is_active revoke revoke_all p w = (Inr (abstract_answer A p t), w') \<and>
     good w' \<and> calm w' \<and> w_clock w \<le> t \<and> t \<le> w_clock w' \<and> represents w' (abstract_step A p t)"
proof (cases p)
  case (Issue u j d)
  have d: "0 \<le> w_clock w + d" "w_clock w + d \<le> w_clock w + lifetime" using w p Issue by (simp_all add: op_ok_def)
  then have "Unix (w_clock w + d) < 2 ^ 63" using range Unix_mono order_le_less_trans by blast
  then obtain w' where w': "store u j (w_clock w + d) w = (Inr (), w')" "good w'" "calm w'" "w_clock w \<le> w_clock w'"
    "\<forall>t\<ge>w_clock w'. \<forall>v k. live w' t v k = (if v = u \<and> k = j then Unix t < Unix (w_clock w + d) else live w t v k)"
    using store_spec [OF w(1,2) d(1) _ d(2), of u j] by blast
  have "represents w' (abstract_step A p (w_clock w))"
    using w'(4,5) rep by (auto simp: represents_def Issue alive_def)
  then show ?thesis
    using w' by (intro exI [of _ "w_clock w"] exI [of _ w'])
      (simp add: concrete_step_def Issue attempt_def time_now_run ret_def)
next
  case (Revoke u j)
  obtain w' where w': "revoke u j w = (Inr (), w')" "good w'" "calm w'" "w_clock w \<le> w_clock w'"
    "\<forall>t\<ge>w_clock w'. \<forall>v k. live w' t v k = (\<not> (v = u \<and> k = j) \<and> live w t v k)"
    using revoke_spec [OF w(1,2)] by blast
  have "represents w' (abstract_step A p (w_clock w))"
    using w'(4,5) rep by (auto simp: represents_def Revoke alive_def)
  then show ?thesis
    using w' by (intro exI [of _ "w_clock w"] exI [of _ w']) (simp add: concrete_step_def Revoke attempt_def ret_def)
next
  case (RevokeAll u)
  obtain w' where w': "revoke_all u w = (Inr (), w')" "good w'" "calm w'" "w_clock w \<le> w_clock w'"
    "\<forall>t\<ge>w_clock w'. \<forall>v k. live w' t v k = (v \<noteq> u \<and> live w t v k)"
    using revoke_all_spec [OF w(1,2)] by blast
  have "represents w' (abstract_step A p (w_clock w))"
    using w'(4,5) rep by (auto simp: represents_def RevokeAll alive_def)
  then show ?thesis
    using w' by (intro exI [of _ "w_clock w"] exI [of _ w']) (simp add: concrete_step_def RevokeAll attempt_def ret_def)
next
  case (Ask u j)
  obtain w' t where w': "is_active u j w = (Inr (live w t u j), w')" "good w'" "calm w'" "w_clock w \<le> t" "t \<le> w_clock w'"
    "\<forall>t\<ge>w_clock w'. \<forall>v k. live w' t v k = live w t v k"
    using is_active_spec [OF w(1,2)] by blast
  have "represents w' (abstract_step A p t)" "live w t u j = alive A t u j"
    using w'(4-6) rep by (auto simp: represents_def Ask)
  then show ?thesis
    using w' by (intro exI [of _ t] exI [of _ w']) (simp add: concrete_step_def Ask attempt_def ret_def)
qed

lemma step_clock:
  assumes "good w" and "calm w" and "0 \<le> w_clock w" and "represents w A" and "op_ok lifetime p"
    and "Unix (w_clock w + lifetime) < 2 ^ 63"
  shows "w_clock w \<le> w_clock (snd (concrete_step store is_active revoke revoke_all p w))"
  using step_refines [OF assms] by auto

text \<open>The clock at the end bounds the expiry times of the whole run.\<close>

lemma run_refines:
  assumes "good w" and "calm w" and "0 \<le> w_clock w" and "represents w A" and "\<forall>p\<in>set ps. op_ok lifetime p"
    and "\<And>v :: world. w_clock v \<le> latest \<Longrightarrow> Unix (w_clock v + lifetime) < 2 ^ 63"
    and "\<And>n. w_clock (snd (run_steps (concrete_step store is_active revoke revoke_all) (take n ps) w)) \<le> latest"
  shows "\<exists>ts w'. run_steps (concrete_step store is_active revoke revoke_all) ps w =
       (Inr (abstract_run A (zip ps ts)), w') \<and> length ts = length ps \<and> sorted ts \<and>
     (\<forall>t\<in>set ts. w_clock w \<le> t) \<and> good w'"
  using assms(1-5,7)
proof (induction ps arbitrary: w A)
  case Nil
  then show ?case by (simp add: ret_def)
next
  case (Cons p ps)
  let ?f = "concrete_step store is_active revoke revoke_all"
  have "w_clock w \<le> latest" using Cons.prems(6) [of 0] by (simp add: ret_def)
  then have "Unix (w_clock w + lifetime) < 2 ^ 63" by (rule assms(6))
  then obtain t w1 where one: "?f p w = (Inr (abstract_answer A p t), w1)" "good w1" "calm w1" "w_clock w \<le> t"
    "t \<le> w_clock w1" "represents w1 (abstract_step A p t)"
    using step_refines [OF Cons.prems(1-4), of p] Cons.prems(5) by auto
  have "w_clock (snd (run_steps ?f (take n ps) w1)) \<le> latest" for n
    using Cons.prems(6) [of "Suc n"] one(1)
    by (simp add: attempt_def ret_def fail_def split: prod.splits sum.splits)
  then obtain ts w' where rest: "run_steps ?f ps w1 = (Inr (abstract_run (abstract_step A p t) (zip ps ts)), w')"
    "length ts = length ps" "sorted ts" "\<forall>s\<in>set ts. w_clock w1 \<le> s" "good w'"
    using Cons.IH [OF one(2,3) _ one(6)] Cons.prems(3,5) one(4,5) by auto
  show ?case
    using one rest by (intro exI [of _ "t # ts"] exI [of _ w']) (auto simp: attempt_def ret_def)
qed

end

text \<open>The run stays within the horizon of its world.\<close>

lemma pres_run_steps: "(\<And>p. pres I (f p)) \<Longrightarrow> pres I (run_steps f ps)"
  by (induction ps) (simp_all add: pres_intros)

lemma redis_step_frame:
  "pres (redis_frame_of w)
     (concrete_step (StoreRefreshToken E s) (IsRefreshTokenActive E) (RevokeRefreshToken E) (RevokeAllSessions E s) p)"
  unfolding concrete_step_def by (cases p) (simp_all add: pres_intros session_frame)

lemma redis_run_clock:
  "w_clock (snd (run_steps (concrete_step (StoreRefreshToken E s) (IsRefreshTokenActive E) (RevokeRefreshToken E)
     (RevokeAllSessions E s)) ps w)) \<le> horizon w" (is "w_clock ?v \<le> _")
proof -
  have "redis_frame_of w ?v"
    by (rule presD [OF pres_run_steps redis_frame_refl]) (rule redis_step_frame)
  then show ?thesis using clock_le_horizon [of ?v] by (simp only: redis_frame_of_def)
qed

text \<open>
  Claim C19. The Redis session store refines a map from tokens to expiry times: in a world in which no
  outside call fails, any sequence of issuing, revoking, revoking all and asking runs through, and
  every question whether a token is active is answered as by the map at an instant during the call,
  the instants being in the order of the operations.
\<close>

theorem session_store_refines:
  assumes good: "good_sessions E s w" and calm: "calm w" "0 \<le> w_clock w"
    and rep: "\<forall>t\<ge>w_clock w. \<forall>v k. live_in E w t v k = alive A t v k"
    and ops: "\<forall>p\<in>set ps. op_ok (ssRefreshTTL s) p"
    and range: "Unix (horizon w + ssRefreshTTL s) < 2 ^ 63"
  shows "\<exists>ts w'. run_steps (concrete_step (StoreRefreshToken E s) (IsRefreshTokenActive E) (RevokeRefreshToken E)
       (RevokeAllSessions E s)) ps w = (Inr (abstract_run A (zip ps ts)), w') \<and>
     length ts = length ps \<and> sorted ts \<and> (\<forall>t\<in>set ts. w_clock w \<le> t) \<and> good_sessions E s w'"
proof (rule redis_sessions.run_refines [OF good calm _ ops _ redis_run_clock])
  show "redis_sessions.represents E w A" using rep by (simp add: redis_sessions.represents_def)
  show "Unix (w_clock v + ssRefreshTTL s) < 2 ^ 63" if "w_clock v \<le> horizon w" for v :: world
    using that range Unix_mono [of "w_clock v + ssRefreshTTL s" "horizon w + ssRefreshTTL s"] by simp
qed

definition demo_ops :: "session_op list" where
  "demo_ops = [Issue 7 ''j'' Hour, Ask 7 ''j'', Revoke 7 ''j'', Ask 7 ''j'']"

lemma session_store_refines_witness:
  "\<exists>a w'. run_steps (concrete_step (StoreRefreshToken demo_ext (asSessions demo_service)) (IsRefreshTokenActive demo_ext)
       (RevokeRefreshToken demo_ext) (RevokeAllSessions demo_ext (asSessions demo_service))) demo_ops demo_world =
     (Inr [None, Some a, None, Some False], w')"
proof -
  have rep: "\<forall>t\<ge>w_clock demo_world. \<forall>v k. live_in demo_ext demo_world t v k = alive (\<lambda>_ _. None) t v k"
    by (simp add: live_in_def live_session_def alive_def)
  have ops: "\<forall>p\<in>set demo_ops. op_ok (ssRefreshTTL (asSessions demo_service)) p"
    by (simp add: demo_ops_def op_ok_def demo_service_def Hour_def Minute_def Second_def)
  have range: "Unix (horizon demo_world + ssRefreshTTL (asSessions demo_service)) < 2 ^ 63"
    using demo_ready by (simp add: ready_def demo_service_def)
  have c: "0 \<le> w_clock demo_world" by (simp add: Second_def)
  obtain ts w' where run: "run_steps (concrete_step (StoreRefreshToken demo_ext (asSessions demo_service))
      (IsRefreshTokenActive demo_ext) (RevokeRefreshToken demo_ext) (RevokeAllSessions demo_ext (asSessions demo_service)))
      demo_ops demo_world = (Inr (abstract_run (\<lambda>_ _. None) (zip demo_ops ts)), w')" and len: "length ts = length demo_ops"
    using session_store_refines [OF demo_good_sessions demo_world_fields(8) c rep ops range] by blast
  have "\<exists>a. abstract_run (\<lambda>_ _. None) (zip demo_ops ts) = [None, Some a, None, Some False]"
    using len by (auto simp: demo_ops_def length_Suc_conv alive_def)
  then show ?thesis using run by auto
qed

end
