(* ===== verification/RequestProps.thy ===== *)
theory RequestProps
  imports HttpProps
begin

text \<open>
  What a request body satisfies once a handler has bound it, and where validation and hashing
  disagree.
\<close>

section \<open>Bound requests\<close>

lemma bind_valid:
  assumes "bind E X decode tags (c, w) = (Inr req, s)"
  shows "decode (cxRequest c) = (req, None) \<and> s = (c, w) \<and>
     (\<forall>f\<in>set (tags req). first_failure (hxRules X) (tfValue f) (tfRules f) = None)"
proof -
  have "decode (cxRequest c) = (req, None) \<and> s = (c, w) \<and> Validator_Struct (x_unicode_quote E) (hxRules X) (tags req) = None"
    using assms
    by (auto simp: bind_def attempt_def with_ctx_run go_run split: prod.splits option.splits)
  then show ?thesis by (simp add: Validator_Struct_None)
qed

definition password_ok :: "validator_ext \<Rightarrow> string \<Rightarrow> bool" where
  "password_ok V p \<longleftrightarrow> 12 \<le> length (runes p) \<and> length (runes p) \<le> 72 \<and>
     (\<exists>r\<in>set (runes p). IsUpper V r) \<and> (\<exists>r\<in>set (runes p). \<not> IsUpper V r \<and> IsLower V r) \<and>
     (\<exists>r\<in>set (runes p). \<not> IsUpper V r \<and> \<not> IsLower V r \<and> IsDigit V r)"

lemma password_okI:
  "strongPassword V p \<Longrightarrow> 12 \<le> length (runes p) \<Longrightarrow> length (runes p) \<le> 72 \<Longrightarrow> password_ok V p"
  by (simp add: password_ok_def strongPassword_iff)

text \<open>
  A bound request is well typed: the handlers for creating and changing accounts only see
  roles of the enumeration, names of at most 120 characters and new passwords of 12 to 72 characters
  with an uppercase letter, a lowercase letter and a digit. The limit counts characters and bcrypt's
  bytes, so an accepted password can still be refused by the hasher, which the handlers answer as an
  internal error.
\<close>

lemma bound_requests_typed:
  assumes create: "bind E X (hxCreateUser X) CreateUserRequest_fields (c, w) = (Inr cr, s1)"
    and update: "bind E X (hxUpdateUser X) UpdateUserRequest_fields (c', w') = (Inr up, s2)"
    and change: "bind E X (hxChangePassword X) ChangePasswordRequest_fields (c'', w'') = (Inr ch, s3)"
    and reset: "bind E X (hxResetPassword X) ResetPasswordRequest_fields (c''', w''') = (Inr rs, s4)"
  shows "(urRole cr = [] \<or> urRole cr = RoleUser \<or> urRole cr = RoleAdmin) \<and>
     (\<forall>r. ueRole up = Some r \<longrightarrow> r = RoleUser \<or> r = RoleAdmin) \<and>
     (\<forall>n. ueFullName up = Some n \<longrightarrow> 2 \<le> length (runes n) \<and> length (runes n) \<le> 120) \<and>
     (\<forall>p \<in> {urPassword cr, cqNewPassword ch, pqNewPassword rs}. password_ok (hxRules X) p \<and> 12 \<le> length p \<and>
        (72 < length p \<longrightarrow> Hash E h p v = (Inl (Opaque ''auth: password exceeds 72 bytes''), v)))"
proof -
  have cr: "password_ok (hxRules X) (urPassword cr)" "urRole cr = [] \<or> Role_Valid (urRole cr)"
    using bind_valid [OF create]
    by (auto simp: CreateUserRequest_fields_def tagged_def validRole_def intro!: password_okI split: if_splits)
  have up: "ueRole up = Some r \<Longrightarrow> Role_Valid r"
    "ueFullName up = Some n \<Longrightarrow> 2 \<le> length (runes n) \<and> length (runes n) \<le> 120" for r n
    using bind_valid [OF update]
    by (auto simp: UpdateUserRequest_fields_def optional_def validRole_def split: if_splits)
  have ch: "password_ok (hxRules X) (cqNewPassword ch)"
    using bind_valid [OF change] by (auto simp: ChangePasswordRequest_fields_def tagged_def intro!: password_okI split: if_splits)
  have rs: "password_ok (hxRules X) (pqNewPassword rs)"
    using bind_valid [OF reset] by (auto simp: ResetPasswordRequest_fields_def tagged_def intro!: password_okI split: if_splits)
  have "12 \<le> length p" if "password_ok V p" for V p
    using that length_runes [of p] by (simp add: password_ok_def)
  moreover have "72 < length p \<Longrightarrow> Hash E h p v = (Inl (Opaque ''auth: password exceeds 72 bytes''), v)" for p
    by (simp add: Hash_def fail_def)
  ultimately show ?thesis using cr up ch rs by (auto simp: Role_Valid_def)
qed

text \<open>A password of 43 characters and 83 bytes.\<close>

definition demo_long :: string where
  "demo_long = ''Aa1'' @ concat (replicate 40 [CHR 0xC3, CHR 0xA9])"

definition demo_forms :: http_ext where
  "demo_forms = demo_http\<lparr>
     hxCreateUser := (\<lambda>r. (\<lparr>urEmail = ''eve@example.com'', urPassword = demo_long, urFullName = ''Eve'', urRole = ''admin''\<rparr>, None)),
     hxUpdateUser := (\<lambda>r. (\<lparr>ueFullName = Some ''Ada'', ueRole = None, ueIsActive = None\<rparr>, None)),
     hxChangePassword := (\<lambda>r. (\<lparr>cqCurrentPassword = ''correct horse'', cqNewPassword = demo_long\<rparr>, None)),
     hxResetPassword := (\<lambda>r. (\<lparr>pqToken = replicate 20 (CHR ''t''), pqNewPassword = demo_long\<rparr>, None))\<rparr>"

lemma runes_e_acute: "runes (CHR 0xC3 # CHR 0xA9 # s) = 233 # runes s"
  by (simp add: decode_rune_def cont_byte_def)

lemma runes_e_acutes: "runes (concat (replicate n [CHR 0xC3, CHR 0xA9])) = replicate n 233"
  by (induction n) (simp_all add: runes_e_acute del: runes.simps(2))

lemma runes_demo_long: "runes demo_long = 65 # 97 # 49 # replicate 40 233"
  unfolding demo_long_def
  by (simp add: decode_rune_def del: replicate.simps) (simp add: runes_e_acutes)

lemma bind_ok:
  assumes "decode (cxRequest c) = (req, None)"
    and "\<forall>f\<in>set (tags req). first_failure (hxRules X) (tfValue f) (tfRules f) = None"
  shows "bind E X decode tags (c, w) = (Inr req, (c, w))"
  using assms Validator_Struct_None [of "x_unicode_quote E" "hxRules X" "tags req"]
  by (simp add: bind_def attempt_def with_ctx_run go_run)

lemma demo_long_facts:
  "strongPassword (hxRules demo_forms) demo_long" "demo_long \<noteq> []" "length demo_long = 83"
  by (simp_all add: strongPassword_iff runes_demo_long IsUpper_def IsLower_def IsDigit_def demo_forms_def demo_http_def)
    (simp_all add: demo_long_def length_concat sum_list_replicate)

lemma demo_short_runes:
  "length (runes ''Eve'') = 3" "length (runes ''Ada'') = 3" "length (runes ''eve@example.com'') = 15"
  "length (runes ''correct horse'') = 13" "length (runes (replicate 20 (CHR ''t''))) = 20"
  by (simp_all add: runes_ascii is_ascii_def del: runes.simps(2))

lemma demo_forms_fields:
  "hxCreateUser demo_forms r = (\<lparr>urEmail = ''eve@example.com'', urPassword = demo_long, urFullName = ''Eve'', urRole = ''admin''\<rparr>, None)"
  "hxUpdateUser demo_forms r = (\<lparr>ueFullName = Some ''Ada'', ueRole = None, ueIsActive = None\<rparr>, None)"
  "hxChangePassword demo_forms r = (\<lparr>cqCurrentPassword = ''correct horse'', cqNewPassword = demo_long\<rparr>, None)"
  "hxResetPassword demo_forms r = (\<lparr>pqToken = replicate 20 (CHR ''t''), pqNewPassword = demo_long\<rparr>, None)"
  "vx_email (hxRules demo_forms) ''eve@example.com''"
  by (simp_all add: demo_forms_def demo_http_def)

lemmas demo_form_rules =
  tagged_def optional_def demo_long_facts runes_demo_long demo_short_runes validRole_def Role_Valid_def RoleAdmin_def
  demo_forms_fields(5)

lemma bound_requests_typed_witness:
  "password_ok (hxRules demo_forms) demo_long \<and>
     Hash demo_ext (asHasher demo_service) demo_long demo_world = (Inl (Opaque ''auth: password exceeds 72 bytes''), demo_world)"
proof -
  let ?c = "new_ctx demo_request"
  show ?thesis
    using bound_requests_typed
      [where E = demo_ext and X = demo_forms and h = "asHasher demo_service" and v = demo_world,
        OF bind_ok [OF demo_forms_fields(1), where c = ?c and w = demo_world]
          bind_ok [OF demo_forms_fields(2), where c = ?c and w = demo_world]
          bind_ok [OF demo_forms_fields(3), where c = ?c and w = demo_world]
          bind_ok [OF demo_forms_fields(4), where c = ?c and w = demo_world]]
    by (simp add: CreateUserRequest_fields_def UpdateUserRequest_fields_def ChangePasswordRequest_fields_def
        ResetPasswordRequest_fields_def demo_form_rules del: runes.simps(2))
qed

end
