(* ===== verification/OAuthProps.thy ===== *)
theory OAuthProps
  imports Demo Identity
begin

text \<open>
  The in-flight secrets of a sign-in with Google: what is saved is read back once, within its time,
  and never again.
\<close>

text \<open>
  On the store \<open>st\<close>, \<open>m\<close> gives \<open>a\<close> to whoever comes first before the instant \<open>t\<close>, and tells everyone
  after that, and everyone who is late, that there is nothing.
\<close>

definition consumed_once :: "'a \<Rightarrow> gotime \<Rightarrow> redis_store \<Rightarrow> 'a act \<Rightarrow> bool" where
  "consumed_once a t st m \<longleftrightarrow>
     (\<forall>v. calm v \<and> w_redis v = st \<longrightarrow>
        (\<exists>v'. m v = (if w_clock (tick v) < t then Inr a else Inl (Sentinel ErrStateNotFound), v') \<and>
           (\<forall>x. calm x \<and> w_redis x = w_redis v' \<and> w_clock v' \<le> w_clock x \<longrightarrow>
              fst (m x) = Inl (Sentinel ErrStateNotFound))))"

text \<open>Reading and deleting a key in one command; the value is decoded by \<open>dec\<close>.\<close>

definition consume_key :: "string \<Rightarrow> (string \<Rightarrow> 'a act) \<Rightarrow> string \<Rightarrow> 'a act" where
  "consume_key k dec what =
     attempt (redis (GETDEL k))
       (\<lambda>e. if Is e RedisNil then fail (Sentinel ErrStateNotFound) else fail (Wrapf what e '''')) dec"

lemma Is_RedisNil [simp]: "Is (Sentinel RedisNil) RedisNil"
  by simp

lemma consume_key_once:
  assumes entry: "st k = Some \<lparr>reValue = RString raw, reExpires = Some t\<rparr>" and dec: "\<And>v. dec raw v = (Inr a, v)"
  shows "consumed_once a t st (consume_key k dec what)"
  unfolding consumed_once_def
proof (intro allI impI)
  fix v :: world
  assume v: "calm v \<and> w_redis v = st"
  show "\<exists>v'. consume_key k dec what v = (if w_clock (tick v) < t then Inr a else Inl (Sentinel ErrStateNotFound), v') \<and>
      (\<forall>x. calm x \<and> w_redis x = w_redis v' \<and> w_clock v' \<le> w_clock x \<longrightarrow>
         fst (consume_key k dec what x) = Inl (Sentinel ErrStateNotFound))"
  proof (cases "w_clock (tick v) < t")
    case True
    then have "consume_key k dec what v = (Inr a, after_redis v (st(k := None)))"
      using v entry
      by (simp add: consume_key_def attempt_def redis_calm GETDEL_def live_entry_def expired_def dec)
    then show ?thesis
      using True by (simp add: consume_key_def attempt_def redis_calm GETDEL_def live_entry_def fail_def)
  next
    case False
    then have "consume_key k dec what v = (Inl (Sentinel ErrStateNotFound), after_redis v st)"
      using v entry
      by (simp add: consume_key_def attempt_def redis_calm GETDEL_def live_entry_def expired_def fail_def)
    moreover have "fst (consume_key k dec what x) = Inl (Sentinel ErrStateNotFound)"
      if "calm x" "w_redis x = st" "w_clock (tick v) \<le> w_clock x" for x
      using that False entry tick_clock [of x]
      by (simp add: consume_key_def attempt_def redis_calm GETDEL_def live_entry_def expired_def fail_def)
    ultimately show ?thesis using False by simp
  qed
qed

lemma ConsumeState_key:
  "ConsumeState E state = consume_key (oauthStatePrefix @ state)
     (\<lambda>raw. attempt (of_result (x_state_unmarshal E raw)) (\<lambda>e. fail (Wrapf ''decode oauth state: '' e '''')) ret)
     ''load oauth state: ''"
  by (simp add: ConsumeState_def consume_key_def)

lemma ConsumeHandoff_key:
  "ConsumeHandoff E code = consume_key (oauthHandoffPrefix @ code)
     (\<lambda>raw. case x_uuid_parse E raw of
        None \<Rightarrow> fail (Wrapf ''decode oauth handoff: '' (Opaque ''invalid UUID'') '''') | Some u \<Rightarrow> ret u)
     ''load oauth handoff: ''"
  by (simp add: ConsumeHandoff_def consume_key_def)

text \<open>JSON decoding inverts encoding.\<close>

definition state_law :: "ext \<Rightarrow> bool" where
  "state_law E \<longleftrightarrow> (\<forall>d. \<exists>t. x_state_marshal E d = Inr t \<and> x_state_unmarshal E t = Inr d)"

definition stored_state :: "gotime \<Rightarrow> OAuthState \<Rightarrow> OAuthState" where
  "stored_state t d =
     \<lparr>osCodeVerifier = osCodeVerifier d, osReturnTo = (if 512 < length (osReturnTo d) then [] else osReturnTo d),
      osCreatedAt = t\<rparr>"

text \<open>
  Claim C24. The secrets of an in-flight sign-in round-trip once: when no outside call fails, the state
  that \<open>SaveState\<close> keeps is given back by the first \<open>ConsumeState\<close> within ten minutes, with the time of
  saving and without a return path that is too long, and the hand-off code gives its user to the
  first caller within sixty seconds; every later or second caller is told that there is nothing.
\<close>

theorem oauth_secrets_single_use:
  assumes "uuid_law E" and "state_law E" and "calm w"
  shows "(\<exists>w1. SaveState E state d w = (Inr (), w1) \<and>
       consumed_once (stored_state (w_clock w) d) (w_clock (tick w) + 10 * Minute) (w_redis w1) (ConsumeState E state)) \<and>
     (\<exists>w2. SaveHandoff E code u w = (Inr (), w2) \<and>
       consumed_once u (w_clock (tick w) + Minute) (w_redis w2) (ConsumeHandoff E code))"
proof (intro conjI)
  let ?d = "stored_state (w_clock w) d" and ?t = "w_clock (tick w)"
  obtain raw where raw: "x_state_marshal E ?d = Inr raw" "x_state_unmarshal E raw = Inr ?d"
    using assms(2) unfolding state_law_def by blast
  have ttl: "set_ttl oauthStateTTL = Some (10 * Minute)" "set_ttl oauthHandoffTTL = Some Minute"
    by (simp_all add: set_ttl_def oauthStateTTL_def oauthHandoffTTL_def Minute_def Second_def Millisecond_def)
  have "(let data = (if length (osReturnTo d) > maxReturnPathLength then d\<lparr>osReturnTo := []\<rparr> else d)
      in data\<lparr>osCreatedAt := w_clock w\<rparr>) = ?d"
    by (cases d) (simp add: stored_state_def maxReturnPathLength_def)
  then have "SaveState E state d w = (Inr (), after_redis w ((w_redis w)(oauthStatePrefix @ state \<mapsto>
      \<lparr>reValue = RString raw, reExpires = Some (?t + 10 * Minute)\<rparr>)))"
    using raw assms(3)
    by (simp add: SaveState_def attempt_def time_now_run of_result_def redis_calm SET_def ttl ret_def Let_def)
  moreover have "consumed_once ?d (?t + 10 * Minute) ((w_redis w)(oauthStatePrefix @ state \<mapsto>
      \<lparr>reValue = RString raw, reExpires = Some (?t + 10 * Minute)\<rparr>)) (ConsumeState E state)"
    unfolding ConsumeState_key
    by (rule consume_key_once [where raw = raw]) (simp_all add: attempt_def of_result_def raw(2) ret_def)
  ultimately show "\<exists>w1. SaveState E state d w = (Inr (), w1) \<and>
      consumed_once ?d (?t + 10 * Minute) (w_redis w1) (ConsumeState E state)" by simp
  have "SaveHandoff E code u w = (Inr (), after_redis w ((w_redis w)(oauthHandoffPrefix @ code \<mapsto>
      \<lparr>reValue = RString (x_uuid_string E u), reExpires = Some (?t + Minute)\<rparr>)))"
    using assms(3) by (simp add: SaveHandoff_def attempt_def redis_calm SET_def ttl ret_def)
  moreover have "consumed_once u (?t + Minute) ((w_redis w)(oauthHandoffPrefix @ code \<mapsto>
      \<lparr>reValue = RString (x_uuid_string E u), reExpires = Some (?t + Minute)\<rparr>)) (ConsumeHandoff E code)"
    unfolding ConsumeHandoff_key
    by (rule consume_key_once [where raw = "x_uuid_string E u"]) (use assms(1) in \<open>simp_all add: uuid_law_def ret_def\<close>)
  ultimately show "\<exists>w2. SaveHandoff E code u w = (Inr (), w2) \<and>
      consumed_once u (?t + Minute) (w_redis w2) (ConsumeHandoff E code)" by simp
qed

lemma demo_state_law: "state_law demo_ext"
  by (simp add: state_law_def demo_ext_def)

lemma oauth_secrets_single_use_witness:
  "\<exists>w1 w2. SaveHandoff demo_ext ''code'' 7 demo_world = (Inr (), w1) \<and> ConsumeHandoff demo_ext ''code'' w1 = (Inr 7, w2) \<and>
     fst (ConsumeHandoff demo_ext ''code'' w2) = Inl (Sentinel ErrStateNotFound)"
proof -
  obtain w1 where save: "SaveHandoff demo_ext ''code'' 7 demo_world = (Inr (), w1)"
    and once: "consumed_once 7 (w_clock (tick demo_world) + Minute) (w_redis w1) (ConsumeHandoff demo_ext ''code'')"
    using oauth_secrets_single_use [OF demo_uuid_law demo_state_law demo_world_fields(8)] by blast
  have w1: "w1 = after_redis demo_world (w_redis w1)" "w_sched w1 = []" "w_clock w1 = w_clock demo_world"
    using save by (auto simp: SaveHandoff_def attempt_def redis_calm SET_def ret_def tick_idle)
  then have c: "calm w1" "tick w1 = w1" by (simp_all add: calm_def tick_idle)
  then obtain w2 where w2: "ConsumeHandoff demo_ext ''code'' w1 = (Inr 7, w2)"
    and again: "\<And>x. calm x \<Longrightarrow> w_redis x = w_redis w2 \<Longrightarrow> w_clock w2 \<le> w_clock x \<Longrightarrow>
      fst (ConsumeHandoff demo_ext ''code'' x) = Inl (Sentinel ErrStateNotFound)"
    using once w1(3) unfolding consumed_once_def by (fastforce simp: tick_idle Minute_def Second_def)
  have "calm w2"
    using w2 c by (auto simp: ConsumeHandoff_def attempt_def redis_calm fail_def ret_def split: sum.splits option.splits prod.splits if_splits)
  then show ?thesis using save w2 again by blast
qed

section \<open>The identity that Google vouches for\<close>

text \<open>The one request of an exchange.\<close>

definition token_request :: "GoogleProvider \<Rightarrow> string \<Rightarrow> string \<Rightarrow> http_request" where
  "token_request g code verifier =
     \<lparr>hqMethod = ''POST'', hqURL = googleTokenURL,
      hqHeaders = [(''Content-Type'', ''application/x-www-form-urlencoded''), (''Accept'', ''application/json'')],
      hqBody = Values_Encode
        [(''client_id'', gpClientID g), (''client_secret'', gpClientSecret g), (''code'', code),
         (''code_verifier'', verifier), (''grant_type'', ''authorization_code''), (''redirect_uri'', gpRedirectURL g)]\<rparr>"

text \<open>What an identity read at \<open>t\<close> from the claims \<open>c\<close> rests on.\<close>

definition vouched :: "ext \<Rightarrow> GoogleProvider \<Rightarrow> gotime \<Rightarrow> googleClaims \<Rightarrow> ExternalIdentity \<Rightarrow> bool" where
  "vouched E g t c i \<longleftrightarrow>
     gcIssuer c \<in> set googleIssuers \<and> gpClientID g \<in> set (gcAudience c) \<and> (\<exists>x. gcExpiresAt c = Some x \<and> t \<le> x) \<and>
     gcEmailVerified c \<and> eiProvider i = ProviderGoogle \<and> eiSubject i = gcSubject c \<and> eiSubject i \<noteq> [] \<and>
     eiEmail i = ToLower (x_unicode_lower E) (TrimSpace (gcEmail c)) \<and> eiEmail i \<noteq> [] \<and> eiEmailVerified i"

lemma identity_of_claims_Inl:
  "identity_of_claims E g t c = Inl e \<Longrightarrow> Is e ErrExchangeFailed \<or> Is e ErrIdentityUnusable"
  by (auto simp: identity_of_claims_def exchange_failed_def identity_unusable_def Let_def split: if_splits option.splits)

lemma identity_of_claims_Inr: "identity_of_claims E g t c = Inr i \<Longrightarrow> vouched E g t c i"
  by (auto simp: identity_of_claims_def vouched_def VerifyAudience_def list_ex_iff Let_def split: if_splits option.splits)

lemma wp_http_Do:
  "wp (http_Do E q) Q R w =
     (case pending_fault w of
        Some x \<Rightarrow> R (fault_error x) (if took_effect x then (tick w)\<lparr>w_rng := Suc (w_rng w)\<rparr> else tick w)
      | None \<Rightarrow> (case x_http E (w_rng w) q of
          Inl e \<Rightarrow> R e ((tick w)\<lparr>w_rng := Suc (w_rng w)\<rparr>) | Inr a \<Rightarrow> Q a ((tick w)\<lparr>w_rng := Suc (w_rng w)\<rparr>)))"
  by (simp add: http_Do_def wp_external) (simp add: wp_def split: option.split sum.split)

lemma wp_identityFromIDToken:
  "wp (identityFromIDToken E g raw) Q R w =
     (case x_id_token E raw of
        None \<Rightarrow> R (exchange_failed '': unreadable id_token'') w
      | Some c \<Rightarrow> (case identity_of_claims E g (w_clock w) c of Inl e \<Rightarrow> R e w | Inr i \<Rightarrow> Q i w))"
  by (simp add: identityFromIDToken_def wp_rules split: option.split) (simp add: wp_def go_run of_result_def split: sum.split)

text \<open>
  Claim C29. An exchange with Google is sound: it gives an identity only if the answer to its one
  request, which proves knowledge of the client secret and of the code verifier, was a success with
  an ID token whose issuer is Google, whose audience is this client, which has not expired when the
  exchange returns, and which names a subject and a verified address; the identity has exactly this
  subject and address. Every other end is one of the two errors for it, and neither the database
  nor the sessions nor the files change.
\<close>

theorem Exchange_sound:
  "case Exchange E unmarshal g code verifier w of (r, w') \<Rightarrow>
     (case r of
        Inl e \<Rightarrow> Is e ErrExchangeFailed \<or> Is e ErrIdentityUnusable
      | Inr i \<Rightarrow> \<exists>resp payload c.
          x_http E (w_rng w) (token_request g code verifier) = Inr resp \<and> hrStatus resp = 200 \<and>
          unmarshal (take (2 ^ 20) (hrBody resp)) = Some payload \<and> gtError payload = [] \<and>
          x_id_token E (gtIDToken payload) = Some c \<and> vouched E g (w_clock w') c i) \<and>
     w_db w' = w_db w \<and> w_redis w' = w_redis w \<and> w_files w' = w_files w"
proof -
  have "wp (Exchange E unmarshal g code verifier)
     (\<lambda>i w'. (\<exists>resp payload c.
          x_http E (w_rng w) (token_request g code verifier) = Inr resp \<and> hrStatus resp = 200 \<and>
          unmarshal (take (2 ^ 20) (hrBody resp)) = Some payload \<and> gtError payload = [] \<and>
          x_id_token E (gtIDToken payload) = Some c \<and> vouched E g (w_clock w') c i) \<and>
        w_db w' = w_db w \<and> w_redis w' = w_redis w \<and> w_files w' = w_files w)
     (\<lambda>e w'. (Is e ErrExchangeFailed \<or> Is e ErrIdentityUnusable) \<and>
        w_db w' = w_db w \<and> w_redis w' = w_redis w \<and> w_files w' = w_files w) w"
    unfolding Exchange_def token_request_def [symmetric]
    by (auto dest: identity_of_claims_Inl identity_of_claims_Inr simp: exchange_failed_def wp_rules wp_http_Do wp_identityFromIDToken go_run split: option.splits sum.splits if_splits)
  then show ?thesis by (auto simp: wp_def split: prod.splits sum.splits)
qed

end
