(* ===== verification/ReviewProps.thy ===== *)
theory ReviewProps
  imports IntegrityWords Demo
begin

text \<open>
  The Leitner schedule of a person's words: what any sequence of reviews makes of a word.
\<close>

definition streak :: "bool list \<Rightarrow> int" where
  "streak bs = int (length (takeWhile (\<lambda>b. b) (rev bs)))"

text \<open>The box after some answers: they count from the start, or from the last wrong one.\<close>

definition box_after :: "int \<Rightarrow> bool list \<Rightarrow> int" where
  "box_after box bs = min 5 (if list_all (\<lambda>b. b) bs then box + int (length bs) else streak bs)"

definition days_of_box :: "int \<Rightarrow> int" where
  "days_of_box b = (if b = 1 then 1 else if b = 2 then 2 else if b = 3 then 4 else if b = 4 then 7 else 15)"

lemma streak_snoc: "streak (bs @ [b]) = (if b then streak bs + 1 else 0)"
  by (simp add: streak_def)

lemma streak_all: "list_all (\<lambda>b. b) bs \<Longrightarrow> streak bs = int (length bs)"
  by (simp add: streak_def list_all_iff takeWhile_eq_all_conv [THEN iffD2])

lemma box_after_snoc:
  assumes "0 \<le> box"
  shows "box_after box (bs @ [b]) = (if b then min 5 (box_after box bs + 1) else 0)"
  using assms by (auto simp: box_after_def streak_snoc)

lemma box_after_range: "0 \<le> box \<Longrightarrow> 0 \<le> box_after box bs" "box_after box bs \<le> 5"
  by (simp_all add: box_after_def streak_def)

text \<open>The reviews of one word, each with the time of its statement.\<close>

fun record_reviews :: "uuid \<Rightarrow> uuid \<Rightarrow> (bool \<times> gotime) list \<Rightarrow> database \<Rightarrow> database" where
  "record_reviews user word [] d = d"
| "record_reviews user word ((correct, now) # rs) d =
     record_reviews user word rs (snd (RecordReview correct user word now 0 d))"

lemma record_reviews_snoc:
  "record_reviews user word (rs @ [(b, t)]) d = snd (RecordReview b user word t 0 (record_reviews user word rs d))"
  by (induction rs arbitrary: d) auto

lemma find_update_rows:
  assumes "\<And>x. K (f x) = K x"
  shows "find K (update_rows K f xs) = map_option f (find K xs)"
  using assms by (induction xs) (auto simp: update_rows_def)

lemma review_key: "user_word_key user word (review b t u) = user_word_key user word u"
  by (simp add: user_word_key_def review_def)

text \<open>What the reviews so far have made of the row \<open>u\<close>.\<close>

definition reviewed :: "UserWord \<Rightarrow> (bool \<times> gotime) list \<Rightarrow> UserWord \<Rightarrow> bool" where
  "reviewed u rs v \<longleftrightarrow>
     uwReviewCount v = uwReviewCount u + int (length rs) \<and>
     uwCorrectCount v = uwCorrectCount u + int (length (filter fst rs)) \<and>
     uwBox v = box_after (uwBox u) (map fst rs) \<and>
     (rs \<noteq> [] \<longrightarrow>
        uwStatus v = (if uwStatus u = ''archived'' then ''archived'' else if uwBox v = 5 then ''known'' else ''learning'') \<and>
        uwLastReviewedAt v = Some (snd (last rs)) \<and>
        uwDueAt v = snd (last rs) + (if fst (last rs) then Days (days_of_box (uwBox v)) else 10 * Minute)) \<and>
     (rs = [] \<longrightarrow> uwStatus v = uwStatus u)"

lemma reviewed_step:
  assumes "reviewed u rs v" and "0 \<le> uwBox u"
  shows "reviewed u (rs @ [(b, t)]) (review b t v)"
proof -
  have box: "uwBox v = box_after (uwBox u) (map fst rs)" "0 \<le> uwBox v" "uwBox v \<le> 5"
    using assms box_after_range [of "uwBox u" "map fst rs"] by (simp_all add: reviewed_def)
  have "uwStatus u = ''archived'' \<longleftrightarrow> uwStatus v = ''archived''"
    using assms(1) by (cases "rs = []") (auto simp: reviewed_def)
  then show ?thesis
    using assms box
    by (auto simp: reviewed_def review_def box_after_snoc review_interval_def days_of_box_def)
qed

text \<open>
  Claim C20. Leitner scheduling: after any reviews the row counts them, its box is the number of right
  answers since the last wrong one (or since the start, on top of the box it had), at most five; a
  word that is not archived is known exactly in box five, so five right answers in a row make it known
  and one wrong answer unlearns it; and it is due after 1, 2, 4, 7 or 15 days by its box, or after ten
  minutes when the last answer was wrong.
\<close>

theorem reviews_follow_leitner:
  assumes row: "find (user_word_key user word) (tUserWords d) = Some u" and box: "0 \<le> uwBox u" "uwBox u \<le> 5"
    and count: "uwReviewCount u + int (length rs) < 2 ^ 31"
  shows "\<exists>v. find (user_word_key user word) (tUserWords (record_reviews user word rs d)) = Some v \<and> reviewed u rs v"
  using count
proof (induction rs rule: rev_induct)
  case Nil
  then show ?case using row box by (simp add: reviewed_def box_after_def)
next
  case (snoc r rs)
  obtain b t where r: "r = (b, t)" by (cases r)
  obtain v where v: "find (user_word_key user word) (tUserWords (record_reviews user word rs d)) = Some v" "reviewed u rs v"
    using snoc by auto
  then have "uwReviewCount v + 1 < 2 ^ 31" using snoc.prems by (simp add: reviewed_def)
  then have "find (user_word_key user word) (tUserWords (record_reviews user word (rs @ [r]) d)) = Some (review b t v)"
    using v(1) by (simp add: r record_reviews_snoc RecordReview_def find_update_rows review_key)
  then show ?case using reviewed_step [OF v(2) box(1)] by (simp add: r)
qed

definition demo_word_list :: database where
  "demo_word_list = empty_database\<lparr>tUserWords :=
     [\<lparr>uwUserID = 7, uwWordID = 5, uwStatus = ''learning'', uwNotes = None, uwIsFavourite = False, uwReviewCount = 0,
       uwCorrectCount = 0, uwBox = 0, uwLastReviewedAt = None, uwDueAt = 0, uwAddedAt = 0, uwUpdatedAt = 0\<rparr>]\<rparr>"

lemma reviews_follow_leitner_witness:
  "\<exists>v. find (user_word_key 7 5) (tUserWords (record_reviews 7 5 (replicate 5 (True, 0)) demo_word_list)) = Some v \<and>
     uwStatus v = ''known'' \<and> uwDueAt v = Days 15"
proof -
  have "\<exists>u. find (user_word_key 7 5) (tUserWords demo_word_list) = Some u \<and> uwBox u = 0 \<and> uwReviewCount u = 0 \<and>
      uwStatus u = ''learning''"
    by (simp add: demo_word_list_def user_word_key_def)
  then obtain u where u: "find (user_word_key 7 5) (tUserWords demo_word_list) = Some u" "uwBox u = 0" "uwReviewCount u = 0"
    "uwStatus u = ''learning''" by blast
  then obtain v where "find (user_word_key 7 5) (tUserWords (record_reviews 7 5 (replicate 5 (True, 0)) demo_word_list)) = Some v"
    "reviewed u (replicate 5 (True, 0)) v"
    using reviews_follow_leitner [OF u(1), of "replicate 5 (True, 0)"] by auto
  then show ?thesis using u by (auto simp: reviewed_def box_after_def list_all_iff days_of_box_def)
qed

end
