(* ===== verification/CallBounds.thy ===== *)
theory CallBounds
  imports WordProps UserService
begin

text \<open>
  How long a call of a service takes: each makes a bounded number of outside calls, whatever they
  return, and no time passes besides. No service has a loop that retries.
\<close>

section \<open>Counting outside calls\<close>

definition delay :: "(nat \<times> fault option) list \<Rightarrow> duration" where
  "delay s = int (sum_list (map fst s))"

text \<open>\<open>m\<close> makes at most \<open>n\<close> outside calls, and the clock moves by their delays.\<close>

definition calls :: "nat \<Rightarrow> 'a act \<Rightarrow> bool" where
  "calls n m \<longleftrightarrow>
     (\<forall>w. \<exists>k\<le>n. w_sched (snd (m w)) = drop k (w_sched w) \<and>
        w_clock (snd (m w)) = w_clock w + delay (take k (w_sched w)))"

named_theorems calls_intros \<open>bounds of outside calls\<close>

lemma callsE:
  assumes "calls n m"
  obtains k where "k \<le> n" "w_sched (snd (m w)) = drop k (w_sched w)"
    "w_clock (snd (m w)) = w_clock w + delay (take k (w_sched w))"
  using assms unfolding calls_def by blast

lemma calls_weaken: "calls a m \<Longrightarrow> a \<le> n \<Longrightarrow> calls n m"
  unfolding calls_def by (meson order_trans)

lemma calls_none: "(\<And>w. w_sched (snd (m w)) = w_sched w \<and> w_clock (snd (m w)) = w_clock w) \<Longrightarrow> calls 0 m"
  by (simp add: calls_def delay_def)

lemma delay_split: "delay (take j s) + delay (take k (drop j s)) = delay (take (j + k) s)"
  by (simp add: delay_def take_add)

lemma calls_attempt [calls_intros]:
  assumes m: "calls a m" and h: "\<And>e. calls b (h e)" and k: "\<And>x. calls c (k x)"
  shows "calls (a + max b c) (attempt m h k)"
  unfolding calls_def
proof
  fix w
  obtain i where i: "i \<le> a" "w_sched (snd (m w)) = drop i (w_sched w)"
    "w_clock (snd (m w)) = w_clock w + delay (take i (w_sched w))" using m by (rule callsE)
  obtain r w1 where run: "m w = (r, w1)" by (cases "m w")
  have "calls (max b c) (case r of Inl e \<Rightarrow> h e | Inr x \<Rightarrow> k x)"
    by (cases r) (auto intro: calls_weaken h k)
  then obtain j where j: "j \<le> max b c"
    "w_sched (snd ((case r of Inl e \<Rightarrow> h e | Inr x \<Rightarrow> k x) w1)) = drop j (w_sched w1)"
    "w_clock (snd ((case r of Inl e \<Rightarrow> h e | Inr x \<Rightarrow> k x) w1)) = w_clock w1 + delay (take j (w_sched w1))"
    by (rule callsE)
  have "attempt m h k w = (case r of Inl e \<Rightarrow> h e | Inr x \<Rightarrow> k x) w1"
    by (simp add: attempt_def run split: sum.split)
  then show "\<exists>l\<le>a + max b c. w_sched (snd (attempt m h k w)) = drop l (w_sched w) \<and>
      w_clock (snd (attempt m h k w)) = w_clock w + delay (take l (w_sched w))"
    using i j run delay_split [of i "w_sched w" j] by (intro exI [of _ "i + j"]) (auto simp: add.commute)
qed

lemma calls_ignore [calls_intros]: "calls a m \<Longrightarrow> calls b k \<Longrightarrow> calls (a + b) (ignore m k)"
  using calls_attempt [of a m b "\<lambda>_. k" b "\<lambda>_. k"] by (simp add: ignore_def)

lemma calls_external [calls_intros]:
  assumes "calls 0 f"
  shows "calls 1 (external f)"
  unfolding calls_def
proof
  fix w
  have f: "w_sched (snd (f v)) = w_sched v" "w_clock (snd (f v)) = w_clock v" for v
    using assms by (auto simp: calls_def delay_def)
  show "\<exists>k\<le>1. w_sched (snd (external f w)) = drop k (w_sched w) \<and>
      w_clock (snd (external f w)) = w_clock w + delay (take k (w_sched w))"
    by (intro exI [of _ 1])
      (auto simp: external_def f tick_def pending_fault_def delay_def split: option.split list.split)
qed

lemma calls_if [calls_intros]: "calls a m \<Longrightarrow> calls b n \<Longrightarrow> calls (max a b) (if p then m else n)"
  by (auto intro: calls_weaken)

lemma calls_Let [calls_intros]: "(\<And>x. calls n (f x)) \<Longrightarrow> calls n (Let a f)"
  by simp

lemma calls_max: "calls a m \<Longrightarrow> calls (max a b) m" "calls b m \<Longrightarrow> calls (max a b) m"
  by (rule calls_weaken, assumption, simp)+

lemma calls_option [calls_intros]:
  assumes "calls a m" and "\<And>x. calls b (f x)"
  shows "calls (max a b) (case y of None \<Rightarrow> m | Some x \<Rightarrow> f x)"
  using calls_max(1) [OF assms(1)] calls_max(2) [OF assms(2)] by (simp split: option.split)

lemma calls_sum [calls_intros]:
  assumes "\<And>x. calls a (f x)" and "\<And>x. calls b (g x)"
  shows "calls (max a b) (case y of Inl x \<Rightarrow> f x | Inr x \<Rightarrow> g x)"
  using calls_max(1) [OF assms(1)] calls_max(2) [OF assms(2)] by (simp split: sum.split)

lemma calls_prod [calls_intros]: "(\<And>x z. calls n (f x z)) \<Longrightarrow> calls n (case y of (x, z) \<Rightarrow> f x z)"
  by (simp split: prod.split)

lemma calls_basic [calls_intros]:
  "calls 0 (ret x)" "calls 0 (fail e)" "calls 0 (gets f)" "calls 0 time_now" "calls 0 (log_at l m as)"
  "calls 0 (uuid_NewString E)" "calls 0 (draw_uuid E)" "calls 0 (of_result r)" "calls 0 (bcrypt_GenerateFromPassword E c p)"
  by (rule calls_none, simp add: go_run of_result_def bcrypt_GenerateFromPassword_def)+

lemma calls_outside [calls_intros]:
  "calls 1 (redis c)" "calls 1 (run_stmt E q)" "calls 1 (rand_Read E n)" "calls 1 Commit"
  unfolding redis_def run_stmt_def rand_Read_def Commit_def
  by (rule calls_external, rule calls_none, simp add: go_run split: prod.split)+

lemma calls_Begin [calls_intros]: "calls 1 Begin"
  unfolding Begin_def
  by (rule calls_weaken, (rule calls_intros)+, rule calls_none, simp_all add: go_run)

lemma calls_rollback [calls_intros]: "calls 1 (rollback d)" "calls 1 (rollback_open d)"
  unfolding rollback_def rollback_open_def
  by (rule calls_weaken, rule calls_ignore, (rule calls_intros)+, rule calls_none, simp_all add: go_run)+

lemma calls_InTx [calls_intros]:
  assumes "calls n f"
  shows "calls (n + 3) (InTx f)"
  unfolding InTx_def by (rule calls_weaken, (rule calls_intros assms)+) simp

lemma calls_WithTx [calls_intros]: "calls n (f TxStore) \<Longrightarrow> calls (n + 3) (WithTx PoolStore f)"
  by (simp add: calls_InTx)


text \<open>The calls of the file system and of the object store.\<close>

lemma calls_files [calls_intros]:
  "calls 1 (os_MkdirAll d)" "calls 1 (os_Copy f r)" "calls 1 os_Close" "calls 1 (os_Remove f)"
  "calls 1 (os_Rename f g)" "calls 1 (os_Chmod f)" "calls 1 (os_Open f)" "calls 1 (os_Stat f)"
  "calls 1 (os_OpenAppend f)" "calls 1 (os_Append f l)" "calls 1 (s3_Upload b k r)"
  "calls 1 (external (modify (\<lambda>w. w\<lparr>w_files := (w_files w)(key := v)\<rparr>)))"
  unfolding os_MkdirAll_def os_Copy_def os_Close_def os_Remove_def os_Rename_def os_Chmod_def os_Open_def
    os_Stat_def os_OpenAppend_def os_Append_def s3_Upload_def
  by (rule calls_external, rule calls_none, simp add: go_run split: option.split)+

lemma calls_temp_name: "calls 0 (temp_name E n stem)"
  by (rule calls_none) (induction n arbitrary: w rule: nat.induct, auto simp: Let_def)

section \<open>Repositories, sessions and services\<close>

lemmas calls_bound = calls_weaken [OF _ order_refl]

lemma calls_users [calls_intros]:
  "calls 1 (Users_Create E i)" "calls 1 (Users_GetByID E k)" "calls 1 (Users_GetByEmail E m)"
  "calls 1 (Users_Update E k u)" "calls 1 (Users_UpdatePassword E k h)" "calls 1 (Users_TouchLastLogin E k)"
  "calls 1 (Users_MarkEmailVerified E k)" "calls 1 (Users_Delete E k)" "calls 2 (Users_List E f)"
  "calls 1 (Users_EmailExists E m)"
  unfolding users_repository_defs
  by (rule calls_weaken, (rule calls_intros)+, simp)+

lemma calls_tokens [calls_intros]:
  "calls 1 (PasswordResets_Create E u h t)" "calls 1 (PasswordResets_GetByTokenHash E h)"
  "calls 1 (PasswordResets_MarkUsed E k)" "calls 1 (PasswordResets_InvalidateForUser E u)"
  "calls 1 (EmailVerifications_Create E u h t)" "calls 1 (EmailVerifications_GetByTokenHash E h)"
  "calls 1 (EmailVerifications_MarkUsed E k)"
  unfolding token_repository_defs
  by (rule calls_weaken, (rule calls_intros)+, simp)+

lemma calls_sessions [calls_intros]:
  "calls 1 (StoreRefreshToken E s u j x)" "calls 1 (RevokeRefreshToken E u j)"
  "calls 1 (RevokeAllSessions E s u)" "calls 1 (BlacklistAccessToken j t)"
  unfolding session_defs Let_def
  by (rule calls_weaken, (rule calls_intros)+, simp)+

lemma calls_IsRefreshTokenActive [calls_intros]: "calls 2 (IsRefreshTokenActive E u j)"
  unfolding IsRefreshTokenActive_def
  by (rule calls_weaken, (rule calls_intros)+, simp)

lemma calls_credentials [calls_intros]:
  "calls 0 (Hash E h p)" "calls 0 (DummyVerify E h)" "calls 0 (GenerateTokenPair E m u r)"
  "calls 0 (ParseRefreshToken E m t)"
  unfolding Hash_def DummyVerify_def GenerateTokenPair_def ParseRefreshToken_def Let_def
  by (rule calls_weaken, (rule calls_intros)+, simp)+

lemma calls_generateToken [calls_intros]: "calls 1 (generateToken E)"
  unfolding generateToken_def Let_def
  by (rule calls_weaken, (rule calls_intros)+, simp)

lemma calls_issueSession [calls_intros]: "calls 1 (issueSession E s u)"
  unfolding issueSession_def
  by (rule calls_weaken, (rule calls_intros)+, simp)

lemma calls_auth_service [calls_intros]:
  "calls 4 (Register E s r)" "calls 3 (Login E s l)" "calls 5 (Refresh E s t)" "calls 2 (Logout E s lo)"
  "calls 1 (LogoutAll E s u)" "calls 4 (ChangePassword E s u p q)" "calls 7 (ForgotPassword E s m)"
  "calls 7 (ResetPassword E s t q)" "calls 6 (VerifyEmail E s t)"
  unfolding auth_service_defs Let_def
  by (rule calls_weaken, (rule calls_intros)+, simp)+

lemma calls_storage [calls_intros]:
  "calls 1 (os_CreateTemp E d stem)" "calls 0 (BuildKey E p f)"
  "calls 7 (Storage_Put E st k r n c)" "calls 1 (Storage_Delete E st k)"
proof -
  show temp [calls_intros]: "calls 1 (os_CreateTemp E d stem)" for d stem
    unfolding os_CreateTemp_def by (rule calls_external, rule calls_temp_name)
  show "calls 0 (BuildKey E p f)"
    unfolding BuildKey_def Let_def by (rule calls_weaken, (rule calls_intros)+, simp)
  have "calls 7 (Local_Put E l k r n c)" for l
    unfolding Local_Put_def outcome_def by (rule calls_weaken, (rule calls_intros)+, simp)
  moreover have "calls 7 (S3_Put E s k r n c)" for s
    unfolding S3_Put_def by (rule calls_weaken, (rule calls_intros)+, simp)
  ultimately show "calls 7 (Storage_Put E st k r n c)" by (cases st) auto
  have "calls 1 (Local_Delete E l k)" for l
    unfolding Local_Delete_def by (rule calls_weaken, (rule calls_intros)+, simp)
  moreover have "calls 1 (S3_Delete E s k)" for s
    unfolding S3_Delete_def by (rule calls_weaken, (rule calls_intros)+, simp)
  ultimately show "calls 1 (Storage_Delete E st k)" by (cases st) auto
qed

lemma calls_delete_avatar [calls_intros]: "calls 1 (delete_avatar E s k c)"
  unfolding delete_avatar_def by (rule calls_weaken, (rule calls_intros)+, simp)

lemma calls_user_service [calls_intros]:
  "calls 1 (UserService_Get E a k)" "calls 2 (UserService_List E f)" "calls 2 (UserService_Create E s i)"
  "calls 2 (UserService_Update E s a k u)" "calls 4 (UserService_Delete E s a k)"
  "calls 10 (UserService_UploadAvatar E s a k v)"
  unfolding user_service_defs Let_def
  by (rule calls_weaken, (rule calls_intros)+, simp)+

lemma calls_words [calls_intros]:
  "calls 1 (Words_Create E i)" "calls 1 (Words_GetByID E k)" "calls 1 (Words_GetByTerm E l t)"
  "calls 2 (Words_List E flt page)" "calls 1 (WordSenses_Create E si)" "calls 1 (WordSenses_ListByWord E k)"
  "calls 1 (WordSenses_ListByWords E ks)"
  unfolding word_repository_defs Let_def
  by (rule calls_weaken, (rule calls_intros)+, simp)+

lemma calls_word_service [calls_intros]:
  "calls 2 (WordService_Get E k u)" "calls 3 (WordService_List E flt page)"
  unfolding word_service_defs
  by (rule calls_weaken, (rule calls_intros)+, simp)+

section \<open>The enrichment of a word\<close>

lemma calls_outcome [calls_intros]: "calls n m \<Longrightarrow> calls n (outcome m)"
  unfolding outcome_def by (rule calls_weaken, (rule calls_intros | assumption)+, simp)

lemma calls_list [calls_intros]:
  assumes "calls a m" and "\<And>x xs. calls b (f x xs)"
  shows "calls (max a b) (case y of [] \<Rightarrow> m | x # xs \<Rightarrow> f x xs)"
  using calls_max(1) [OF assms(1)] calls_max(2) [OF assms(2)] by (simp split: list.split)

lemma calls_http [calls_intros]: "calls 1 (http_Do E q)"
  unfolding http_Do_def by (rule calls_external, rule calls_none, simp add: go_run)

lemma calls_request_log [calls_intros]: "calls 3 (requestLogger_write E J l e)"
  unfolding requestLogger_write_def requestLogger_warn_def
  by (rule calls_weaken, (rule calls_intros)+, simp)

lemma calls_enricher [calls_intros]: "calls 5 (NewOpenAIEnricher E J cfg t l)"
  unfolding NewOpenAIEnricher_def GetInitialWordData_def ChatCompletion_def chatCompletion_def
  by (rule calls_weaken, (rule calls_intros)+, simp)

lemma calls_create_senses: "calls (length senses) (create_senses E k i senses)"
proof (induction senses arbitrary: i)
  case (Cons s senses)
  have "calls (max (length senses) (1 + max 0 (length senses))) (create_senses E k i (s # senses))"
    by (simp only: create_senses.simps, (rule calls_intros Cons.IH)+)
  then show ?case by simp
qed (simp add: calls_basic)

lemma calls_add_word: "calls (4 + length senses) (add_word E a t l senses)"
  unfolding add_word_def by (rule calls_weaken, (rule calls_intros calls_create_senses)+, simp)

text \<open>The bound at one world, for a call whose bound depends on an answer.\<close>

definition calls_at :: "nat \<Rightarrow> 'a act \<Rightarrow> world \<Rightarrow> bool" where
  "calls_at n m w \<longleftrightarrow>
     (\<exists>k\<le>n. w_sched (snd (m w)) = drop k (w_sched w) \<and> w_clock (snd (m w)) = w_clock w + delay (take k (w_sched w)))"

lemma calls_at: "calls a m \<Longrightarrow> a \<le> n \<Longrightarrow> calls_at n m w"
  unfolding calls_def calls_at_def by (meson order_trans)

lemma calls_at_attempt:
  assumes m: "calls_at a m w" and h: "\<And>e w1. m w = (Inl e, w1) \<Longrightarrow> calls_at b (h e) w1"
    and k: "\<And>x w1. m w = (Inr x, w1) \<Longrightarrow> calls_at b (k x) w1"
  shows "calls_at (a + b) (attempt m h k) w"
proof -
  obtain r w1 where run: "m w = (r, w1)" by fastforce
  obtain i where i: "i \<le> a" "w_sched w1 = drop i (w_sched w)" "w_clock w1 = w_clock w + delay (take i (w_sched w))"
    using m run by (auto simp: calls_at_def)
  have "calls_at b (case r of Inl e \<Rightarrow> h e | Inr x \<Rightarrow> k x) w1" using h k run by (cases r) simp_all
  then obtain j where j: "j \<le> b" "w_sched (snd ((case r of Inl e \<Rightarrow> h e | Inr x \<Rightarrow> k x) w1)) = drop j (w_sched w1)"
    "w_clock (snd ((case r of Inl e \<Rightarrow> h e | Inr x \<Rightarrow> k x) w1)) = w_clock w1 + delay (take j (w_sched w1))"
    by (auto simp: calls_at_def)
  have "attempt m h k w = (case r of Inl e \<Rightarrow> h e | Inr x \<Rightarrow> k x) w1" by (simp add: attempt_def run split: sum.split)
  then show ?thesis
    using i j delay_split [of i "w_sched w" j] unfolding calls_at_def
    by (intro exI [of _ "i + j"]) (auto simp: add.commute)
qed

text \<open>The service of the program, and how many senses the language model answers when a word is added.\<close>

definition word_service :: "ext \<Rightarrow> openai_codec \<Rightarrow> Config \<Rightarrow> wordService" where
  "word_service E J cfg =
     NewWordService (if OpenAI_Enabled (cfOpenAI cfg) then Some (NewOpenAIEnricher E J (cfOpenAI cfg)) else None) cfg"

definition senses_answered :: "ext \<Rightarrow> openai_codec \<Rightarrow> Config \<Rightarrow> WordCreateInput \<Rightarrow> world \<Rightarrow> nat" where
  "senses_answered E J cfg inp w =
     (let term = TrimSpace (wiTerm inp); language = ToLower (x_unicode_lower E) (TrimSpace (wiLanguage inp));
          language = (if language = [] then ''en'' else language);
          w1 = snd (Words_GetByTerm E language term w) in
      case fst (NewOpenAIEnricher E J (cfOpenAI cfg) term language w1) of Inl _ \<Rightarrow> 0 | Inr senses \<Rightarrow> length senses)"

lemma calls_CreateAndEnrich:
  "calls_at (12 + senses_answered E J cfg inp w) (CreateAndEnrich E (word_service E J cfg) a inp) w"
proof -
  let ?n = "senses_answered E J cfg inp w"
  define t l where "t = TrimSpace (wiTerm inp)"
    and "l = (let language = ToLower (x_unicode_lower E) (TrimSpace (wiLanguage inp)) in if language = [] then ''en'' else language)"
  let ?ask = "NewOpenAIEnricher E J (cfOpenAI cfg) t l"
  define store where "store senses = (if senses = []
               then fail (Internal (Opaque (''enrichment returned no senses for '' @ Quote (x_unicode_quote E) t)))
               else
               attempt (add_word E a t l senses) fail (\<lambda>wordID.
               ignore (log_at LevelInfo ''word created and enriched''
                  [(''word_id'', x_uuid_string E wordID), (''term'', t)])
               (WordService_Get E wordID (acID a))))" for senses
  have store: "calls (6 + length senses) (store senses)" for senses
    unfolding store_def by (rule calls_weaken, (rule calls_intros calls_add_word)+, simp)
  have ask: "calls_at (11 + ?n) (attempt ?ask (\<lambda>e. fail (Internal (Wrapf ''enrich word: '' e ''''))) store) w1"
    if "w1 = snd (Words_GetByTerm E l t w)" for w1
  proof -
    have "length senses = ?n" if "?ask w1 = (Inr senses, w2)" for senses w2
      using that \<open>w1 = _\<close> by (simp add: senses_answered_def t_def l_def Let_def)
    then have "calls_at (5 + (6 + ?n)) (attempt ?ask (\<lambda>e. fail (Internal (Wrapf ''enrich word: '' e ''''))) store) w1"
      using calls_at [OF store] by (intro calls_at_attempt calls_at [OF calls_enricher] calls_at [OF calls_basic(2)]) auto
    then show ?thesis by (simp add: add.assoc [symmetric])
  qed
  have "calls_at (1 + (11 + ?n)) (attempt (outcome (Words_GetByTerm E l t)) fail (\<lambda>found. case found of
        Inr _ \<Rightarrow> fail (Conflict ''This word already exists'')
      | Inl e \<Rightarrow>
          if \<not> has_code e CodeNotFound then fail e
          else (case (if OpenAI_Enabled (cfOpenAI cfg) then if OpenAI_Enabled (cfOpenAI cfg)
               then Some (NewOpenAIEnricher E J (cfOpenAI cfg)) else None else None) of
             None \<Rightarrow> fail (Unavailable ''Word enrichment is not configured'' None)
           | Some enrich \<Rightarrow> attempt (enrich t l) (\<lambda>e. fail (Internal (Wrapf ''enrich word: '' e ''''))) store))) w"
  proof (rule calls_at_attempt)
    show "calls_at 1 (outcome (Words_GetByTerm E l t)) w" by (rule calls_at) (rule calls_intros order_refl)+
  next
    fix x w1 assume "outcome (Words_GetByTerm E l t) w = (Inr x, w1)"
    then have "w1 = snd (Words_GetByTerm E l t w)"
      by (auto simp: outcome_def attempt_def ret_def split: prod.splits sum.splits)
    note ask [OF this]
    then show "calls_at (11 + ?n) (case x of Inr _ \<Rightarrow> fail (Conflict ''This word already exists'')
      | Inl e \<Rightarrow>
          if \<not> has_code e CodeNotFound then fail e
          else (case (if OpenAI_Enabled (cfOpenAI cfg) then if OpenAI_Enabled (cfOpenAI cfg)
               then Some (NewOpenAIEnricher E J (cfOpenAI cfg)) else None else None) of
             None \<Rightarrow> fail (Unavailable ''Word enrichment is not configured'' None)
           | Some enrich \<Rightarrow> attempt (enrich t l) (\<lambda>e. fail (Internal (Wrapf ''enrich word: '' e ''''))) store)) w1"
      by (auto intro: calls_at [OF calls_basic(2)] split: sum.split)
  qed (rule calls_at [OF calls_basic(2)], simp)
  then show ?thesis
    by (simp only: CreateAndEnrich_def word_service_def NewWordService_def wordService.select_convs t_def l_def
        store_def [abs_def] Let_def) simp
qed

section \<open>The use cases\<close>

text \<open>
  Claim C32. Every operation of the three services ends after a bounded number of outside calls, whatever
  these return and however they fail: the services retry nothing, and no time passes besides the delays of
  the calls. A sign-in makes three calls at most, a refresh five, the transactional flows six or seven, the
  upload of an avatar with all of its clean-up ten, the listing of words three, however many words are on
  the page, and the creation of a word twelve and one more for each sense that the language model answered.
  An outside call is one operation of a driver, with whatever the driver itself does to carry it out: the
  Redis client is set to repeat a command up to three times.
\<close>

theorem use_cases_bounded:
  "calls 4 (Register E s r) \<and> calls 3 (Login E s l) \<and> calls 5 (Refresh E s t) \<and> calls 2 (Logout E s lo) \<and>
   calls 1 (LogoutAll E s u) \<and> calls 4 (ChangePassword E s u p q) \<and> calls 7 (ForgotPassword E s m) \<and>
   calls 7 (ResetPassword E s t q) \<and> calls 6 (VerifyEmail E s t) \<and>
   calls 1 (UserService_Get E a k) \<and> calls 2 (UserService_List E f) \<and> calls 2 (UserService_Create E us i) \<and>
   calls 2 (UserService_Update E us a k ui) \<and> calls 4 (UserService_Delete E us a k) \<and>
   calls 10 (UserService_UploadAvatar E us a k v) \<and>
   calls 2 (WordService_Get E k u) \<and> calls 3 (WordService_List E flt page) \<and>
   calls_at (12 + senses_answered E J cfg inp w) (CreateAndEnrich E (word_service E J cfg) a inp) w"
  by (intro conjI calls_intros calls_CreateAndEnrich)

end
