(* ===== verification/LogProps.thy ===== *)
theory LogProps
  imports HttpProps
begin

text \<open>
  Correlation: the identifier that the middleware gives a request is the one that the access log, the
  error responses and every line that is logged in the context of the request carry.
\<close>

section \<open>Invariants of the context alone\<close>

definition on_ctx :: "(ctx \<Rightarrow> bool) \<Rightarrow> ctx \<times> world \<Rightarrow> bool" where
  "on_ctx P s \<longleftrightarrow> P (fst s)"

lemma on_ctx_lift [pres_intros]: "pres (on_ctx P) (lift m)"
  by (auto simp: pres_def on_ctx_def lift_def split: prod.split)

lemma on_ctx_reads [pres_intros]:
  "pres (on_ctx P) (with_ctx f)" "pres (on_ctx P) (of_res r)" "pres (on_ctx P) (header k)" "pres (on_ctx P) ClaimsFrom"
  by (auto simp: pres_def header_def ClaimsFrom_def with_ctx_def of_res_def gets_def)

lemma on_ctx_set: "(\<And>c. P c \<Longrightarrow> P (f c)) \<Longrightarrow> pres (on_ctx P) (set_ctx f)"
  by (auto simp: pres_def on_ctx_def set_ctx_def modify_def)

lemma on_ctx_decode [pres_intros]:
  "pres (on_ctx P) (UserID E)" "pres (on_ctx P) (actorFrom E)" "pres (on_ctx P) (uuidParam E n)"
  "pres (on_ctx P) (bind E X dec tags)" "pres (on_ctx P) (page_params E wl)"
  unfolding UserID_def actorFrom_def uuidParam_def bind_def page_params_def
  by (intro pres_intros)+

section \<open>One identifier\<close>

definition correlated :: "string \<Rightarrow> ctx \<Rightarrow> bool" where
  "correlated k c \<longleftrightarrow>
     RequestIDFrom c = k \<and> RequestIDFromContext (Some (cxContext c)) = k \<and>
     (\<forall>v. cxBody c = ErrorBody v \<longrightarrow> evRequestID v = k)"

lemma correlated_frame [simp]: "decoration (on_ctx (correlated k))" "no_params (on_ctx (correlated k))"
  by (simp_all add: decoration_def no_params_def on_ctx_def correlated_def RequestIDFrom_def)

lemma correlated_basic [pres_intros]:
  "pres (on_ctx (correlated k)) (set_header h v)" "pres (on_ctx (correlated k)) (JSON st d)"
  "pres (on_ctx (correlated k)) (OK d)" "pres (on_ctx (correlated k)) (Created d)"
  "pres (on_ctx (correlated k)) (Message st m)" "pres (on_ctx (correlated k)) (Paginated g pg)"
  "pres (on_ctx (correlated k)) (respond st (JsonBody j))"
  "pres (on_ctx (correlated k)) (set_ctx (\<lambda>c. c\<lparr>cxClaims := cl\<rparr>))"
  "pres (on_ctx (correlated k)) (set_ctx (\<lambda>c. c\<lparr>cxBody := JsonBody j\<rparr>))"
  "pres (on_ctx (correlated k)) (set_ctx (\<lambda>c. c\<lparr>cxBody := StreamBody s\<rparr>))"
  "pres (on_ctx (correlated k)) (set_ctx (\<lambda>c. c\<lparr>cxBody := TextBody s\<rparr>))"
  "pres (on_ctx (correlated k)) (set_ctx (\<lambda>c. c\<lparr>cxBody := FileBody s\<rparr>))"
  "pres (on_ctx (correlated k)) (set_ctx (\<lambda>c. c\<lparr>cxCookies := cxCookies c @ cs\<rparr>))"
  unfolding set_header_def JSON_def OK_def Created_def Message_def Paginated_def respond_def
  by (rule on_ctx_set, simp add: correlated_def RequestIDFrom_def)+

lemma correlated_handlers:
  "list_all (\<lambda>h. pres (on_ctx (correlated k)) h)
     [AuthHandler_Register E X s, AuthHandler_Login E X s, AuthHandler_Refresh E X s, AuthHandler_Logout E X s,
      AuthHandler_LogoutAll E s, AuthHandler_ChangePassword E X s, AuthHandler_ForgotPassword E X s,
      AuthHandler_ResetPassword E X s, AuthHandler_VerifyEmail E X s, UserHandler_Me E, UserHandler_UpdateMe E X us,
      UserHandler_UploadAvatar E us, UserHandler_List E, UserHandler_Create E X us, UserHandler_Get E,
      UserHandler_Update E X us, UserHandler_Delete E us, WordHandler_Create E X ws, WordHandler_Get E, WordHandler_List E,
      FileHandler_Serve E st, Health, Live hh, Ready, docsPage, openapi]"
  unfolding handler_defs docsPage_def openapi_def list.pred_inject(2) by (intro conjI list.pred_inject(1) pres_intros)+

lemma correlated_middleware:
  "keeps (on_ctx (correlated k)) (RequestLogger skip)" "keeps (on_ctx (correlated k)) (Authenticate E tokens)"
  "keeps (on_ctx (correlated k)) (RequireRoles roles)" "keeps (on_ctx (correlated k)) (RateLimit cfg)"
  unfolding keeps_def RequestLogger_def Authenticate_def RequireRoles_def RateLimit_def chain_result_def
  by (intro allI impI pres_intros; assumption)+

lemma correlated_ErrorHandler: "on_ctx (correlated k) (c, w) \<Longrightarrow> on_ctx (correlated k) (snd (ErrorHandler e (c, w)))"
  by (simp add: ErrorHandler_def Let_def attempt_def with_ctx_run lift_run log_at_run respond_def set_ctx_run
      on_ctx_def correlated_def RequestIDFrom_def)

text \<open>The stack behind the middleware that gives the identifier.\<close>

lemma correlated_stack:
  assumes around: "around_law X"
  shows "pres (on_ctx (correlated k)) (run_stack X (tl (NewApp E X D)))"
proof (rule run_stack_pres)
  let ?K = "\<lambda>e. keeps (on_ctx (correlated k)) (entry_mw e)"
  note handlers = correlated_handlers [unfolded list.pred_inject(2)]
  have "keeps (on_ctx (correlated k)) (hxAround X)" using around by (simp add: keeps_def around_pres)
  then have "list_all ?K (tl (registerMiddleware E X D))"
    by (simp add: registerMiddleware_def correlated_middleware)
  moreover have "list_all ?K (operational_routes E D)"
    by (auto simp: operational_routes_def route_defs handlers split: option.split)
  moreover have "list_all ?K (auth_routes E X D)"
    by (simp add: auth_routes_def route_defs Let_def) (intro conjI keeps_comp keeps_stop correlated_middleware; simp add: handlers)
  moreover have "list_all ?K (user_routes E X D)"
    by (simp add: user_routes_def route_defs Let_def) (intro conjI keeps_comp keeps_stop correlated_middleware; simp add: handlers)
  moreover have "list_all ?K (word_routes E X D)"
    by (simp add: word_routes_def route_defs) (intro conjI keeps_comp keeps_stop correlated_middleware; simp add: handlers)
  ultimately have "list_all ?K (tl (NewApp E X D))"
    by (simp add: NewApp_def RegisterRoutes_def registerMiddleware_def)
  then show "keeps (on_ctx (correlated k)) (entry_mw e)" if "e \<in> set (tl (NewApp E X D))" for e
    using that by (simp add: list_all_iff)
qed simp

definition request_id :: "ext \<Rightarrow> request \<Rightarrow> world \<Rightarrow> string" where
  "request_id E r w =
     (let inbound = rqHeader r ''X-Request-ID'' in
      if inbound = [] \<or> maxInboundRequestIDLen < length inbound then x_uuid_string E (x_uuid E (w_rng w)) else inbound)"

lemma RequestID_first:
  assumes "router_law X"
  shows "\<exists>c1 w1. run_stack X (Use ''/'' (RequestID E) # es) (new_ctx r, w) = run_stack X es (c1, w1) \<and>
     correlated (request_id E r w) c1"
proof (cases "rqHeader r ''X-Request-ID'' = [] \<or> maxInboundRequestIDLen < length (rqHeader r ''X-Request-ID'')")
  case True
  then have id: "request_id E r w = x_uuid_string E (x_uuid E (w_rng w))" by (simp add: request_id_def)
  show ?thesis
    by (simp add: RequestID_def attempt_def with_ctx_run header_def set_header_def set_ctx_run lift_run uuid_NewString_run
        router_root [OF assms] new_ctx_def True id)
      (intro exI conjI, rule refl, simp add: correlated_def RequestIDFrom_def)
next
  case False
  then have id: "request_id E r w = rqHeader r ''X-Request-ID''" by (simp add: request_id_def)
  show ?thesis
    using False
    by (simp add: RequestID_def attempt_def with_ctx_run header_def set_header_def set_ctx_run ret_run
        router_root [OF assms] new_ctx_def id)
      (intro exI conjI, rule refl, simp add: correlated_def RequestIDFrom_def)
qed

lemma serve_correlated:
  assumes router: "router_law X" and around: "around_law X"
  shows "on_ctx (correlated (request_id E r w)) (serve E X D r w)"
proof -
  let ?k = "request_id E r w" and ?rest = "run_stack X (tl (NewApp E X D))"
  have "NewApp E X D = Use ''/'' (RequestID E) # tl (NewApp E X D)"
    by (simp add: NewApp_def registerMiddleware_def)
  then obtain c1 w1 where set: "run_stack X (NewApp E X D) (new_ctx r, w) = ?rest (c1, w1)" and c1: "correlated ?k c1"
    using RequestID_first [OF router] by metis
  obtain res c2 w2 where run: "?rest (c1, w1) = (res, (c2, w2))" by (metis surj_pair)
  then have "on_ctx (correlated ?k) (c2, w2)"
    using pres_run [OF correlated_stack [OF around] _ run] c1 by (simp add: on_ctx_def)
  then show ?thesis
    using correlated_ErrorHandler set run by (auto simp: serve_def split: sum.split)
qed

text \<open>
  Claim C31. Every trace of a request names it alike: the identifier is the one that the client has
  sent, if it has one to 64 bytes, and a fresh UUID otherwise; both accessors give it; an error response carries it; and
  every line at or above the configured level that any logger derived from the one of the
  application writes in the context of the request ends with it, below the groups that are open.
  Lines below the level are not written.
\<close>

theorem request_correlated:
  assumes laws: "router_law X" "around_law X" "uuid_law E" and run: "serve E X D r w = (c, w')"
  shows "(let k = RequestIDFrom c in
     k \<noteq> [] \<and> (k = rqHeader r ''X-Request-ID'' \<and> length k \<le> 64 \<or> k = x_uuid_string E (x_uuid E (w_rng w))) \<and>
     lib_RequestID c = k \<and> (\<forall>v. cxBody c = ErrorBody v \<longrightarrow> evRequestID v = k) \<and>
     (\<forall>ds l. Logger_log (foldl derive (NewLogger lower cfg) ds) (Some (cxContext c)) l =
        (if parseLevel lower (lgLevel cfg) \<le> leLevel l
         then Some \<lparr>lnJSON = is_json (lgFormat cfg), lnLevel = leLevel l, lnMessage = leMessage l,
           lnAttrs = added [] ds @ under (opened ds) (leAttrs l @ [(''request_id'', k)])\<rparr>
         else None)))"
proof -
  have "correlated (request_id E r w) c"
    using serve_correlated [OF laws(1,2), of E r w D] run by (simp add: on_ctx_def)
  moreover have "request_id E r w \<noteq> []"
    using laws(3) by (auto simp: request_id_def Let_def uuid_law_def)
  ultimately show ?thesis
    by (auto simp: correlated_def lib_RequestID_def Logger_log_derived request_id_def maxInboundRequestIDLen_def Let_def)
qed

lemma request_correlated_witness:
  "\<exists>c w'. serve demo_ext demo_http demo_server demo_request demo_world = (c, w') \<and> RequestIDFrom c \<noteq> [] \<and>
     Logger_log (derive (NewLogger (\<lambda>s. s) \<lparr>lgLevel = ''info'', lgFormat = ''json''\<rparr>) (With [(''component'', ''auth_service'')]))
       (Some (cxContext c)) \<lparr>leLevel = LevelInfo, leMessage = ''user registered'', leAttrs = []\<rparr> =
     Some \<lparr>lnJSON = True, lnLevel = LevelInfo, lnMessage = ''user registered'',
       lnAttrs = [([], ''component'', ''auth_service''), ([], ''request_id'', RequestIDFrom c)]\<rparr>"
proof -
  obtain c w' where run: "serve demo_ext demo_http demo_server demo_request demo_world = (c, w')" by fastforce
  have "parseLevel (\<lambda>s. s) ''info'' = LevelInfo" "is_json ''json''" by code_simp+
  then show ?thesis
    using request_correlated [OF demo_router demo_around demo_uuid_law run, of "\<lambda>s. s" "\<lparr>lgLevel = ''info'', lgFormat = ''json''\<rparr>"]
    unfolding Let_def
    by (intro exI [of _ c] exI [of _ w'] conjI run) (blast, auto dest!: spec [of _ "[With [(''component'', ''auth_service'')]]"] simp: under_def)
qed

end
