(* ===== verification/Process.thy ===== *)
theory Process
  imports System
begin

text \<open>
  The life of the process in \<open>cmd/app_main.go\<close>: \<open>run\<close> with its deferred clean-up and its graceful
  shutdown, and \<open>main\<close>, which turns the outcome into an exit status.
\<close>

section \<open>Resources\<close>

text \<open>The world and the two connections that the process holds open.\<close>

record process =
  prWorld :: world
  prPool :: bool
  prRedis :: bool

type_synonym 'a proc = "(process, goerr, 'a) go"

definition in_world :: "'a act \<Rightarrow> 'a proc" where
  "in_world m p = (case m (prWorld p) of (r, w) \<Rightarrow> (r, p\<lparr>prWorld := w\<rparr>))"

text \<open>\<open>defer f(); body\<close>: the clean-up runs when the body is done, whatever its outcome.\<close>

definition deferred :: "unit proc \<Rightarrow> 'a proc \<Rightarrow> 'a proc" where
  "deferred f body p = (case body p of (r, p') \<Rightarrow> (r, snd (f p')))"

definition close_pool :: "unit proc" where
  "close_pool = modify (\<lambda>p. p\<lparr>prPool := False\<rparr>)"

text \<open>Closing gives up the client's connections even when it reports an error.\<close>

definition close_client :: "unit proc" where
  "close_client = attempt (modify (\<lambda>p. p\<lparr>prRedis := False\<rparr>)) fail (\<lambda>_. in_world redis_Close)"

definition close_redis :: "unit proc" where
  "close_redis =
     attempt close_client
       (\<lambda>e. in_world (log_at LevelError ''closing redis failed'' [(''error'', error_text e)])) ret"

text \<open>\<open>NewPostgres\<close> and \<open>NewRedis\<close> on the process: a connection whose first ping fails is closed again.\<close>

definition open_pool :: "boot_ext \<Rightarrow> Config \<Rightarrow> unit proc" where
  "open_pool B cfg =
     attempt (in_world (of_result (connect_pool B (cfDB cfg)))) fail (\<lambda>poolCfg.
     attempt (modify (\<lambda>p. p\<lparr>prPool := True\<rparr>)) fail (\<lambda>_.
     attempt (in_world (ping_pool poolCfg)) (\<lambda>e. ignore close_pool (fail e)) ret))"

definition open_redis :: "boot_ext \<Rightarrow> Config \<Rightarrow> unit proc" where
  "open_redis B cfg =
     attempt (in_world (of_result (connect_redis B (cfRedisURL cfg)))) fail (\<lambda>opts.
     attempt (modify (\<lambda>p. p\<lparr>prRedis := True\<rparr>)) fail (\<lambda>_.
     attempt (in_world (ping_redis opts)) (\<lambda>e. ignore close_client (fail e)) ret))"

section \<open>Serving and shutting down\<close>

text \<open>
  How serving ends: the listener returns, with or without an error, or a signal arrives. What happens
  until then is up to the clients and to Fiber, and is a parameter.
\<close>

datatype ending = Listened "goerr option" | Signalled

type_synonym serving = "Dependencies \<Rightarrow> world \<Rightarrow> ending \<times> world"

definition shutdown_app :: "Config \<Rightarrow> unit act" where
  "shutdown_app cfg =
     ignore (log_at LevelInfo ''shutdown signal received'' [(''timeout'', FormatInt (apShutdownTimeout (cfApp cfg)))])
     (attempt (attempt (external (ret ()))
         (\<lambda>e. if Is e ContextDeadlineExceeded
              then log_at LevelWarn ''graceful shutdown timed out, closing anyway'' []
              else fail (Wrapf ''shutdown: '' e '''')) ret) fail (\<lambda>_.
      log_at LevelInfo ''shutdown complete'' []))"

definition serve_until :: "serving \<Rightarrow> Dependencies \<Rightarrow> unit act" where
  "serve_until S D w =
     (case S D w of
        (Listened (Some e), w') \<Rightarrow> fail (Wrapf ''http server: '' e '''') w'
      | (Listened None, w') \<Rightarrow> ret () w'
      | (Signalled, w') \<Rightarrow> shutdown_app (dpConfig D) w')"

text \<open>\<open>run\<close>.\<close>

definition run_api ::
    "ext \<Rightarrow> openai_codec \<Rightarrow> boot_ext \<Rightarrow> serving \<Rightarrow> string \<Rightarrow> string \<Rightarrow> goerr + Config \<Rightarrow> unit proc" where
  "run_api E J B S version buildTime loaded =
     attempt (in_world (of_result loaded)) fail (\<lambda>cfg.
     attempt (in_world (announce version buildTime cfg)) fail (\<lambda>_.
     attempt (open_pool B cfg) fail (\<lambda>_. deferred close_pool (
     attempt (open_redis B cfg) fail (\<lambda>_. deferred close_redis (
     attempt (in_world (assemble E J B version cfg)) fail (\<lambda>D.
     in_world (serve_until S D))))))))"

text \<open>\<open>main\<close>: the exit status, what is written to standard error, and the process at its end.\<close>

definition main_api ::
    "ext \<Rightarrow> openai_codec \<Rightarrow> boot_ext \<Rightarrow> serving \<Rightarrow> string \<Rightarrow> string \<Rightarrow> goerr + Config \<Rightarrow> process \<Rightarrow>
     int \<times> string \<times> process" where
  "main_api E J B S version buildTime loaded p =
     (case run_api E J B S version buildTime loaded p of
        (Inl e, p') \<Rightarrow> (1, ''fatal: '' @ error_text e @ [CHR 0x0A], p')
      | (Inr _, p') \<Rightarrow> (0, [], p'))"

section \<open>What a run leaves behind\<close>

lemma in_world_fields [simp]:
  "prPool (snd (in_world m p)) = prPool p" "prRedis (snd (in_world m p)) = prRedis p"
  "fst (in_world m p) = fst (m (prWorld p))" "prWorld (snd (in_world m p)) = snd (m (prWorld p))"
  by (simp_all add: in_world_def split: prod.split)

lemma close_client_fields [simp]:
  "prRedis (snd (close_client p)) = False" "prPool (snd (close_client p)) = prPool p"
  "prWorld (snd (close_client p)) = snd (redis_Close (prWorld p))"
  by (simp_all add: close_client_def attempt_def modify_def in_world_def split: prod.split)

lemma close_redis_fields [simp]:
  "prRedis (snd (close_redis p)) = False" "prPool (snd (close_redis p)) = prPool p"
  using close_client_fields [of p]
  by (cases "close_client p"; simp add: close_redis_def attempt_def ret_def in_world_def log_at_run split: sum.split)+

end
