(* ===== verification/ProcessProps.thy ===== *)
theory ProcessProps
  imports Process StartProps
begin

text \<open>
  What a run of the process leaves behind: no open connection, an exit status that tells the outcome,
  and a database that is as consistent as it was.
\<close>

lemma deferred_fst [simp]: "fst (deferred f body p) = fst (body p)"
  by (simp add: deferred_def split: prod.split)

lemma deferred_snd [simp]: "snd (deferred f body p) = snd (f (snd (body p)))"
  by (simp add: deferred_def split: prod.split)

lemma close_pool_run: "close_pool p = (Inr (), p\<lparr>prPool := False\<rparr>)"
  by (simp add: close_pool_def modify_def)

section \<open>Released connections\<close>

definition released :: "process \<Rightarrow> bool" where
  "released p \<longleftrightarrow> \<not> prPool p \<and> \<not> prRedis p"

text \<open>Opening follows the two constructors in the world, and leaves nothing open when it fails.\<close>

lemma open_pool_fields:
  "prRedis (snd (open_pool B cfg p)) = prRedis p"
  "fst (open_pool B cfg p) = Inl e \<Longrightarrow> \<not> prPool p \<Longrightarrow> \<not> prPool (snd (open_pool B cfg p))"
  "fst (open_pool B cfg p) = fst (NewPostgres B (cfDB cfg) (prWorld p))"
  "prWorld (snd (open_pool B cfg p)) = snd (NewPostgres B (cfDB cfg) (prWorld p))"
  by (auto simp: open_pool_def NewPostgres_def of_result_def close_pool_def attempt_def ignore_def modify_def fail_def ret_def
      in_world_def split: prod.splits sum.splits)

lemma open_redis_fields:
  "prPool (snd (open_redis B cfg p)) = prPool p"
  "fst (open_redis B cfg p) = Inl e \<Longrightarrow> \<not> prRedis p \<Longrightarrow> \<not> prRedis (snd (open_redis B cfg p))"
  "fst (open_redis B cfg p) = fst (NewRedis B (cfRedisURL cfg) (prWorld p))"
  "prWorld (snd (open_redis B cfg p)) = snd (NewRedis B (cfRedisURL cfg) (prWorld p))"
  by (auto simp: open_redis_def NewRedis_def of_result_def close_client_def attempt_def ignore_def modify_def fail_def ret_def
      in_world_def split: prod.splits sum.splits)

text \<open>Opening, then a body under the deferred closing.\<close>

lemma snd_attempt_fail:
  "snd (attempt m fail k p) = (case m p of (Inl e, q) \<Rightarrow> q | (Inr a, q) \<Rightarrow> snd (k a q))"
  by (simp add: attempt_def fail_def split: prod.split sum.split)

lemma run_api_released:
  assumes "released p"
  shows "released (snd (run_api E J B S v bt loaded p))"
proof -
  have inner: "\<not> prRedis (snd (attempt (open_redis B cfg) fail (\<lambda>_. deferred close_redis body) q))"
    if "\<not> prRedis q" for cfg q and body :: "unit proc"
    using that open_redis_fields(2) [of B cfg q]
    by (auto simp: snd_attempt_fail split: prod.split sum.split)
  have outer: "released (snd (attempt (open_pool B cfg) fail (\<lambda>_. deferred close_pool
      (attempt (open_redis B cfg) fail (\<lambda>_. deferred close_redis body))) q))"
    if "released q" for cfg q and body :: "unit proc"
  proof (cases "open_pool B cfg q")
    case (Pair r q')
    then show ?thesis
      using that open_pool_fields [of B cfg q] inner [of q' cfg body]
      by (auto simp: snd_attempt_fail released_def close_pool_run split: sum.split)
  qed
  then show ?thesis
    using assms
    by (auto simp: run_api_def snd_attempt_fail released_def in_world_def split: prod.split sum.split)
qed

section \<open>The outcome\<close>

definition shutdown_ok :: "world \<Rightarrow> bool" where
  "shutdown_ok w \<longleftrightarrow>
     (case pending_fault w of None \<Rightarrow> True | Some x \<Rightarrow> Is (fault_error x) ContextDeadlineExceeded)"

definition served_well :: "ending \<times> world \<Rightarrow> bool" where
  "served_well s \<longleftrightarrow> (case s of (Listened x, w) \<Rightarrow> x = None | (Signalled, w) \<Rightarrow> shutdown_ok w)"

lemma pending_fault_log [simp]: "pending_fault (w\<lparr>w_log := l\<rparr>) = pending_fault w"
  by (simp add: pending_fault_def)

lemma shutdown_app_result: "fst (shutdown_app cfg w) = Inr () \<longleftrightarrow> shutdown_ok w"
proof (cases "pending_fault w")
  case None
  then show ?thesis
    by (simp add: shutdown_app_def ignore_run attempt_def external_def log_at_run ret_def shutdown_ok_def)
next
  case (Some x)
  then show ?thesis
    by (simp add: shutdown_app_def ignore_run attempt_def external_def log_at_run ret_def fail_def shutdown_ok_def)
qed

lemma serve_until_result: "fst (serve_until S D w) = Inr () \<longleftrightarrow> served_well (S D w)"
  by (auto simp: serve_until_def served_well_def fail_def ret_def shutdown_app_result
      split: prod.split ending.split option.split)

lemma fst_attempt_fail:
  "fst (attempt m fail k p) = (case m p of (Inl e, q) \<Rightarrow> Inl e | (Inr a, q) \<Rightarrow> fst (k a q))"
  by (simp add: attempt_def fail_def split: prod.split sum.split)

text \<open>\<open>run\<close> fails like the start, and otherwise as it has served.\<close>

lemma run_api_result:
  "fst (run_api E J B S v bt loaded p) =
     (case start E J B v bt loaded (prWorld p) of
        (Inl e, w) \<Rightarrow> Inl e | (Inr D, w) \<Rightarrow> fst (serve_until S D w))"
proof (cases loaded)
  case (Inl e)
  then show ?thesis by (simp add: run_api_def start_def fst_attempt_fail in_world_def of_result_def attempt_def fail_def)
next
  case (Inr cfg)
  obtain w1 where ann: "announce v bt cfg (prWorld p) = (Inr (), w1)" by (simp add: announce_def log_at_run)
  obtain r q where pool: "open_pool B cfg (p\<lparr>prWorld := w1\<rparr>) = (r, q)" by fastforce
  then have pg: "NewPostgres B (cfDB cfg) w1 = (r, prWorld q)"
    using open_pool_fields(3,4) [of B cfg "p\<lparr>prWorld := w1\<rparr>"] by (simp add: prod_eq_iff)
  obtain r' q' where redis: "open_redis B cfg q = (r', q')" by fastforce
  then have rd: "NewRedis B (cfRedisURL cfg) (prWorld q) = (r', prWorld q')"
    using open_redis_fields(3,4) [of B cfg q] by (simp add: prod_eq_iff)
  show ?thesis
    using pool pg redis rd Inr ann
    by (cases "assemble E J B v cfg (prWorld q')")
      (auto simp: run_api_def start_def wire_def ignore_run fst_attempt_fail in_world_def of_result_def
        attempt_def fail_def split: sum.split prod.split)
qed

section \<open>Integrity from start to exit\<close>

definition in_process :: "(world \<Rightarrow> bool) \<Rightarrow> process \<Rightarrow> bool" where
  "in_process I p \<longleftrightarrow> I (prWorld p)"

lemma pres_in_world [pres_intros]: "pres I m \<Longrightarrow> pres (in_process I) (in_world m)"
  by (simp add: pres_def in_process_def)

lemma pres_deferred [pres_intros]:
  "pres (in_process I) f \<Longrightarrow> pres (in_process I) body \<Longrightarrow> pres (in_process I) (deferred f body)"
  by (simp add: pres_def)

lemma pres_modify_flags [pres_intros]:
  "pres (in_process I) (modify (\<lambda>p. p\<lparr>prPool := b\<rparr>))" "pres (in_process I) (modify (\<lambda>p. p\<lparr>prRedis := b\<rparr>))"
  by (simp_all add: pres_def in_process_def modify_def)

lemma pres_attempt_result:
  assumes "pres I m" and "\<And>a s s'. m s = (Inr a, s') \<Longrightarrow> pres I (k a)"
  shows "pres I (attempt m fail k)"
  using assms by (force simp: pres_def attempt_def fail_def split: prod.splits sum.splits)

lemma assemble_enricher:
  assumes "in_world (assemble E J B v cfg) p = (Inr D, p')"
  shows "enricher_of E (dpWords D)"
proof -
  obtain w where "assemble E J B v cfg (prWorld p) = (Inr D, w)"
    using assms by (auto simp: in_world_def split: prod.splits)
  then have "wvEnricher (dpWords D) = (if OpenAI_Enabled (cfOpenAI cfg) then Some (NewOpenAIEnricher E J (cfOpenAI cfg)) else None)"
    by (auto simp: assemble_def constructor_defs Let_def ret_def fail_def elim!: attempt_fail_InrE)
  then show ?thesis by (auto simp: enricher_of_def)
qed

context world_invariant
begin

lemma startup_kept [pres_intros]:
  "pres I (NewPostgres B db)" "pres I (NewRedis B url)" "pres I (assemble F J B v cfg)" "pres I (announce v bt cfg)"
  "pres I (shutdown_app cfg)"
  unfolding connection_defs assemble_def constructor_defs NewStorage_def NewLocal_def NewS3_def NewBcryptHasher_def
    NewValidator_def os_MkdirAll_def announce_def shutdown_app_def
  by (intro pres_intros)+

end

text \<open>What serving does to the world is some run of the server.\<close>

definition serves :: "ext \<Rightarrow> http_ext \<Rightarrow> boot_ext \<Rightarrow> serving \<Rightarrow> bool" where
  "serves E X B S \<longleftrightarrow> (\<forall>D w. reachable E X B D w (snd (S D w)))"

lemma serve_until_pres:
  assumes "around_law X" and "enricher_of E (dpWords D)" and "serves E X B S"
  shows "pres (world_ok E) (serve_until S D)"
proof (rule presI)
  fix w assume ok: "world_ok E w"
  obtain x w' where run: "S D w = (x, w')" by fastforce
  then have "reachable E X B D w w'" using assms(3) unfolding serves_def by (metis snd_conv)
  then have "world_ok E w'" using consistent.reachable_kept [OF assms(1,2) refl TrueI _ ok] by blast
  then show "world_ok E (snd (serve_until S D w))"
    using presD [OF consistent.startup_kept(5), of E w' "dpConfig D"] run
    by (auto simp: serve_until_def fail_def ret_def split: ending.split option.split)
qed

lemma connections_pres [pres_intros]:
  "pres (in_process (world_ok E)) (open_pool B cfg)" "pres (in_process (world_ok E)) (open_redis B cfg)"
  "pres (in_process (world_ok E)) close_pool" "pres (in_process (world_ok E)) close_redis"
  unfolding open_pool_def open_redis_def close_pool_def close_redis_def close_client_def connection_defs
  by (intro pres_intros pres_of_result)+

lemma run_api_world_ok:
  assumes "around_law X" and "serves E X B S"
  shows "pres (in_process (world_ok E)) (run_api E J B S v bt loaded)"
proof -
  have body: "pres (in_process (world_ok E)) (attempt (in_world (assemble E J B v cfg)) fail (\<lambda>D. in_world (serve_until S D)))" for cfg
    by (rule pres_attempt_result, intro pres_intros, rule pres_in_world,
        rule serve_until_pres [OF assms(1) assemble_enricher assms(2)])
  show ?thesis
    unfolding run_api_def
    by (rule body pres_attempt pres_fail pres_deferred connections_pres pres_in_world consistent.startup_kept pres_of_result)+
qed

text \<open>
  Claim C30. A run of the process ends cleanly: whichever step of the start fails, however serving ends
  and whatever the shutdown meets, both connections are closed when it exits; the exit status is 0
  exactly if the start went through and then either the listener returned without an error or a
  signal came and the shutdown succeeded or timed out, and otherwise it is 1 with a message on
  standard error, which is that of the start if the start has failed; and the database is consistent
  if it was so before and clients and heartbeat are all that happens in between.
\<close>

theorem run_to_exit:
  assumes "released p" and "world_ok E (prWorld p)" and "around_law X" and "serves E X B S"
  shows "case main_api E J B S version buildTime loaded p of (status, err, p') \<Rightarrow>
     released p' \<and> world_ok E (prWorld p') \<and>
     (case start E J B version buildTime loaded (prWorld p) of
        (Inl e, w) \<Rightarrow> status = 1 \<and> err = ''fatal: '' @ error_text e @ [CHR 0x0A]
      | (Inr D, w) \<Rightarrow> status = (if served_well (S D w) then 0 else 1) \<and> (err = [] \<longleftrightarrow> served_well (S D w)))"
proof -
  obtain r p' where run: "run_api E J B S version buildTime loaded p = (r, p')" by fastforce
  have kept: "released p'" "world_ok E (prWorld p')"
    using run_api_released [OF assms(1), of E J B S version buildTime loaded] run
      pres_run [OF run_api_world_ok [OF assms(3,4)] _ run] assms(2) by (simp_all add: in_process_def)
  obtain x w where started: "start E J B version buildTime loaded (prWorld p) = (x, w)" by fastforce
  have r: "r = (case x of Inl e \<Rightarrow> Inl e | Inr D \<Rightarrow> fst (serve_until S D w))"
    using run_api_result [of E J B S version buildTime loaded p] run started by (simp split: sum.splits)
  show ?thesis
  proof (cases x)
    case (Inr D)
    have "r = Inr () \<longleftrightarrow> served_well (S D w)" using serve_until_result [of S D w] r Inr by simp
    then show ?thesis
      using kept started Inr by (cases "served_well (S D w)"; cases r) (auto simp: main_api_def run)
  qed (use kept r started in \<open>simp add: main_api_def run\<close>)
qed

lemma run_to_exit_witness:
  "\<exists>p'. main_api demo_ext demo_codec demo_boot (\<lambda>D w. (Listened None, w)) ''dev'' ''unknown''
       (Load (\<lambda>s. s) (\<lambda>s. s) DotenvOk demo_env) \<lparr>prWorld = demo_world, prPool = False, prRedis = False\<rparr> = (0, [], p') \<and>
     released p' \<and> world_ok demo_ext (prWorld p')"
proof -
  let ?S = "\<lambda>D w. (Listened None, w)" and ?p = "\<lparr>prWorld = demo_world, prPool = False, prRedis = False\<rparr>"
  have "serves demo_ext demo_http demo_boot ?S" by (simp add: serves_def reachable_by.initial)
  moreover have "released ?p" by (simp add: released_def)
  moreover have "world_ok demo_ext (prWorld ?p)" by (simp add: demo_world_ok)
  ultimately show ?thesis
    using run_to_exit [of ?p demo_ext demo_http demo_boot ?S demo_codec "''dev''" "''unknown''"
        "Load (\<lambda>s. s) (\<lambda>s. s) DotenvOk demo_env"]
      demo_start [of "\<lambda>s. s"] demo_around
    by (cases "main_api demo_ext demo_codec demo_boot ?S ''dev'' ''unknown'' (Load (\<lambda>s. s) (\<lambda>s. s) DotenvOk demo_env) ?p")
      (auto simp: served_well_def)
qed

end
