(* ===== verification/RecoveryProps.thy ===== *)
theory RecoveryProps
  imports RegisterProps
begin

text \<open>
  Recovering an account: the request for a reset link, which answers every address alike, and the way
  from the link to a sign-in with the new password.
\<close>

section \<open>What a request for a link does\<close>

text \<open>The identifier and the token that a request starting here will draw are new.\<close>

definition fresh_for_reset :: "ext \<Rightarrow> world \<Rightarrow> bool" where
  "fresh_for_reset E w \<longleftrightarrow>
     (\<forall>t\<in>set (tResets (w_db w)). tkID t \<noteq> x_uuid E (w_rng w + 3) \<and> tkTokenHash t \<noteq> hashToken (token_at E (w_rng w + 1)))"

text \<open>The links of the account that were still open are used up, and a new one is added.\<close>

definition link_db :: "gotime \<Rightarrow> SingleUseToken \<Rightarrow> database \<Rightarrow> database" where
  "link_db n r d = d\<lparr>tResets := consume (\<lambda>t. tkUserID t = tkUserID r) n (tResets d) @ [r]\<rparr>"

lemma consume_keys:
  "map tkID (consume P n ts) = map tkID ts" "map tkTokenHash (consume P n ts) = map tkTokenHash ts"
  by (simp_all add: consume_def update_rows_def use_token_def)

lemma link_tx:
  assumes ready: "ready E s w" and u: "u \<in> set (tUsers (w_db w))"
    and new: "\<forall>t\<in>set (tResets (w_db w)). tkID t \<noteq> x_uuid E (Suc (w_rng w)) \<and> tkTokenHash t \<noteq> h"
  shows "\<exists>w' n r. WithTx PoolStore (\<lambda>tx.
       attempt (PasswordResets_InvalidateForUser E (duID u)) fail (\<lambda>_.
       attempt (PasswordResets_Create E (duID u) h x) fail (\<lambda>_. ret ()))) w = (Inr (), w') \<and>
     r = new_token (x_uuid E (Suc (w_rng w))) (duID u) h x n \<and> ready E s w' \<and> w_redis w' = w_redis w \<and>
     w_clock w \<le> w_clock w' \<and> horizon w' = horizon w \<and> w_db w' = link_db n r (w_db w) \<and> w_log w' = w_log w"
proof -
  let ?b = "begun w" and ?n = "pg_time (w_clock (tick w))"
  let ?body = "attempt (PasswordResets_InvalidateForUser E (duID u)) fail (\<lambda>_.
       attempt (PasswordResets_Create E (duID u) h x) fail (\<lambda>_. ret ()))"
  define r where "r = new_token (x_uuid E (Suc (w_rng w))) (duID u) h x ?n"
  have now: "NOW (tick (begun w)) = ?n" "NOW (tick (after (begun w) d)) = ?n" for d
    by (simp_all add: begun_def NOW_def)
  have c: "calm ?b" "calm (after ?b d)" for d using ready by simp_all
  have "\<not> list_ex (\<lambda>t. tkID t = x_uuid E (Suc (w_rng w)) \<or> tkTokenHash t = h) (consume P n (tResets (w_db w)))" for P n
    using new consume_keys [of P n "tResets (w_db w)"] by (auto simp: list_ex_iff) (metis imageE image_eqI list.set_map)+
  moreover have "list_ex (\<lambda>v. duID v = duID u) (tUsers (w_db w))" using u by (auto simp: list_ex_iff)
  moreover have "w_rng (begun w) = w_rng w" by (simp add: begun_def)
  ultimately have "\<exists>v. ?body ?b = (Inr (), v) \<and> w_db v = link_db ?n r (w_db w)"
    using c by (simp add: attempt_def PasswordResets_InvalidateForUser_run PasswordResets_Create_run Let_def now go_run
        link_db_def r_def) (simp add: new_token_def)
  then obtain v where v: "?body ?b = (Inr (), v)" "w_db v = link_db ?n r (w_db w)" by blast
  moreover have "pres (db_frame_of ?b) ?body" by (intro pres_intros)
  ultimately obtain w' where w': "WithTx PoolStore (\<lambda>tx. ?body) w = (Inr (), w')" "ready E s w'" "w_redis w' = w_redis w"
      "w_clock w \<le> w_clock w'" "w_db w' = w_db v" "w_log w' = w_log w"
    using WithTx_ready [OF ready, of "\<lambda>_. ?body"] by force
  have "pres (db_frame_of w) (WithTx PoolStore (\<lambda>tx. ?body))" by (simp, intro pres_intros)
  from pres_run [OF this db_frame_refl w'(1)] have "horizon w' = horizon w" by (simp add: db_frame_of_def)
  then show ?thesis using w' v(2) by (intro exI [of _ w'] exI [of _ ?n] exI [of _ r]) (simp add: r_def)
qed

lemma ForgotPassword_run:
  assumes ready: "ready E s w" and wok: "world_ok E w" and u: "u \<in> set (tUsers (w_db w))" "duIsActive u"
    and m: "citext_eq E (duEmail u) (normalizeEmail E m)" and fresh: "fresh_for_reset E w"
  shows "\<exists>w' n r t. ForgotPassword E s m w = (Inr (), w') \<and> w_clock w \<le> t \<and>
     r = new_token (x_uuid E (w_rng w + 3)) (duID u) (hashToken (token_at E (w_rng w + 1)))
           (t + auPasswordResetExpiry (cfAuth (asCfg s))) n \<and>
     ready E s w' \<and> w_redis w' = w_redis w \<and> horizon w' = horizon w \<and> w_db w' = link_db n r (w_db w) \<and>
     (\<exists>l\<in>set (w_log w'). leAttrs l = [(''reset_url'', buildResetURL s (token_at E (w_rng w + 1)))])"
proof -
  let ?k = "token_at E (w_rng w + 1)"
  define w1 where "w1 = after w (w_db w)"
  have g: "Users_GetByEmail E (normalizeEmail E m) w = (Inr (toDomainUser u), w1)"
    using find_user_email [OF wok u(1) m] ready by (simp add: repo_run w1_def)
  have r1: "ready E s w1" "w_db w1 = w_db w" "w_redis w1 = w_redis w" "w_rng w1 = w_rng w + 1" "w_clock w \<le> w_clock w1"
      "horizon w1 = horizon w" "w_log w1 = w_log w"
    using ready tick_clock [of w] by (simp_all add: w1_def)
  define w2 where "w2 = (tick w1)\<lparr>w_rng := Suc (w_rng w1)\<rparr>"
  have t: "generateToken E w1 = (Inr (?k, hashToken ?k), w2)" using r1 generateToken_run [of w1 E] by (simp add: w2_def)
  have "pres (db_frame_of w1) (generateToken E)" by (intro pres_intros)
  from ready_db_frame [OF this t r1(1)] pres_run [OF this db_frame_refl t] r1
  have r2: "ready E s w2" "w_redis w2 = w_redis w" "w_clock w \<le> w_clock w2" "horizon w2 = horizon w"
    by (auto simp: db_frame_of_def)
  let ?x = "w_clock w2 + auPasswordResetExpiry (cfAuth (asCfg s))"
  have d2: "w_rng w2 = w_rng w + 2" "w_db w2 = w_db w" using r1 by (simp_all add: w2_def)
  then have "\<forall>t\<in>set (tResets (w_db w2)). tkID t \<noteq> x_uuid E (Suc (w_rng w2)) \<and> tkTokenHash t \<noteq> hashToken ?k"
    using fresh by (simp add: fresh_for_reset_def eval_nat_numeral)
  then obtain w3 n r where x: "WithTx PoolStore (\<lambda>tx.
       attempt (PasswordResets_InvalidateForUser E (duID u)) fail (\<lambda>_.
       attempt (PasswordResets_Create E (duID u) (hashToken ?k) ?x) fail (\<lambda>_. ret ()))) w2 = (Inr (), w3)"
     "r = new_token (x_uuid E (Suc (w_rng w2))) (duID u) (hashToken ?k) ?x n" "ready E s w3" "w_redis w3 = w_redis w2"
     "horizon w3 = horizon w2" "w_db w3 = link_db n r (w_db w2)" "w_log w3 = w_log w2"
    using link_tx [OF r2(1), of u "hashToken ?k" ?x] u(1) d2 by auto
  define w' where "w' = snd (ForgotPassword E s m w)"
  have run: "ForgotPassword E s m w = (Inr (), w')" "w_db w' = w_db w3" "w_redis w' = w_redis w3" "horizon w' = horizon w3"
      "ready E s w' = ready E s w3"
      "\<exists>l\<in>set (w_log w'). leAttrs l = [(''reset_url'', buildResetURL s ?k)]"
    using g t x(1) u(2) by (simp_all add: w'_def ForgotPassword_def Let_def attempt_def go_run ignore_run del: WithTx.simps)
  then show ?thesis
    using x r2 d2 by (intro exI [of _ w'] exI [of _ n] exI [of _ r] exI [of _ "w_clock w2"]) (simp add: eval_nat_numeral)
qed

lemma ForgotPassword_unknown:
  assumes "ready E s w" and "world_ok E w"
    and none: "\<not> (\<exists>u\<in>set (tUsers (w_db w)). duIsActive u \<and> citext_eq E (duEmail u) (normalizeEmail E m))"
  shows "\<exists>w'. ForgotPassword E s m w = (Inr (), w') \<and> w_db w' = w_db w \<and> w_redis w' = w_redis w"
proof (cases "find (\<lambda>v. citext_eq E (duEmail v) (normalizeEmail E m)) (tUsers (w_db w))")
  case None
  then show ?thesis using assms(1) by (simp add: ForgotPassword_def attempt_def repo_run ignore_run go_run)
next
  case (Some u)
  then have "\<not> duIsActive u" using none by (auto dest: find_SomeD)
  then show ?thesis using Some assms(1) by (simp add: ForgotPassword_def attempt_def repo_run go_run)
qed

section \<open>From the request to a sign-in\<close>

lemma reset_then_login:
  assumes ok: "service_ok E s" and "ready E s w" and "hasher_ok E s" and wok: "world_ok E w"
    and t: "t \<in> set (tResets (w_db w))" "tkTokenHash t = hashToken token" "tkUsedAt t = None" "w_clock (tick w) < tkExpiresAt t"
    and p: "length (liPassword li) \<le> 72" and u: "u \<in> set (tUsers (w_db w))" "duID u = tkUserID t" "duIsActive u"
    and m: "citext_eq E (duEmail u) (normalizeEmail E (liEmail li))"
  shows "\<exists>w1. ResetPassword E s token (liPassword li) w = (Inr (), w1) \<and>
     (duEmailVerifiedAt u \<noteq> None \<longrightarrow> (\<exists>r w2. Login E s li w1 = (Inr r, w2) \<and> uID (arUser r) = duID u))"
proof -
  obtain h n w1 where r: "ResetPassword E s token (liPassword li) w = (Inr (), w1)" "ready E s w1"
    "x_bcrypt_compare E h (liPassword li) = None" "w_db w1 = reset_db n t h (w_db w)"
    using ResetPassword_run [OF assms(2,3,4) t p] by blast
  have ok1: "world_ok E w1" using pres_run [OF consistent.auth_service_kept(8) wok r(1)] .
  define v where "v = touch_user n (\<lambda>v. v\<lparr>duPasswordHash := Some h\<rparr>) u"
  have mem: "v \<in> set (tUsers (w_db w1))"
    using set_user_mem [of u "(w_db w)\<lparr>tResets := consume (\<lambda>r. tkID r = tkID t) n (tResets (w_db w))\<rparr>"] u
    by (simp add: r(4) reset_db_def v_def)
  have v: "duID v = duID u" "duEmail v = duEmail u" "duPasswordHash v = Some h" "duIsActive v"
      "duEmailVerifiedAt v = duEmailVerifiedAt u"
    using u(3) by (simp_all add: v_def touch_user_def)
  have "\<exists>x w2. Login E s li w1 = (Inr x, w2) \<and> uID (arUser x) = duID u" if "duEmailVerifiedAt u \<noteq> None"
  proof -
    have "Login E s li w1 = issueSession E s (toDomainUser v) (after (after w1 (w_db w1)) (logged_in_db (duID v) w1))"
      using v m r(3) that by (intro Login_run [OF ready_calm [OF r(2)] ok1 mem]) (simp_all add: COALESCE_def)
    then show ?thesis
      using issueSession_spec [OF ok, of "after (after w1 (w_db w1)) (logged_in_db (duID v) w1)" "toDomainUser v"] r(2) v(1)
      by (auto simp: toDomainUser_def)
  qed
  then show ?thesis using r(1) by blast
qed

text \<open>
  Claim C35. Asking for a reset link answers every address in the same way and changes no account; for
  an address without an active account it leaves the database as it is. For an active account it
  logs the one link that is open from then on, and that link leads back in: it sets the new
  password, with which the owner, if the address is verified, signs in.
\<close>

theorem ForgotPassword_recovers:
  assumes ok: "service_ok E s" and ready: "ready E s w" and hasher: "hasher_ok E s" and wok: "world_ok E w"
    and fresh: "fresh_for_reset E w" and p: "length (liPassword li) \<le> 72"
    and life: "horizon w + 1000 \<le> w_clock w + auPasswordResetExpiry (cfAuth (asCfg s))"
  shows "\<exists>w1. ForgotPassword E s (liEmail li) w = (Inr (), w1) \<and> tUsers (w_db w1) = tUsers (w_db w) \<and> w_redis w1 = w_redis w \<and>
     (\<forall>u\<in>set (tUsers (w_db w)). duIsActive u \<and> citext_eq E (duEmail u) (normalizeEmail E (liEmail li)) \<longrightarrow>
        (\<exists>token. (\<exists>l\<in>set (w_log w1). leAttrs l = [(''reset_url'', buildResetURL s token)]) \<and>
           (\<forall>t\<in>set (tResets (w_db w1)). tkUserID t = duID u \<and> tkUsedAt t = None \<longrightarrow> tkTokenHash t = hashToken token) \<and>
           (\<exists>w2. ResetPassword E s token (liPassword li) w1 = (Inr (), w2) \<and>
              (duEmailVerifiedAt u \<noteq> None \<longrightarrow> (\<exists>r w3. Login E s li w2 = (Inr r, w3) \<and> uID (arUser r) = duID u))))) \<and>
     ((\<exists>u\<in>set (tUsers (w_db w)). duIsActive u \<and> citext_eq E (duEmail u) (normalizeEmail E (liEmail li))) \<or> w_db w1 = w_db w)"
proof (cases "\<exists>u\<in>set (tUsers (w_db w)). duIsActive u \<and> citext_eq E (duEmail u) (normalizeEmail E (liEmail li))")
  case False
  then show ?thesis using ForgotPassword_unknown [OF ready wok False] by auto
next
  case True
  let ?k = "token_at E (w_rng w + 1)" and ?m = "normalizeEmail E (liEmail li)"
  obtain u where u: "u \<in> set (tUsers (w_db w))" "duIsActive u" "citext_eq E (duEmail u) ?m" using True by blast
  obtain w1 n r t where run: "ForgotPassword E s (liEmail li) w = (Inr (), w1)" "w_clock w \<le> t"
      "r = new_token (x_uuid E (w_rng w + 3)) (duID u) (hashToken ?k) (t + auPasswordResetExpiry (cfAuth (asCfg s))) n"
      "ready E s w1" "w_redis w1 = w_redis w" "horizon w1 = horizon w" "w_db w1 = link_db n r (w_db w)"
      "\<exists>l\<in>set (w_log w1). leAttrs l = [(''reset_url'', buildResetURL s ?k)]"
    using ForgotPassword_run [OF ready wok u fresh] by blast
  have ok1: "world_ok E w1" using pres_run [OF consistent.auth_service_kept(7) wok run(1)] .
  have users: "tUsers (w_db w1) = tUsers (w_db w)" and mem: "r \<in> set (tResets (w_db w1))" using run(7) by (simp_all add: link_db_def)
  have r: "tkTokenHash r = hashToken ?k" "tkUsedAt r = None" "duID u = tkUserID r" by (simp_all add: run(3) new_token_def)
  have "w_clock (tick w1) \<le> horizon w" using clock_le_horizon [of "tick w1"] run(6) by simp
  then have "w_clock (tick w1) < tkExpiresAt r"
    using life run(2) pg_time_gt [of "t + auPasswordResetExpiry (cfAuth (asCfg s))"] by (simp add: run(3) new_token_def)
  from reset_then_login [OF ok run(4) hasher ok1 mem r(1,2) this p] u r(3) users
  have reset: "\<exists>w2. ResetPassword E s ?k (liPassword li) w1 = (Inr (), w2) \<and>
      (duEmailVerifiedAt u \<noteq> None \<longrightarrow> (\<exists>x w3. Login E s li w2 = (Inr x, w3) \<and> uID (arUser x) = duID u))" by simp
  have only: "tkTokenHash x = hashToken ?k" if "x \<in> set (tResets (w_db w1))" "tkUserID x = duID u" "tkUsedAt x = None" for x
    using that r consume_used [of x "\<lambda>t. tkUserID t = tkUserID r" n "tResets (w_db w)"]
    by (auto simp: run(7) link_db_def use_token_def)
  have one: "v = u" if "v \<in> set (tUsers (w_db w))" "citext_eq E (duEmail v) ?m" for v
    using find_user_email [OF wok u(1,3)] find_user_email [OF wok that] by simp
  show ?thesis using run(1,5,8) users reset only one True by (intro exI [of _ w1]) blast
qed

lemma demo_reset_expiry: "auPasswordResetExpiry (cfAuth (asCfg demo_service)) = Hour"
proof -
  have "TrimSpace [] = []" by code_simp
  then show ?thesis by (simp add: demo_service_def demo_config_def load_config_def getDuration_def)
qed

lemma ForgotPassword_recovers_witness:
  "\<exists>w1 token w2 r w3. ForgotPassword demo_ext demo_service '' Ada@Example.com'' demo_world = (Inr (), w1) \<and>
     ResetPassword demo_ext demo_service token ''brand new pass'' w1 = (Inr (), w2) \<and>
     Login demo_ext demo_service \<lparr>liEmail = '' Ada@Example.com'', liPassword = ''brand new pass''\<rparr> w2 = (Inr r, w3)"
proof -
  let ?li = "\<lparr>liEmail = '' Ada@Example.com'', liPassword = ''brand new pass''\<rparr>"
  have "fresh_for_reset demo_ext demo_world" by (simp add: fresh_for_reset_def empty_database_def)
  moreover have "length (liPassword ?li) \<le> 72" by simp
  moreover have "horizon demo_world + 1000 \<le> w_clock demo_world + auPasswordResetExpiry (cfAuth (asCfg demo_service))"
    by (simp add: demo_reset_expiry horizon_def Hour_def Minute_def Second_def)
  moreover have "citext_eq demo_ext (duEmail demo_user) (normalizeEmail demo_ext (liEmail ?li))"
    using demo_login_checks(1) by (simp add: demo_login_def)
  ultimately show ?thesis
    using ForgotPassword_recovers [OF demo_service_ok demo_ready demo_hasher_ok demo_world_ok, of ?li]
      demo_user_in demo_login_checks(3,4) by simp meson
qed

end
