(* ===== verification/Threads.thy ===== *)
theory Threads
  imports World
begin

text \<open>
  Requests that run at the same time. A use case that first looks and then acts is split between its
  two phases, and any number of threads runs them in any order, among whatever else the server does.
  The locale states when at most one thread succeeds.
\<close>

section \<open>Threads in two phases\<close>

text \<open>\<open>Admitted x\<close> has passed the checks of the first phase, which gave \<open>x\<close>.\<close>

datatype ('x, 'r) thread = Waiting | Admitted 'x | Finished "goerr + 'r"

text \<open>
  One step: a thread runs its first phase, which may refuse, or its second; or something else happens
  that \<open>others\<close> allows; or time passes, and the environment decides anew which calls fail.
\<close>

inductive race ::
    "(nat \<Rightarrow> 'x act) \<Rightarrow> ('x \<Rightarrow> 'r act) \<Rightarrow> (world \<Rightarrow> world \<Rightarrow> bool) \<Rightarrow>
     ('x, 'r) thread list \<times> world \<Rightarrow> ('x, 'r) thread list \<times> world \<Rightarrow> bool"
  for look act others where
  admitted: "i < length ts \<Longrightarrow> ts ! i = Waiting \<Longrightarrow> look i w = (Inr x, w') \<Longrightarrow>
    race look act others (ts, w) (ts[i := Admitted x], w')"
| refused: "i < length ts \<Longrightarrow> ts ! i = Waiting \<Longrightarrow> look i w = (Inl e, w') \<Longrightarrow>
    race look act others (ts, w) (ts[i := Finished (Inl e)], w')"
| acted: "i < length ts \<Longrightarrow> ts ! i = Admitted x \<Longrightarrow> act x w = (r, w') \<Longrightarrow>
    race look act others (ts, w) (ts[i := Finished r], w')"
| bystander: "others w w' \<Longrightarrow> race look act others (ts, w) (ts, w')"
| waited: "w_clock w \<le> t \<Longrightarrow> race look act others (ts, w) (ts, w\<lparr>w_clock := t, w_sched := sched\<rparr>)"

inductive_cases raceE: "race look act others (ts, w) (ts', w')"

definition winners :: "('x, 'r) thread list \<Rightarrow> nat set" where
  "winners ts = {i. i < length ts \<and> (\<exists>r. ts ! i = Finished (Inr r))}"

lemma finite_winners [simp]: "finite (winners ts)"
  by (simp add: winners_def)

lemma winners_update:
  assumes "i < length ts" and "\<forall>r. ts ! i \<noteq> Finished (Inr r)"
  shows "winners (ts[i := th]) = (if \<exists>r. th = Finished (Inr r) then insert i (winners ts) else winners ts)"
  using assms by (auto simp: winners_def nth_list_update)

lemma winners_fresh [simp]: "winners (replicate n Waiting) = {}"
  by (auto simp: winners_def)

section \<open>At most one winner\<close>

text \<open>
  The contract of a guarded second phase: it only succeeds while nothing is spent, and then spends;
  no phase of any thread takes that back.
\<close>

locale guarded_race =
  fixes look :: "nat \<Rightarrow> 'x act" and act :: "'x \<Rightarrow> 'r act" and others :: "world \<Rightarrow> world \<Rightarrow> bool"
    and I :: "world \<Rightarrow> bool" and spent :: "world \<Rightarrow> bool" and good :: "'x \<Rightarrow> world \<Rightarrow> bool"
  assumes look_keeps: "I w \<Longrightarrow> look i w = (r, w') \<Longrightarrow>
      I w' \<and> (spent w \<longrightarrow> spent w') \<and> (\<forall>y. good y w \<longrightarrow> good y w') \<and> (\<forall>x. r = Inr x \<longrightarrow> good x w')"
    and act_keeps: "I w \<Longrightarrow> good x w \<Longrightarrow> act x w = (q, w') \<Longrightarrow>
      I w' \<and> (spent w \<longrightarrow> spent w') \<and> (\<forall>y. good y w \<longrightarrow> good y w')"
    and act_once: "I w \<Longrightarrow> good x w \<Longrightarrow> act x w = (Inr b, w') \<Longrightarrow> \<not> spent w \<and> spent w'"
    and others_keep: "I w \<Longrightarrow> others w w' \<Longrightarrow> I w' \<and> (spent w \<longrightarrow> spent w') \<and> (\<forall>y. good y w \<longrightarrow> good y w')"
    and time_keeps: "I (w\<lparr>w_clock := t, w_sched := sched\<rparr>) = I w"
      "spent (w\<lparr>w_clock := t, w_sched := sched\<rparr>) = spent w" "good x (w\<lparr>w_clock := t, w_sched := sched\<rparr>) = good x w"
begin

definition inv :: "('x, 'r) thread list \<Rightarrow> world \<Rightarrow> bool" where
  "inv ts w \<longleftrightarrow> I w \<and> (\<forall>x. Admitted x \<in> set ts \<longrightarrow> good x w) \<and> card (winners ts) \<le> 1 \<and> (winners ts \<noteq> {} \<longrightarrow> spent w)"

lemma inv_I: "inv ts w \<Longrightarrow> I w"
  by (simp add: inv_def)

lemma inv_update:
  assumes inv: "inv ts w" and i: "i < length ts" "\<forall>b. ts ! i \<noteq> Finished (Inr b)"
    and w': "I w'" "spent w \<longrightarrow> spent w'" "\<forall>y. good y w \<longrightarrow> good y w'"
    and th: "\<forall>x. th = Admitted x \<longrightarrow> good x w'" "\<forall>b. th = Finished (Inr b) \<longrightarrow> \<not> spent w \<and> spent w'"
  shows "inv (ts[i := th]) w'"
proof (cases "\<exists>b. th = Finished (Inr b)")
  case True
  then have "winners ts = {}" using th(2) inv by (auto simp: inv_def)
  then show ?thesis
    using True inv w' th i by (auto simp: inv_def winners_update dest!: set_update_subset_insert [THEN subsetD])
next
  case False
  then show ?thesis
    using inv w' th(1) i by (auto simp: inv_def winners_update dest!: set_update_subset_insert [THEN subsetD])
qed

lemma inv_step:
  assumes "race look act others (ts, w) (ts', w')" and inv: "inv ts w"
  shows "inv ts' w'"
  using assms(1)
proof cases
  case (admitted i x)
  then have "inv (ts[i := Admitted x]) w'"
    using look_keeps [of w i "Inr x" w'] inv_I [OF inv] by (intro inv_update [OF inv]) auto
  then show ?thesis using admitted by simp
next
  case (refused i e)
  then have "inv (ts[i := Finished (Inl e)]) w'"
    using look_keeps [of w i "Inl e" w'] inv_I [OF inv] by (intro inv_update [OF inv]) auto
  then show ?thesis using refused by simp
next
  case (acted i x r)
  then have "good x w" using inv nth_mem [of i ts] by (auto simp: inv_def)
  then have "inv (ts[i := Finished r]) w'"
    using acted act_keeps [of w x r w'] act_once [of w x] inv_I [OF inv] by (intro inv_update [OF inv]) auto
  then show ?thesis using acted by simp
next
  case bystander
  then show ?thesis using inv others_keep [of w w'] by (auto simp: inv_def)
next
  case (waited t sched)
  then show ?thesis using inv by (simp add: inv_def time_keeps)
qed

lemma one_winner:
  assumes "(race look act others)\<^sup>*\<^sup>* (replicate n Waiting, w) (ts, w')" and "I w"
  shows "card (winners ts) \<le> 1" and "winners ts \<noteq> {} \<Longrightarrow> spent w'"
proof -
  have "inv ts w'"
    using assms(1)
  proof (induction rule: rtranclp_induct2)
    case refl
    then show ?case using assms(2) by (simp add: inv_def)
  qed (rule inv_step)
  then show "card (winners ts) \<le> 1" and "winners ts \<noteq> {} \<Longrightarrow> spent w'" by (simp_all add: inv_def)
qed

end

text \<open>Two threads that both look before one of them acts.\<close>

lemma race_interleaved:
  assumes "look 0 w = (Inr x, w1)" and "look 1 w1 = (Inr y, w2)" and "act x w2 = (r, w3)" and "act y w3 = (q, w4)"
  shows "(race look act others)\<^sup>*\<^sup>* ([Waiting, Waiting], w) ([Finished r, Finished q], w4)"
proof -
  let ?R = "race look act others"
  have "?R ([Waiting, Waiting], w) ([Admitted x, Waiting], w1)"
    using race.admitted [of 0 "[Waiting, Waiting]" look, OF _ _ assms(1)] by simp
  moreover have "?R ([Admitted x, Waiting], w1) ([Admitted x, Admitted y], w2)"
    using race.admitted [of 1 "[Admitted x, Waiting]" look, OF _ _ assms(2)] by simp
  moreover have "?R ([Admitted x, Admitted y], w2) ([Finished r, Admitted y], w3)"
    using race.acted [of 0 "[Admitted x, Admitted y]" x act, OF _ _ assms(3)] by simp
  moreover have "?R ([Finished r, Admitted y], w3) ([Finished r, Finished q], w4)"
    using race.acted [of 1 "[Finished r, Admitted y]" y act, OF _ _ assms(4)] by simp
  ultimately show ?thesis by (meson converse_rtranclp_into_rtranclp rtranclp.rtrancl_refl)
qed

end
