(* ===== verification/Phases.thy ===== *)
theory Phases
  imports PasswordProps WordProps
begin

text \<open>
  The use cases that look before they act, split between the two phases: \<open>X_look\<close> up to the last
  check, \<open>X_act\<close> from there. Run without a pause, the two phases are the use case. The lemmas say what
  each phase does to the rows that decide.
\<close>

section \<open>Resetting a password\<close>

text \<open>Up to the hash of the new password, and the transaction with what follows it.\<close>

definition Reset_look :: "ext \<Rightarrow> authService \<Rightarrow> string \<Rightarrow> string \<Rightarrow> (SingleUseToken \<times> string) act" where
  "Reset_look E s token newPassword =
     (let invalid = BadRequest ''This reset link is invalid or has expired'' in
      attempt (PasswordResets_GetByTokenHash E (hashToken token))
        (\<lambda>e. if has_code e CodeNotFound then fail invalid else fail e) (\<lambda>rec.
      attempt time_now fail (\<lambda>t.
      if \<not> PasswordResetToken_IsUsable rec t then fail invalid
      else
      attempt (Hash E (asHasher s) newPassword) (\<lambda>e. fail (Internal e)) (\<lambda>hash. ret (rec, hash)))))"

definition Reset_tx :: "ext \<Rightarrow> SingleUseToken \<times> string \<Rightarrow> unit act" where
  "Reset_tx E x = WithTx PoolStore (\<lambda>tx.
     attempt (PasswordResets_MarkUsed E (tkID (fst x))) fail (\<lambda>_. Users_UpdatePassword E (tkUserID (fst x)) (snd x)))"

definition Reset_act :: "ext \<Rightarrow> authService \<Rightarrow> SingleUseToken \<times> string \<Rightarrow> unit act" where
  "Reset_act E s x =
     attempt (Reset_tx E x) fail (\<lambda>_.
     attempt (RevokeAllSessions E (asSessions s) (tkUserID (fst x)))
        (\<lambda>e. ignore (log_at LevelError ''revoke sessions after reset failed'' [(''error'', error_text e)])
          (ignore (log_at LevelInfo ''password reset completed'' [(''user_id'', x_uuid_string E (tkUserID (fst x)))])
          (ret ())))
        (\<lambda>_. ignore (log_at LevelInfo ''password reset completed'' [(''user_id'', x_uuid_string E (tkUserID (fst x)))])
          (ret ())))"

lemma attempt_assoc:
  "attempt (attempt m h k) h' g = attempt m (\<lambda>e. attempt (h e) h' g) (\<lambda>a. attempt (k a) h' g)"
  by (auto simp: fun_eq_iff attempt_def split: prod.split sum.split)

lemma attempt_if: "attempt (if b then m else n) h g = (if b then attempt m h g else attempt n h g)"
  by simp

lemma attempt_fail_left: "attempt (fail e) fail g = fail e"
  by (simp add: fun_eq_iff attempt_def fail_def)

lemma attempt_ret_left: "attempt (ret a) h g = g a"
  by (simp add: fun_eq_iff attempt_def ret_def)

lemmas attempt_phases = attempt_assoc attempt_if attempt_fail_left attempt_ret_left

lemma ResetPassword_phases: "ResetPassword E s token p = attempt (Reset_look E s token p) fail (Reset_act E s)"
  by (simp add: ResetPassword_def Reset_look_def Reset_act_def Reset_tx_def Let_def attempt_phases cong: if_cong)

text \<open>The row that a phase has found under the hash \<open>h\<close>, and whether the tokens under it are used.\<close>

definition row_of :: "token_table \<Rightarrow> string \<Rightarrow> uuid \<Rightarrow> world \<Rightarrow> bool" where
  "row_of T h k w \<longleftrightarrow> (\<exists>t\<in>set (tokens_of T (w_db w)). tkID t = k \<and> tkTokenHash t = h)"

lemma Reset_look_row:
  assumes "Reset_look E s token p w = (r, w')"
  shows "w_db w' = w_db w \<and>
     (\<forall>x. r = Inr x \<longrightarrow> row_of ResetTable (hashToken token) (tkID (fst x)) w)"
  using assms
  by (auto simp: row_of_def Reset_look_def PasswordResets_GetByTokenHash_def Hash_def bcrypt_GenerateFromPassword_def run_stmt_def
      external_def attempt_def GetPasswordResetToken_def get_token_def query_def one_row_def toDomainResetToken_def Let_def go_run
      split: option.splits prod.splits sum.splits if_splits dest!: find_SomeD)

text \<open>What marking the token \<open>k\<close> does, if it finds an unused one.\<close>

definition marks :: "token_table \<Rightarrow> uuid \<Rightarrow> world \<Rightarrow> world \<Rightarrow> bool" where
  "marks T k w w' \<longleftrightarrow>
     (\<exists>n. tokens_of T (w_db w') = consume (\<lambda>t. tkID t = k) n (tokens_of T (w_db w))) \<and>
     (\<exists>t\<in>set (tokens_of T (w_db w)). tkID t = k \<and> tkUsedAt t = None)"

lemma MarkUsed_Inr:
  assumes "PasswordResets_MarkUsed E k w = (Inr u, w')"
  shows "(\<exists>n. tResets (w_db w') = consume (\<lambda>t. tkID t = k) n (tResets (w_db w))) \<and>
     (\<exists>t\<in>set (tResets (w_db w)). tkID t = k \<and> tkUsedAt t = None)"
  using assms
  by (auto simp: PasswordResets_MarkUsed_def attempt_def run_stmt_def external_def MarkPasswordResetTokenUsed_def
      use_tokens_def rows_matching_zero consume_def use_token_def [abs_def] Let_def go_run
      split: option.splits prod.splits sum.splits if_splits)

lemma Users_UpdatePassword_resets: "tResets (w_db (snd (Users_UpdatePassword E k h w))) = tResets (w_db w)"
  by (simp add: Users_UpdatePassword_def attempt_def run_stmt_def external_def UpdateUserPassword_def set_user_def go_run
      split: option.split)

lemma Reset_tx_marks:
  assumes "attempt (PasswordResets_MarkUsed E k) fail (\<lambda>_. Users_UpdatePassword E u h) v = (Inr (), v')"
  shows "marks ResetTable k v v'"
  using assms Users_UpdatePassword_resets
  by (auto simp: marks_def attempt_def fail_def split: prod.splits sum.splits dest!: MarkUsed_Inr) (metis snd_conv)+

text \<open>
  What comes of the transaction: it fails and nothing has changed, or its body has run to the end. Both
  can be so for a caller who gets an error, since the reply to the commit may be lost.
\<close>

lemma InTx_outcome:
  assumes "InTx m w = (r, w')" and "\<And>a v v'. m v = (Inr a, v') \<Longrightarrow> marks T k v v'"
  shows "(\<exists>e. r = Inl e) \<and> w_db w' = w_db w \<or> marks T k w w'"
proof (cases r)
  case (Inl e)
  then consider "w_db w' = w_db w" | a v v' where "m v = (Inr a, v')" "w_db v = w_db w" "w_db w' = w_db v'"
    using InTx_atomic [of m w e w'] assms(1) by blast
  then show ?thesis
  proof cases
    case 2
    then have "marks T k w w'" using assms(2) [of v a v'] unfolding marks_def by metis
    then show ?thesis ..
  qed (use Inl in simp)
next
  case (Inr b)
  with assms(1) have "InTx m w = (Inr b, w')" by simp
  from InTx_commits [OF this] obtain v v' where "m v = (Inr b, v')" "w_db v = w_db w" "w_db w' = w_db v'" by blast
  then have "marks T k w w'" using assms(2) [of v b v'] unfolding marks_def by metis
  then show ?thesis ..
qed

lemma Reset_act_marks:
  assumes "Reset_act E s x w = (r, w')"
  shows "(\<exists>e. r = Inl e) \<and> w_db w' = w_db w \<or> marks ResetTable (tkID (fst x)) w w'"
proof -
  obtain q w1 where tx: "Reset_tx E x w = (q, w1)" by fastforce
  have "(\<exists>e. q = Inl e) \<and> w_db w1 = w_db w \<or> marks ResetTable (tkID (fst x)) w w1"
    using tx unfolding Reset_tx_def by (auto elim!: InTx_outcome intro: Reset_tx_marks)
  moreover have "w_db (snd (RevokeAllSessions E (asSessions s) u v)) = w_db v" for u v
    using redis_frameD(3) [OF session_frame(4)] by (metis prod.collapse)
  then have "(\<exists>e. r = Inl e) = (\<exists>e. q = Inl e)" "w_db w' = w_db w1"
    using assms tx
    by (auto simp: Reset_act_def attempt_def fail_def ignore_run go_run split: prod.splits sum.splits) (metis snd_conv)+
  ultimately show ?thesis by (simp add: marks_def)
qed

section \<open>Verifying an address\<close>

definition Verify_look :: "ext \<Rightarrow> string \<Rightarrow> SingleUseToken act" where
  "Verify_look E token =
     (let invalid = BadRequest ''This verification link is invalid or has expired'' in
      attempt (EmailVerifications_GetByTokenHash E (hashToken token))
        (\<lambda>e. if has_code e CodeNotFound then fail invalid else fail e) (\<lambda>rec.
      attempt time_now fail (\<lambda>t.
      if \<not> EmailVerificationToken_IsUsable rec t then fail invalid else ret rec)))"

definition Verify_act :: "ext \<Rightarrow> SingleUseToken \<Rightarrow> unit act" where
  "Verify_act E rec =
     attempt (WithTx PoolStore (\<lambda>tx.
         attempt (EmailVerifications_MarkUsed E (tkID rec)) fail (\<lambda>_.
         Users_MarkEmailVerified E (tkUserID rec)))) fail (\<lambda>_.
     ignore (log_at LevelInfo ''email verified'' [(''user_id'', x_uuid_string E (tkUserID rec))])
     (ret ()))"

lemma VerifyEmail_phases: "VerifyEmail E s token = attempt (Verify_look E token) fail (Verify_act E)"
  by (simp add: VerifyEmail_def Verify_look_def Verify_act_def Let_def attempt_phases cong: if_cong)

lemma Verify_look_row:
  assumes "Verify_look E token w = (r, w')"
  shows "w_db w' = w_db w \<and>
     (\<forall>x. r = Inr x \<longrightarrow> row_of VerificationTable (hashToken token) (tkID x) w)"
  using assms
  by (auto simp: Verify_look_def EmailVerifications_GetByTokenHash_def run_stmt_def row_of_def
      external_def attempt_def GetEmailVerificationToken_def get_token_def query_def one_row_def toDomainVerificationToken_def
      Let_def go_run split: option.splits prod.splits sum.splits if_splits dest!: find_SomeD)

lemma Verify_tx_marks:
  assumes "attempt (EmailVerifications_MarkUsed E k) fail (\<lambda>_. Users_MarkEmailVerified E u) v = (Inr (), v')"
  shows "marks VerificationTable k v v'"
  using assms
  by (auto simp: marks_def attempt_def fail_def EmailVerifications_MarkUsed_def Users_MarkEmailVerified_def run_stmt_def external_def
      MarkEmailVerificationTokenUsed_def MarkUserEmailVerified_def set_user_def use_tokens_def rows_matching_zero consume_def
      use_token_def [abs_def] Let_def go_run split: option.splits prod.splits sum.splits if_splits)

lemma Verify_act_effect:
  assumes "Verify_act E x w = (r, w')"
  shows "(\<exists>e. r = Inl e) \<and> w_db w' = w_db w \<or> marks VerificationTable (tkID x) w w'"
proof -
  obtain q w1 where tx: "InTx (attempt (EmailVerifications_MarkUsed E (tkID x)) fail (\<lambda>_. Users_MarkEmailVerified E (tkUserID x))) w = (q, w1)"
    by fastforce
  have "(\<exists>e. q = Inl e) \<and> w_db w1 = w_db w \<or> marks VerificationTable (tkID x) w w1"
    using tx by (rule InTx_outcome) (auto intro: Verify_tx_marks)
  moreover have "(\<exists>e. r = Inl e) = (\<exists>e. q = Inl e)" "w_db w' = w_db w1"
    using assms tx by (auto simp: Verify_act_def attempt_def fail_def ignore_run go_run split: sum.splits)
  ultimately show ?thesis by (simp add: marks_def)
qed

section \<open>Refreshing a session\<close>

text \<open>Up to the look-up of the account, and the revocation with what follows it.\<close>

definition Refresh_look :: "ext \<Rightarrow> authService \<Rightarrow> string \<Rightarrow> (Claims \<times> uuid \<times> User) act" where
  "Refresh_look E s refreshToken =
     attempt (ParseRefreshToken E (asTokens s) refreshToken)
       (\<lambda>e. fail (Wrap (Unauthorized ''Invalid or expired refresh token'') (Some e))) (\<lambda>claims.
     attempt (of_result (Claims_UserID E claims))
       (\<lambda>e. fail (Wrap (Unauthorized ''Invalid refresh token'') (Some e))) (\<lambda>userID.
     attempt (IsRefreshTokenActive E userID (clID claims)) (\<lambda>e. fail (Internal e)) (\<lambda>active.
     if \<not> active then
       ignore (log_at LevelWarn ''refresh token reuse detected, revoking all sessions''
                [(''user_id'', x_uuid_string E userID), (''jti'', clID claims)])
       (attempt (RevokeAllSessions E (asSessions s) userID)
          (\<lambda>e. ignore (log_at LevelError ''revoke all sessions failed'' [(''error'', error_text e)])
                 (fail (Unauthorized ''Session expired, please sign in again'')))
          (\<lambda>_. fail (Unauthorized ''Session expired, please sign in again'')))
     else
     attempt (Users_GetByID E userID) fail (\<lambda>user.
     if \<not> uIsActive user then
       ignore (RevokeAllSessions E (asSessions s) userID)
         (fail (Forbidden ''This account has been deactivated''))
     else ret (claims, userID, user)))))"

definition Refresh_act :: "ext \<Rightarrow> authService \<Rightarrow> Claims \<times> uuid \<times> User \<Rightarrow> AuthResult act" where
  "Refresh_act E s x =
     (case x of (claims, userID, user) \<Rightarrow>
        attempt (RevokeRefreshToken E userID (clID claims)) (\<lambda>e. fail (Internal e)) (\<lambda>_. issueSession E s user))"

lemma attempt_ignore: "attempt (ignore m k) h g = ignore m (attempt k h g)"
  by (simp add: ignore_def attempt_assoc)

lemma Refresh_phases: "Refresh E s raw = attempt (Refresh_look E s raw) fail (Refresh_act E s)"
  by (simp add: Refresh_def Refresh_look_def Refresh_act_def attempt_phases attempt_ignore cong: if_cong)

section \<open>Registering\<close>

text \<open>The look-up of the address and the hash, and the account with its link.\<close>

definition Register_look :: "ext \<Rightarrow> authService \<Rightarrow> RegisterInput \<Rightarrow> (RegisterInput \<times> string) act" where
  "Register_look E s inp =
     attempt (Users_EmailExists E (normalizeEmail E (riEmail inp))) fail (\<lambda>exists.
     if exists then fail (Conflict ''An account with this email already exists'')
     else attempt (Hash E (asHasher s) (riPassword inp)) (\<lambda>e. fail (Internal e)) (\<lambda>hash. ret (inp, hash)))"

definition Register_act :: "ext \<Rightarrow> authService \<Rightarrow> RegisterInput \<times> string \<Rightarrow> User act" where
  "Register_act E s x =
     (case x of (inp, hash) \<Rightarrow>
      attempt (Users_Create E
         \<lparr>cuEmail = normalizeEmail E (riEmail inp), cuPasswordHash = hash, cuFullName = TrimSpace (riFullName inp),
          cuRole = RoleUser\<rparr>) fail (\<lambda>user.
      attempt (generateToken E) (\<lambda>e. fail (Internal e)) (\<lambda>(token, tokenHash).
      attempt time_now fail (\<lambda>t.
      let expiresAt = t + auEmailVerificationExpiry (cfAuth (asCfg s)) in
      attempt (EmailVerifications_Create E (uID user) tokenHash expiresAt) fail (\<lambda>_.
      ignore (log_at LevelDebug ''email verification link'' [(''verify_url'', buildVerifyURL s token)])
      (ignore (log_at LevelInfo ''user registered'' [(''user_id'', x_uuid_string E (uID user))])
      (ret user)))))))"

lemma Register_phases: "Register E s inp = attempt (Register_look E s inp) fail (Register_act E s)"
  by (simp add: Register_def Register_look_def Register_act_def Let_def attempt_phases cong: if_cong)

end
