(* ===== verification/Sha256Eval.thy ===== *)
theory Sha256Eval
  imports Sha256
begin

text \<open>
  The digest over integers below \<open>2 ^ 32\<close> instead of words, on which the simplifier computes quickly,
  the proof that it is the same, and test vectors.
\<close>

definition rotr_int :: "nat \<Rightarrow> int \<Rightarrow> int" where
  "rotr_int n x = x div 2 ^ n + x mod 2 ^ n * 2 ^ (32 - n)"

fun extend_int :: "nat \<Rightarrow> int list \<Rightarrow> int list" where
  "extend_int 0 ws = ws"
| "extend_int (Suc n) ws =
     extend_int n
       (((rotr_int 17 (ws ! 1) XOR rotr_int 19 (ws ! 1) XOR ws ! 1 div 1024) + ws ! 6 +
         (rotr_int 7 (ws ! 14) XOR rotr_int 18 (ws ! 14) XOR ws ! 14 div 8) + ws ! 15) mod 4294967296 # ws)"

fun round_int :: "int list \<Rightarrow> int \<times> int \<Rightarrow> int list" where
  "round_int [a, b, c, d, e, f, g, h] (k, w) =
     (let t1 = h + (rotr_int 6 e XOR rotr_int 11 e XOR rotr_int 25 e) + ((e AND f) XOR ((4294967295 - e) AND g)) + k + w;
          t2 = (rotr_int 2 a XOR rotr_int 13 a XOR rotr_int 22 a) + ((a AND b) XOR (a AND c) XOR (b AND c)) in
      [(t1 + t2) mod 4294967296, a, b, c, (d + t1) mod 4294967296, e, f, g])"
| "round_int vs _ = vs"

definition compress_int :: "int list \<Rightarrow> int list \<Rightarrow> int list" where
  "compress_int hs block =
     map2 (\<lambda>x y. (x + y) mod 4294967296) hs
       (foldl round_int hs (zip (map uint round_constants) (rev (extend_int 48 (rev block)))))"

fun words_int :: "int list \<Rightarrow> int list" where
  "words_int (a # b # c # d # bs) = (((a * 256 + b) * 256 + c) * 256 + d) mod 4294967296 # words_int bs"
| "words_int _ = []"

fun blocks_int :: "nat \<Rightarrow> int list \<Rightarrow> int list list" where
  "blocks_int 0 ws = []"
| "blocks_int (Suc n) ws = (if ws = [] then [] else take 16 ws # blocks_int n (drop 16 ws))"

definition sum_int :: "string \<Rightarrow> string" where
  "sum_int s =
     (let ws = words_int (padded s);
          hs = foldl compress_int (map uint initial_hash) (blocks_int (length ws) ws) in
      concat (map (\<lambda>h. map char_of (be_bytes 4 h)) hs))"

section \<open>Words and integers\<close>

lemma uint_drop_bit: "uint (drop_bit n x) = uint x div 2 ^ n" for x :: "32 word"
proof -
  have "take_bit 32 (uint x) = uint x" using uint_lt2p [of x] by (intro take_bit_int_eq_self) simp_all
  then show ?thesis by (simp only: unsigned_drop_bit_eq) (simp add: drop_bit_eq_div)
qed

lemma uint_rotr:
  fixes x :: "32 word"
  assumes "n < 32"
  shows "uint (rotr n x) = rotr_int n (uint x)"
proof -
  have push: "uint (push_bit (32 - n) x) = uint x mod 2 ^ n * 2 ^ (32 - n)"
  proof -
    have "(2 :: int) ^ 32 = 2 ^ n * 2 ^ (32 - n)" using assms by (simp flip: power_add)
    moreover have "uint (push_bit (32 - n) x) = uint x * 2 ^ (32 - n) mod 2 ^ 32"
      by (simp only: unsigned_push_bit_eq) (simp add: take_bit_eq_mod push_bit_eq_mult)
    ultimately show ?thesis by (simp add: mult_mod_left)
  qed
  have "uint (rotr n x) = uint (drop_bit n x) OR uint (push_bit (32 - n) x)"
    by (simp add: rotr_def unsigned_or_eq)
  also have "\<dots> = uint (drop_bit n x) + uint (push_bit (32 - n) x)"
  proof (rule disjunctive_add [symmetric])
    show "\<not> bit (uint (drop_bit n x)) i \<or> \<not> bit (uint (push_bit (32 - n) x)) i" for i
      using assms by (auto simp: bit_simps dest: bit_imp_le_length)
  qed
  also have "uint (drop_bit n x) = uint x div 2 ^ n" by (rule uint_drop_bit)
  finally show ?thesis by (simp add: push rotr_int_def)
qed

lemma uint_arith:
  fixes x y :: "32 word"
  shows "uint (x + y) = (uint x + uint y) mod 4294967296" "uint (x AND y) = uint x AND uint y"
    "uint (x XOR y) = uint x XOR uint y" "uint (NOT x) = 4294967295 - uint x" "uint (drop_bit n x) = uint x div 2 ^ n"
proof -
  have uint_range: "0 \<le> uint x \<and> uint x < 4294967296" using uint_lt2p [of x] by simp
  then have "(4294967295 - uint x) mod 4294967296 = 4294967295 - uint x" 
    by (intro mod_pos_pos_trivial) (use uint_range in linarith)+
  then have "(- uint x - 1) mod 4294967296 = 4294967295 - uint x"
    using mod_add_self2 [of "- uint x - 1" "4294967296 :: int"] by simp
  then show "uint (NOT x) = 4294967295 - uint x" by (simp add: unsigned_not_eq take_bit_eq_mod not_int_def)
  show "uint (drop_bit n x) = uint x div 2 ^ n" by (rule uint_drop_bit)
qed (simp_all add: uint_word_ariths unsigned_and_eq unsigned_xor_eq)

lemmas uint_sha = uint_arith uint_rotr small_sigma0_def small_sigma1_def big_sigma0_def big_sigma1_def select_bits_def
  majority_def

lemma uint_round: "map uint (compress_round vs (k, w)) = round_int (map uint vs) (uint k, uint w)"
  by (induction vs "(k, w)" rule: compress_round.induct) (simp_all add: Let_def uint_sha mod_simps ac_simps)

lemma length_round: "length (compress_round vs kw) = length vs"
  by (cases kw) (induction vs kw rule: compress_round.induct, simp_all add: Let_def)

lemma uint_rounds: "map uint (foldl compress_round vs kws) = foldl round_int (map uint vs) (map (\<lambda>(k, w). (uint k, uint w)) kws)"
  by (induction kws arbitrary: vs) (auto simp: uint_round)

lemma uint_extend: "15 < length ws \<Longrightarrow> map uint (extend_schedule n ws) = extend_int n (map uint ws)"
  by (induction n ws rule: extend_schedule.induct) (simp_all add: uint_sha mod_simps ac_simps)

lemma uint_compress:
  assumes "length block = 16"
  shows "map uint (compress hs block) = compress_int (map uint hs) (map uint block)"
proof -
  have "map uint (message_schedule block) = rev (extend_int 48 (rev (map uint block)))"
    using assms by (simp add: message_schedule_def uint_extend flip: rev_map)
  moreover have "map (\<lambda>(k, w). (uint k, uint w)) (zip ks ws) = zip (map uint ks) (map uint ws)" for ks ws :: "32 word list"
    by (simp add: zip_map_map)
  ultimately have "map uint (foldl compress_round hs (zip round_constants (message_schedule block))) =
      foldl round_int (map uint hs) (zip (map uint round_constants) (rev (extend_int 48 (rev (map uint block)))))"
    by (simp only: uint_rounds)
  moreover have "map uint (map2 (+) vs ws) = map2 (\<lambda>x y. (x + y) mod 4294967296) (map uint vs) (map uint ws)" for vs ws :: "32 word list"
    by (simp add: zip_map_map uint_arith(1) split_beta)
  ultimately show ?thesis by (simp only: compress_def compress_int_def)
qed

lemma uint_words: "map uint (words_of bs) = words_int bs"
  by (induction bs rule: words_of.induct) (simp_all only: list.map words_of.simps words_int.simps uint_word_of_int, simp_all)

lemma uint_blocks: "map (map uint) (blocks n ws) = blocks_int n (map uint ws)"
  by (induction n ws rule: blocks.induct) (simp_all add: take_map drop_map)

lemma padded_blocks: "64 dvd length (padded s)"
proof -
  define q r where "q = length s div 64" and "r = length s mod 64"
  have m: "length s = 64 * q + r" "r < 64" by (simp_all add: q_def r_def)
  have "(119 - r) mod 64 = (if r < 56 then 55 - r else 119 - r)"
  proof (cases "r < 56")
    case True
    then have "119 - r = (55 - r) + 64" by simp
    then show ?thesis using True by (simp only: mod_add_self2) simp
  qed (use m(2) in simp)
  then have "length s + 1 + (119 - r) mod 64 + 8 = 64 * (if r < 56 then q + 1 else q + 2)" using m by simp
  then show ?thesis by (simp add: padded_def be_bytes_def Let_def ac_simps flip: r_def)
qed

lemma length_words: "length (words_of bs) = length bs div 4"
  by (induction bs rule: words_of.induct) simp_all

lemma length_blocks: "16 dvd length ws \<Longrightarrow> b \<in> set (blocks n ws) \<Longrightarrow> length b = 16"
proof (induction n ws rule: blocks.induct)
  case (2 n ws)
  then have "16 \<le> length ws \<or> ws = []" by (auto dest: dvd_imp_le)
  with 2 show ?case by (auto split: if_splits)
qed simp

lemma Sum256_int: "Sum256 s = sum_int s"
proof -
  let ?ws = "words_of (padded s)"
  have "16 dvd length ?ws" using padded_blocks [of s] by (auto simp: length_words)
  then have "\<forall>b\<in>set (blocks n ?ws). length b = 16" for n using length_blocks by blast
  moreover have "\<forall>b\<in>set bs. length b = 16 \<Longrightarrow> map uint (foldl compress hs bs) = foldl compress_int (map uint hs) (map (map uint) bs)" for hs bs
    by (induction bs arbitrary: hs) (simp_all add: uint_compress)
  ultimately have "map uint (foldl compress initial_hash (blocks n ?ws)) =
      foldl compress_int (map uint initial_hash) (blocks_int n (words_int (padded s)))" for n
    by (simp add: uint_blocks uint_words)
  moreover have "length ?ws = length (words_int (padded s))" by (metis length_map uint_words)
  moreover have "Sum256 s = concat (map (\<lambda>h. map char_of (be_bytes 4 h)) (map uint (foldl compress initial_hash (blocks (length ?ws) ?ws))))"
    by (simp add: Sum256_def Let_def o_def)
  ultimately show ?thesis by (simp only: sum_int_def Let_def)
qed

section \<open>Test vectors\<close>

lemma extend_int_numeral [simp]:
  "extend_int (numeral v) ws =
     extend_int (pred_numeral v)
       (((rotr_int 17 (ws ! 1) XOR rotr_int 19 (ws ! 1) XOR ws ! 1 div 1024) + ws ! 6 +
         (rotr_int 7 (ws ! 14) XOR rotr_int 18 (ws ! 14) XOR ws ! 14 div 8) + ws ! 15) mod 4294967296 # ws)"
  by (simp add: numeral_eq_Suc)

lemma digest_one_block:
  assumes "words_int (padded s) = ws" and "length ws = 16" and "compress_int (map uint initial_hash) ws = hs"
  shows "hex_EncodeToString (Sum256 s) = hex_EncodeToString (concat (map (\<lambda>h. map char_of (be_bytes 4 h)) hs))"
proof -
  have "blocks_int 16 ws = [ws]" using assms(2) by (simp add: numeral_eq_Suc) auto
  then show ?thesis using assms by (simp add: Sum256_int sum_int_def)
qed

lemmas compress_compute = compress_int_def rotr_int_def initial_hash_def round_constants_def

lemma Sum256_abc: "hex_EncodeToString (Sum256 ''abc'') = ''ba7816bf8f01cfea414140de5dae2223b00361a396177a9cb410ff61f20015ad''"
proof -
  let ?ws = "[0x61626380, 0, 0, 0, 0, 0, 0, 0, 0, 0, 0, 0, 0, 0, 0, 24]"
  let ?hs = "[0xba7816bf, 0x8f01cfea, 0x414140de, 0x5dae2223, 0xb00361a3, 0x96177a9c, 0xb410ff61, 0xf20015ad]"
  have "words_int (padded ''abc'') = ?ws" by code_simp
  moreover have "compress_int (map uint initial_hash) ?ws = ?hs" by (simp add: compress_compute)
  ultimately have "hex_EncodeToString (Sum256 ''abc'') = hex_EncodeToString (concat (map (\<lambda>h. map char_of (be_bytes 4 h)) ?hs))"
    by (intro digest_one_block) simp_all
  also have "\<dots> = ''ba7816bf8f01cfea414140de5dae2223b00361a396177a9cb410ff61f20015ad''" by code_simp
  finally show ?thesis .
qed

text \<open>The text of a token made from 32 zero bytes.\<close>

lemma Sum256_zero_token:
  "hex_EncodeToString (Sum256 ''AAAAAAAAAAAAAAAAAAAAAAAAAAAAAAAAAAAAAAAAAAA'') =
     ''0f007385b6f9d4b7eeb2748605afe1a984a0a3bfa3f014d09e2a784ce9e5cd1a''"
proof -
  let ?s = "''AAAAAAAAAAAAAAAAAAAAAAAAAAAAAAAAAAAAAAAAAAA''"
  let ?ws = "[0x41414141, 0x41414141, 0x41414141, 0x41414141, 0x41414141, 0x41414141, 0x41414141, 0x41414141,
    0x41414141, 0x41414141, 0x41414180, 0x0, 0x0, 0x0, 0x0, 0x158]"
  let ?hs = "[0x0f007385, 0xb6f9d4b7, 0xeeb27486, 0x05afe1a9, 0x84a0a3bf, 0xa3f014d0, 0x9e2a784c, 0xe9e5cd1a]"
  have "words_int (padded ?s) = ?ws" by code_simp
  moreover have "compress_int (map uint initial_hash) ?ws = ?hs" by (simp add: compress_compute)
  ultimately have "hex_EncodeToString (Sum256 ?s) = hex_EncodeToString (concat (map (\<lambda>h. map char_of (be_bytes 4 h)) ?hs))"
    by (intro digest_one_block) simp_all
  also have "\<dots> = ''0f007385b6f9d4b7eeb2748605afe1a984a0a3bfa3f014d09e2a784ce9e5cd1a''" by code_simp
  finally show ?thesis .
qed

end
