(* ===== verification/LinkLife.thy ===== *)
theory LinkLife
  imports HttpProps Threads Phases Sha256Eval
begin

text \<open>
  The life of a link that was sent out. Whatever the server does, a reset or verification token keeps
  its identity, and once it is used it stays so: no statement takes that back, no rollback can
  resurrect it, and no later token takes its place as long as the random sources do not repeat.
\<close>

section \<open>An invariant of one token\<close>

text \<open>
  \<open>sealed E T k h N b\<close>: in the table \<open>T\<close> the hash \<open>h\<close> belongs to the row \<open>k\<close> and to no other row, also
  after all draws from the \<open>N\<close>-th on, and if \<open>b\<close> then that row is used or gone.
\<close>

definition not_drawn_again :: "ext \<Rightarrow> nat \<Rightarrow> uuid \<Rightarrow> string \<Rightarrow> bool" where
  "not_drawn_again E N k h \<longleftrightarrow> (\<forall>n\<ge>N. x_uuid E n \<noteq> k \<and> hashToken (token_at E n) \<noteq> h)"

definition sealed_rows :: "uuid \<Rightarrow> string \<Rightarrow> bool \<Rightarrow> dbToken list \<Rightarrow> bool" where
  "sealed_rows k h b ts \<longleftrightarrow> (\<forall>t\<in>set ts. (tkID t = k \<longleftrightarrow> tkTokenHash t = h) \<and> (b \<longrightarrow> tkID t = k \<longrightarrow> tkUsedAt t \<noteq> None))"

definition sealed :: "ext \<Rightarrow> token_table \<Rightarrow> uuid \<Rightarrow> string \<Rightarrow> nat \<Rightarrow> bool \<Rightarrow> world \<Rightarrow> bool" where
  "sealed E T k h N b w \<longleftrightarrow> not_drawn_again E N k h \<and> N \<le> w_rng w \<and> sealed_rows k h b (tokens_of T (w_db w))"

lemma sealed_rows_subset: "set ts' \<subseteq> set ts \<Longrightarrow> sealed_rows k h b ts \<Longrightarrow> sealed_rows k h b ts'"
  by (auto simp: sealed_rows_def)

lemma sealed_rows_used:
  "sealed_rows k h b ts \<Longrightarrow> sealed_rows k h b (update_rows Q (\<lambda>t. t\<lparr>tkUsedAt := Some n\<rparr>) ts)"
  unfolding sealed_rows_def set_update_rows by (intro ballI) (erule imageE, simp)

lemma sealed_rows_append:
  "sealed_rows k h b (ts @ [t]) \<longleftrightarrow> sealed_rows k h b ts \<and> (tkID t = k \<longleftrightarrow> tkTokenHash t = h) \<and> (b \<longrightarrow> tkID t = k \<longrightarrow> tkUsedAt t \<noteq> None)"
  by (auto simp: sealed_rows_def)

lemma tokens_of_either_table: "tokens_of T (set_tokens T' ts d) = (if T = T' then ts else tokens_of T d)"
  by (cases T; cases T') simp_all

text \<open>A statement keeps it if it turns sealed rows into sealed rows.\<close>

lemma sealed_stmt:
  assumes "\<And>now n d. not_drawn_again E N k h \<Longrightarrow> N \<le> n \<Longrightarrow> sealed_rows k h b (tokens_of T d) \<Longrightarrow>
    sealed_rows k h b (tokens_of T (snd (q now (x_uuid E n) d)))"
  shows "stmt_keeps E (sealed E T k h N b) q"
  using assms by (auto simp: stmt_keeps_def sealed_def)

lemma sealed_other_stmt:
  assumes "\<And>now i d. set (tokens_of T (snd (q now i d))) \<subseteq> set (tokens_of T d)"
  shows "stmt_keeps E (sealed E T k h N b) q"
  by (rule sealed_stmt) (erule sealed_rows_subset [OF assms])

lemma user_statements_tokens:
  "set (tokens_of T (snd (CreateUser E cu now i d))) \<subseteq> set (tokens_of T d)"
  "set (tokens_of T (snd (UpdateUser uu now i d))) \<subseteq> set (tokens_of T d)"
  "set (tokens_of T (snd (UpdateUserPassword k h now i d))) \<subseteq> set (tokens_of T d)"
  "set (tokens_of T (snd (UpdateLastLogin k now i d))) \<subseteq> set (tokens_of T d)"
  "set (tokens_of T (snd (MarkUserEmailVerified k now i d))) \<subseteq> set (tokens_of T d)"
  "set (tokens_of T (snd (DeleteUser k now i d))) \<subseteq> set (tokens_of T d)"
  by (cases T; auto simp: CreateUser_def insert_user_def reject_def UpdateUser_def update_user_def set_user_def Let_def
      UpdateUserPassword_def UpdateLastLogin_def MarkUserEmailVerified_def DeleteUser_def delete_rows_def
      split: option.split sum.split)+

lemma word_statements_tokens:
  "set (tokens_of T (snd (CreateWord E cw now i d))) \<subseteq> set (tokens_of T d)"
  "set (tokens_of T (snd (UpdateWord E uw now i d))) \<subseteq> set (tokens_of T d)"
  "set (tokens_of T (snd (DeleteWord k now i d))) \<subseteq> set (tokens_of T d)"
  "set (tokens_of T (snd (CreateWordSense E cs now i d))) \<subseteq> set (tokens_of T d)"
  "set (tokens_of T (snd (UpdateWordSense E us now i d))) \<subseteq> set (tokens_of T d)"
  "set (tokens_of T (snd (DeleteWordSense k now i d))) \<subseteq> set (tokens_of T d)"
  "set (tokens_of T (snd (DeleteWordSensesByWord k now i d))) \<subseteq> set (tokens_of T d)"
  by ((cases T; simp add: CreateWord_def reject_def Let_def),
    (cases T; simp add: UpdateWord_def reject_def Let_def split: option.split sum.split),
    (cases T; simp add: DeleteWord_def Let_def),
    (cases T; simp add: CreateWordSense_def reject_def Let_def split: option.split sum.split),
    (cases T; simp add: UpdateWordSense_def reject_def Let_def split: option.split sum.split),
    (cases T; simp add: DeleteWordSense_def Let_def),
    (cases T; simp add: DeleteWordSensesByWord_def Let_def))

lemma token_statements_sealed:
  "stmt_keeps E (sealed E T k h N b) (use_tokens T' P)" "stmt_keeps E (sealed E T k h N b) (delete_expired_tokens T')"
  by (rule sealed_stmt, auto simp: use_tokens_def Let_def tokens_of_either_table intro: sealed_rows_used)
    (rule sealed_other_stmt, auto simp: delete_expired_tokens_def delete_rows_def tokens_of_either_table split: if_splits)

lemma create_token_sealed:
  assumes "N \<le> n"
  shows "stmt_keeps E (sealed E T k h N b) (create_token T' u (hashToken (token_at E n)) x)"
  using assms by (intro sealed_stmt)
    (auto simp: create_token_def reject_def Let_def tokens_of_either_table sealed_rows_append not_drawn_again_def)

interpretation token_life: request_invariant E N "sealed E T k h N b" "\<lambda>_ _. True" tokens for E T k h N b tokens
  by unfold_locales
    (simp add: sealed_def | rule token_statements_sealed create_token_sealed, assumption? |
      rule sealed_other_stmt, rule user_statements_tokens word_statements_tokens)+

lemma sealed_start:
  assumes "world_ok E w" and "t \<in> set (tokens_of T (w_db w))" and "not_drawn_again E (w_rng w) (tkID t) (tkTokenHash t)"
    and "b \<Longrightarrow> tkUsedAt t \<noteq> None"
  shows "sealed E T (tkID t) (tkTokenHash t) (w_rng w) b w"
proof -
  have "distinct (map tkID (tokens_of T (w_db w)))" "distinct (map tkTokenHash (tokens_of T (w_db w)))"
    using assms(1) by (cases T; simp add: world_ok_def db_ok_def tokens_ok_def)+
  then have "tkID s = tkID t \<longleftrightarrow> s = t" "tkTokenHash s = tkTokenHash t \<longleftrightarrow> s = t" if "s \<in> set (tokens_of T (w_db w))" for s
    using assms(2) that by (auto simp: distinct_map dest: inj_onD)
  then show ?thesis using assms(3,4) by (auto simp: sealed_def sealed_rows_def)
qed

lemma sealed_environment [simp]: "sealed E T k h N b (w\<lparr>w_clock := t, w_sched := sched\<rparr>) = sealed E T k h N b w"
  by (simp add: sealed_def)

lemma sealed_row: "sealed E T k h N b w \<Longrightarrow> row_of T h j w \<Longrightarrow> j = k"
  by (auto simp: sealed_def sealed_rows_def row_of_def)

lemma sealed_marks:
  assumes "sealed E T k h N b w" and "sealed E T k h N b w'" and "marks T k w w'"
  shows "\<not> sealed E T k h N True w" and "sealed E T k h N True w'"
proof -
  show "\<not> sealed E T k h N True w" using assms(3) by (auto simp: marks_def sealed_def sealed_rows_def)
  obtain n where "tokens_of T (w_db w') = consume (\<lambda>t. tkID t = k) n (tokens_of T (w_db w))"
    using assms(3) by (auto simp: marks_def)
  then have "\<forall>t\<in>set (tokens_of T (w_db w')). tkID t = k \<longrightarrow> tkUsedAt t \<noteq> None"
    using consume_used [of _ "\<lambda>t. tkID t = k"] by (simp add: use_token_def)
  then show "sealed E T k h N True w'" using assms(2) by (simp add: sealed_def sealed_rows_def)
qed

lemma phases_sealed:
  "pres (sealed E T k h N b) (Reset_look E s token p)" "pres (sealed E T k h N b) (Reset_act E s x)"
  "pres (sealed E T k h N b) (Verify_look E token)" "pres (sealed E T k h N b) (Verify_act E y)"
  unfolding Reset_look_def Reset_act_def Reset_tx_def Verify_look_def Verify_act_def by (intro pres_intros)+

section \<open>A used link stays dead\<close>

text \<open>Following a link of either kind.\<close>

definition follow :: "ext \<Rightarrow> authService \<Rightarrow> token_table \<Rightarrow> string \<Rightarrow> string \<Rightarrow> unit act" where
  "follow E s T token password =
     (case T of ResetTable \<Rightarrow> ResetPassword E s token password | VerificationTable \<Rightarrow> VerifyEmail E s token)"

lemma follow_used:
  assumes "sealed E T k (hashToken token) N True w"
  shows "\<exists>e w'. follow E s T token p w = (Inl e, w') \<and> w_db w' = w_db w"
proof (cases T)
  case ResetTable
  obtain r w1 where look: "Reset_look E s token p w = (r, w1)" by fastforce
  note row = Reset_look_row [OF look] and sealed = pres_run [OF phases_sealed(1) assms [unfolded ResetTable] look]
  show ?thesis
  proof (cases r)
    case (Inr x)
    obtain q w2 where act: "Reset_act E s x w1 = (q, w2)" by fastforce
    have "tkID (fst x) = k" using row Inr sealed_row [OF assms [unfolded ResetTable]] by blast
    then have "\<not> marks ResetTable (tkID (fst x)) w1 w2"
      using sealed_marks(1) [OF sealed pres_run [OF phases_sealed(2) sealed act]] sealed by auto
    then show ?thesis using Reset_act_marks [OF act] row look Inr act
      by (auto simp: follow_def ResetTable ResetPassword_phases attempt_def)
  qed (use look row in \<open>auto simp: follow_def ResetTable ResetPassword_phases attempt_def fail_def\<close>)
next
  case VerificationTable
  obtain r w1 where look: "Verify_look E token w = (r, w1)" by fastforce
  note row = Verify_look_row [OF look] and sealed = pres_run [OF phases_sealed(3) assms [unfolded VerificationTable] look]
  show ?thesis
  proof (cases r)
    case (Inr x)
    obtain q w2 where act: "Verify_act E x w1 = (q, w2)" by fastforce
    have "tkID x = k" using row Inr sealed_row [OF assms [unfolded VerificationTable]] by blast
    then have "\<not> marks VerificationTable (tkID x) w1 w2"
      using sealed_marks(1) [OF sealed pres_run [OF phases_sealed(4) sealed act]] sealed by auto
    then show ?thesis using Verify_act_effect [OF act] row look Inr act
      by (auto simp: follow_def VerificationTable VerifyEmail_phases attempt_def)
  qed (use look row in \<open>auto simp: follow_def VerificationTable VerifyEmail_phases attempt_def fail_def\<close>)
qed

text \<open>
  Claim C5. A link that was used stays dead: after any further requests, heartbeats, delays and
  failures of outside calls, following a used reset or verification link is refused and leaves the
  database as it is, whatever else the server has done with accounts and tokens. The random sources
  are only asked not to draw the identifier or the text of this very token again.
\<close>

theorem used_link_stays_dead:
  assumes "around_law X" and "enricher_of E (dpWords D)" and "world_ok E w0"
    and t: "t \<in> set (tokens_of T (w_db w0))" "tkTokenHash t = hashToken token" "tkUsedAt t \<noteq> None"
    and "not_drawn_again E (w_rng w0) (tkID t) (hashToken token)" and "reachable E X B D w0 w"
  shows "\<exists>e w'. follow E s T token p w = (Inl e, w') \<and> w_db w' = w_db w"
proof (rule follow_used)
  have "sealed E T (tkID t) (hashToken token) (w_rng w0) True w0" using sealed_start [OF assms(3) t(1)] assms(5,6,7) by simp
  then show "sealed E T (tkID t) (hashToken token) (w_rng w0) True w"
    by (rule token_life.reachable_kept [OF assms(1,2) refl TrueI assms(8)])
qed

section \<open>Many threads with one link\<close>


interpretation verify_race: guarded_race
  "\<lambda>i. Verify_look E token" "Verify_act E" "step E X B D"
  "\<lambda>w. around_law X \<and> enricher_of E (dpWords D) \<and> sealed E VerificationTable k (hashToken token) N False w"
  "sealed E VerificationTable k (hashToken token) N True" "\<lambda>x w. tkID x = k"
  for E token X B D k N
proof (unfold_locales, goal_cases)
  case (1 w i r w')
  then show ?case
    using pres_run [OF phases_sealed(3)] Verify_look_row [of E token w r w'] sealed_row [of E VerificationTable k] by blast
next
  case (2 w x q w')
  then show ?case using pres_run [OF phases_sealed(4)] by blast
next
  case (3 w x b w')
  then have "sealed E VerificationTable k (hashToken token) N False w'" using pres_run [OF phases_sealed(4)] by blast
  moreover have "marks VerificationTable k w w'" using Verify_act_effect [of E x w "Inr b" w'] 3 by auto
  ultimately show ?case using sealed_marks 3 by blast
next
  case (4 w w')
  then show ?case using token_life.step_kept [OF _ _ refl TrueI] by blast
qed simp_all


lemma VerifyEmail_race:
  assumes "around_law X" and "enricher_of E (dpWords D)" and "world_ok E w"
    and t: "t \<in> set (tVerifications (w_db w))" "tkTokenHash t = hashToken token"
    and "not_drawn_again E (w_rng w) (tkID t) (hashToken token)"
    and run: "(race (\<lambda>i. Verify_look E token) (Verify_act E) (step E X B D))\<^sup>*\<^sup>* (replicate n Waiting, w) (ts, w')"
  shows "card (winners ts) \<le> 1"
proof -
  have "sealed E VerificationTable (tkID t) (hashToken token) (w_rng w) False w"
    using sealed_start [of E w t VerificationTable False] assms(3-6) by simp
  then show ?thesis using verify_race.one_winner(1) [OF run] assms(1,2) by blast
qed

section \<open>The theorems on a concrete server\<close>

text \<open>The demonstration functions with random sources that stay away from the link of \<open>demo_token\<close>.\<close>

definition quiet_ext :: ext where
  "quiet_ext = demo_ext\<lparr>x_uuid := (\<lambda>_. 200), x_random := (\<lambda>_ k. replicate k (CHR 0x00))\<rparr>"

lemma quiet_not_drawn: "not_drawn_again quiet_ext N 3 (hashToken ''abc'')"
proof -
  have "RawURLEncode (replicate 32 (CHR 0x00)) = ''AAAAAAAAAAAAAAAAAAAAAAAAAAAAAAAAAAAAAAAAAAA''" by code_simp
  moreover have "x_random quiet_ext n k = replicate k (CHR 0x00)" "x_uuid quiet_ext n \<noteq> 3" for n k
    by (simp_all add: quiet_ext_def)
  ultimately show ?thesis by (simp add: not_drawn_again_def token_at_def hashToken_def Sum256_abc Sum256_zero_token del: replicate.simps)
qed






lemma used_link_stays_dead_witness:
  "\<exists>w t. w_clock w = 1800000000 * Second \<and> reachable quiet_ext demo_http demo_boot demo_server
       (demo_reset_world\<lparr>w_db := (empty_database\<lparr>tUsers := [demo_user], tResets := [t]\<rparr>)\<rparr>) w \<and>
     tkTokenHash t = hashToken ''abc'' \<and>
     (\<exists>e w'. ResetPassword quiet_ext demo_service ''abc'' ''x'' w = (Inl e, w') \<and> w_db w' = w_db w)"
proof -
  define t where "t = demo_token\<lparr>tkUsedAt := Some (1700000000 * Second)\<rparr>"
  let ?w = "demo_reset_world\<lparr>w_db := (empty_database\<lparr>tUsers := [demo_user], tResets := [t]\<rparr>)\<rparr>"
  let ?v = "?w\<lparr>w_clock := 1800000000 * Second\<rparr>"
  have "w_clock ?w \<le> 1800000000 * Second" by (simp add: demo_reset_world_def Second_def)
  then have reach: "reachable quiet_ext demo_http demo_boot demo_server ?w ?v"
    by (intro reachable_by.next_state [OF reachable_by.initial] step_by.time)
  have ok: "world_ok quiet_ext ?w"
    by (simp add: world_ok_def db_ok_def table_defs empty_database_def demo_user_def user_check_def t_def demo_token_def new_token_def
        user_ids_def)
  have "not_drawn_again quiet_ext (w_rng ?w) (tkID t) (hashToken ''abc'')"
    using quiet_not_drawn by (simp add: t_def demo_token_def new_token_def)
  moreover have "t \<in> set (tokens_of ResetTable (w_db ?w))" "tkTokenHash t = hashToken ''abc''" "tkUsedAt t \<noteq> None"
    by (simp_all add: t_def demo_token_def new_token_def)
  ultimately show ?thesis
    using used_link_stays_dead [OF demo_around demo_enricher ok _ _ _ _ reach, of t ResetTable "''abc''" demo_service "''x''"] reach
    by (intro exI [of _ ?v] exI [of _ t]) (simp add: follow_def)
qed

end
