(* ===== verification/Privileges.thy ===== *)
theory Privileges
  imports LinkLife
begin

text \<open>
  Where privileges come from. Roles and activation flags are the work of administrators: as long as no
  request carries a token that parses to the admin role, the running server gives no account a role or
  an activation it did not have, and accounts that appear are plain ones.
\<close>

section \<open>An invariant of the accounts\<close>

text \<open>
  \<open>held E P N\<close>: every account has the role and the activation that \<open>P\<close> lists for it, or is new and has
  the role of a user. The identifiers drawn from the \<open>N\<close>-th on are not among those of \<open>P\<close>.
\<close>

definition plain_or_listed :: "(uuid \<times> string \<times> bool) list \<Rightarrow> dbUser \<Rightarrow> bool" where
  "plain_or_listed P u \<longleftrightarrow> (duID u, duRole u, duIsActive u) \<in> set P \<or> duID u \<notin> fst ` set P \<and> duRole u = RoleUser"

definition held :: "ext \<Rightarrow> (uuid \<times> string \<times> bool) list \<Rightarrow> nat \<Rightarrow> world \<Rightarrow> bool" where
  "held E P N w \<longleftrightarrow> (\<forall>n\<ge>N. x_uuid E n \<notin> fst ` set P) \<and> N \<le> w_rng w \<and> (\<forall>u\<in>set (tUsers (w_db w)). plain_or_listed P u)"

lemma plain_or_listed_same:
  "duID v = duID u \<Longrightarrow> duRole v = duRole u \<Longrightarrow> duIsActive v = duIsActive u \<Longrightarrow> plain_or_listed P v = plain_or_listed P u"
  by (simp add: plain_or_listed_def)

text \<open>A statement keeps it if every row of the result is a plain one with the drawn key or comes from a row with the same privileges.\<close>

lemma held_stmt:
  assumes "\<And>now i d v. v \<in> set (tUsers (snd (q now i d))) \<Longrightarrow> duID v = i \<and> duRole v = RoleUser \<or>
    (\<exists>u\<in>set (tUsers d). duID v = duID u \<and> duRole v = duRole u \<and> duIsActive v = duIsActive u)"
  shows "stmt_keeps E (held E P N) q"
proof -
  have "plain_or_listed P v"
    if "v \<in> set (tUsers (snd (q now (x_uuid E n) d)))" "N \<le> n" "\<forall>n\<ge>N. x_uuid E n \<notin> fst ` set P"
      "\<forall>u\<in>set (tUsers d). plain_or_listed P u" for v now n d
    using assms [OF that(1)] that(2-4) plain_or_listed_same unfolding plain_or_listed_def by metis
  then show ?thesis by (auto simp: stmt_keeps_def held_def)
qed

lemma user_statements_held:
  "cupRole cu = RoleUser \<Longrightarrow> stmt_keeps E (held E P N) (CreateUser E cu)"
  "uupRole uu = None \<Longrightarrow> uupIsActive uu = None \<Longrightarrow> stmt_keeps E (held E P N) (UpdateUser uu)"
  "stmt_keeps E (held E P N) (UpdateUserPassword k h)" "stmt_keeps E (held E P N) (UpdateLastLogin k)"
  "stmt_keeps E (held E P N) (MarkUserEmailVerified k)" "stmt_keeps E (held E P N) (DeleteUser k)"
proof -
  show "stmt_keeps E (held E P N) (CreateUser E cu)" if "cupRole cu = RoleUser"
    using that by (intro held_stmt) (auto simp: CreateUser_def insert_user_def reject_def split: if_splits)
  show "stmt_keeps E (held E P N) (UpdateUser uu)" if "uupRole uu = None" "uupIsActive uu = None"
    using that
    by (intro held_stmt disjI2) (auto simp: UpdateUser_def update_user_def reject_def touch_user_def COALESCE_def
        set_user_def set_update_rows split: option.splits if_splits, metis+)
  show "stmt_keeps E (held E P N) (UpdateUserPassword k h)" "stmt_keeps E (held E P N) (UpdateLastLogin k)"
    "stmt_keeps E (held E P N) (MarkUserEmailVerified k)"
    by (rule held_stmt, auto simp: UpdateUserPassword_def UpdateLastLogin_def MarkUserEmailVerified_def touch_user_def
        set_user_def set_update_rows)+
  show "stmt_keeps E (held E P N) (DeleteUser k)"
    by (rule held_stmt) (auto simp: DeleteUser_def delete_rows_def Let_def split: if_splits)
qed

lemma other_statements_held:
  assumes "\<And>now i d. tUsers (snd (q now i d)) = tUsers d"
  shows "stmt_keeps E (held E P N) q"
  by (rule held_stmt) (use assms in auto)

lemma tUsers_set_tokens [simp]: "tUsers (set_tokens T ts d) = tUsers d"
  by (cases T) simp_all

lemma token_statements_users:
  "tUsers (snd (use_tokens T p now i d)) = tUsers d" "tUsers (snd (delete_expired_tokens T now i d)) = tUsers d"
  "tUsers (snd (create_token T u h x now i d)) = tUsers d"
  by (simp_all add: use_tokens_def delete_expired_tokens_def create_token_def reject_def Let_def)

lemma word_statements_users:
  "tUsers (snd (CreateWord E cw now i d)) = tUsers d" "tUsers (snd (UpdateWord E uw now i d)) = tUsers d"
  "tUsers (snd (DeleteWord k now i d)) = tUsers d" "tUsers (snd (CreateWordSense E cs now i d)) = tUsers d"
  "tUsers (snd (UpdateWordSense E us now i d)) = tUsers d" "tUsers (snd (DeleteWordSense k now i d)) = tUsers d"
  "tUsers (snd (DeleteWordSensesByWord k now i d)) = tUsers d"
  by (simp_all add: CreateWord_def UpdateWord_def DeleteWord_def CreateWordSense_def UpdateWordSense_def
      DeleteWordSense_def DeleteWordSensesByWord_def reject_def Let_def split: option.split sum.split)

section \<open>Requests without the admin role\<close>

text \<open>The caller so far is nobody, or somebody who is not an administrator, and the token of the request never says otherwise.\<close>

definition unprivileged :: "ext \<Rightarrow> JWTManager \<Rightarrow> request \<Rightarrow> Claims option \<Rightarrow> bool" where
  "unprivileged E tokens r c \<longleftrightarrow> caller_claims E tokens r (\<lambda>cl. clRole cl \<noteq> RoleAdmin) \<and>
     (case c of None \<Rightarrow> True | Some cl \<Rightarrow> clRole cl \<noteq> RoleAdmin)"

interpretation accounts: request_invariant E N "held E P N" "unprivileged E tokens" tokens for E N P tokens
proof unfold_locales
  show "unprivileged E tokens r (Some cl)"
    if "unprivileged E tokens r c" "bearerToken (rqHeader r ''Authorization'') = Inr raw"
      "fst (ParseAccessToken E tokens raw v) = Inr cl" for r c raw v cl
    using that unfolding unprivileged_def caller_claims_def by auto
qed (simp add: held_def unprivileged_def | rule user_statements_held, assumption+ | rule user_statements_held
    | rule other_statements_held, rule token_statements_users word_statements_users)+

text \<open>
  Claim C7. Privileges come from administrators alone: as long as no request carries a token that parses
  to the admin role, then after any requests, heartbeats, delays and failures of outside calls, every
  account that was there has its role and its activation flag, and every account that is new has the
  role of a user. The source of identifiers is only asked not to draw one that is in use.
\<close>

theorem no_escalation:
  assumes "around_law X" and "enricher_of E (dpWords D)"
    and "\<forall>n\<ge>w_rng w0. x_uuid E n \<notin> duID ` set (tUsers (w_db w0))"
    and "reachable_by (\<lambda>r. caller_claims E (dpTokens D) r (\<lambda>cl. clRole cl \<noteq> RoleAdmin)) E X B D w0 w"
    and u: "u \<in> set (tUsers (w_db w))"
  shows "(\<exists>v\<in>set (tUsers (w_db w0)). duID v = duID u \<and> duRole v = duRole u \<and> duIsActive v = duIsActive u) \<or>
     duID u \<notin> duID ` set (tUsers (w_db w0)) \<and> duRole u = RoleUser"
proof -
  let ?P = "privileges (w_db w0)"
  have ids: "fst ` set ?P = duID ` set (tUsers (w_db w0))" by (force simp: privileges_def)
  have "held E ?P (w_rng w0) w0"
    using assms(3) by (auto simp: held_def ids) (auto simp: plain_or_listed_def privileges_def)
  then have "held E ?P (w_rng w0) w"
    by (rule accounts.reachable_kept [OF assms(1,2) refl _ assms(4), rotated]) (simp add: unprivileged_def)
  then have "plain_or_listed ?P u" using u by (simp add: held_def)
  then show ?thesis unfolding plain_or_listed_def ids by (auto simp: privileges_def)
qed

lemma no_escalation_witness:
  "\<exists>c w. serve quiet_ext demo_http demo_server (demo_request\<lparr>rqMethod := ''POST'', rqPath := ''/api/v1/users/''\<rparr>) demo_reset_world = (c, w) \<and>
     (\<forall>u\<in>set (tUsers (w_db w)). duID u = duID demo_user \<longrightarrow> duRole u = duRole demo_user)"
proof -
  let ?r = "demo_request\<lparr>rqMethod := ''POST'', rqPath := ''/api/v1/users/''\<rparr>"
  let ?A = "\<lambda>r. caller_claims quiet_ext (dpTokens demo_server) r (\<lambda>cl. clRole cl \<noteq> RoleAdmin)"
  obtain c w where run: "serve quiet_ext demo_http demo_server ?r demo_reset_world = (c, w)" by fastforce
  have "?A ?r" by (simp add: caller_claims_def bearerToken_def demo_request_def)
  from step_by.request [of ?A, OF this run]
  have reach: "reachable_by ?A quiet_ext demo_http demo_boot demo_server demo_reset_world w"
    by (rule reachable_by.next_state [OF reachable_by.initial])
  have users: "tUsers (w_db demo_reset_world) = [demo_user]" by (simp add: demo_reset_world_def)
  have fresh: "\<forall>n\<ge>w_rng demo_reset_world. x_uuid quiet_ext n \<notin> duID ` set (tUsers (w_db demo_reset_world))"
    by (simp add: users quiet_ext_def demo_user_def)
  show ?thesis
    using run no_escalation [OF demo_around demo_enricher fresh reach] by (fastforce simp: users)
qed

end
