(* ===== verification/Races.thy ===== *)
theory Races
  imports Threads Phases
begin

text \<open>
  Registrations and refreshes that run at the same time. The unique index of the addresses decides
  between registrations; nothing decides between refreshes, since the look-up of the token comes
  before its revocation.
\<close>

section \<open>Refreshing at the same time\<close>

lemma Refresh_look_live:
  assumes ready: "ready E s w" and wok: "world_ok E w" and idle: "w_sched w = []"
    and tok: "refresh_for E s (w_clock w) raw (duID u) jti" and live: "live_in E w (w_clock w) (duID u) jti"
    and u: "u \<in> set (tUsers (w_db w))" "duIsActive u"
  shows "\<exists>c w'. Refresh_look E s raw w = (Inr (c, duID u, toDomainUser u), w') \<and> clID c = jti \<and>
     ready E s w' \<and> w_db w' = w_db w \<and> w_clock w' = w_clock w \<and> w_sched w' = [] \<and> w_rng w' = Suc (w_rng w) \<and>
     live_in E w' = live_in E w"
proof -
  obtain c where c: "jwt_parse E (asTokens s) raw (jmRefreshSecret (asTokens s)) TokenTypeRefresh (w_clock w) = Inr c"
    "Claims_UserID E c = Inr (duID u)" "clID c = jti"
    using tok unfolding refresh_for_def by blast
  have same: "tick w = w" "after_redis w (w_redis w) = w" using idle by (simp_all add: tick_idle after_redis_def)
  then have a: "IsRefreshTokenActive E (duID u) jti w = (Inr True, w)"
    using IsRefreshTokenActive_ready [OF ready, of "duID u" jti] live by auto
  define w2 where "w2 = after w (w_db w)"
  have g: "Users_GetByID E (duID u) w = (Inr (toDomainUser u), w2)" "ready E s w2" "w_db w2 = w_db w"
    "w_clock w2 = w_clock w" "w_sched w2 = []" "w_rng w2 = Suc (w_rng w)" "live_in E w2 = live_in E w"
    using find_user_id [OF wok u(1)] ready same idle
    by (auto simp: repo_run w2_def after_def)
  have "Refresh_look E s raw w = (Inr (c, duID u, toDomainUser u), w2)"
    using c a g(1) u(2) by (simp add: Refresh_look_def attempt_def go_run of_result_def)
  then show ?thesis using g c(3) by blast
qed

lemma issueSession_rng:
  assumes "issueSession E s u w = (Inr r, w')"
  shows "w_rng w' = Suc (Suc (w_rng w))"
proof -
  obtain p w1 where p: "GenerateTokenPair E (asTokens s) (uID u) (uRole u) w = (Inr p, w1)"
    "StoreRefreshToken E (asSessions s) (uID u) (tpRefreshJTI p) (tpRefreshExpiresAt p) w1 = (Inr (), w')"
    using assms by (auto simp: issueSession_def attempt_def fail_def ret_def split: prod.splits sum.splits)
  have "w_rng w1 = Suc (Suc (w_rng w))"
    using p(1) by (auto simp: GenerateTokenPair_def attempt_def go_run of_result_def split: sum.splits)
  then show ?thesis using redis_frameD(4) [OF session_frame(1) p(2)] by simp
qed

lemma Refresh_act_live:
  assumes ok: "service_ok E s" and ready: "ready E s w" and c: "clID c = jti"
  shows "\<exists>p w'. Refresh_act E s (c, duID u, toDomainUser u) w = (Inr \<lparr>arUser = toDomainUser u, arTokens = p\<rparr>, w') \<and>
     ready E s w' \<and> w_clock w \<le> w_clock w' \<and> w_rng w' = Suc (Suc (w_rng w)) \<and>
     tpRefreshJTI p = x_uuid_string E (x_uuid E (Suc (w_rng w))) \<and>
     (\<exists>t\<ge>w_clock w. t \<le> w_clock w' \<and> tpRefreshExpiresAt p = t + jmRefreshTTL (asTokens s)) \<and>
     (\<forall>t\<ge>w_clock w'. \<forall>v k. live_in E w' t v k =
        (if v = duID u \<and> k = tpRefreshJTI p then Unix t < Unix (tpRefreshExpiresAt p)
         else \<not> (v = duID u \<and> k = jti) \<and> live_in E w t v k))"
proof -
  obtain w3 where r: "RevokeRefreshToken E (duID u) jti w = (Inr (), w3)" "ready E s w3"
    "w_clock w \<le> w_clock w3" "w_rng w3 = w_rng w"
    "\<forall>t\<ge>w_clock w3. \<forall>v k. live_in E w3 t v k = (\<not> (v = duID u \<and> k = jti) \<and> live_in E w t v k)"
    using RevokeRefreshToken_ready [OF ready, of "duID u" jti] by auto
  obtain p w' where i: "issueSession E s (toDomainUser u) w3 = (Inr \<lparr>arUser = toDomainUser u, arTokens = p\<rparr>, w')"
    "ready E s w'" "w_clock w3 \<le> w_clock w'"
    "pair_for E (asTokens s) (duID u) (duRole u) (w_clock w3) p"
    "tpRefreshJTI p = x_uuid_string E (x_uuid E (Suc (w_rng w3)))"
    "\<forall>t\<ge>w_clock w'. \<forall>v k. live_in E w' t v k =
        (if v = duID u \<and> k = tpRefreshJTI p then Unix t < Unix (tpRefreshExpiresAt p)
         else live_in E w3 t v k)"
    using issueSession_spec [OF ok r(2), of "toDomainUser u"] by auto
  have "Refresh_act E s (c, duID u, toDomainUser u) w = (Inr \<lparr>arUser = toDomainUser u, arTokens = p\<rparr>, w')"
    using c r(1) i(1) by (simp add: Refresh_act_def attempt_def)
  moreover have "tpRefreshExpiresAt p = w_clock w3 + jmRefreshTTL (asTokens s)"
    using i(4) by (simp add: pair_for_def)
  ultimately show ?thesis
    using i r issueSession_rng [OF i(1)] by (intro exI [of _ p] exI [of _ w']) auto
qed

lemma idle_Refresh_act: "pres (idle_at t) (Refresh_act E s x)"
  unfolding Refresh_act_def RevokeRefreshToken_def issueSession_def GenerateTokenPair_def StoreRefreshToken_def
  by (intro pres_intros)+

lemma Refresh_look_world_ok: "pres (world_ok E) (Refresh_look E s raw)"
  unfolding Refresh_look_def by (intro pres_intros)

text \<open>
  Claim C6. Rotation does not survive concurrency: two requests that present the same live refresh
  token at the same time can both succeed, since the look-up of the token comes first and its
  revocation does not say whether there was something to revoke. Both pairs are live in the end, and
  no reuse is detected. One after the other, the second would have been refused and all sessions
  dropped. The last hypotheses say that the identifiers drawn on the way differ.
\<close>

theorem Refresh_race:
  assumes ok: "service_ok E s" and ready: "ready E s w" and wok: "world_ok E w" and idle: "w_sched w = []"
    and tok: "refresh_for E s (w_clock w) raw (duID u) jti" and live: "live_in E w (w_clock w) (duID u) jti"
    and u: "u \<in> set (tUsers (w_db w))" "duIsActive u"
    and draws: "x_uuid E (w_rng w + 3) \<noteq> x_uuid E (w_rng w + 5)" "x_uuid_string E (x_uuid E (w_rng w + 3)) \<noteq> jti"
  shows "\<exists>p q w'. (race (\<lambda>i. Refresh_look E s raw) (Refresh_act E s) others)\<^sup>*\<^sup>* ([Waiting, Waiting], w)
       ([Finished (Inr \<lparr>arUser = toDomainUser u, arTokens = p\<rparr>), Finished (Inr \<lparr>arUser = toDomainUser u, arTokens = q\<rparr>)], w') \<and>
     tpRefreshJTI p \<noteq> tpRefreshJTI q \<and> live_in E w' (w_clock w') (duID u) (tpRefreshJTI p) \<and>
     live_in E w' (w_clock w') (duID u) (tpRefreshJTI q) \<and>
     Refresh E s raw = attempt (Refresh_look E s raw) fail (Refresh_act E s)"
proof -
  let ?U = "toDomainUser u"
  obtain c w1 where l1: "Refresh_look E s raw w = (Inr (c, duID u, ?U), w1)" "clID c = jti" "ready E s w1" "w_db w1 = w_db w"
      "w_clock w1 = w_clock w" "w_sched w1 = []" "w_rng w1 = Suc (w_rng w)" "live_in E w1 = live_in E w"
    using Refresh_look_live [OF ready wok idle tok live u] by blast
  have "world_ok E w1" using pres_run [OF Refresh_look_world_ok wok l1(1)] .
  then obtain d w2 where l2: "Refresh_look E s raw w1 = (Inr (d, duID u, ?U), w2)" "clID d = jti" "ready E s w2"
      "w_clock w2 = w_clock w" "w_sched w2 = []" "w_rng w2 = Suc (Suc (w_rng w))" "live_in E w2 = live_in E w"
    using Refresh_look_live [OF l1(3) _ l1(6), of raw u jti] tok live u l1 by auto
  obtain p w3 t where a1: "Refresh_act E s (c, duID u, ?U) w2 = (Inr \<lparr>arUser = ?U, arTokens = p\<rparr>, w3)" "ready E s w3"
      "w_rng w3 = Suc (Suc (w_rng w2))" "tpRefreshJTI p = x_uuid_string E (x_uuid E (Suc (w_rng w2)))"
      "w_clock w2 \<le> t" "tpRefreshExpiresAt p = t + jmRefreshTTL (asTokens s)"
      "\<forall>t\<ge>w_clock w3. \<forall>v k. live_in E w3 t v k =
        (if v = duID u \<and> k = tpRefreshJTI p then Unix t < Unix (tpRefreshExpiresAt p)
         else \<not> (v = duID u \<and> k = jti) \<and> live_in E w2 t v k)"
    using Refresh_act_live [OF ok l2(3) l1(2), of u] by blast
  obtain q w4 t' where a2: "Refresh_act E s (d, duID u, ?U) w3 = (Inr \<lparr>arUser = ?U, arTokens = q\<rparr>, w4)"
      "tpRefreshJTI q = x_uuid_string E (x_uuid E (Suc (w_rng w3)))"
      "w_clock w3 \<le> t'" "tpRefreshExpiresAt q = t' + jmRefreshTTL (asTokens s)"
      "\<forall>t\<ge>w_clock w4. \<forall>v k. live_in E w4 t v k =
        (if v = duID u \<and> k = tpRefreshJTI q then Unix t < Unix (tpRefreshExpiresAt q)
         else \<not> (v = duID u \<and> k = jti) \<and> live_in E w3 t v k)"
    using Refresh_act_live [OF ok a1(2) l2(2), of u] by blast
  have clocks: "w_clock w3 = w_clock w" "w_clock w4 = w_clock w"
    using pres_run [OF idle_Refresh_act _ a1(1), of "w_clock w"] pres_run [OF idle_Refresh_act _ a2(1), of "w_clock w"] l2
    by (simp_all add: idle_at_def)
  have laws: "uuid_law E" "Second \<le> jmRefreshTTL (asTokens s)" using ok by (auto simp: service_ok_def)
  have "Unix (w_clock w) < Unix (x + jmRefreshTTL (asTokens s))" if "w_clock w \<le> x" for x
    using Unix_mono [of "w_clock w" "x + jmRefreshTTL (asTokens s) - Second"] Unix_minus_second laws(2) that by simp
  moreover have "tpRefreshJTI p \<noteq> tpRefreshJTI q"
    using a1(3,4) a2(2) l2(6) draws(1) by (simp add: uuid_string_inj [OF laws(1)] eval_nat_numeral)
  moreover have "tpRefreshJTI p \<noteq> jti" using a1(4) l2(6) draws(2) by (simp add: eval_nat_numeral)
  ultimately show ?thesis
    using race_interleaved [of "\<lambda>i. Refresh_look E s raw", OF l1(1) l2(1) a1(1) a2(1)] a1(5-7) a2(3-5) clocks l2(4) Refresh_phases
    by (intro exI [of _ p] exI [of _ q] exI [of _ w4]) simp
qed

lemma Refresh_race_witness:
  "\<exists>p q w'. (race (\<lambda>i. Refresh_look demo_ext demo_service demo_refresh) (Refresh_act demo_ext demo_service) (\<lambda>_ _. False))\<^sup>*\<^sup>*
       ([Waiting, Waiting], demo_session_world)
       ([Finished (Inr \<lparr>arUser = toDomainUser demo_user, arTokens = p\<rparr>),
         Finished (Inr \<lparr>arUser = toDomainUser demo_user, arTokens = q\<rparr>)], w') \<and> tpRefreshJTI p \<noteq> tpRefreshJTI q"
proof -
  have draws: "x_uuid demo_ext (w_rng demo_session_world + 3) \<noteq> x_uuid demo_ext (w_rng demo_session_world + 5)"
    "x_uuid_string demo_ext (x_uuid demo_ext (w_rng demo_session_world + 3)) \<noteq> ''old''"
  proof -
    have "show_nat 103 = ''103''" by code_simp
    then show "x_uuid_string demo_ext (x_uuid demo_ext (w_rng demo_session_world + 3)) \<noteq> ''old''" by simp
  qed simp
  have "live_in demo_ext demo_session_world (w_clock demo_session_world) (duID demo_user) ''old''"
    using demo_session_now by simp
  from Refresh_race [OF demo_service_ok demo_session_ready demo_session_ok demo_session_fields(3) demo_refresh_now
      this demo_user_in_session demo_user_simps(1) draws, of "\<lambda>_ _. False"]
  show ?thesis by blast
qed

section \<open>Registering at the same time\<close>

lemma Users_Create_row:
  assumes "Users_Create E inp w = (r, w')"
  shows "(\<exists>e. r = Inl e) \<and> w_db w' = w_db w \<or>
     (\<exists>row. duEmail row = cuEmail inp \<and> tUsers (w_db w') = tUsers (w_db w) @ [row]) \<and>
     (\<forall>u\<in>set (tUsers (w_db w)). \<not> citext_eq E (duEmail u) (cuEmail inp))"
  using assms
  by (auto simp: Users_Create_def attempt_def run_stmt_def external_def CreateUser_def insert_user_def reject_def list_ex_iff go_run Let_def
      split: option.splits prod.splits sum.splits if_splits)

definition taken :: "ext \<Rightarrow> string \<Rightarrow> world \<Rightarrow> bool" where
  "taken E email w \<longleftrightarrow> (\<exists>u\<in>set (tUsers (w_db w)). citext_eq E (duEmail u) email)"

lemma Register_look_db: "pres (\<lambda>w. w_db w = d) (Register_look E s inp)"
  unfolding Register_look_def Users_EmailExists_def Hash_def
  by (intro pres_intros)
    (auto simp: pres_def run_stmt_def external_def EmailExistsQuery_def query_def bcrypt_GenerateFromPassword_def split: option.split)

lemma Register_rest_users:
  "pres (\<lambda>w. tUsers (w_db w) = us) (generateToken E)" "pres (\<lambda>w. tUsers (w_db w) = us) (EmailVerifications_Create E u h t)"
  unfolding generateToken_def EmailVerifications_Create_def rand_Read_def
  by (intro pres_intros; auto simp: pres_def run_stmt_def external_def CreateEmailVerificationToken_def create_token_def
      reject_def Let_def split: option.split)+


lemma Register_act_users:
  assumes "Register_act E s x w = (r, w')"
  shows "(\<exists>e. r = Inl e) \<and> w_db w' = w_db w \<or>
     (\<exists>row. duEmail row = normalizeEmail E (riEmail (fst x)) \<and> tUsers (w_db w') = tUsers (w_db w) @ [row]) \<and>
     \<not> taken E (normalizeEmail E (riEmail (fst x))) w"
proof -
  obtain inp hash where x: "x = (inp, hash)" by fastforce
  let ?c = "Users_Create E \<lparr>cuEmail = normalizeEmail E (riEmail inp), cuPasswordHash = hash,
      cuFullName = TrimSpace (riFullName inp), cuRole = RoleUser\<rparr>"
  obtain q w1 where create: "?c w = (q, w1)" by fastforce
  have rest: "tUsers (w_db w') = tUsers (w_db w1)" if "q = Inr user" for user
  proof -
    have "pres (\<lambda>w. tUsers (w_db w) = tUsers (w_db w1)) (
        attempt (generateToken E) (\<lambda>e. fail (Internal e)) (\<lambda>(token, tokenHash).
        attempt time_now fail (\<lambda>t.
        attempt (EmailVerifications_Create E (uID user) tokenHash (t + auEmailVerificationExpiry (cfAuth (asCfg s)))) fail (\<lambda>_.
        ignore (log_at LevelDebug ''email verification link'' [(''verify_url'', buildVerifyURL s token)])
        (ignore (log_at LevelInfo ''user registered'' [(''user_id'', x_uuid_string E (uID user))])
        (ret user))))))"
      by (intro pres_intros Register_rest_users) (simp_all add: pres_def log_at_run time_now_run)
    from presD [OF this refl] show ?thesis
      using assms create that by (simp add: Register_act_def x attempt_def Let_def)
  qed
  show ?thesis
    using Users_Create_row [OF create] rest assms create
    by (cases q) (auto simp: Register_act_def x attempt_def fail_def taken_def)
qed


text \<open>Any number of registrations of one address, with what else they hold.\<close>

interpretation register_race: guarded_race
  "\<lambda>i. Register_look E s ((rs i)\<lparr>riEmail := email\<rparr>)" "Register_act E s" "\<lambda>_ _. False" "\<lambda>w. True" "taken E (normalizeEmail E email)"
  "\<lambda>x w. riEmail (fst x) = email"
  for E s rs email
proof
  fix i w r w' assume run: "Register_look E s ((rs i)\<lparr>riEmail := email\<rparr>) w = (r, w')"
  have "w_db w' = w_db w" using pres_run [OF Register_look_db refl run] .
  moreover have "riEmail (fst x) = email" if "r = Inr x" for x
    using run that by (auto simp: Register_look_def attempt_def fail_def ret_def split: prod.splits sum.splits if_splits)
  ultimately show "True \<and> (taken E (normalizeEmail E email) w \<longrightarrow> taken E (normalizeEmail E email) w') \<and>
      (\<forall>y. riEmail (fst y) = email \<longrightarrow> riEmail (fst y) = email) \<and> (\<forall>x. r = Inr x \<longrightarrow> riEmail (fst x) = email)"
    by (simp add: taken_def)
next
  fix w x q w' assume "Register_act E s x w = (q, w')"
  then show "True \<and> (taken E (normalizeEmail E email) w \<longrightarrow> taken E (normalizeEmail E email) w') \<and>
      (\<forall>y. riEmail (fst y) = email \<longrightarrow> riEmail (fst y) = email)"
    by (auto simp: taken_def dest!: Register_act_users)
next
  fix w and x :: "RegisterInput \<times> string" and b w'
  assume "riEmail (fst x) = email" and "Register_act E s x w = (Inr b, w')"
  then show "\<not> taken E (normalizeEmail E email) w \<and> taken E (normalizeEmail E email) w'"
    by (auto simp: taken_def citext_eq_def dest!: Register_act_users)
qed (simp_all add: taken_def)

lemma Register_race:
  assumes "(race (\<lambda>i. Register_look E s ((rs i)\<lparr>riEmail := email\<rparr>)) (Register_act E s) (\<lambda>_ _. False))\<^sup>*\<^sup>* (replicate n Waiting, w) (ts, w')"
  shows "card (winners ts) \<le> 1"
  by (rule register_race.one_winner(1) [OF assms TrueI])

end
