(* ===== verification/Spec2Isabelle.thy ===== *)
theory Spec2Isabelle
  imports PasswordProps SessionProps RegisterProps UserProps StorageSpec RateProps ListingProps
    StartProps SessionRefine RequestProps OAuthProps ReviewProps CallBounds LogProps ProcessProps RecoveryProps Privileges Races
begin

text \<open>
  \<^bold>\<open>Wordotron API: a verification development\<close>

  The program is a web service in Go: accounts with passwords, e-mail verification and sessions; a
  vocabulary catalogue whose words are enriched by a language model; avatars in an object store; all
  of it behind a Fiber stack of middleware, with PostgreSQL for data and Redis for sessions and rate
  limits. A request passes \<open>app/server\<close> and \<open>app/middleware\<close>, reaches a handler of \<open>app/handlers\<close>,
  which binds and validates the body (\<open>app/serializers\<close>, \<open>app/lib/validation\<close>), calls a service of
  \<open>app/services\<close>, which uses the repositories of \<open>app/repository\<close>, the session store and the token
  manager of \<open>app/lib/auth\<close>, the storage of \<open>app/lib/storage\<close> and the enricher of
  \<open>app/lib/dictionary\<close>. Errors travel back as values and are turned into a response by the error
  handler alone.

  \<^bold>\<open>The model.\<close> Everything that effectful code can touch is one record, the \<open>world\<close> of theory
  \<open>World\<close>: the database, the Redis keys, the files, the clock, the entropy drawn so far, the lines
  logged so far, and a schedule. An effectful Go function is a function from the world to a result
  (an error or a value) and a world, composed by \<open>attempt\<close> (\<open>if err != nil\<close>) and \<open>ignore\<close>
  (\<open>_ = f()\<close>). Every call that leaves the process (a statement, a Redis command, an HTTP exchange, a
  file operation) takes the next entry of the schedule, which says how long it takes and whether it
  fails and how: before it has an effect or, if only the reply is lost, after it (\<open>ReplyLost\<close>). Theorems
  that hold for every world hold whatever fails. \<open>calm\<close> worlds are those without failures to come. A handler also sees the request and the response under construction.
  Integers have the width of the code where it matters: \<open>int16\<close>, \<open>int32\<close> and \<open>int64\<close> wrap, floating
  point is exact rational arithmetic with rounding to 53 bits (\<open>Float64\<close>), SHA-256 is on 32-bit
  words (\<open>Sha256\<close>).

  \<^bold>\<open>The theories\<close>, from the bottom:
  \<^item> \<open>Prelude\<close>: identifiers, instants, widths of integers, the monad, weakest preconditions (\<open>wp\<close>) and
    preserved invariants (\<open>pres\<close>). \<open>GoStrings\<close>: the functions of \<open>strings\<close>, \<open>strconv\<close>, \<open>path\<close>,
    \<open>net/url\<close> and \<open>encoding/base64\<close> that are used. \<open>Float64\<close>. \<open>Sha256\<close>, with \<open>Sha256Eval\<close>, which
    computes it on integers and checks it on test vectors.
  \<^item> \<open>Errors\<close> (\<open>lib/errors.go\<close>), \<open>Pagination\<close> (\<open>models/pagination.go\<close>, \<open>lib/utils.go\<close>), \<open>Models\<close>
    (\<open>models\<close>), \<open>Config\<close> (\<open>config/config.go\<close>), \<open>Logger\<close> (\<open>lib/logger.go\<close>).
  \<^item> \<open>Schema\<close>, \<open>Queries\<close>, \<open>QueriesWords\<close>: the tables and constraints of the migrations and each
    statement of \<open>repository/db/*.sql.go\<close> as its effect on them. \<open>Integrity\<close> and \<open>IntegrityWords\<close>:
    keys, references and checks (\<open>db_ok\<close>) are kept by every statement.
  \<^item> \<open>World\<close> and \<open>Repositories\<close> (\<open>repository\<close>, \<open>lib/wordotronDb.go\<close>): outside calls, transactions,
    repositories. The locale \<open>world_invariant\<close> says what an invariant of the world has to offer so that
    every operation above the statements keeps it, save those by which administrators set roles and
    activation flags; each theory proves that for its own operations.
    \<open>RepositorySpec\<close>: what each of them returns when nothing fails.
  \<^item> \<open>Redis\<close>, \<open>Sessions\<close> (\<open>lib/auth/session.go\<close>), \<open>SessionSpec\<close>: the contract of a session store as a
    locale over the set of live refresh tokens, interpreted on the Redis one. \<open>SessionRefine\<close>: runs
    of any length refine a map from tokens to expiry times.
  \<^item> \<open>Credentials\<close> (\<open>lib/auth/password.go\<close>, \<open>jwt.go\<close>) and \<open>Identity\<close> (\<open>google.go\<close>, \<open>oauth_state.go\<close>).
  \<^item> \<open>Storage\<close> and \<open>StorageSpec\<close> (\<open>lib/storage\<close>): keys and paths, both drivers, the contract of a
    store as a locale with both drivers as instances. \<open>Enrichment\<close> (\<open>lib/openai\<close>, \<open>lib/dictionary\<close>).
  \<^item> \<open>AuthService\<close>, \<open>UserService\<close>, \<open>WordService\<close>: \<open>services\<close>. The locale \<open>service_invariant\<close> extends
    \<open>world_invariant\<close> by the creation of tokens. \<open>AuthSpec\<close> and \<open>Demo\<close>: what the
    properties of sign-in rest on, and a concrete world in which every law holds.
  \<^item> \<open>Validation\<close>, \<open>Serializers\<close>, \<open>Http\<close>, \<open>Middleware\<close>, \<open>Handlers\<close>, \<open>Routes\<close>: the transport, up to
    \<open>serve\<close>, which answers one request. \<open>System\<close>: requests, heartbeats, delays and faults as a step
    relation. The locale \<open>request_invariant\<close> extends \<open>service_invariant\<close> by what holds of the callers
    (\<open>on_behalf\<close>) and shows that every step keeps both; it is interpreted on the constraints of the
    schema, on the life of a single token (\<open>LinkLife\<close>), both for all callers, and on the privileges of
    accounts for callers without the admin role (\<open>Privileges\<close>). \<open>Process\<close> (\<open>cmd/app_main.go\<close>): start, deferred clean-up, shutdown, exit status.
  \<^item> The properties: \<open>AuthProps\<close>, \<open>SessionProps\<close>, \<open>PasswordProps\<close>, \<open>RegisterProps\<close>,
    \<open>RecoveryProps\<close>, \<open>LinkLife\<close> (accounts, sessions and links), \<open>UserProps\<close>, \<open>Privileges\<close>, \<open>WordProps\<close>,
    \<open>ListingProps\<close>, \<open>ReviewProps\<close>, \<open>OAuthProps\<close>, \<open>HttpProps\<close>, \<open>RequestProps\<close>, \<open>RateProps\<close>, \<open>LogProps\<close>, \<open>StartProps\<close>, \<open>ProcessProps\<close>, \<open>CallBounds\<close>, \<open>Races\<close>.

  \<^bold>\<open>Laws of outside code.\<close> Packages that are not part of the repository are fields of \<open>ext\<close>,
  \<open>http_ext\<close>, \<open>boot_ext\<close>, \<open>openai_codec\<close> and \<open>validator_ext\<close>, and theorems name the documented
  behaviour they rely on: \<open>uuid_law\<close> (parsing inverts printing), \<open>bcrypt_law\<close> (a hash verifies its own
  password alone), \<open>numeric_date_law\<close> (dates are cut to seconds), \<open>sign_law\<close> and \<open>jwt_law\<close> (signing
  succeeds; a token parses with its own secret, to its claims, if the options accept them),
  \<open>state_law\<close> (decoding inverts encoding), \<open>router_law\<close> (a pattern matches paths that begin with its
  literal part), \<open>around_law\<close> (the framework's own middleware only decorates the response),
  \<open>collation_law\<close> (the order of text in the database is total and transitive). \<open>Demo\<close>
  and \<open>HttpProps\<close> give functions that satisfy all of them at once. \<open>service_ok\<close> and \<open>ready\<close> describe
  a well-configured service in a consistent world; \<open>start_well_configured\<close> shows that a program that
  starts has such services.

  \<^bold>\<open>Bounds and fuel.\<close> The one loop with fuel is the search for a name of a temporary file, which the
  standard library also ends after 10000 attempts. All other loops are recursions over their data.
  \<open>use_cases_bounded\<close> bounds the outside calls of every operation of the services, by a number for
  each of them, save that the creation of a word also pays one call for each sense in the model's answer.

  \<^bold>\<open>Concurrency.\<close> In \<open>System\<close> requests run one after the other, with delays and failures between any
  two outside calls. \<open>Phases\<close> splits the use cases that first look and then act into their two phases
  (each equals the use case when run without a pause); in \<open>Threads\<close> any number of threads runs them in
  any order, among whatever else happens, and the locale \<open>guarded_race\<close> states when at most one of
  them wins. It is interpreted for password resets and e-mail verification, where everything else the
  server does may come in between (\<open>LinkLife\<close>), and for registration (\<open>Races\<close>), while \<open>Refresh_race\<close>
  shows that a refresh token can be redeemed twice.

  \<^bold>\<open>Simplifications.\<close> A transaction runs as one step; a failed one discards its writes, unless it
  fails because the reply to its commit is lost. What a driver repeats on its own (the Redis client
  sends a command up to three times more) is inside one outside call. A disk write that fails leaves the temporary file
  empty or whole, not partly written. Rows that are equal under an \<open>ORDER BY\<close> come in the order of the
  table, which PostgreSQL leaves open. \<open>INTERVAL '1 day'\<close> is 24 hours, as in a session whose time zone
  has no daylight saving. The listing of words is the generated statement, which has no random branch,
  unlike the SQL file it was generated from. Log
  lines carry the attributes of the call; the component
  name and the request ID, which the loggers add, are in \<open>Logger\<close>. What Go prints to standard output
  by \<open>fmt\<close> is left out. Durations in log lines are numbers of nanoseconds.

  \<^bold>\<open>Not modelled.\<close> \<open>repository/db/db.go\<close> and \<open>querier.go\<close> (generated plumbing and the interface of
  the statements); what the drivers do with the settings of their
  pools and their timeouts (the settings themselves are \<open>PoolConfig\<close> and \<open>RedisOptions\<close>); panic recovery, security headers, CORS
  and compression beyond their place in the stack (\<open>hxAround\<close>); the matching of patterns, the decoding
  of bodies and the listener itself, which are parameters; the unused job that prunes reset tokens,
  which is commented out.
\<close>

end
